(* ===== verification/Prelude.thy ===== *)
theory Prelude
  imports Complex_Main "HOL-Library.AList" "HOL-Library.Sublist"
begin

text \<open>
  Shared vocabulary of the development: strings as lists of code points, decimal printing,
  ordered dictionaries as association lists, and the state-and-exception computations in which
  every effectful method of the SDK is written. A \<^typ>\<open>string\<close> stands for a Python \<open>str\<close> whose
  code points are below 256 (one \<^typ>\<open>char\<close> per code point), and also for a \<open>bytes\<close> value (one
  \<^typ>\<open>char\<close> per byte). Python integers are \<^typ>\<open>int\<close>; a finite float is the rational number it
  denotes, so float arithmetic is exact here and rounding is abstracted away.
\<close>

named_theorems py_defs "definitions of Python library operations"
named_theorems frame "what an operation leaves unchanged"
named_theorems effects "how an operation extends the recorded effects"

section \<open>Characters and strings\<close>

definition code :: "char \<Rightarrow> nat" where
  "code c = of_char c"

definition is_digit :: "char \<Rightarrow> bool" where
  "is_digit c \<longleftrightarrow> 48 \<le> code c \<and> code c \<le> 57"

definition is_upper :: "char \<Rightarrow> bool" where
  "is_upper c \<longleftrightarrow> 65 \<le> code c \<and> code c \<le> 90"

definition is_lower :: "char \<Rightarrow> bool" where
  "is_lower c \<longleftrightarrow> 97 \<le> code c \<and> code c \<le> 122"

text \<open>
  \<open>str.isdigit\<close> on one code point below 256 also accepts the superscripts two, three and one;
  \<open>str.isalnum\<close> further accepts the feminine and masculine ordinals, the micro sign, the vulgar
  fractions and the Latin-1 letters.
\<close>

definition py_isdigit_char :: "char \<Rightarrow> bool" where
  "py_isdigit_char c \<longleftrightarrow> is_digit c \<or> code c \<in> {178, 179, 185}"

definition py_isalnum_char :: "char \<Rightarrow> bool" where
  "py_isalnum_char c \<longleftrightarrow> is_digit c \<or> is_upper c \<or> is_lower c
     \<or> code c \<in> {170, 178, 179, 181, 185, 186, 188, 189, 190}
     \<or> (192 \<le> code c \<and> code c \<noteq> 215 \<and> code c \<noteq> 247)"

definition py_isdigit :: "string \<Rightarrow> bool" where
  "py_isdigit s \<longleftrightarrow> s \<noteq> [] \<and> list_all py_isdigit_char s"

definition lower_char :: "char \<Rightarrow> char" where
  "lower_char c = (if is_upper c \<or> (192 \<le> code c \<and> code c \<le> 222 \<and> code c \<noteq> 215)
     then char_of (code c + 32) else c)"

definition str_lower :: "string \<Rightarrow> string" where
  "str_lower s = map lower_char s"

definition upper_char :: "char \<Rightarrow> char" where
  "upper_char c = (if is_lower c then char_of (code c - 32) else c)"

text \<open>\<open>str.upper\<close> is applied to HTTP methods only, which are ASCII letters.\<close>

definition str_upper :: "string \<Rightarrow> string" where
  "str_upper s = map upper_char s"

definition lstrip_char :: "char \<Rightarrow> string \<Rightarrow> string" where
  "lstrip_char c s = dropWhile (\<lambda>x. x = c) s"

definition rstrip_char :: "char \<Rightarrow> string \<Rightarrow> string" where
  "rstrip_char c s = rev (dropWhile (\<lambda>x. x = c) (rev s))"

definition contains :: "string \<Rightarrow> string \<Rightarrow> bool" where
  "contains part s \<longleftrightarrow> list_ex (prefix part) (suffixes s)"

fun split_on :: "char \<Rightarrow> string \<Rightarrow> string list" where
  "split_on c [] = [[]]"
| "split_on c (x # xs) =
     (if x = c then [] # split_on c xs
      else case split_on c xs of [] \<Rightarrow> [[x]] | y # ys \<Rightarrow> (x # y) # ys)"

fun join_with :: "string \<Rightarrow> string list \<Rightarrow> string" where
  "join_with sep [] = []"
| "join_with sep [x] = x"
| "join_with sep (x # y # ys) = x @ sep @ join_with sep (y # ys)"

text \<open>The last \<open>n\<close> characters: Python's \<open>s[-n:]\<close>.\<close>

definition last_n :: "nat \<Rightarrow> string \<Rightarrow> string" where
  "last_n n s = drop (length s - n) s"

definition digit_char :: "nat \<Rightarrow> char" where
  "digit_char n = char_of (48 + n)"

fun show_nat :: "nat \<Rightarrow> string" where
  "show_nat n = (if n < 10 then [digit_char n] else show_nat (n div 10) @ [digit_char (n mod 10)])"

declare show_nat.simps [simp del]

definition show_int :: "int \<Rightarrow> string" where
  "show_int i = (if i < 0 then CHR ''-'' # show_nat (nat (- i)) else show_nat (nat i))"

subsection \<open>Lemmas on strings\<close>

lemma str_upper_methods [simp]:
  "str_upper ''GET'' = ''GET''" "str_upper ''POST'' = ''POST''" "str_upper ''PUT'' = ''PUT''"
  "str_upper ''PATCH'' = ''PATCH''" "str_upper ''DELETE'' = ''DELETE''"
  by code_simp+

lemma contains_iff_sublist: "contains p s \<longleftrightarrow> sublist p s"
  unfolding contains_def list_ex_iff set_suffixes_eq
  by (auto simp: sublist_altdef')

lemma code_less: "code c < 256"
  by (simp add: code_def)

lemma code_inject: "code a = code b \<longleftrightarrow> a = b"
  by (simp add: code_def)

lemma code_char_of [simp]: "n < 256 \<Longrightarrow> code (char_of n) = n"
  by (simp add: code_def)

lemma digit_char_is_digit: "n < 10 \<Longrightarrow> is_digit (digit_char n)"
  by (simp add: is_digit_def digit_char_def)

lemma show_nat_nonempty [simp]: "show_nat n \<noteq> []"
  by (subst show_nat.simps) simp

lemma show_nat_digits: "list_all is_digit (show_nat n)"
proof (induction n rule: show_nat.induct)
  case (1 n)
  then show ?case
    by (cases "n < 10") (simp_all add: show_nat.simps [of n] digit_char_is_digit)
qed

lemma split_on_nonempty [simp]: "split_on c s \<noteq> []"
  by (induction s) (auto split: list.splits)

lemma split_on_absent: "c \<notin> set s \<Longrightarrow> split_on c s = [s]"
  by (induction s) auto

lemma length_split_on: "length (split_on c s) = Suc (count_list s c)"
  by (induction s) (auto split: list.splits)

lemma split_on_append_absent:
  "c \<notin> set p \<Longrightarrow> split_on c (p @ c # s) = p # split_on c s"
  by (induction p) auto

lemma lstrip_char_hd: "s \<noteq> [] \<Longrightarrow> hd s \<noteq> c \<Longrightarrow> lstrip_char c s = s"
  by (cases s) (simp_all add: lstrip_char_def)

lemma length_last_n: "length (last_n n s) = min n (length s)"
  by (simp add: last_n_def)

lemma last_n_digits: "list_all P s \<Longrightarrow> list_all P (last_n n s)"
  by (auto simp: last_n_def list_all_iff dest: in_set_dropD)

section \<open>Ordered dictionaries\<close>

text \<open>
  A Python dict is an association list in insertion order. \<open>d.get(k)\<close> is \<^const>\<open>map_of\<close>,
  \<open>d[k] = v\<close> is \<^const>\<open>AList.update\<close> (in place when the key is present, at the end
  otherwise) and \<open>d.pop(k, None)\<close> removes the key.
\<close>

type_synonym 'v dict = "(string \<times> 'v) list"

definition dict_get :: "'v dict \<Rightarrow> string \<Rightarrow> 'v option" where
  "dict_get d k = map_of d k"

definition dict_set :: "string \<Rightarrow> 'v \<Rightarrow> 'v dict \<Rightarrow> 'v dict" where
  "dict_set k v d = AList.update k v d"

definition dict_del :: "string \<Rightarrow> 'v dict \<Rightarrow> 'v dict" where
  "dict_del k d = AList.delete k d"

definition setdefault :: "string \<Rightarrow> 'v \<Rightarrow> 'v dict \<Rightarrow> 'v dict" where
  "setdefault k v d = (if map_of d k = None then d @ [(k, v)] else d)"

definition dict_has :: "'v dict \<Rightarrow> string \<Rightarrow> bool" where
  "dict_has d k \<longleftrightarrow> map_of d k \<noteq> None"

definition keys :: "'v dict \<Rightarrow> string list" where
  "keys d = map fst d"

lemma dict_get_set [simp]: "dict_get (dict_set k v d) k' = (if k' = k then Some v else dict_get d k')"
  by (simp add: dict_get_def dict_set_def update_conv')

lemma dict_get_del [simp]: "dict_get (dict_del k d) k' = (if k' = k then None else dict_get d k')"
  by (simp add: dict_get_def dict_del_def delete_conv')

lemma dict_del_set: "dict_get d k = None \<Longrightarrow> dict_del k (dict_set k v d) = d"
proof (induction d)
  case (Cons p d)
  obtain k' v' where "p = (k', v')" by (cases p)
  with Cons show ?case
    by (cases "k' = k") (simp_all add: dict_get_def dict_del_def dict_set_def)
qed (simp add: dict_del_def dict_set_def)

lemma dict_get_setdefault [simp]:
  "dict_get (setdefault k v d) k' =
     (if k' = k \<and> dict_get d k = None then Some v else dict_get d k')"
  by (auto simp: dict_get_def setdefault_def map_add_def split: option.splits)

lemma dict_get_Nil [simp]: "dict_get [] k = None"
  by (simp add: dict_get_def)

lemma dict_get_Cons [simp]:
  "dict_get ((k, v) # d) k' = (if k' = k then Some v else dict_get d k')"
  by (simp add: dict_get_def)

lemma distinct_keys_set: "distinct (keys d) \<Longrightarrow> distinct (keys (dict_set k v d))"
  by (simp add: keys_def dict_set_def distinct_update)

lemma distinct_keys_del: "distinct (keys d) \<Longrightarrow> distinct (keys (dict_del k d))"
  by (simp add: keys_def dict_del_def distinct_delete)

lemma set_keys_del: "set (keys (dict_del k d)) = set (keys d) - {k}"
  by (auto simp: keys_def dict_del_def delete_keys)

lemma dict_get_None_iff: "dict_get d k = None \<longleftrightarrow> k \<notin> set (keys d)"
  by (simp add: dict_get_def keys_def map_of_eq_None_iff)

lemma keys_simps [simp]: "keys [] = []" "keys (p # d) = fst p # keys d" "keys (a @ b) = keys a @ keys b"
  by (simp_all add: keys_def)

lemma dict_get_append:
  "dict_get (a @ b) k = (case dict_get a k of None \<Rightarrow> dict_get b k | Some v \<Rightarrow> Some v)"
  by (simp add: dict_get_def map_add_def split: option.splits)

section \<open>Computations with state and exceptions\<close>

text \<open>
  A method that reads or changes the world, and may raise, is a function from the world to an
  exception or a result, and the new world: effects made before a raise are kept, as in Python.
\<close>

type_synonym ('e, 'w, 'a) comp = "'w \<Rightarrow> ('e + 'a) \<times> 'w"

definition returnM :: "'a \<Rightarrow> ('e, 'w, 'a) comp" where
  "returnM x = (\<lambda>w. (Inr x, w))"

definition raiseM :: "'e \<Rightarrow> ('e, 'w, 'a) comp" where
  "raiseM e = (\<lambda>w. (Inl e, w))"

definition bindM :: "('e, 'w, 'a) comp \<Rightarrow> ('a \<Rightarrow> ('e, 'w, 'b) comp) \<Rightarrow> ('e, 'w, 'b) comp" where
  "bindM m f = (\<lambda>w. case m w of (Inl e, w') \<Rightarrow> (Inl e, w') | (Inr x, w') \<Rightarrow> f x w')"

definition thenM :: "('e, 'w, 'a) comp \<Rightarrow> ('e, 'w, 'b) comp \<Rightarrow> ('e, 'w, 'b) comp" where
  "thenM m n = bindM m (\<lambda>_. n)"

text \<open>\<open>try: m except: h\<close>, where the handler may re-raise.\<close>

definition catchM :: "('e, 'w, 'a) comp \<Rightarrow> ('e \<Rightarrow> ('e, 'w, 'a) comp) \<Rightarrow> ('e, 'w, 'a) comp" where
  "catchM m h = (\<lambda>w. case m w of (Inl e, w') \<Rightarrow> h e w' | (Inr x, w') \<Rightarrow> (Inr x, w'))"

definition liftM :: "'e + 'a \<Rightarrow> ('e, 'w, 'a) comp" where
  "liftM r = (\<lambda>w. (r, w))"

definition modifyM :: "('w \<Rightarrow> 'w) \<Rightarrow> ('e, 'w, unit) comp" where
  "modifyM f = (\<lambda>w. (Inr (), f w))"

definition whenM :: "bool \<Rightarrow> ('e, 'w, unit) comp \<Rightarrow> ('e, 'w, unit) comp" where
  "whenM b m = (if b then m else returnM ())"

lemmas comp_defs = returnM_def raiseM_def bindM_def thenM_def catchM_def liftM_def modifyM_def
  whenM_def

lemma bindM_returnM [simp]: "bindM (returnM x) f = f x"
  by (simp add: comp_defs)

lemma bindM_raiseM [simp]: "bindM (raiseM e) f = raiseM e"
  by (simp add: comp_defs)

lemma bindM_assoc: "bindM (bindM m f) g = bindM m (\<lambda>x. bindM (f x) g)"
  by (rule ext) (simp add: comp_defs split: prod.splits sum.splits)

lemma catchM_returnM [simp]: "catchM (returnM x) h = returnM x"
  by (simp add: comp_defs)

lemma catchM_raiseM [simp]: "catchM (raiseM e) h = h e"
  by (simp add: comp_defs)

lemma bindM_result: "m w = (Inr x, v) \<Longrightarrow> bindM m f w = f x v"
  by (simp add: bindM_def)

lemma bindM_Inr_iff:
  "bindM m f w = (Inr y, w') \<longleftrightarrow> (\<exists>x w1. m w = (Inr x, w1) \<and> f x w1 = (Inr y, w'))"
  by (auto simp: bindM_def split: prod.splits sum.splits)

lemma bindM_Inl_iff:
  "bindM m f w = (Inl e, w') \<longleftrightarrow>
     m w = (Inl e, w') \<or> (\<exists>x w1. m w = (Inr x, w1) \<and> f x w1 = (Inl e, w'))"
  by (auto simp: bindM_def split: prod.splits sum.splits)

subsection \<open>Preorders on worlds kept by every computation\<close>

text \<open>
  \<open>keeps R m\<close>: whatever \<open>m\<close> does, the world after it is related by \<open>R\<close> to the world before.
  For reflexive and transitive \<open>R\<close> the composed operations keep \<open>R\<close> when their parts do.
\<close>

definition keeps :: "('w \<Rightarrow> 'w \<Rightarrow> bool) \<Rightarrow> ('e, 'w, 'a) comp \<Rightarrow> bool" where
  "keeps R m \<longleftrightarrow> (\<forall>w. R w (snd (m w)))"

lemma keepsD: "keeps R m \<Longrightarrow> m w = (r, w') \<Longrightarrow> R w w'"
  by (metis keeps_def snd_conv)

lemma keepsI: "(\<And>w r w'. m w = (r, w') \<Longrightarrow> R w w') \<Longrightarrow> keeps R m"
  by (metis keeps_def prod.collapse)

lemma keeps_returnM [intro]: "reflp R \<Longrightarrow> keeps R (returnM x)"
  by (simp add: keeps_def comp_defs reflpD)

lemma keeps_raiseM [intro]: "reflp R \<Longrightarrow> keeps R (raiseM e)"
  by (simp add: keeps_def comp_defs reflpD)

lemma keeps_liftM [intro]: "reflp R \<Longrightarrow> keeps R (liftM r)"
  by (simp add: keeps_def comp_defs reflpD)

lemma keeps_bindM [intro]:
  assumes "transp R" and "keeps R m" and "\<And>x. keeps R (f x)"
  shows "keeps R (bindM m f)"
proof (rule keepsI)
  fix w r w'
  assume run: "bindM m f w = (r, w')"
  obtain r1 w1 where m: "m w = (r1, w1)" by (cases "m w")
  have "R w w1" using assms(2) m by (rule keepsD)
  moreover have "r1 = Inr x \<Longrightarrow> R w1 w'" for x
    using run m keepsD [OF assms(3)] by (simp add: bindM_def)
  ultimately show "R w w'"
    using run m assms(1) by (cases r1) (auto simp: bindM_def dest: transpD)
qed

lemma keeps_thenM [intro]: "transp R \<Longrightarrow> keeps R m \<Longrightarrow> keeps R n \<Longrightarrow> keeps R (thenM m n)"
  unfolding thenM_def by (rule keeps_bindM)

lemma keeps_catchM [intro]:
  assumes "transp R" and "keeps R m" and "\<And>e. keeps R (h e)"
  shows "keeps R (catchM m h)"
proof (rule keepsI)
  fix w r w'
  assume run: "catchM m h w = (r, w')"
  obtain r1 w1 where m: "m w = (r1, w1)" by (cases "m w")
  have "R w w1" using assms(2) m by (rule keepsD)
  moreover have "r1 = Inl e \<Longrightarrow> R w1 w'" for e
    using run m keepsD [OF assms(3)] by (simp add: catchM_def)
  ultimately show "R w w'"
    using run m assms(1) by (cases r1) (auto simp: catchM_def dest: transpD)
qed

end
