(* ===== verification/Py_Values.thy ===== *)
theory Py_Values
  imports Prelude
begin

text \<open>
  The values an \<open>Any\<close> annotation of the SDK ranges over: JSON values, bytes, tuples, and other
  objects (\<open>PObj s\<close>, an object whose \<open>str()\<close> is \<open>s\<close>). A dict has string keys in insertion order.
\<close>

datatype pyval =
    PNone
  | PBool bool
  | PInt int
  | PFloat rat
  | PStr string
  | PBytes string
  | PList "pyval list"
  | PTuple "pyval list"
  | PDict "(string \<times> pyval) list"
  | PObj string

type_synonym pydict = "(string \<times> pyval) list"

section \<open>Truth values, optional values, \<open>or\<close>\<close>

fun truthy :: "pyval \<Rightarrow> bool" where
  "truthy PNone = False"
| "truthy (PBool b) = b"
| "truthy (PInt i) = (i \<noteq> 0)"
| "truthy (PFloat x) = (x \<noteq> 0)"
| "truthy (PStr s) = (s \<noteq> [])"
| "truthy (PBytes s) = (s \<noteq> [])"
| "truthy (PList xs) = (xs \<noteq> [])"
| "truthy (PTuple xs) = (xs \<noteq> [])"
| "truthy (PDict d) = (d \<noteq> [])"
| "truthy (PObj s) = True"

text \<open>\<open>a or b\<close> on values.\<close>

definition py_or :: "pyval \<Rightarrow> pyval \<Rightarrow> pyval" where
  "py_or a b = (if truthy a then a else b)"

text \<open>\<open>d.get(k)\<close>, with \<open>None\<close> for a missing key.\<close>

definition pyget :: "pydict \<Rightarrow> string \<Rightarrow> pyval" where
  "pyget d k = (case dict_get d k of None \<Rightarrow> PNone | Some v \<Rightarrow> v)"

definition opt_str :: "string option \<Rightarrow> pyval" where
  "opt_str v = (case v of None \<Rightarrow> PNone | Some s \<Rightarrow> PStr s)"

definition opt_int :: "int option \<Rightarrow> pyval" where
  "opt_int v = (case v of None \<Rightarrow> PNone | Some i \<Rightarrow> PInt i)"

definition opt_bool :: "bool option \<Rightarrow> pyval" where
  "opt_bool v = (case v of None \<Rightarrow> PNone | Some b \<Rightarrow> PBool b)"

definition opt_float :: "rat option \<Rightarrow> pyval" where
  "opt_float v = (case v of None \<Rightarrow> PNone | Some x \<Rightarrow> PFloat x)"

text \<open>
  \<open>s or default\<close> on optional strings: an empty string counts as missing.
\<close>

definition str_or :: "string option \<Rightarrow> string \<Rightarrow> string" where
  "str_or v dflt = (case v of None \<Rightarrow> dflt | Some s \<Rightarrow> if s = [] then dflt else s)"

lemma pyget_simps [simp]:
  "pyget [] k = PNone"
  "pyget ((k', v) # d) k = (if k = k' then v else pyget d k)"
  by (simp_all add: pyget_def)

lemma py_or_None [simp]: "py_or PNone b = b"
  by (simp add: py_or_def)

lemma opt_simps [simp]:
  "opt_str None = PNone" "opt_str (Some s) = PStr s"
  "opt_int None = PNone" "opt_int (Some i) = PInt i"
  "opt_bool None = PNone" "opt_bool (Some b) = PBool b"
  "opt_float None = PNone" "opt_float (Some x) = PFloat x"
  by (simp_all add: opt_str_def opt_int_def opt_bool_def opt_float_def)

lemma opt_eq_None [simp]:
  "opt_str a = PNone \<longleftrightarrow> a = None"
  "opt_int b = PNone \<longleftrightarrow> b = None"
  "opt_bool c = PNone \<longleftrightarrow> c = None"
  "opt_float d = PNone \<longleftrightarrow> d = None"
  by (simp_all add: opt_str_def opt_int_def opt_bool_def opt_float_def split: option.splits)

section \<open>\<open>str()\<close> of a value\<close>

text \<open>
  \<open>str()\<close> is written out for the values whose text the SDK relies on; the text of a float, of
  bytes and of a container is the interpreter's \<open>repr\<close>, the argument \<open>rep\<close>.
\<close>

fun py_str :: "(pyval \<Rightarrow> string) \<Rightarrow> pyval \<Rightarrow> string" where
  "py_str rep PNone = ''None''"
| "py_str rep (PBool b) = (if b then ''True'' else ''False'')"
| "py_str rep (PInt i) = show_int i"
| "py_str rep (PStr s) = s"
| "py_str rep (PObj s) = s"
| "py_str rep v = rep v"

section \<open>Dictionaries without \<open>None\<close> values\<close>

definition compact_values :: "pydict \<Rightarrow> pydict" where
  "compact_values d = filter (\<lambda>(k, v). v \<noteq> PNone) d"

lemma compact_values_no_None: "(k, PNone) \<notin> set (compact_values d)"
  by (simp add: compact_values_def)

lemma keys_compact_values: "set (keys (compact_values d)) \<subseteq> set (keys d)"
  by (auto simp: compact_values_def keys_def)

lemma compact_values_idem [simp]: "compact_values (compact_values d) = compact_values d"
  by (simp add: compact_values_def)

lemma compact_values_id: "\<forall>(k, v) \<in> set d. v \<noteq> PNone \<Longrightarrow> compact_values d = d"
  by (simp add: compact_values_def filter_id_conv case_prod_unfold)

lemma compact_values_simps [simp]:
  "compact_values [] = []"
  "compact_values ((k, v) # d) = (if v = PNone then compact_values d else (k, v) # compact_values d)"
  by (simp_all add: compact_values_def)

lemma distinct_keys_compact: "distinct (keys d) \<Longrightarrow> distinct (keys (compact_values d))"
  by (induction d) (auto simp: keys_def compact_values_def)

lemma pyget_compact:
  "distinct (keys d) \<Longrightarrow> pyget (compact_values d) k = pyget d k"
proof (induction d)
  case Nil
  then show ?case by simp
next
  case (Cons p d)
  obtain k' v where p: "p = (k', v)" by (cases p)
  have "k' \<notin> set (keys d)" and "distinct (keys d)" using Cons.prems p by (auto simp: keys_def)
  then have "pyget (compact_values d) k' = PNone"
    using keys_compact_values [of d] dict_get_None_iff [of "compact_values d" k']
    by (auto simp: pyget_def)
  with Cons.IH \<open>distinct (keys d)\<close> p show ?case by auto
qed

end
