(* ===== verification/Types.thy ===== *)
theory Types
  imports Py_Values
begin

text \<open>\<open>src/jibit/types.py\<close>: service scopes and transport-neutral multipart values.\<close>

datatype service_name =
    PAYMENT_GATEWAY | TRANSFERS | COBANK | IDENTICATOR | KYC | DIRECT_DEBIT | SMS | CONTRACTS

fun service_value :: "service_name \<Rightarrow> string" where
  "service_value PAYMENT_GATEWAY = ''payment_gateway''"
| "service_value TRANSFERS = ''transfers''"
| "service_value COBANK = ''cobank''"
| "service_value IDENTICATOR = ''identicator''"
| "service_value KYC = ''kyc''"
| "service_value DIRECT_DEBIT = ''direct_debit''"
| "service_value SMS = ''sms''"
| "service_value CONTRACTS = ''contracts''"

text \<open>Iterating over the enum class visits the members in declaration order.\<close>

definition all_services :: "service_name list" where
  "all_services =
     [PAYMENT_GATEWAY, TRANSFERS, COBANK, IDENTICATOR, KYC, DIRECT_DEBIT, SMS, CONTRACTS]"

instantiation service_name :: enum
begin

definition enum_service_name :: "service_name list" where
  "enum_service_name = all_services"

definition enum_all_service_name :: "(service_name \<Rightarrow> bool) \<Rightarrow> bool" where
  "enum_all_service_name P = list_all P all_services"

definition enum_ex_service_name :: "(service_name \<Rightarrow> bool) \<Rightarrow> bool" where
  "enum_ex_service_name P = list_ex P all_services"

instance
proof
  show U: "(UNIV :: service_name set) = set enum_class.enum"
    by (auto simp: enum_service_name_def all_services_def intro: service_name.exhaust)
  show "distinct (enum_class.enum :: service_name list)"
    by (simp add: enum_service_name_def all_services_def)
  show "enum_class.enum_all P \<longleftrightarrow> Ball UNIV P" for P :: "service_name \<Rightarrow> bool"
    unfolding U by (simp add: enum_all_service_name_def enum_service_name_def list_all_iff)
  show "enum_class.enum_ex P \<longleftrightarrow> Bex UNIV P" for P :: "service_name \<Rightarrow> bool"
    unfolding U by (simp add: enum_ex_service_name_def enum_service_name_def list_ex_iff)
qed

end

lemma in_all_services [simp]: "s \<in> set all_services"
  by (cases s) (simp_all add: all_services_def)

lemma service_value_inject [simp]: "service_value a = service_value b \<longleftrightarrow> a = b"
  by (cases a; cases b) simp_all

section \<open>Multipart values\<close>

datatype content_part_type = FIELD | FILE

fun part_type_value :: "content_part_type \<Rightarrow> string" where
  "part_type_value FIELD = ''field''"
| "part_type_value FILE = ''file''"

text \<open>A part's value is text or bytes; both are lists of characters here.\<close>

record multipart_part =
  mp_name :: string
  mp_kind :: content_part_type
  mp_value :: string
  mp_filename :: "string option"
  mp_content_type :: "string option"

text \<open>\<open>__repr__\<close> with \<open>quote\<close> for the \<open>!r\<close> conversions of the name and the kind.\<close>

definition multipart_repr :: "(string \<Rightarrow> string) \<Rightarrow> multipart_part \<Rightarrow> string" where
  "multipart_repr quote p =
     ''MultipartPart(name='' @ quote (mp_name p) @ '', kind='' @ quote (part_type_value (mp_kind p))
     @ '', has_filename='' @ (if mp_filename p \<noteq> None then ''True'' else ''False'')
     @ '', content_length='' @ show_nat (length (mp_value p)) @ '')''"

lemma multipart_repr_hides_value:
  "length (mp_value p) = length (mp_value q) \<Longrightarrow> mp_name p = mp_name q \<Longrightarrow> mp_kind p = mp_kind q \<Longrightarrow>
   (mp_filename p = None \<longleftrightarrow> mp_filename q = None) \<Longrightarrow>
   multipart_repr quote p = multipart_repr quote q"
  by (simp add: multipart_repr_def)

end
