(* ===== verification/Py_Regex.thy ===== *)
theory Py_Regex
  imports Prelude
begin

text \<open>
  The part of Python's \<open>re\<close> the SDK uses: character classes, sequences, alternatives, greedy
  optional groups, counted repetition, single-character look-behind and look-ahead, and the word
  boundary. A match state is the character before the position and the text after it. A pattern
  yields the states it can reach in the order of the backtracking search, so the first one is the
  match Python reports. \<open>re.sub\<close> replaces the non-overlapping matches from left to right.
\<close>

datatype rx =
    Eps
  | Cls "char \<Rightarrow> bool"
  | Seq rx rx
  | Alt rx rx
  | Opt rx
  | NotBehind "char \<Rightarrow> bool"
  | NotAhead "char \<Rightarrow> bool"
  | Bound

type_synonym rx_state = "char option \<times> string"

definition word_char :: "char \<Rightarrow> bool" where
  "word_char c \<longleftrightarrow> py_isalnum_char c \<or> c = CHR ''_''"

definition opt_sat :: "(char \<Rightarrow> bool) \<Rightarrow> char option \<Rightarrow> bool" where
  "opt_sat P q = (case q of None \<Rightarrow> False | Some c \<Rightarrow> P c)"

definition hd_sat :: "(char \<Rightarrow> bool) \<Rightarrow> string \<Rightarrow> bool" where
  "hd_sat P s = (case s of [] \<Rightarrow> False | c # _ \<Rightarrow> P c)"

fun rx_step :: "rx \<Rightarrow> rx_state \<Rightarrow> rx_state list" where
  "rx_step Eps st = [st]"
| "rx_step (Cls P) (p, s) =
     (case s of [] \<Rightarrow> [] | c # cs \<Rightarrow> if P c then [(Some c, cs)] else [])"
| "rx_step (Seq a b) st = concat (map (rx_step b) (rx_step a st))"
| "rx_step (Alt a b) st = rx_step a st @ rx_step b st"
| "rx_step (Opt a) st = rx_step a st @ [st]"
| "rx_step (NotBehind P) (p, s) = (if opt_sat P p then [] else [(p, s)])"
| "rx_step (NotAhead P) (p, s) = (if hd_sat P s then [] else [(p, s)])"
| "rx_step Bound (p, s) = (if opt_sat word_char p \<noteq> hd_sat word_char s then [(p, s)] else [])"

text \<open>\<open>r{n}\<close>, a literal text, and a counted repetition.\<close>

primrec rx_rep :: "nat \<Rightarrow> rx \<Rightarrow> rx" where
  "rx_rep 0 r = Eps"
| "rx_rep (Suc n) r = Seq r (rx_rep n r)"

primrec rx_lit :: "string \<Rightarrow> rx" where
  "rx_lit [] = Eps"
| "rx_lit (c # cs) = Seq (Cls (\<lambda>x. x = c)) (rx_lit cs)"

text \<open>The number of characters a match at this position consumes.\<close>

definition rx_match :: "rx \<Rightarrow> char option \<Rightarrow> string \<Rightarrow> nat option" where
  "rx_match r p s = (case rx_step r (p, s) of [] \<Rightarrow> None
     | (p', s') # _ \<Rightarrow> Some (length s - length s'))"

text \<open>
  \<open>re.sub\<close> for patterns that never match the empty string: an empty match is treated as none.
\<close>

function rx_sub :: "rx \<Rightarrow> (string \<Rightarrow> string) \<Rightarrow> char option \<Rightarrow> string \<Rightarrow> string" where
  "rx_sub r f p [] = []"
| "rx_sub r f p (c # cs) =
     (case rx_match r p (c # cs) of
        Some (Suc n) \<Rightarrow>
          f (take (Suc n) (c # cs)) @ rx_sub r f (Some (last (take (Suc n) (c # cs)))) (drop n cs)
      | _ \<Rightarrow> c # rx_sub r f (Some c) cs)"
  by pat_completeness auto
termination
  by (relation "measure (\<lambda>(r, f, p, s). length s)") auto

section \<open>Facts about matching\<close>

lemma rx_step_suffix: "(p', s') \<in> set (rx_step r (p, s)) \<Longrightarrow> suffix s' s"
proof (induction r arbitrary: p s p' s')
  case (Seq a b)
  then obtain q t where "(q, t) \<in> set (rx_step a (p, s))" and "(p', s') \<in> set (rx_step b (q, t))"
    by auto
  with Seq.IH show ?case by (meson suffix_order.trans)
qed (auto split: list.splits if_splits simp: suffix_Cons)

lemma rx_rep_digits:
  "rx_step (rx_rep n (Cls P)) (p, s) =
     (if n \<le> length s \<and> list_all P (take n s)
      then [(if n = 0 then p else Some (s ! (n - 1)), drop n s)] else [])"
proof (induction n arbitrary: p s)
  case 0
  then show ?case by simp
next
  case (Suc n)
  show ?case
  proof (cases s)
    case Nil
    then show ?thesis by simp
  next
    case (Cons c cs)
    with Suc.IH [of "Some c" cs] show ?thesis by (cases n) auto
  qed
qed

text \<open>Digit runs: \<open>has_run n pd s\<close> says that \<open>s\<close>, read after a digit iff \<open>pd\<close>, has a maximal
  run of exactly \<open>n\<close> digits.\<close>

fun has_run :: "nat \<Rightarrow> bool \<Rightarrow> string \<Rightarrow> bool" where
  "has_run n pd [] = False"
| "has_run n pd (c # cs) \<longleftrightarrow>
     (\<not> pd \<and> is_digit c \<and> Suc (length (takeWhile is_digit cs)) = n) \<or> has_run n (is_digit c) cs"

lemma has_run_skip: "list_all is_digit xs \<Longrightarrow> has_run n True (xs @ ys) = has_run n True ys"
  by (induction xs) auto

lemma has_run_nondigits:
  "list_all (\<lambda>c. \<not> is_digit c) xs \<Longrightarrow> has_run n False (xs @ ys) = has_run n False ys"
  by (induction xs) auto

lemma has_run_nondigits_first:
  "\<not> is_digit x \<Longrightarrow> has_run n pd (x # ys) = has_run n False ys"
  by simp

end
