(* ===== verification/Redaction.thy ===== *)
theory Redaction
  imports Py_Values Py_Regex
begin

text \<open>
  \<open>src/jibit/redaction.py\<close>: which field names are sensitive, the masking of identifiers in free
  text, and the recursive redaction of a value that reaches a log record or an audit event.
\<close>

definition REDACTED :: string where
  "REDACTED = ''[REDACTED]''"

definition SENSITIVE_KEY_PARTS :: "string list" where
  "SENSITIVE_KEY_PARTS =
     [''access_token'', ''authorization'', ''account'', ''birth_date'', ''batch_id'', ''card'',
      ''client_secret'', ''credential'', ''cvv'', ''identity'', ''message'', ''iban'', ''image'',
      ''kyc'', ''national_id'', ''national_code'', ''fida'', ''face'', ''file'', ''media'',
      ''mobile'', ''receptor'', ''payment_id'', ''otp'', ''password'', ''refresh_token'',
      ''secret'', ''signed_document'', ''signer'', ''signature'', ''transfer_id'', ''token'',
      ''video'']"

section \<open>Patterns\<close>

definition IBAN_RE :: rx where
  "IBAN_RE = Seq Bound (Seq (Cls (\<lambda>c. c = CHR ''I'' \<or> c = CHR ''i''))
     (Seq (Cls (\<lambda>c. c = CHR ''R'' \<or> c = CHR ''r'')) (Seq (rx_rep 24 (Cls is_digit)) Bound)))"

definition CARD_RE :: rx where
  "CARD_RE = Seq (NotBehind is_digit)
     (Seq (rx_rep 16 (Seq (Cls is_digit) (Opt (Cls (\<lambda>c. c = CHR '' '' \<or> c = CHR ''-'')))))
       (NotAhead is_digit))"

definition MOBILE_RE :: rx where
  "MOBILE_RE = Seq (NotBehind is_digit)
     (Seq (Opt (Alt (rx_lit ''+98'') (Alt (rx_lit ''0098'') (rx_lit ''0''))))
       (Seq (Cls (\<lambda>c. c = CHR ''9'')) (Seq (rx_rep 9 (Cls is_digit)) (NotAhead is_digit))))"

definition NATIONAL_ID_RE :: rx where
  "NATIONAL_ID_RE = Seq (NotBehind is_digit) (Seq (rx_rep 10 (Cls is_digit)) (NotAhead is_digit))"

section \<open>Sensitive keys\<close>

text \<open>\<open>re.sub(r"(?<!^)(?=[A-Z])", "_", s)\<close>: an underscore before every capital that is not first.\<close>

definition insert_underscores :: "string \<Rightarrow> string" where
  "insert_underscores s = (case s of [] \<Rightarrow> []
     | c # cs \<Rightarrow> c # concat (map (\<lambda>x. if is_upper x then [CHR ''_'', x] else [x]) cs))"

definition normalize_key :: "string \<Rightarrow> string" where
  "normalize_key key =
     map (\<lambda>c. if c = CHR ''-'' then CHR ''_'' else c) (str_lower (insert_underscores key))"

definition is_sensitive_key :: "string \<Rightarrow> bool" where
  "is_sensitive_key key =
     (let normalized = normalize_key key in list_ex (\<lambda>part. contains part normalized) SENSITIVE_KEY_PARTS)"

section \<open>Masking free text\<close>

definition digits_of :: "string \<Rightarrow> string" where
  "digits_of s = filter is_digit s"

definition mask :: "nat \<Rightarrow> string \<Rightarrow> string" where
  "mask n s = replicate n (CHR ''*'') @ last_n 4 s"

definition redact_text :: "string \<Rightarrow> string" where
  "redact_text value =
     (let v1 = rx_sub IBAN_RE (\<lambda>m. ''IR'' @ mask 20 m) None value;
          v2 = rx_sub CARD_RE (\<lambda>m. mask 12 (digits_of m)) None v1;
          v3 = rx_sub MOBILE_RE (mask 7) None v2
      in rx_sub NATIONAL_ID_RE (mask 6) None v3)"

section \<open>Redacting a value\<close>

lemma size_elem_le: "x \<in> set xs \<Longrightarrow> size x \<le> size_list size xs" for x :: pyval
  by (induction xs) auto

lemma size_snd_elem_le: "(k, x) \<in> set d \<Longrightarrow> size x \<le> size_list (size_prod (\<lambda>_. 0) size) d"
  for x :: pyval
  by (induction d) auto

text \<open>
  \<open>redact(value, key=key)\<close>; the key is \<open>None\<close> at the top and for list elements. A tuple is a
  sequence and becomes a list; any other object is shown by \<open>str()\<close> and masked.
\<close>

function redact :: "string option \<Rightarrow> pyval \<Rightarrow> pyval" where
  "redact key v =
     (if (case key of None \<Rightarrow> False | Some k \<Rightarrow> is_sensitive_key k) then PStr REDACTED
      else case v of
        PNone \<Rightarrow> PNone
      | PBool b \<Rightarrow> PBool b
      | PInt i \<Rightarrow> PInt i
      | PFloat x \<Rightarrow> PFloat x
      | PStr s \<Rightarrow> PStr (redact_text s)
      | PBytes s \<Rightarrow> PStr (''[BINARY:'' @ show_nat (length s) @ '' bytes]'')
      | PDict d \<Rightarrow> PDict (map (\<lambda>(k, x). (k, redact (Some k) x)) d)
      | PList xs \<Rightarrow> PList (map (redact None) xs)
      | PTuple xs \<Rightarrow> PList (map (redact None) xs)
      | PObj s \<Rightarrow> PStr (redact_text s))"
  by pat_completeness auto
termination
  by (relation "measure (\<lambda>(k, v). size v)")
    (auto simp: less_Suc_eq_le intro: size_elem_le size_snd_elem_le)

declare redact.simps [simp del]

section \<open>What masking leaves\<close>

lemma takeWhile_length:
  assumes "length (takeWhile P xs) = n"
  shows "n \<le> length xs" and "list_all P (take n xs)" and "\<not> hd_sat P (drop n xs)"
proof -
  show "n \<le> length xs" using assms length_takeWhile_le by blast
  have "take n xs = takeWhile P xs" using assms takeWhile_eq_take by metis
  then show "list_all P (take n xs)" by (auto simp: list_all_iff dest: set_takeWhileD)
  have "drop n xs = dropWhile P xs" using assms dropWhile_eq_drop by metis
  then show "\<not> hd_sat P (drop n xs)"
    using hd_dropWhile [of P xs] by (cases "dropWhile P xs") (auto simp: hd_sat_def)
qed

lemma national_id_match:
  "rx_match NATIONAL_ID_RE p s =
     (if \<not> opt_sat is_digit p \<and> 10 \<le> length s \<and> list_all is_digit (take 10 s)
         \<and> \<not> hd_sat is_digit (drop 10 s) then Some 10 else None)"
  by (simp add: rx_match_def NATIONAL_ID_RE_def rx_rep_digits del: rx_rep.simps)

lemma national_id_sub_in_run:
  "opt_sat is_digit p \<Longrightarrow>
     takeWhile is_digit (rx_sub NATIONAL_ID_RE f p s) = takeWhile is_digit s"
proof (induction s arbitrary: p)
  case (Cons c cs)
  then show ?case by (cases "is_digit c") (simp_all add: national_id_match opt_sat_def)
qed simp

lemma national_id_sub_nondigit:
  "\<not> hd_sat is_digit s \<Longrightarrow> takeWhile is_digit (rx_sub NATIONAL_ID_RE f p s) = []"
  by (cases s) (simp_all add: national_id_match hd_sat_def)

lemma national_id_sub_no_run:
  "\<not> has_run 10 (opt_sat is_digit p) (rx_sub NATIONAL_ID_RE (mask 6) p s)"
proof (induction s arbitrary: p rule: length_induct)
  case (1 s)
  have IH: "\<not> has_run 10 (opt_sat is_digit q) (rx_sub NATIONAL_ID_RE (mask 6) q t)"
    if "length t < length s" for q t
    using "1.IH" that by blast
  show ?case
  proof (cases s)
    case Nil
    then show ?thesis by simp
  next
    case (Cons c cs)
    show ?thesis
    proof (cases "rx_match NATIONAL_ID_RE p s")
      case None
      have "\<not> has_run 10 (is_digit c) (rx_sub NATIONAL_ID_RE (mask 6) (Some c) cs)"
        using IH [of cs "Some c"] Cons by (simp add: opt_sat_def)
      moreover have "length (takeWhile is_digit s) \<noteq> 10" if "\<not> opt_sat is_digit p"
        using None that takeWhile_length [of is_digit s 10]
        by (auto simp: national_id_match split: if_splits)
      ultimately show ?thesis
        using None Cons by (auto simp: opt_sat_def national_id_sub_in_run)
    next
      case (Some n)
      then have n: "n = 10" and len: "10 \<le> length s" and dig: "list_all is_digit (take 10 s)"
        and rest: "\<not> hd_sat is_digit (drop 10 s)"
        by (auto simp: national_id_match split: if_splits)
      define q where "q = Some (last (take 10 s))"
      define tail where "tail = rx_sub NATIONAL_ID_RE (mask 6) q (drop 10 s)"
      have out: "rx_sub NATIONAL_ID_RE (mask 6) p s = mask 6 (take 10 s) @ tail"
        using Some n Cons by (simp add: tail_def q_def)
      have "take 10 s \<noteq> []" using len by auto
      then have q: "opt_sat is_digit q"
        using dig by (auto simp: q_def opt_sat_def list_all_iff)
      have "\<not> has_run 10 (opt_sat is_digit q) tail"
        unfolding tail_def by (rule IH) (use len in simp)
      then have no_tail: "\<not> has_run 10 True tail" using q by simp
      obtain d ds where last4: "last_n 4 (take 10 s) = d # ds" and "length ds = 3"
        using len length_last_n [of 4 "take 10 s"] by (cases "last_n 4 (take 10 s)") auto
      have all4: "is_digit d" "list_all is_digit ds"
        using last_n_digits [OF dig, of 4] last4 by auto
      have "takeWhile is_digit (ds @ tail) = ds @ takeWhile is_digit tail"
        using all4 by (simp add: takeWhile_append list_all_iff)
      also have "takeWhile is_digit tail = []"
        unfolding tail_def using rest by (rule national_id_sub_nondigit)
      finally have "\<not> has_run 10 False (last_n 4 (take 10 s) @ tail)"
        using last4 \<open>length ds = 3\<close> all4 no_tail by (simp add: has_run_skip)
      moreover have "has_run 10 pd (mask 6 (take 10 s) @ tail) =
          has_run 10 False (last_n 4 (take 10 s) @ tail)" for pd
        by (simp add: mask_def numeral_eq_Suc is_digit_def code_def)
      ultimately show ?thesis using out by simp
    qed
  qed
qed

lemma redact_text_no_national_id: "\<not> has_run 10 False (redact_text s)"
  using national_id_sub_no_run [of None] by (simp add: redact_text_def Let_def opt_sat_def)

lemma redact_key_sensitive: "is_sensitive_key k \<Longrightarrow> redact (Some k) v = PStr REDACTED"
  by (subst redact.simps) simp

lemma redact_str: "redact None (PStr s) = PStr (redact_text s)"
  by (subst redact.simps) simp

lemma redact_dict:
  "redact None (PDict d) = PDict (map (\<lambda>(k, x). (k, redact (Some k) x)) d)"
  by (subst redact.simps) simp

text \<open>
  \<open>clean v\<close>: no text in \<open>v\<close> carries an identifier-shaped run of exactly ten digits (the
  length in a binary summary aside), no bytes, tuples or foreign objects are left, and every entry
  under a sensitive key holds the marker.
\<close>

definition is_summary :: "string \<Rightarrow> bool" where
  "is_summary s \<longleftrightarrow> prefix ''[BINARY:'' s \<and> suffix '' bytes]'' s
     \<and> list_all is_digit (drop 8 (take (length s - 7) s))"

fun clean :: "pyval \<Rightarrow> bool" where
  "clean (PStr s) \<longleftrightarrow> \<not> has_run 10 False s \<or> is_summary s"
| "clean (PBytes s) \<longleftrightarrow> False"
| "clean (PObj s) \<longleftrightarrow> False"
| "clean (PTuple xs) \<longleftrightarrow> False"
| "clean (PList xs) \<longleftrightarrow> list_all clean xs"
| "clean (PDict d) \<longleftrightarrow>
     list_all (\<lambda>(k, x). clean x \<and> (is_sensitive_key k \<longrightarrow> x = PStr REDACTED)) d"
| "clean v \<longleftrightarrow> True"

lemma REDACTED_no_run: "\<not> has_run 10 False REDACTED"
  by (simp add: REDACTED_def is_digit_def code_def)

lemma binary_summary: "is_summary (''[BINARY:'' @ show_nat n @ '' bytes]'')"
  using show_nat_digits [of n] by (simp add: is_summary_def suffix_def numeral_eq_Suc)

lemma clean_redact: "clean (redact key v)"
proof (induction key v rule: redact.induct)
  case (1 key v)
  show ?case
  proof (cases "case key of None \<Rightarrow> False | Some k \<Rightarrow> is_sensitive_key k")
    case True
    then show ?thesis by (subst redact.simps) (simp add: REDACTED_no_run)
  next
    case False
    show ?thesis
    proof (cases v)
      case (PDict d)
      then show ?thesis using False "1.IH"(3) [OF False PDict]
        by (subst redact.simps) (auto simp: list_all_iff redact_key_sensitive)
    next
      case (PList xs)
      then show ?thesis using False "1.IH"(1) [OF False PList]
        by (subst redact.simps) (auto simp: list_all_iff)
    next
      case (PTuple xs)
      then show ?thesis using False "1.IH"(2) [OF False PTuple]
        by (subst redact.simps) (auto simp: list_all_iff)
    qed (use False in \<open>subst redact.simps, simp add: redact_text_no_national_id binary_summary
        del: append.simps\<close>)+
  qed
qed

end
