(* ===== verification/Exceptions.thy ===== *)
theory Exceptions
  imports Redaction
begin

text \<open>
  \<open>src/jibit/exceptions.py\<close>: the immutable error context, the exception hierarchy, and the Python
  exceptions that cross the SDK's boundaries. The subclasses of \<open>JibitError\<close> add no state, so an
  error is its class, its message and its context.
\<close>

section \<open>Error context\<close>

record error_context =
  ec_service :: "string option"
  ec_operation :: "string option"
  ec_method :: "string option"
  ec_endpoint :: "string option"
  ec_status_code :: "int option"
  ec_error_code :: "string option"
  ec_upstream_message :: "string option"
  ec_upstream_request_id :: "string option"
  ec_fingerprint :: "string option"
  ec_reference_number :: "string option"
  ec_correlation_id :: "string option"
  ec_retryable :: bool

definition empty_context :: error_context where
  "empty_context = \<lparr>ec_service = None, ec_operation = None, ec_method = None, ec_endpoint = None,
     ec_status_code = None, ec_error_code = None, ec_upstream_message = None,
     ec_upstream_request_id = None, ec_fingerprint = None, ec_reference_number = None,
     ec_correlation_id = None, ec_retryable = False\<rparr>"

text \<open>Constructing (or replacing fields of) a context runs \<open>__post_init__\<close>.\<close>

definition context_post_init :: "error_context \<Rightarrow> error_context" where
  "context_post_init c =
     (if ec_upstream_message c \<noteq> None then c\<lparr>ec_upstream_message := Some REDACTED\<rparr> else c)"

definition safe_field :: "string \<Rightarrow> pyval \<Rightarrow> pyval" where
  "safe_field name v = (if name = ''upstream_message'' then PStr REDACTED
     else case v of PStr s \<Rightarrow> PStr (redact_text s) | _ \<Rightarrow> v)"

definition context_fields :: "error_context \<Rightarrow> pydict" where
  "context_fields c =
     [(''service'', opt_str (ec_service c)), (''operation'', opt_str (ec_operation c)),
      (''method'', opt_str (ec_method c)), (''endpoint'', opt_str (ec_endpoint c)),
      (''status_code'', opt_int (ec_status_code c)), (''error_code'', opt_str (ec_error_code c)),
      (''upstream_message'', opt_str (ec_upstream_message c)),
      (''upstream_request_id'', opt_str (ec_upstream_request_id c)),
      (''fingerprint'', opt_str (ec_fingerprint c)),
      (''reference_number'', opt_str (ec_reference_number c)),
      (''correlation_id'', opt_str (ec_correlation_id c)), (''retryable'', PBool (ec_retryable c))]"

definition safe_dict :: "error_context \<Rightarrow> pydict" where
  "safe_dict c = map (\<lambda>(k, v). (k, safe_field k v)) (filter (\<lambda>(k, v). v \<noteq> PNone) (context_fields c))"

section \<open>The exception hierarchy\<close>

datatype error_kind =
    JibitError
  | JibitConfigurationError
  | JibitAuthenticationError
  | JibitAuthorizationError
  | JibitValidationError
  | JibitBusinessError
  | JibitRateLimitError
  | JibitTimeoutError
  | JibitNetworkError
  | JibitServerError
  | JibitResponseError
  | JibitWebhookVerificationError
  | JibitUnsupportedOperationError

fun kind_name :: "error_kind \<Rightarrow> string" where
  "kind_name JibitError = ''JibitError''"
| "kind_name JibitConfigurationError = ''JibitConfigurationError''"
| "kind_name JibitAuthenticationError = ''JibitAuthenticationError''"
| "kind_name JibitAuthorizationError = ''JibitAuthorizationError''"
| "kind_name JibitValidationError = ''JibitValidationError''"
| "kind_name JibitBusinessError = ''JibitBusinessError''"
| "kind_name JibitRateLimitError = ''JibitRateLimitError''"
| "kind_name JibitTimeoutError = ''JibitTimeoutError''"
| "kind_name JibitNetworkError = ''JibitNetworkError''"
| "kind_name JibitServerError = ''JibitServerError''"
| "kind_name JibitResponseError = ''JibitResponseError''"
| "kind_name JibitWebhookVerificationError = ''JibitWebhookVerificationError''"
| "kind_name JibitUnsupportedOperationError = ''JibitUnsupportedOperationError''"

record jibit_error =
  je_kind :: error_kind
  je_message :: string
  je_context :: error_context

definition default_message :: string where
  "default_message = ''A Jibit SDK error occurred''"

text \<open>\<open>JibitError.__init__(message, context=context)\<close>.\<close>

definition make_error :: "error_kind \<Rightarrow> string option \<Rightarrow> error_context option \<Rightarrow> jibit_error" where
  "make_error k message ctx = \<lparr>je_kind = k, je_message = redact_text (str_or message default_message),
     je_context = (case ctx of None \<Rightarrow> empty_context | Some c \<Rightarrow> c)\<rparr>"

text \<open>\<open>with_context(**changes)\<close>, the changes as an update of the record.\<close>

definition with_context :: "(error_context \<Rightarrow> error_context) \<Rightarrow> jibit_error \<Rightarrow> jibit_error" where
  "with_context change e = make_error (je_kind e) (Some (je_message e))
     (Some (context_post_init (change (je_context e))))"

text \<open>\<open>__repr__\<close>: \<open>rep\<close> stands for the \<open>!r\<close> conversions.\<close>

definition error_repr :: "(pyval \<Rightarrow> string) \<Rightarrow> jibit_error \<Rightarrow> string" where
  "error_repr rep e = kind_name (je_kind e) @ ''(message='' @ rep (PStr (je_message e)) @ '', context=''
     @ rep (PDict (safe_dict (je_context e))) @ '')''"

section \<open>Exceptions in flight\<close>

text \<open>
  What a call may raise: an SDK error, or an exception of Python or of an injected object. The
  subclasses of \<open>ValueError\<close> that the code distinguishes are separate constructors.
\<close>

datatype exn =
    Jibit jibit_error
  | ValueError
  | UnicodeDecodeError
  | JSONDecodeError
  | ValidationError
  | TypeError
  | OverflowError
  | OtherException string

fun is_value_error :: "exn \<Rightarrow> bool" where
  "is_value_error ValueError = True"
| "is_value_error UnicodeDecodeError = True"
| "is_value_error JSONDecodeError = True"
| "is_value_error ValidationError = True"
| "is_value_error _ = False"

fun exn_name :: "exn \<Rightarrow> string" where
  "exn_name (Jibit e) = kind_name (je_kind e)"
| "exn_name ValueError = ''ValueError''"
| "exn_name UnicodeDecodeError = ''UnicodeDecodeError''"
| "exn_name JSONDecodeError = ''JSONDecodeError''"
| "exn_name ValidationError = ''ValidationError''"
| "exn_name TypeError = ''TypeError''"
| "exn_name OverflowError = ''OverflowError''"
| "exn_name (OtherException n) = n"

definition is_jibit :: "error_kind set \<Rightarrow> exn \<Rightarrow> bool" where
  "is_jibit ks e = (case e of Jibit j \<Rightarrow> je_kind j \<in> ks | _ \<Rightarrow> False)"

abbreviation raise_jibit :: "error_kind \<Rightarrow> string \<Rightarrow> exn" where
  "raise_jibit k m \<equiv> Jibit (make_error k (Some m) None)"

section \<open>What contexts and messages reveal\<close>

lemma post_init_message: "ec_upstream_message (context_post_init c) \<in> {None, Some REDACTED}"
  by (auto simp: context_post_init_def)

lemma post_init_frame [simp]:
  "ec_service (context_post_init c) = ec_service c"
  "ec_operation (context_post_init c) = ec_operation c"
  "ec_method (context_post_init c) = ec_method c"
  "ec_endpoint (context_post_init c) = ec_endpoint c"
  "ec_status_code (context_post_init c) = ec_status_code c"
  "ec_error_code (context_post_init c) = ec_error_code c"
  "ec_correlation_id (context_post_init c) = ec_correlation_id c"
  "ec_retryable (context_post_init c) = ec_retryable c"
  by (simp_all add: context_post_init_def)

lemma post_init_idem [simp]: "context_post_init (context_post_init c) = context_post_init c"
  by (simp add: context_post_init_def)

lemma make_error_kind [simp]: "je_kind (make_error k m c) = k"
  by (simp add: make_error_def)

lemma make_error_context [simp]: "je_context (make_error k m (Some c)) = c"
  by (simp add: make_error_def)

lemma make_error_message_clean: "\<not> has_run 10 False (je_message (make_error k m c))"
  by (simp add: make_error_def redact_text_no_national_id)

lemma keys_safe_dict: "set (keys (safe_dict c)) \<subseteq> set (keys (context_fields c))"
  by (force simp: keys_def safe_dict_def)

lemma clean_safe_field: "(\<exists>s. v = PStr s) \<or> (\<exists>i. v = PInt i) \<or> (\<exists>b. v = PBool b) \<Longrightarrow>
    clean (safe_field k v)"
  by (auto simp: safe_field_def redact_text_no_national_id REDACTED_no_run)

definition scalar :: "pyval \<Rightarrow> bool" where
  "scalar v \<longleftrightarrow> (case v of PNone \<Rightarrow> True | PBool _ \<Rightarrow> True | PInt _ \<Rightarrow> True | PStr _ \<Rightarrow> True | _ \<Rightarrow> False)"

lemma scalar_opt [simp]: "scalar (opt_str a)" "scalar (opt_int b)" "scalar (PBool c)"
  by (simp_all add: scalar_def opt_str_def opt_int_def split: option.splits)

lemma context_fields_scalar: "list_all (\<lambda>(k, v). scalar v) (context_fields c)"
  by (simp add: context_fields_def)

lemma safe_dict_clean: "(k, v) \<in> set (safe_dict c) \<Longrightarrow> clean v"
proof -
  assume "(k, v) \<in> set (safe_dict c)"
  then obtain u where "(k, u) \<in> set (context_fields c)" and "u \<noteq> PNone" and v: "v = safe_field k u"
    by (auto simp: safe_dict_def)
  then have "scalar u" and "u \<noteq> PNone"
    using context_fields_scalar by (auto simp: list_all_iff)
  then show "clean v"
    unfolding v by (intro clean_safe_field) (auto simp: scalar_def split: pyval.splits)
qed

end
