(* ===== verification/Config.thy ===== *)
theory Config
  imports Types Exceptions
begin

text \<open>
  \<open>src/jibit/config.py\<close>. A configuration class is a record of its validated fields; the declared
  bounds of its fields and its model validator are the predicate or the check beside it. The
  parsing of raw values by pydantic is outside the model: \<open>from_mapping\<close> takes it as an argument.
  A URL is the text \<open>str()\<close> gives for the validated \<open>HttpUrl\<close>.
\<close>

section \<open>Configuration records\<close>

record timeout_config =
  tc_connect :: rat
  tc_read :: rat
  tc_write :: rat
  tc_pool :: rat

definition timeout_default :: timeout_config where
  "timeout_default = \<lparr>tc_connect = 5, tc_read = 30, tc_write = 30, tc_pool = 5\<rparr>"

definition timeout_ok :: "timeout_config \<Rightarrow> bool" where
  "timeout_ok t \<longleftrightarrow> 0 < tc_connect t \<and> 0 < tc_read t \<and> 0 < tc_write t \<and> 0 < tc_pool t"

record retry_config =
  rc_max_attempts :: int
  rc_base_delay :: rat
  rc_max_delay :: rat
  rc_jitter_ratio :: rat

definition retry_default :: retry_config where
  "retry_default =
     \<lparr>rc_max_attempts = 3, rc_base_delay = 1 / 4, rc_max_delay = 4, rc_jitter_ratio = 1 / 10\<rparr>"

definition retry_fields_ok :: "retry_config \<Rightarrow> bool" where
  "retry_fields_ok c \<longleftrightarrow> 1 \<le> rc_max_attempts c \<and> rc_max_attempts c \<le> 10
     \<and> 0 \<le> rc_base_delay c \<and> 0 \<le> rc_max_delay c
     \<and> 0 \<le> rc_jitter_ratio c \<and> rc_jitter_ratio c \<le> 1"

definition validate_delay_bounds :: "retry_config \<Rightarrow> string + retry_config" where
  "validate_delay_bounds c = (if rc_max_delay c < rc_base_delay c
     then Inl ''max_delay must be greater than or equal to base_delay'' else Inr c)"

definition retry_ok :: "retry_config \<Rightarrow> bool" where
  "retry_ok c \<longleftrightarrow> retry_fields_ok c \<and> validate_delay_bounds c = Inr c"

record logging_config =
  lg_logger_name :: string
  lg_enabled :: bool

definition logging_default :: logging_config where
  "logging_default = \<lparr>lg_logger_name = ''jibit_sdk'', lg_enabled = True\<rparr>"

definition logging_ok :: "logging_config \<Rightarrow> bool" where
  "logging_ok c \<longleftrightarrow> 1 \<le> length (lg_logger_name c)"

record auth_config =
  au_expiry_leeway_seconds :: int
  au_unknown_access_token_ttl_seconds :: "int option"
  au_cache_key_prefix :: string

definition auth_default :: auth_config where
  "auth_default = \<lparr>au_expiry_leeway_seconds = 60, au_unknown_access_token_ttl_seconds = None,
     au_cache_key_prefix = ''jibit:tokens''\<rparr>"

definition auth_ok :: "auth_config \<Rightarrow> bool" where
  "auth_ok c \<longleftrightarrow> 0 \<le> au_expiry_leeway_seconds c \<and> au_expiry_leeway_seconds c \<le> 3600
     \<and> (case au_unknown_access_token_ttl_seconds c of None \<Rightarrow> True | Some t \<Rightarrow> 60 \<le> t)
     \<and> 1 \<le> length (au_cache_key_prefix c) \<and> length (au_cache_key_prefix c) \<le> 100"

text \<open>A \<open>SecretStr\<close> is the text it wraps.\<close>

record credentials =
  cr_api_key :: "string option"
  cr_secret_key :: "string option"
  cr_username :: "string option"
  cr_password :: "string option"
  cr_access_token :: "string option"

definition require_a_complete_credential_pair :: "credentials \<Rightarrow> string + credentials" where
  "require_a_complete_credential_pair c =
     (let api_pair = cr_api_key c \<noteq> None \<or> cr_secret_key c \<noteq> None;
          user_pair = cr_username c \<noteq> None \<or> cr_password c \<noteq> None;
          token = cr_access_token c \<noteq> None
      in if api_pair \<and> (cr_api_key c = None \<or> cr_secret_key c = None)
         then Inl ''api_key and secret_key must be configured together''
         else if user_pair \<and> (cr_username c = None \<or> cr_password c = None)
         then Inl ''username and password must be configured together''
         else if of_bool api_pair + of_bool user_pair + of_bool token > (1 :: int)
         then Inl ''configure exactly one supported credential method''
         else if \<not> api_pair \<and> \<not> user_pair \<and> \<not> token
         then Inl ''a supported credential pair is required''
         else Inr c)"

record service_config =
  sc_credentials :: credentials
  sc_base_url :: "string option"
  sc_enabled :: bool
  sc_scopes :: "string list"

record jibit_config =
  cf_base_url :: string
  cf_timeout :: timeout_config
  cf_retry :: retry_config
  cf_auth :: auth_config
  cf_logging :: logging_config
  cf_services :: "service_name \<Rightarrow> service_config option"
  cf_verify_ssl :: bool
  cf_user_agent :: string

definition default_config :: "(service_name \<Rightarrow> service_config option) \<Rightarrow> jibit_config" where
  "default_config services = \<lparr>cf_base_url = ''https://napi.jibit.ir/'', cf_timeout = timeout_default,
     cf_retry = retry_default, cf_auth = auth_default, cf_logging = logging_default,
     cf_services = services, cf_verify_ssl = True, cf_user_agent = ''jibit-ir-sdk/0.1.0''\<rparr>"

definition config_ok :: "jibit_config \<Rightarrow> bool" where
  "config_ok c \<longleftrightarrow> timeout_ok (cf_timeout c) \<and> retry_ok (cf_retry c) \<and> auth_ok (cf_auth c)
     \<and> logging_ok (cf_logging c) \<and> 1 \<le> length (cf_user_agent c)
     \<and> list_all (\<lambda>s. case cf_services c s of None \<Rightarrow> True
          | Some sc \<Rightarrow> require_a_complete_credential_pair (sc_credentials sc) = Inr (sc_credentials sc))
        all_services"

section \<open>Looking a service up\<close>

text \<open>\<open>JibitConfig.service\<close>: the configuration of an enabled service, or a configuration error.\<close>

definition config_service :: "jibit_config \<Rightarrow> service_name \<Rightarrow> exn + service_config" where
  "config_service cfg name = (case cf_services cfg name of
       Some sc \<Rightarrow> if sc_enabled sc then Inr sc
         else Inl (raise_jibit JibitConfigurationError
           (''Service '' @ [CHR 39] @ service_value name @ [CHR 39] @ '' is not configured''))
     | None \<Rightarrow> Inl (raise_jibit JibitConfigurationError
           (''Service '' @ [CHR 39] @ service_value name @ [CHR 39] @ '' is not configured'')))"

section \<open>Reading a mapping\<close>

definition CREDENTIAL_KEYS :: "string list" where
  "CREDENTIAL_KEYS = [''api_key'', ''secret_key'', ''username'', ''password'', ''access_token'']"

text \<open>
  \<open>{key: raw_service.pop(key) for key in credential_keys if key in raw_service}\<close> and what is left
  of \<open>raw_service\<close>. The source iterates a set; the order of the collected keys is fixed here.
\<close>

fun pop_keys :: "string list \<Rightarrow> pydict \<Rightarrow> pydict \<times> pydict" where
  "pop_keys [] d = ([], d)"
| "pop_keys (k # ks) d = (case dict_get d k of
       None \<Rightarrow> pop_keys ks d
     | Some v \<Rightarrow> (let (popped, rest) = pop_keys ks (dict_del k d) in ((k, v) # popped, rest)))"

definition lift_credentials :: "pyval \<Rightarrow> pyval" where
  "lift_credentials raw_service = (case raw_service of
       PDict d \<Rightarrow>
         if dict_has d ''credentials'' then raw_service
         else (let (popped, rest) = pop_keys CREDENTIAL_KEYS d
               in if popped \<noteq> [] then PDict (dict_set ''credentials'' (PDict popped) rest)
                  else PDict rest)
     | _ \<Rightarrow> raw_service)"

text \<open>
  Top-level entries named after a service move into the \<open>services\<close> mapping; they win over an
  entry of the same name there, because \<open>ServiceName\<close> members equal their string values.
\<close>

fun move_services :: "service_name list \<Rightarrow> pydict \<Rightarrow> pydict \<Rightarrow> pydict \<times> pydict" where
  "move_services [] raw services = (raw, services)"
| "move_services (s # ss) raw services = (case dict_get raw (service_value s) of
       None \<Rightarrow> move_services ss raw services
     | Some v \<Rightarrow> move_services ss (dict_del (service_value s) raw)
                   (dict_set (service_value s) v services))"

text \<open>
  The mapping handed to \<open>model_validate\<close>. A \<open>services\<close> entry that is not a mapping is outside the
  model: \<open>dict()\<close> of it raises a \<open>TypeError\<close> or a \<open>ValueError\<close>, or builds a dict from pairs.
\<close>

definition normalize_mapping :: "pydict \<Rightarrow> exn + pydict" where
  "normalize_mapping value =
     (case (case dict_get value ''services'' of None \<Rightarrow> PDict [] | Some v \<Rightarrow> v) of
        PDict services0 \<Rightarrow>
          (let (raw, services) = move_services all_services (dict_del ''services'' value) services0
           in Inr (dict_set ''services'' (PDict (map (\<lambda>(k, v). (k, lift_credentials v)) services)) raw))
      | _ \<Rightarrow> Inl TypeError)"

definition from_mapping :: "(pydict \<Rightarrow> exn + jibit_config) \<Rightarrow> pydict \<Rightarrow> exn + jibit_config" where
  "from_mapping model_validate value =
     (case normalize_mapping value of Inl e \<Rightarrow> Inl e | Inr raw \<Rightarrow> model_validate raw)"

section \<open>Properties of the configuration code\<close>

lemma credentials_exactly_one:
  "require_a_complete_credential_pair c = Inr c' \<longleftrightarrow> c' = c \<and>
     ((\<exists>k s. c = \<lparr>cr_api_key = Some k, cr_secret_key = Some s, cr_username = None,
         cr_password = None, cr_access_token = None\<rparr>)
      \<or> (\<exists>u p. c = \<lparr>cr_api_key = None, cr_secret_key = None, cr_username = Some u,
         cr_password = Some p, cr_access_token = None\<rparr>)
      \<or> (\<exists>t. c = \<lparr>cr_api_key = None, cr_secret_key = None, cr_username = None,
         cr_password = None, cr_access_token = Some t\<rparr>))"
  by (cases c) (auto simp: require_a_complete_credential_pair_def Let_def split: if_splits)

lemma pop_keys_rest:
  "pop_keys ks d = (popped, rest) \<Longrightarrow>
     dict_get rest k = (if k \<in> set ks then None else dict_get d k)"
proof (induction ks arbitrary: d popped)
  case (Cons x xs)
  then show ?case
    by (cases "dict_get d x") (auto split: prod.splits if_splits)
qed simp

lemma pop_keys_popped:
  "distinct ks \<Longrightarrow> pop_keys ks d = (popped, rest) \<Longrightarrow>
     dict_get popped k = (if k \<in> set ks then dict_get d k else None)"
proof (induction ks arbitrary: d popped)
  case (Cons x xs)
  then show ?case
    by (cases "dict_get d x") (auto split: prod.splits if_splits)
qed simp

lemma pop_keys_none:
  "\<forall>k \<in> set ks. dict_get d k = None \<Longrightarrow> pop_keys ks d = ([], d)"
  by (induction ks) auto

lemma lift_credentials_idem [simp]: "lift_credentials (lift_credentials v) = lift_credentials v"
proof (cases v)
  case (PDict d)
  show ?thesis
  proof (cases "dict_has d ''credentials''")
    case True
    then show ?thesis using PDict by (simp add: lift_credentials_def)
  next
    case False
    obtain popped rest where p: "pop_keys CREDENTIAL_KEYS d = (popped, rest)"
      by (cases "pop_keys CREDENTIAL_KEYS d")
    show ?thesis
    proof (cases "popped = []")
      case True
      have "\<forall>k \<in> set CREDENTIAL_KEYS. dict_get rest k = None"
        using pop_keys_rest [OF p] by simp
      then have again: "pop_keys CREDENTIAL_KEYS rest = ([], rest)"
        by (rule pop_keys_none)
      have "dict_get rest ''credentials'' = dict_get d ''credentials''"
        using pop_keys_rest [OF p] by (simp add: CREDENTIAL_KEYS_def)
      then have "\<not> dict_has rest ''credentials''"
        using False by (simp add: dict_has_def dict_get_def)
      then show ?thesis
        using PDict False p True again by (simp add: lift_credentials_def)
    next
      case nonempty: False
      have "dict_has (dict_set ''credentials'' (PDict popped) rest) ''credentials''"
        using dict_get_set by (simp add: dict_has_def flip: dict_get_def)
      then show ?thesis
        using PDict False p nonempty by (simp add: lift_credentials_def)
    qed
  qed
qed (simp_all add: lift_credentials_def)

lemma move_services_raw:
  "move_services ss raw sv = (raw', sv') \<Longrightarrow>
     dict_get raw' k = (if k \<in> service_value ` set ss then None else dict_get raw k)"
proof (induction ss arbitrary: raw sv)
  case (Cons s ss)
  then show ?case
    by (cases "dict_get raw (service_value s)") (auto split: if_splits)
qed simp

lemma move_services_services:
  "distinct ss \<Longrightarrow> move_services ss raw sv = (raw', sv') \<Longrightarrow>
     dict_get sv' k = (if k \<in> service_value ` set ss \<and> dict_get raw k \<noteq> None
       then dict_get raw k else dict_get sv k)"
proof (induction ss arbitrary: raw sv)
  case (Cons s ss)
  then show ?case
    by (cases "dict_get raw (service_value s)") (auto split: if_splits)
qed simp

lemma move_services_none:
  "\<forall>s \<in> set ss. dict_get raw (service_value s) = None \<Longrightarrow> move_services ss raw sv = (raw, sv)"
  by (induction ss) auto

lemma dict_get_map_values:
  "dict_get (map (\<lambda>(k, v). (k, f v)) d) k = map_option f (dict_get d k)"
  by (simp add: dict_get_def map_of_map)

lemma distinct_all_services [simp]: "distinct all_services"
  by (simp add: all_services_def)

lemma normalize_mapping_Inr:
  "normalize_mapping value = Inr out \<longleftrightarrow>
     (\<exists>services0 raw services.
        (case dict_get value ''services'' of None \<Rightarrow> PDict [] | Some v \<Rightarrow> v) = PDict services0 \<and>
        move_services all_services (dict_del ''services'' value) services0 = (raw, services) \<and>
        out = dict_set ''services'' (PDict (map (\<lambda>(k, v). (k, lift_credentials v)) services)) raw)"
  unfolding normalize_mapping_def
  by (simp split: pyval.splits prod.splits) auto

end
