(* ===== verification/Retry.thy ===== *)
theory Retry
  imports Config
begin

text \<open>
  \<open>src/jibit/retry.py\<close>: the safety class of an operation and the decision whether the engine may
  repeat an attempt. The delays are exact rationals; the random source is an argument.
\<close>

definition TRANSIENT_STATUS_CODES :: "int set" where
  "TRANSIENT_STATUS_CODES = {408, 425, 429, 500, 502, 503, 504}"

datatype operation_safety = READ_ONLY | IDEMPOTENT | IDEMPOTENCY_PROTECTED | UNSAFE

fun safety_value :: "operation_safety \<Rightarrow> string" where
  "safety_value READ_ONLY = ''read_only''"
| "safety_value IDEMPOTENT = ''idempotent''"
| "safety_value IDEMPOTENCY_PROTECTED = ''idempotency_protected''"
| "safety_value UNSAFE = ''unsafe''"

record retry_decision =
  rd_should_retry :: bool
  rd_delay :: rat
  rd_reason :: string

definition no_retry :: "string \<Rightarrow> retry_decision" where
  "no_retry reason = \<lparr>rd_should_retry = False, rd_delay = 0, rd_reason = reason\<rparr>"

text \<open>\<open>base_delay * (2 ** (attempt - 1))\<close>, capped; attempts count from one.\<close>

definition backoff_base :: "retry_config \<Rightarrow> int \<Rightarrow> rat" where
  "backoff_base cfg attempt =
     min (rc_max_delay cfg) (rc_base_delay cfg * 2 powi (attempt - 1))"

text \<open>
  \<open>RetryPolicy.decide\<close>. The random source is drawn only when the attempt is to be repeated, which
  the second component of the result counts.
\<close>

definition decide ::
  "retry_config \<Rightarrow> rat \<Rightarrow> int \<Rightarrow> operation_safety \<Rightarrow> int option \<Rightarrow> bool \<Rightarrow> bool
     \<Rightarrow> retry_decision \<times> nat" where
  "decide cfg rnd attempt safety status_code transport_error has_idempotency_key =
     (if rc_max_attempts cfg \<le> attempt then (no_retry ''attempt_limit'', 0)
      else if safety = UNSAFE then (no_retry ''unsafe_operation'', 0)
      else if safety = IDEMPOTENCY_PROTECTED \<and> \<not> has_idempotency_key
      then (no_retry ''missing_idempotency_key'', 0)
      else if \<not> transport_error \<and>
        (case status_code of None \<Rightarrow> True | Some sc \<Rightarrow> sc \<notin> TRANSIENT_STATUS_CODES)
      then (no_retry ''non_transient_response'', 0)
      else (let base = backoff_base cfg attempt;
                jitter = base * rc_jitter_ratio cfg * rnd;
                reason = (if transport_error then ''transport_error''
                  else ''http_'' @ (case status_code of None \<Rightarrow> ''None'' | Some sc \<Rightarrow> show_int sc))
            in (\<lparr>rd_should_retry = True, rd_delay = min (rc_max_delay cfg) (base + jitter),
                 rd_reason = reason\<rparr>, 1)))"

section \<open>Which operations may be repeated\<close>

text \<open>The classes the documentation calls repeatable.\<close>

definition repeatable :: "operation_safety \<Rightarrow> bool \<Rightarrow> bool" where
  "repeatable safety has_key \<longleftrightarrow>
     safety \<in> {READ_ONLY, IDEMPOTENT} \<or> (safety = IDEMPOTENCY_PROTECTED \<and> has_key)"

definition transient :: "int option \<Rightarrow> bool \<Rightarrow> bool" where
  "transient status_code transport_error \<longleftrightarrow> transport_error
     \<or> (\<exists>sc \<in> TRANSIENT_STATUS_CODES. status_code = Some sc)"

lemma should_retry_iff:
  "rd_should_retry (fst (decide cfg rnd attempt safety sc te hk)) \<longleftrightarrow>
     attempt < rc_max_attempts cfg \<and> repeatable safety hk \<and> transient sc te"
  by (cases safety) (auto simp: decide_def no_retry_def repeatable_def transient_def Let_def
      split: option.splits)

lemma decide_unsafe: "\<not> rd_should_retry (fst (decide cfg rnd attempt UNSAFE sc te hk))"
  by (simp add: should_retry_iff repeatable_def)

lemma should_retry_attempt:
  "rd_should_retry (fst (decide cfg rnd attempt s sc te hk)) \<Longrightarrow> attempt < rc_max_attempts cfg"
  by (simp add: should_retry_iff)

lemma decide_draws: "snd (decide cfg rnd attempt s sc te hk) =
    (if rd_should_retry (fst (decide cfg rnd attempt s sc te hk)) then 1 else 0)"
  by (auto simp: decide_def no_retry_def Let_def split: option.splits)

section \<open>Bounds on the delay\<close>

lemma backoff_base_nonneg:
  "retry_fields_ok cfg \<Longrightarrow> 0 \<le> backoff_base cfg attempt"
  by (simp add: backoff_base_def retry_fields_ok_def)

lemma backoff_base_mono:
  assumes "retry_fields_ok cfg" and "a \<le> b"
  shows "backoff_base cfg a \<le> backoff_base cfg b"
proof -
  have "(2 :: rat) powi (a - 1) \<le> 2 powi (b - 1)"
    using assms(2) by (simp add: power_int_increasing)
  then have "rc_base_delay cfg * 2 powi (a - 1) \<le> rc_base_delay cfg * 2 powi (b - 1)"
    using assms(1) by (simp add: mult_left_mono retry_fields_ok_def)
  then show ?thesis by (simp add: backoff_base_def min.mono)
qed

lemma decide_delay:
  "rd_should_retry (fst (decide cfg rnd attempt s sc te hk)) \<Longrightarrow>
   rd_delay (fst (decide cfg rnd attempt s sc te hk)) =
     min (rc_max_delay cfg)
       (backoff_base cfg attempt + backoff_base cfg attempt * rc_jitter_ratio cfg * rnd)"
  by (auto simp: decide_def no_retry_def Let_def split: if_splits)

lemma delay_at_most_max:
  assumes "retry_fields_ok cfg"
  shows "rd_delay (fst (decide cfg rnd attempt s sc te hk)) \<le> rc_max_delay cfg"
proof (cases "rd_should_retry (fst (decide cfg rnd attempt s sc te hk))")
  case True
  then show ?thesis by (simp add: decide_delay)
next
  case False
  then have "rd_delay (fst (decide cfg rnd attempt s sc te hk)) = 0"
    by (auto simp: decide_def no_retry_def Let_def split: if_splits)
  then show ?thesis using assms by (simp add: retry_fields_ok_def)
qed

lemma delay_at_least_base:
  assumes "retry_fields_ok cfg" and "0 \<le> rnd"
    and "rd_should_retry (fst (decide cfg rnd attempt s sc te hk))"
  shows "backoff_base cfg attempt \<le> rd_delay (fst (decide cfg rnd attempt s sc te hk))"
proof -
  have "0 \<le> backoff_base cfg attempt * rc_jitter_ratio cfg * rnd"
    using assms(1,2) backoff_base_nonneg [OF assms(1)] by (simp add: retry_fields_ok_def)
  moreover have "backoff_base cfg attempt \<le> rc_max_delay cfg"
    by (simp add: backoff_base_def)
  ultimately show ?thesis using assms(3) by (simp add: decide_delay)
qed

end
