(* ===== verification/Transport.thy ===== *)
theory Transport
  imports Retry
begin

text \<open>
  \<open>src/jibit/transport.py\<close>: the transport-neutral request and response, the failures a transport
  signals, and the default transport over an \<open>httpx\<close> client. The \<open>httpx\<close> client itself is not
  under \<open>src/\<close>: it is the argument \<open>client\<close> of \<open>httpx_send\<close>, with its documented outcomes.
\<close>

record transport_request =
  tr_method :: string
  tr_url :: string
  tr_headers :: "string dict"
  tr_params :: "pydict option"
  tr_json :: pyval
  tr_content :: "string option"
  tr_multipart :: "multipart_part list option"
  tr_timeout :: "timeout_config option"

record transport_response =
  rs_status_code :: int
  rs_headers :: "string dict"
  rs_content :: string

text \<open>What one \<open>send\<close> does: return, signal one of the two transport failures, or raise.\<close>

datatype send_outcome =
    Received transport_response
  | TransportTimeoutError
  | TransportNetworkError
  | SendRaised exn

section \<open>The httpx transport\<close>

text \<open>\<open>httpx.TimeoutException\<close> is itself a subclass of \<open>httpx.RequestError\<close>; it is tested first.\<close>

datatype httpx_outcome =
    HttpxResponse int "string dict" string
  | HttpxTimeoutException
  | HttpxRequestError
  | HttpxRaised exn

text \<open>The keyword arguments of \<open>httpx.Client.request\<close>.\<close>

record httpx_call =
  hx_method :: string
  hx_url :: string
  hx_headers :: "string dict"
  hx_params :: "pydict option"
  hx_json :: pyval
  hx_content :: "string option"
  hx_files :: "(string \<times> string option \<times> string \<times> string option) list option"
  hx_timeout :: "timeout_config option"

definition httpx_file :: "multipart_part \<Rightarrow> string \<times> string option \<times> string \<times> string option" where
  "httpx_file part = (mp_name part,
     (if mp_kind part = FILE then mp_filename part else None), mp_value part, mp_content_type part)"

definition httpx_call_of :: "transport_request \<Rightarrow> httpx_call" where
  "httpx_call_of r = \<lparr>hx_method = tr_method r, hx_url = tr_url r, hx_headers = tr_headers r,
     hx_params = tr_params r, hx_json = tr_json r, hx_content = tr_content r,
     hx_files = map_option (map httpx_file) (tr_multipart r), hx_timeout = tr_timeout r\<rparr>"

definition httpx_send :: "(httpx_call \<Rightarrow> httpx_outcome) \<Rightarrow> transport_request \<Rightarrow> send_outcome" where
  "httpx_send client r = (case client (httpx_call_of r) of
       HttpxTimeoutException \<Rightarrow> TransportTimeoutError
     | HttpxRequestError \<Rightarrow> TransportNetworkError
     | HttpxRaised e \<Rightarrow> SendRaised e
     | HttpxResponse sc hs body \<Rightarrow> Received \<lparr>rs_status_code = sc, rs_headers = hs, rs_content = body\<rparr>)"

lemma httpx_file_name: "mp_kind part = FIELD \<Longrightarrow> fst (snd (httpx_file part)) = None"
  by (simp add: httpx_file_def)

end
