(* ===== verification/World.thy ===== *)
theory World
  imports Transport
begin

text \<open>
  What the SDK's objects act on. The environment \<open>env\<close> holds the injected or external functions:
  the transport, the clocks, the random source, the identifier factory, the audit sink, the lock
  provider's behaviour on entering and leaving, the SHA-256 digest and the JSON decoder. Each is a function of the number of earlier calls, so
  it may answer differently every time. The world \<open>'st world\<close> records the effects: requests handed
  to the transport, log records, sleeps, audit events handed to the sink, the locks held, how often
  each source was read, and the token store's own state.

  The logger and the audit events of \<open>src/jibit/logging.py\<close> are here because they write the world.
\<close>

section \<open>Log records and audit events\<close>

datatype level = INFO | WARNING | ERROR

definition REQUEST_STARTED :: string where "REQUEST_STARTED = ''jibit.request.started''"
definition REQUEST_COMPLETED :: string where "REQUEST_COMPLETED = ''jibit.request.completed''"
definition REQUEST_FAILED :: string where "REQUEST_FAILED = ''jibit.request.failed''"
definition RETRY_SCHEDULED :: string where "RETRY_SCHEDULED = ''jibit.request.retry_scheduled''"
definition TOKEN_ACQUIRED :: string where "TOKEN_ACQUIRED = ''jibit.token.acquired''"
definition TOKEN_REFRESHED :: string where "TOKEN_REFRESHED = ''jibit.token.refreshed''"
definition TOKEN_REFRESH_FAILED :: string where
  "TOKEN_REFRESH_FAILED = ''jibit.token.refresh_failed''"
definition AUDIT_EMIT_FAILED :: string where "AUDIT_EMIT_FAILED = ''jibit.audit.emit_failed''"
definition WEBHOOK_RECEIVED :: string where "WEBHOOK_RECEIVED = ''jibit.webhook.received''"
definition WEBHOOK_REJECTED :: string where "WEBHOOK_REJECTED = ''jibit.webhook.rejected''"

record log_record =
  lr_level :: level
  lr_event :: string
  lr_fields :: pyval

record audit_event =
  ae_name :: string
  ae_correlation_id :: string
  ae_service :: string
  ae_operation :: string
  ae_outcome :: string
  ae_metadata :: pyval

text \<open>Constructing an \<open>AuditEvent\<close> redacts its metadata.\<close>

definition make_audit_event ::
  "string \<Rightarrow> string \<Rightarrow> string \<Rightarrow> string \<Rightarrow> string \<Rightarrow> pydict \<Rightarrow> audit_event" where
  "make_audit_event name correlation_id service operation outcome metadata =
     \<lparr>ae_name = name, ae_correlation_id = correlation_id, ae_service = service,
      ae_operation = operation, ae_outcome = outcome, ae_metadata = redact None (PDict metadata)\<rparr>"

definition audit_safe_dict :: "audit_event \<Rightarrow> pyval" where
  "audit_safe_dict e = redact None (PDict
     [(''name'', PStr (ae_name e)), (''correlation_id'', PStr (ae_correlation_id e)),
      (''service'', PStr (ae_service e)), (''operation'', PStr (ae_operation e)),
      (''outcome'', PStr (ae_outcome e)), (''metadata'', ae_metadata e)])"

section \<open>Environment and world\<close>

record env =
  e_send :: "nat \<Rightarrow> transport_request \<Rightarrow> send_outcome"
  e_monotonic :: "nat \<Rightarrow> rat"
  e_clock :: "nat \<Rightarrow> rat"
  e_random :: "nat \<Rightarrow> rat"
  e_new_id :: "nat \<Rightarrow> string"
  e_sink :: "nat \<Rightarrow> audit_event \<Rightarrow> exn option"
  e_lock :: "nat \<Rightarrow> string \<Rightarrow> exn option"
  e_unlock :: "nat \<Rightarrow> string \<Rightarrow> exn option"
  e_sha256_hex :: "string \<Rightarrow> string"
  e_json_loads :: "string \<Rightarrow> exn + pyval"
  e_repr :: "pyval \<Rightarrow> string"

record 'st world =
  w_sent :: "transport_request list"
  w_logs :: "log_record list"
  w_sleeps :: "rat list"
  w_audits :: "audit_event list"
  w_monotonic :: nat
  w_clock :: nat
  w_random :: nat
  w_ids :: nat
  w_locks :: nat
  w_held :: "string list"
  w_store :: 'st

type_synonym ('st, 'a) action = "(exn, 'st world, 'a) comp"

definition initial_world :: "'st \<Rightarrow> 'st world" where
  "initial_world s = \<lparr>w_sent = [], w_logs = [], w_sleeps = [], w_audits = [], w_monotonic = 0,
     w_clock = 0, w_random = 0, w_ids = 0, w_locks = 0, w_held = [], w_store = s\<rparr>"

section \<open>Reading the sources\<close>

definition read_monotonic :: "env \<Rightarrow> ('st, rat) action" where
  "read_monotonic e = (\<lambda>w. (Inr (e_monotonic e (w_monotonic w)), w\<lparr>w_monotonic := Suc (w_monotonic w)\<rparr>))"

definition read_clock :: "env \<Rightarrow> ('st, rat) action" where
  "read_clock e = (\<lambda>w. (Inr (e_clock e (w_clock w)), w\<lparr>w_clock := Suc (w_clock w)\<rparr>))"

definition new_id :: "env \<Rightarrow> ('st, string) action" where
  "new_id e = (\<lambda>w. (Inr (e_new_id e (w_ids w)), w\<lparr>w_ids := Suc (w_ids w)\<rparr>))"

definition sleep :: "rat \<Rightarrow> ('st, unit) action" where
  "sleep d = modifyM (\<lambda>w. w\<lparr>w_sleeps := w_sleeps w @ [d]\<rparr>)"

section \<open>Emitting\<close>

text \<open>\<open>StructuredLogger.emit\<close>: one redacted record, or nothing when the logger is disabled.\<close>

definition emit :: "bool \<Rightarrow> level \<Rightarrow> string \<Rightarrow> pydict \<Rightarrow> ('st, unit) action" where
  "emit enabled lvl event flds = modifyM (\<lambda>w. if enabled
     then w\<lparr>w_logs := w_logs w
       @ [\<lparr>lr_level = lvl, lr_event = event, lr_fields = redact None (PDict flds)\<rparr>]\<rparr>
     else w)"

text \<open>Handing an event to the application's sink, which may raise.\<close>

definition sink_emit :: "env \<Rightarrow> audit_event \<Rightarrow> ('st, unit) action" where
  "sink_emit e ev = (\<lambda>w. (case e_sink e (length (w_audits w)) ev of None \<Rightarrow> Inr () | Some x \<Rightarrow> Inl x,
     w\<lparr>w_audits := w_audits w @ [ev]\<rparr>))"

section \<open>Effects only grow\<close>

text \<open>
  The traces of a later world extend those of an earlier one, no source was read backwards, and
  the same locks are held. Every public method of the SDK keeps this relation.
\<close>

definition extends :: "'st world \<Rightarrow> 'st world \<Rightarrow> bool" where
  "extends w w' \<longleftrightarrow> prefix (w_sent w) (w_sent w') \<and> prefix (w_logs w) (w_logs w')
     \<and> prefix (w_sleeps w) (w_sleeps w') \<and> prefix (w_audits w) (w_audits w')
     \<and> w_monotonic w \<le> w_monotonic w' \<and> w_clock w \<le> w_clock w' \<and> w_random w \<le> w_random w'
     \<and> w_ids w \<le> w_ids w' \<and> w_locks w \<le> w_locks w' \<and> w_held w' = w_held w"

lemma reflp_extends [intro, simp]: "reflp extends"
  by (simp add: reflp_def extends_def)

lemma transp_extends [intro, simp]: "transp extends"
  by (rule transpI) (auto simp: extends_def intro: prefix_order.trans)

lemma extends_refl [simp]: "extends w w"
  by (simp add: extends_def)

lemma extends_trans: "extends u v \<Longrightarrow> extends v w \<Longrightarrow> extends u w"
  using transp_extends by (blast dest: transpD)

lemma keeps_extends_sources [effects]:
  "keeps extends (read_monotonic e)" "keeps extends (read_clock e)" "keeps extends (new_id e)"
  "keeps extends (sleep d)" "keeps extends (emit b l ev fs)" "keeps extends (sink_emit e ae)"
  by (simp_all add: keeps_def extends_def read_monotonic_def read_clock_def new_id_def sleep_def
      emit_def sink_emit_def modifyM_def)

text \<open>Which actions leave the requests, the store and the audit trace alone.\<close>

definition quiet :: "'st world \<Rightarrow> 'st world \<Rightarrow> bool" where
  "quiet w w' \<longleftrightarrow> w_sent w' = w_sent w \<and> w_store w' = w_store w \<and> w_audits w' = w_audits w
     \<and> w_held w' = w_held w"

lemma quiet_refl [simp]: "quiet w w"
  by (simp add: quiet_def)

lemma quiet_emit [simp]: "quiet w (snd (emit b l ev fs w))"
  by (simp add: quiet_def emit_def modifyM_def)

lemma emit_result [simp]: "fst (emit b l ev fs w) = Inr ()"
  by (simp add: emit_def modifyM_def)

lemma emit_Inr: "emit b l ev fs w = (r, w') \<Longrightarrow> r = Inr ()"
  by (auto simp: emit_def modifyM_def)

section \<open>Everything emitted is clean\<close>

definition all_clean :: "'st world \<Rightarrow> bool" where
  "all_clean w \<longleftrightarrow> list_all (\<lambda>r. clean (lr_fields r)) (w_logs w)
     \<and> list_all (\<lambda>a. clean (ae_metadata a)) (w_audits w)"

lemma make_audit_event_clean [simp]: "clean (ae_metadata (make_audit_event n c s oper out m))"
  by (simp add: make_audit_event_def clean_redact)

lemma emit_clean: "all_clean w \<Longrightarrow> all_clean (snd (emit b l ev fs w))"
  by (simp add: all_clean_def emit_def modifyM_def clean_redact)

lemma sink_emit_clean:
  "clean (ae_metadata a) \<Longrightarrow> all_clean w \<Longrightarrow> all_clean (snd (sink_emit e a w))"
  by (simp add: all_clean_def sink_emit_def)

end
