(* ===== verification/Utf8.thy ===== *)
theory Utf8
  imports Prelude
begin

text \<open>
  UTF-8 as Python decodes it, on bytes and code points as numbers: the strict decoder and the one of
  \<open>errors="replace"\<close>, which puts one replacement character for each longest piece that could have begun
  a character.
\<close>

section \<open>Encoding\<close>

definition code_point :: "nat \<Rightarrow> bool" where
  "code_point c \<longleftrightarrow> c < 0xD800 \<or> (0xDFFF < c \<and> c < 0x110000)"

definition encode_char :: "nat \<Rightarrow> nat list" where
  "encode_char c =
     (if c < 0x80 then [c]
      else if c < 0x800 then [0xC0 + c div 64, 0x80 + c mod 64]
      else if c < 0x10000 then [0xE0 + c div 4096, 0x80 + c div 64 mod 64, 0x80 + c mod 64]
      else [0xF0 + c div 262144, 0x80 + c div 4096 mod 64, 0x80 + c div 64 mod 64, 0x80 + c mod 64])"

definition utf8_encode :: "nat list \<Rightarrow> nat list" where
  "utf8_encode cs = concat (map encode_char cs)"

section \<open>Decoding\<close>

text \<open>A lead byte: how many bytes follow, the range of the next one, and the bits of the lead.\<close>

definition lead_byte :: "nat \<Rightarrow> (nat \<times> nat \<times> nat \<times> nat) option" where
  "lead_byte b =
     (if b < 0x80 then Some (0, 0x80, 0xBF, b)
      else if b < 0xC2 then None
      else if b < 0xE0 then Some (1, 0x80, 0xBF, b - 0xC0)
      else if b < 0xF0 then
        Some (2, if b = 0xE0 then 0xA0 else 0x80, if b = 0xED then 0x9F else 0xBF, b - 0xE0)
      else if b < 0xF5 then
        Some (3, if b = 0xF0 then 0x90 else 0x80, if b = 0xF4 then 0x8F else 0xBF, b - 0xF0)
      else None)"

text \<open>The bytes that follow: the code point, or nothing, and how many bytes were taken.\<close>

fun follow :: "nat \<Rightarrow> nat \<Rightarrow> nat \<Rightarrow> nat \<Rightarrow> nat \<Rightarrow> nat list \<Rightarrow> nat option \<times> nat" where
  "follow 0 lo hi v k bs = (Some v, k)"
| "follow (Suc n) lo hi v k [] = (None, k)"
| "follow (Suc n) lo hi v k (b # bs) =
     (if lo \<le> b \<and> b \<le> hi then follow n 0x80 0xBF (v * 64 + (b - 0x80)) (Suc k) bs else (None, k))"

definition decode_char :: "nat \<Rightarrow> nat list \<Rightarrow> nat option \<times> nat" where
  "decode_char b bs = (case lead_byte b of
       None \<Rightarrow> (None, 1)
     | Some (n, lo, hi, v) \<Rightarrow> follow n lo hi v 1 bs)"

lemma follow_count: "k \<le> snd (follow n lo hi v k bs) \<and> snd (follow n lo hi v k bs) \<le> k + length bs"
proof (induction n lo hi v k bs rule: follow.induct)
  case (3 n lo hi v k b bs)
  then show ?case by (cases "lo \<le> b \<and> b \<le> hi") (auto dest!: 3)
qed simp_all

lemma decode_char_count: "1 \<le> snd (decode_char b bs)" "snd (decode_char b bs) \<le> Suc (length bs)"
  using follow_count [of 1] by (auto simp: decode_char_def split: option.split prod.split)

function utf8_replace :: "nat list \<Rightarrow> nat list" where
  "utf8_replace [] = []"
| "utf8_replace (b # bs) = (case fst (decode_char b bs) of Some c \<Rightarrow> c | None \<Rightarrow> 0xFFFD)
     # utf8_replace (drop (snd (decode_char b bs) - 1) bs)"
  by pat_completeness auto
termination
  by (relation "measure length") (auto simp: less_Suc_eq_le)

function utf8_strict :: "nat list \<Rightarrow> nat list option" where
  "utf8_strict [] = Some []"
| "utf8_strict (b # bs) = (case fst (decode_char b bs) of
       None \<Rightarrow> None
     | Some c \<Rightarrow> map_option (Cons c) (utf8_strict (drop (snd (decode_char b bs) - 1) bs)))"
  by pat_completeness auto
termination
  by (relation "measure length") (auto simp: less_Suc_eq_le)

section \<open>Round trip\<close>

text \<open>A code point by its groups of six bits.\<close>

lemma split_64: "(c::nat) = c div 64 * 64 + c mod 64"
  by simp

lemma split_4096: "(c::nat) = (c div 4096 * 64 + c div 64 mod 64) * 64 + c mod 64"
proof -
  have "c div 4096 = c div 64 div 64"
    using div_mult2_eq [of c 64 64] by simp
  then show ?thesis
    by simp
qed

lemma split_262144:
  "(c::nat) = ((c div 262144 * 64 + c div 4096 mod 64) * 64 + c div 64 mod 64) * 64 + c mod 64"
proof -
  have "c div 262144 = c div 4096 div 64" "c div 4096 = c div 64 div 64"
    using div_mult2_eq [of c 4096 64] div_mult2_eq [of c 64 64] by simp_all
  then show ?thesis
    by simp
qed

lemma follow_step:
  "0 < n \<Longrightarrow> follow n lo hi v k (b # bs) =
     (if lo \<le> b \<and> b \<le> hi then follow (n - 1) 0x80 0xBF (v * 64 + (b - 0x80)) (Suc k) bs else (None, k))"
  by (cases n) simp_all

lemma decode_two:
  "2 \<le> a \<Longrightarrow> a < 32 \<Longrightarrow> d < 64 \<Longrightarrow>
   decode_char (0xC0 + a) ((0x80 + d) # rest) = (Some (a * 64 + d), 2)"
  by (simp add: decode_char_def lead_byte_def follow_step)

lemma decode_three:
  assumes "a < 16" "b < 64" "d < 64" and "a = 0 \<Longrightarrow> 32 \<le> b" and "a = 13 \<Longrightarrow> b < 32"
  shows "decode_char (0xE0 + a) ((0x80 + b) # (0x80 + d) # rest) = (Some ((a * 64 + b) * 64 + d), 3)"
proof -
  have "lead_byte (0xE0 + a) = Some (2, if a = 0 then 0xA0 else 0x80, if a = 13 then 0x9F else 0xBF, a)"
    using assms(1) by (simp add: lead_byte_def)
  then show ?thesis
    using assms by (auto simp: decode_char_def follow_step not_le)
qed

lemma decode_four:
  assumes "a < 5" "b < 64" "d < 64" "e < 64" and "a = 0 \<Longrightarrow> 16 \<le> b" and "a = 4 \<Longrightarrow> b < 16"
  shows "decode_char (0xF0 + a) ((0x80 + b) # (0x80 + d) # (0x80 + e) # rest) =
    (Some (((a * 64 + b) * 64 + d) * 64 + e), 4)"
proof -
  have "lead_byte (0xF0 + a) = Some (3, if a = 0 then 0x90 else 0x80, if a = 4 then 0x8F else 0xBF, a)"
    using assms(1) by (simp add: lead_byte_def)
  then show ?thesis
    using assms by (auto simp: decode_char_def follow_step not_le)
qed

lemma groups_three:
  assumes "0x800 \<le> c" "c < 0x10000" "code_point c"
  shows "c div 4096 < 16" "c div 64 mod 64 < 64" "c mod 64 < 64"
    and "c div 4096 = 0 \<Longrightarrow> 32 \<le> c div 64 mod 64" "c div 4096 = 13 \<Longrightarrow> c div 64 mod 64 < 32"
proof -
  have c: "c div 4096 = c div 64 div 64"
    using div_mult2_eq [of c 64 64] by simp
  show "c div 4096 < 16" "c div 64 mod 64 < 64" "c mod 64 < 64"
    using assms by auto
  show "32 \<le> c div 64 mod 64" if "c div 4096 = 0"
    using assms(1) that unfolding c by simp
  show "c div 64 mod 64 < 32" if "c div 4096 = 13"
  proof -
    have "c = 4096 * 13 + c mod 4096" "c mod 4096 < 4096"
      using mult_div_mod_eq [of 4096 c] that by simp_all
    then have "c < 0xD800"
      using assms(3) unfolding code_point_def by linarith
    then have "c div 64 < 864"
      by simp
    then show ?thesis
      using that mult_div_mod_eq [of 64 "c div 64"] unfolding c by linarith
  qed
qed

lemma groups_four:
  fixes c :: nat
  assumes "0x10000 \<le> c" "c < 0x110000"
  shows "c div 262144 < 5" "c div 4096 mod 64 < 64" "c div 64 mod 64 < 64" "c mod 64 < 64"
    and "c div 262144 = 0 \<Longrightarrow> 16 \<le> c div 4096 mod 64" "c div 262144 = 4 \<Longrightarrow> c div 4096 mod 64 < 16"
proof -
  have c: "c div 262144 = c div 4096 div 64"
    using div_mult2_eq [of c 4096 64] by simp
  have d: "16 \<le> c div 4096" "c div 4096 < 272"
    using assms by simp_all
  show "c div 262144 < 5" "c div 4096 mod 64 < 64" "c div 64 mod 64 < 64" "c mod 64 < 64"
    using assms by auto
  show "16 \<le> c div 4096 mod 64" if "c div 262144 = 0"
    using d that mult_div_mod_eq [of 64 "c div 4096"] unfolding c by linarith
  show "c div 4096 mod 64 < 16" if "c div 262144 = 4"
    using d that mult_div_mod_eq [of 64 "c div 4096"] unfolding c by linarith
qed

lemma decode_encode_char:
  assumes "code_point c"
  obtains b bs where "encode_char c = b # bs" and "\<And>rest. decode_char b (bs @ rest) = (Some c, Suc (length bs))"
proof -
  consider "c < 0x80" | "0x80 \<le> c" "c < 0x800" | "0x800 \<le> c" "c < 0x10000" | "0x10000 \<le> c" "c < 0x110000"
    using assms unfolding code_point_def by linarith
  then show thesis
  proof cases
    case 1
    then show thesis
      by (intro that [of c "[]"]) (simp_all add: encode_char_def decode_char_def lead_byte_def)
  next
    case 2
    have "encode_char c = (0xC0 + c div 64) # [0x80 + c mod 64]"
      using 2 by (simp add: encode_char_def)
    moreover have "decode_char (0xC0 + c div 64) ([0x80 + c mod 64] @ rest) = (Some c, 2)" for rest
      using 2 decode_two [of "c div 64" "c mod 64" rest] by auto
    ultimately show thesis
      using that by simp
  next
    case 3
    have "encode_char c = (0xE0 + c div 4096) # [0x80 + c div 64 mod 64, 0x80 + c mod 64]"
      using 3 by (simp add: encode_char_def)
    moreover have "decode_char (0xE0 + c div 4096) ([0x80 + c div 64 mod 64, 0x80 + c mod 64] @ rest) = (Some c, 3)"
      for rest
      using decode_three [OF groups_three [OF 3 assms], of rest] unfolding split_4096 [symmetric] by simp
    ultimately show thesis
      using that by simp
  next
    case 4
    have "encode_char c =
        (0xF0 + c div 262144) # [0x80 + c div 4096 mod 64, 0x80 + c div 64 mod 64, 0x80 + c mod 64]"
      using 4 by (simp add: encode_char_def)
    moreover have "decode_char (0xF0 + c div 262144)
          ([0x80 + c div 4096 mod 64, 0x80 + c div 64 mod 64, 0x80 + c mod 64] @ rest) = (Some c, 4)" for rest
      using decode_four [OF groups_four [OF 4], of rest] unfolding split_262144 [symmetric] by simp
    ultimately show thesis
      using that by simp
  qed
qed

text \<open>A character that decodes is the encoding of its code point.\<close>

lemma six_bits: "d < 64 \<Longrightarrow> (q * 64 + d) div 64 = q" "d < 64 \<Longrightarrow> (q * 64 + d) mod 64 = (d::nat)"
  by simp_all

lemma encode_char_three: "0x800 \<le> c \<Longrightarrow> c < 0x10000 \<Longrightarrow>
    encode_char c = [0xE0 + c div 4096, 0x80 + c div 64 mod 64, 0x80 + c mod 64]"
  and encode_char_four: "0x10000 \<le> c \<Longrightarrow>
    encode_char c = [0xF0 + c div 262144, 0x80 + c div 4096 mod 64, 0x80 + c div 64 mod 64, 0x80 + c mod 64]"
  by (simp_all add: encode_char_def)

lemma encode_three:
  assumes "a < 16" "b < 64" "d < 64" and "a = 0 \<Longrightarrow> 32 \<le> b" and "a = 13 \<Longrightarrow> b < 32"
  shows "encode_char ((a * 64 + b) * 64 + d) = [0xE0 + a, 0x80 + b, 0x80 + d]"
    and "code_point ((a * 64 + b) * 64 + d)"
proof -
  let ?c = "(a * 64 + b) * 64 + d"
  have q: "?c div 64 = a * 64 + b" "?c mod 64 = d"
    using assms(3) by (simp_all only: six_bits)
  have r: "?c div 64 mod 64 = b" "?c div 4096 = a"
    using assms(2) div_mult2_eq [of ?c 64 64] unfolding q by (simp_all add: six_bits)
  have w: "0x800 \<le> ?c" "?c < 0x10000"
    using assms by (cases "a = 0"; simp)+
  show "encode_char ?c = [0xE0 + a, 0x80 + b, 0x80 + d]"
    unfolding encode_char_three [OF w] r q(2) ..
  consider "a < 13" | "a = 13" | "13 < a"
    by linarith
  then show "code_point ?c"
    using assms by cases (simp_all add: code_point_def)
qed

lemma encode_four:
  assumes "a < 5" "b < 64" "d < 64" "e < 64" and "a = 0 \<Longrightarrow> 16 \<le> b" and "a = 4 \<Longrightarrow> b < 16"
  shows "encode_char (((a * 64 + b) * 64 + d) * 64 + e) = [0xF0 + a, 0x80 + b, 0x80 + d, 0x80 + e]"
    and "code_point (((a * 64 + b) * 64 + d) * 64 + e)"
proof -
  let ?c = "((a * 64 + b) * 64 + d) * 64 + e"
  have q: "?c div 64 = (a * 64 + b) * 64 + d" "?c mod 64 = e"
    using assms(4) by (simp_all only: six_bits)
  have r: "?c div 64 mod 64 = d" "?c div 4096 = a * 64 + b"
    using assms(3) div_mult2_eq [of ?c 64 64] unfolding q by (simp_all only: six_bits) simp
  have t: "?c div 4096 mod 64 = b" "?c div 262144 = a"
    using assms(2) div_mult2_eq [of ?c 4096 64] unfolding r by (simp_all only: six_bits) simp
  have w: "0x10000 \<le> ?c" "?c < 0x110000"
    using assms by (cases "a = 0"; cases "a = 4"; simp)+
  show "encode_char ?c = [0xF0 + a, 0x80 + b, 0x80 + d, 0x80 + e]"
    unfolding encode_char_four [OF w(1)] t r(1) q(2) ..
  show "code_point ?c"
    using w by (simp add: code_point_def)
qed

lemma follow_Some:
  "0 < n \<Longrightarrow> follow n lo hi v k bs = (Some c, j) \<Longrightarrow>
   \<exists>b bs'. bs = b # bs' \<and> lo \<le> b \<and> b \<le> hi \<and>
     follow (n - 1) 0x80 0xBF (v * 64 + (b - 0x80)) (Suc k) bs' = (Some c, j)"
  by (cases n; cases bs) (auto split: if_splits)

lemmas follow_dests = follow_Some [of "Suc 0", simplified] follow_Some [of 2, simplified]
  follow_Some [of 3, simplified]

lemma le_part: "(l::nat) \<le> b \<Longrightarrow> \<exists>d. b = l + d"
  by (rule le_Suc_ex)

lemma decode_char_sound:
  assumes "decode_char b bs = (Some c, k)"
  shows "code_point c \<and> b # bs = encode_char c @ drop (k - 1) bs"
proof -
  obtain n lo hi v where l: "lead_byte b = Some (n, lo, hi, v)"
      and f: "follow n lo hi v 1 bs = (Some c, k)"
    using assms by (auto simp: decode_char_def split: option.splits)
  consider "b < 0x80" | a where "2 \<le> a" "a < 32" "b = 0xC0 + a" | a where "a < 16" "b = 0xE0 + a"
    | a where "a < 5" "b = 0xF0 + a"
    using l unfolding lead_byte_def
    by (cases "b < 0x80"; cases "b < 0xE0"; cases "b < 0xF0")
       (auto split: if_splits dest!: le_part simp: not_less)
  then show ?thesis
  proof cases
    case 1
    then show ?thesis using l f by (auto simp: lead_byte_def encode_char_def code_point_def)
  next
    case 2
    then have "follow 1 0x80 0xBF a 1 bs = (Some c, k)"
      using l f by (auto simp: lead_byte_def)
    then obtain d bs' where d: "bs = (0x80 + d) # bs'" "d < 64" "c = a * 64 + d" "k = 2"
      by (auto dest!: follow_dests le_part)
    then show ?thesis
      using 2 by (auto simp: encode_char_def code_point_def)
  next
    case 3
    then have "follow 2 (if a = 0 then 0xA0 else 0x80) (if a = 13 then 0x9F else 0xBF) a 1 bs = (Some c, k)"
      using l f by (auto simp: lead_byte_def split: if_splits)
    then obtain x d bs' where d: "bs = (0x80 + x) # (0x80 + d) # bs'" "x < 64" "d < 64"
        "a = 0 \<Longrightarrow> 32 \<le> x" "a = 13 \<Longrightarrow> x < 32" "c = (a * 64 + x) * 64 + d" "k = 3"
      by (auto dest!: follow_dests le_part split: if_splits)
    then show ?thesis
      using encode_three [OF 3(1) d(2,3)] 3 by simp
  next
    case 4
    then have "follow 3 (if a = 0 then 0x90 else 0x80) (if a = 4 then 0x8F else 0xBF) a 1 bs = (Some c, k)"
      using l f by (auto simp: lead_byte_def split: if_splits)
    then obtain x y d bs' where d: "bs = (0x80 + x) # (0x80 + y) # (0x80 + d) # bs'" "x < 64" "y < 64" "d < 64"
        "a = 0 \<Longrightarrow> 16 \<le> x" "a = 4 \<Longrightarrow> x < 16" "c = ((a * 64 + x) * 64 + y) * 64 + d" "k = 4"
      by (auto dest!: follow_dests le_part split: if_splits)
    then show ?thesis
      using encode_four [OF 4(1) d(2-4)] 4 by simp
  qed
qed

lemma utf8_encode_simps [simp]:
  "utf8_encode [] = []" "utf8_encode (c # cs) = encode_char c @ utf8_encode cs"
  by (simp_all add: utf8_encode_def)

lemma strict_encode: "list_all code_point cs \<Longrightarrow> utf8_strict (utf8_encode cs) = Some cs"
proof (induction cs)
  case (Cons c cs)
  then obtain b bs where "encode_char c = b # bs" "\<And>rest. decode_char b (bs @ rest) = (Some c, Suc (length bs))"
    using decode_encode_char [of c] by auto
  then show ?case
    using Cons by simp
qed simp

lemma strict_sound: "utf8_strict bs = Some cs \<Longrightarrow> list_all code_point cs \<and> utf8_encode cs = bs"
proof (induction bs arbitrary: cs rule: utf8_strict.induct)
  case (2 b bs)
  then obtain c k cs' where "decode_char b bs = (Some c, k)" "utf8_strict (drop (k - 1) bs) = Some cs'" "cs = c # cs'"
    by (cases "decode_char b bs") (auto split: option.splits)
  then show ?case
    using 2(1) [of c cs'] decode_char_sound [of b bs c k] by simp
qed simp

lemma strict_replace: "utf8_strict bs = Some cs \<Longrightarrow> utf8_replace bs = cs"
  by (induction bs arbitrary: cs rule: utf8_strict.induct) (auto split: option.splits)

theorem utf8_strict_iff: "utf8_strict bs = Some cs \<longleftrightarrow> list_all code_point cs \<and> bs = utf8_encode cs"
  using strict_encode strict_sound by blast

text \<open>Every character that comes out is a scalar value, and nothing is left over: at most one per byte.\<close>

lemma replace_code_point: "list_all code_point (utf8_replace bs)"
proof (induction bs rule: utf8_replace.induct)
  case (2 b bs)
  have "code_point 0xFFFD"
    by (simp add: code_point_def)
  then show ?case
    using 2 decode_char_sound [of b bs _ "snd (decode_char b bs)"]
    by (auto split: option.split simp: prod_eq_iff)
qed simp

lemma replace_length: "length (utf8_replace bs) \<le> length bs"
proof (induction bs rule: utf8_replace.induct)
  case (2 b bs)
  then show ?case
    using le_trans [OF 2] by simp
qed simp

lemma strict_None_replaced: "utf8_strict bs = None \<Longrightarrow> 0xFFFD \<in> set (utf8_replace bs)"
  by (induction bs rule: utf8_strict.induct) (auto split: option.splits)

section \<open>Strings of characters\<close>

definition codes :: "string \<Rightarrow> nat list" where
  "codes s = map code s"

definition chars :: "nat list \<Rightarrow> string" where
  "chars cs = map char_of cs"

lemma codes_simps [simp]: "codes [] = []" "codes (c # s) = code c # codes s" "codes (a @ b) = codes a @ codes b"
  by (simp_all add: codes_def)

lemma chars_codes [simp]: "chars (codes s) = s"
  by (simp add: chars_def codes_def code_def comp_def)

lemma length_codes [simp]: "length (codes s) = length s"
  by (simp add: codes_def)

section \<open>UTF-8 bytes of a text\<close>

definition utf8_bytes :: "string \<Rightarrow> string" where
  "utf8_bytes s = chars (utf8_encode (codes s))"

lemma codes_chars: "list_all (\<lambda>n. n < 256) cs \<Longrightarrow> codes (chars cs) = cs"
  by (induction cs) (simp_all add: codes_def chars_def)

lemma utf8_bytes_strict: "utf8_strict (codes (utf8_bytes s)) = Some (codes s)"
proof -
  have "list_all (\<lambda>n. n < 256) (encode_char (code c))" for c
  proof -
    have "code c div 64 < 4" "code c mod 64 < 128"
      using code_less [of c] less_trans [OF mod_less_divisor [of 64 "code c"], of 128] by simp_all
    then show ?thesis
      unfolding encode_char_def by simp
  qed
  then have "list_all (\<lambda>n. n < 256) (utf8_encode (codes s))"
    by (induction s) simp_all
  moreover have "list_all code_point (codes s)"
    using order.strict_trans [OF code_less] by (simp add: codes_def list.pred_map list_all_iff code_point_def)
  ultimately show ?thesis
    by (simp add: utf8_bytes_def codes_chars strict_encode)
qed


end
