(* ===== verification/Response.thy ===== *)
theory Response
  imports World Utf8
begin

text \<open>\<open>src/jibit/response.py\<close>: raw, typed and status-only results.\<close>

record raw_response =
  rw_status_code :: int
  rw_headers :: "string dict"
  rw_content :: string
  rw_correlation_id :: string

definition raw_repr :: "(string \<Rightarrow> string) \<Rightarrow> raw_response \<Rightarrow> string" where
  "raw_repr quote r = ''RawResponse(status_code='' @ show_int (rw_status_code r)
     @ '', content_length='' @ show_nat (length (rw_content r))
     @ '', correlation_id='' @ quote (rw_correlation_id r) @ '')''"

text \<open>\<open>RawResponse.text\<close>: code points, since the text may have any.\<close>

definition raw_text :: "raw_response \<Rightarrow> nat list" where
  "raw_text r = utf8_replace (codes (rw_content r))"

text \<open>\<open>RawResponse.json()\<close>; an exception of the decoder other than the two named ones passes through.\<close>

definition raw_json :: "env \<Rightarrow> raw_response \<Rightarrow> exn + pyval" where
  "raw_json e r = (case e_json_loads e (rw_content r) of
       Inr v \<Rightarrow> Inr v
     | Inl x \<Rightarrow> if x = UnicodeDecodeError \<or> x = JSONDecodeError
         then Inl (Jibit (make_error JibitResponseError (Some ''The upstream response is not valid JSON'')
           (Some (context_post_init (empty_context\<lparr>ec_status_code := Some (rw_status_code r),
             ec_correlation_id := Some (rw_correlation_id r)\<rparr>)))))
         else Inl x)"

record 'm api_response =
  ar_data :: 'm
  ar_raw :: raw_response

definition api_repr :: "(string \<Rightarrow> string) \<Rightarrow> 'm api_response \<Rightarrow> string" where
  "api_repr quote r = ''APIResponse(data=[REDACTED], raw='' @ raw_repr quote (ar_raw r) @ '')''"

record status_result =
  st_success :: bool
  st_status_code :: int
  st_raw_body :: "string option"

definition status_repr :: "status_result \<Rightarrow> string" where
  "status_repr r = ''StatusResult(success='' @ (if st_success r then ''True'' else ''False'')
     @ '', status_code='' @ show_int (st_status_code r)
     @ '', has_raw_body='' @ (if st_raw_body r \<noteq> None then ''True'' else ''False'') @ '')''"

text \<open>\<open>raw.content or None\<close>.\<close>

definition content_or_None :: "string \<Rightarrow> string option" where
  "content_or_None s = (if s = [] then None else Some s)"

definition status_response :: "raw_response \<Rightarrow> status_result api_response" where
  "status_response raw = \<lparr>ar_data = \<lparr>st_success = True, st_status_code = rw_status_code raw,
     st_raw_body = content_or_None (rw_content raw)\<rparr>, ar_raw = raw\<rparr>"

lemma api_repr_hides_data: "ar_raw a = ar_raw b \<Longrightarrow> api_repr quote a = api_repr quote b"
  by (simp add: api_repr_def)

lemma raw_repr_hides_content:
  "length (rw_content a) = length (rw_content b) \<Longrightarrow> rw_status_code a = rw_status_code b \<Longrightarrow>
   rw_correlation_id a = rw_correlation_id b \<Longrightarrow> raw_repr quote a = raw_repr quote b"
  by (simp add: raw_repr_def)

end
