(* ===== verification/Engine.thy ===== *)
theory Engine
  imports Response
begin

text \<open>
  \<open>src/jibit/engine.py\<close>: the request engine. The \<open>while True\<close> loop of \<open>execute\<close> is the recursive
  \<open>attempt_loop\<close>; it terminates because the retry policy refuses a retry once the attempt limit is
  reached. The retry policy's configuration is a part of the engine, as in the source.
\<close>

record request_options =
  ro_service :: service_name
  ro_operation :: string
  ro_method :: string
  ro_path :: string
  ro_safety :: operation_safety
  ro_headers :: "string dict"
  ro_params :: "pydict option"
  ro_json :: pyval
  ro_content :: "string option"
  ro_multipart :: "multipart_part list option"
  ro_idempotency_key :: "string option"
  ro_correlation_id :: "string option"

text \<open>The required fields of \<open>RequestOptions\<close>, the others at their defaults.\<close>

definition request_options ::
  "service_name \<Rightarrow> string \<Rightarrow> string \<Rightarrow> string \<Rightarrow> operation_safety \<Rightarrow> request_options" where
  "request_options service operation method path safety =
     \<lparr>ro_service = service, ro_operation = operation, ro_method = method, ro_path = path,
      ro_safety = safety, ro_headers = [], ro_params = None, ro_json = PNone, ro_content = None,
      ro_multipart = None, ro_idempotency_key = None, ro_correlation_id = None\<rparr>"

record engine =
  en_config :: jibit_config
  en_policy :: retry_config
  en_logging :: bool

section \<open>Endpoints and URLs\<close>

text \<open>
  The scheme and the network location \<open>urllib.parse.urlsplit\<close> finds: leading controls and blanks
  and all tabs and line breaks are dropped first; an unbalanced bracket in the location raises a
  \<open>ValueError\<close>. The contents of a balanced bracketed host are not examined.
\<close>

definition url_clean :: "string \<Rightarrow> string" where
  "url_clean s = filter (\<lambda>c. code c \<notin> {9, 10, 13}) (dropWhile (\<lambda>c. code c \<le> 32) s)"

definition scheme_char :: "char \<Rightarrow> bool" where
  "scheme_char c \<longleftrightarrow> is_upper c \<or> is_lower c \<or> is_digit c \<or> c \<in> set ''+-.''"

definition url_scheme :: "string \<Rightarrow> string \<times> string" where
  "url_scheme s = (let scheme = takeWhile (\<lambda>c. c \<noteq> CHR '':'') s in
     if scheme \<noteq> s \<and> scheme \<noteq> [] \<and> (is_upper (hd scheme) \<or> is_lower (hd scheme))
        \<and> list_all scheme_char scheme
     then (str_lower scheme, drop (Suc (length scheme)) s) else ([], s))"

definition urlsplit :: "string \<Rightarrow> exn + string \<times> string" where
  "urlsplit path = (let (scheme, rest) = url_scheme (url_clean path);
       netloc = (if take 2 rest = ''//'' then takeWhile (\<lambda>c. c \<notin> set ''/?#'') (drop 2 rest) else [])
     in if (CHR ''['' \<in> set netloc) \<noteq> (CHR '']'' \<in> set netloc) then Inl ValueError
        else Inr (scheme, netloc))"

definition validated_endpoint :: "string \<Rightarrow> exn + string" where
  "validated_endpoint path = (case urlsplit path of
       Inl x \<Rightarrow> Inl x
     | Inr (scheme, netloc) \<Rightarrow>
         if \<not> prefix ''/'' path \<or> scheme \<noteq> [] \<or> netloc \<noteq> []
         then Inl (raise_jibit JibitValidationError ''Endpoint paths must be relative absolute paths'')
         else Inr path)"

definition base_url_for :: "jibit_config \<Rightarrow> service_name \<Rightarrow> string" where
  "base_url_for cfg service = (case cf_services cfg service of
       Some sc \<Rightarrow> (case sc_base_url sc of Some u \<Rightarrow> u | None \<Rightarrow> cf_base_url cfg)
     | None \<Rightarrow> cf_base_url cfg)"

definition build_url :: "jibit_config \<Rightarrow> service_name \<Rightarrow> string \<Rightarrow> string" where
  "build_url cfg service endpoint =
     rstrip_char CHR ''/'' (base_url_for cfg service) @ ''/'' @ lstrip_char CHR ''/'' endpoint"

section \<open>Headers and bodies\<close>

text \<open>\<open>a or b\<close> on optional strings.\<close>

definition oor :: "string option \<Rightarrow> string option \<Rightarrow> string option" where
  "oor a b = (case a of Some s \<Rightarrow> if s = [] then b else Some s | None \<Rightarrow> b)"

definition lowered_headers :: "string dict \<Rightarrow> string dict" where
  "lowered_headers hs = foldl (\<lambda>d (k, v). dict_set (str_lower k) v d) [] hs"

definition upstream_request_id :: "string dict \<Rightarrow> string option" where
  "upstream_request_id hs = (let lowered = lowered_headers hs in
     oor (dict_get lowered ''x-request-id'')
       (oor (dict_get lowered ''request-id'') (dict_get lowered ''trace-id'')))"

definition body_fields :: "env \<Rightarrow> transport_response \<Rightarrow> exn + pydict" where
  "body_fields e r = (if rs_content r = [] then Inr []
     else case e_json_loads e (rs_content r) of
       Inl x \<Rightarrow> if is_value_error x then Inr [] else Inl x
     | Inr (PDict d) \<Rightarrow> Inr d
     | Inr _ \<Rightarrow> Inr [])"

definition str_opt :: "env \<Rightarrow> pyval \<Rightarrow> string option" where
  "str_opt e v = (if v = PNone then None else Some (py_str (e_repr e) v))"

section \<open>Error contexts and mapping\<close>

definition make_context ::
  "request_options \<Rightarrow> string \<Rightarrow> string \<Rightarrow> (error_context \<Rightarrow> error_context) \<Rightarrow> error_context" where
  "make_context opt correlation_id endpoint changes =
     context_post_init (changes (empty_context\<lparr>ec_service := Some (service_value (ro_service opt)),
       ec_operation := Some (ro_operation opt), ec_method := Some (str_upper (ro_method opt)),
       ec_endpoint := Some endpoint, ec_correlation_id := Some correlation_id\<rparr>))"

definition status_kind :: "int \<Rightarrow> error_kind" where
  "status_kind sc =
     (if sc = 401 then JibitAuthenticationError
      else if sc = 403 then JibitAuthorizationError
      else if sc \<in> {400, 422} then JibitValidationError
      else if sc = 429 then JibitRateLimitError
      else if 500 \<le> sc then JibitServerError
      else if sc \<in> {402, 404, 409} then JibitBusinessError
      else JibitResponseError)"

definition error_retryable :: "request_options \<Rightarrow> int \<Rightarrow> bool" where
  "error_retryable opt sc \<longleftrightarrow> sc \<in> {408, 425, 429, 500, 502, 503, 504}
     \<and> (ro_safety opt \<in> {READ_ONLY, IDEMPOTENT}
        \<or> (ro_safety opt = IDEMPOTENCY_PROTECTED \<and> ro_idempotency_key opt \<noteq> None))"

definition first_error :: "pydict \<Rightarrow> pydict" where
  "first_error body = (case pyget body ''errors'' of PList (PDict d # _) \<Rightarrow> d | _ \<Rightarrow> [])"

definition map_error ::
  "env \<Rightarrow> request_options \<Rightarrow> string \<Rightarrow> string \<Rightarrow> transport_response \<Rightarrow> exn + jibit_error" where
  "map_error e opt correlation_id endpoint r = (case body_fields e r of
       Inl x \<Rightarrow> Inl x
     | Inr body \<Rightarrow>
         (let first = first_error body;
              code_v = py_or (pyget body ''code'') (py_or (pyget body ''errorCode'')
                (py_or (pyget body ''error'') (pyget first ''code'')));
              message = py_or (pyget body ''message'') (py_or (pyget body ''detail'')
                (py_or (pyget body ''description'') (py_or (pyget first ''message'')
                  (pyget first ''description''))));
              fingerprint = pyget body ''fingerprint'';
              reference = py_or (pyget body ''referenceNumber'') (pyget body ''reference_number'');
              request_id = py_or (pyget body ''requestId'') (py_or (pyget body ''request_id'')
                (opt_str (upstream_request_id (rs_headers r))));
              sc = rs_status_code r;
              ctx = make_context opt correlation_id endpoint (\<lambda>c. c\<lparr>ec_status_code := Some sc,
                ec_error_code := str_opt e code_v, ec_upstream_message := str_opt e message,
                ec_upstream_request_id := str_opt e request_id, ec_fingerprint := str_opt e fingerprint,
                ec_reference_number := str_opt e reference, ec_retryable := error_retryable opt sc\<rparr>)
          in Inr (make_error (status_kind sc) (Some (''Jibit returned HTTP '' @ show_int sc)) (Some ctx))))"

definition transport_error :: "request_options \<Rightarrow> string \<Rightarrow> string \<Rightarrow> bool \<Rightarrow> jibit_error" where
  "transport_error opt correlation_id endpoint is_timeout =
     make_error (if is_timeout then JibitTimeoutError else JibitNetworkError)
       (Some (if is_timeout then ''The request timed out''
              else ''The request failed before receiving a response''))
       (Some (make_context opt correlation_id endpoint (\<lambda>c. c\<lparr>ec_retryable := False\<rparr>)))"

section \<open>Logging of outcomes\<close>

text \<open>\<open>round(x, 3)\<close>: three decimals, ties to the even digit.\<close>

definition round_half_even :: "rat \<Rightarrow> int" where
  "round_half_even x = (let f = \<lfloor>x\<rfloor>; d = x - of_int f in
     if d < 1 / 2 then f else if 1 / 2 < d then f + 1 else if even f then f else f + 1)"

definition round3 :: "rat \<Rightarrow> rat" where
  "round3 x = of_int (round_half_even (x * 1000)) / 1000"

definition log_retry ::
  "engine \<Rightarrow> request_options \<Rightarrow> string \<Rightarrow> int \<Rightarrow> string \<Rightarrow> rat \<Rightarrow> ('st, unit) action" where
  "log_retry g opt correlation_id attempt reason delay =
     emit (en_logging g) WARNING RETRY_SCHEDULED
       [(''service'', PStr (service_value (ro_service opt))), (''operation'', PStr (ro_operation opt)),
        (''correlation_id'', PStr correlation_id), (''attempt'', PInt attempt),
        (''reason'', PStr reason), (''delay_seconds'', PFloat delay)]"

definition log_failure :: "env \<Rightarrow> engine \<Rightarrow> jibit_error \<Rightarrow> rat \<Rightarrow> ('st, unit) action" where
  "log_failure e g err started =
     bindM (read_monotonic e) (\<lambda>now.
       emit (en_logging g) ERROR REQUEST_FAILED
         (dict_del ''upstream_message'' (safe_dict (je_context err))
          @ [(''error_type'', PStr (kind_name (je_kind err))),
             (''duration_ms'', PFloat (round3 ((now - started) * 1000)))]))"

definition raw_of :: "string \<Rightarrow> transport_response \<Rightarrow> raw_response" where
  "raw_of correlation_id r = \<lparr>rw_status_code = rs_status_code r, rw_headers = rs_headers r,
     rw_content = rs_content r, rw_correlation_id = correlation_id\<rparr>"

definition complete ::
  "env \<Rightarrow> engine \<Rightarrow> request_options \<Rightarrow> string \<Rightarrow> string \<Rightarrow> rat \<Rightarrow> int \<Rightarrow> transport_response
     \<Rightarrow> ('st, raw_response) action" where
  "complete e g opt correlation_id endpoint started attempt r =
     bindM (read_monotonic e) (\<lambda>now.
       thenM (emit (en_logging g) INFO REQUEST_COMPLETED
         [(''service'', PStr (service_value (ro_service opt))), (''operation'', PStr (ro_operation opt)),
          (''method'', PStr (str_upper (ro_method opt))), (''endpoint'', PStr endpoint),
          (''status_code'', PInt (rs_status_code r)),
          (''duration_ms'', PFloat (round3 ((now - started) * 1000))),
          (''correlation_id'', PStr correlation_id),
          (''upstream_request_id'', opt_str (upstream_request_id (rs_headers r))),
          (''attempts'', PInt attempt)])
       (returnM (raw_of correlation_id r)))"

definition fail_with :: "env \<Rightarrow> engine \<Rightarrow> rat \<Rightarrow> exn + jibit_error \<Rightarrow> ('st, raw_response) action" where
  "fail_with e g started outcome =
     bindM (liftM outcome) (\<lambda>err. thenM (log_failure e g err started) (raiseM (Jibit err)))"

section \<open>The attempt loop\<close>

definition is_success :: "int \<Rightarrow> bool" where
  "is_success sc \<longleftrightarrow> 200 \<le> sc \<and> sc < 300"

definition transmit :: "env \<Rightarrow> transport_request \<Rightarrow> 'st world \<Rightarrow> send_outcome \<times> 'st world" where
  "transmit e req w = (e_send e (length (w_sent w)) req, w\<lparr>w_sent := w_sent w @ [req]\<rparr>)"

definition ask_policy ::
  "env \<Rightarrow> engine \<Rightarrow> request_options \<Rightarrow> int \<Rightarrow> int option \<Rightarrow> bool \<Rightarrow> 'st world
     \<Rightarrow> retry_decision \<times> nat" where
  "ask_policy e g opt attempt status_code transport_err w =
     decide (en_policy g) (e_random e (w_random w)) attempt (ro_safety opt) status_code transport_err
       (ro_idempotency_key opt \<noteq> None)"

text \<open>The world after a scheduled retry: the random draw, the log record, the sleep.\<close>

definition before_retry ::
  "engine \<Rightarrow> request_options \<Rightarrow> string \<Rightarrow> int \<Rightarrow> retry_decision \<times> nat \<Rightarrow> ('st, unit) action" where
  "before_retry g opt correlation_id attempt dec =
     thenM (log_retry g opt correlation_id attempt (rd_reason (fst dec)) (rd_delay (fst dec)))
       (sleep (rd_delay (fst dec)))"

definition draw :: "nat \<Rightarrow> 'st world \<Rightarrow> 'st world" where
  "draw n w = w\<lparr>w_random := w_random w + n\<rparr>"

function attempt_loop ::
  "env \<Rightarrow> engine \<Rightarrow> request_options \<Rightarrow> transport_request \<Rightarrow> string \<Rightarrow> string \<Rightarrow> rat \<Rightarrow> int
     \<Rightarrow> 'st world \<Rightarrow> (exn + raw_response) \<times> 'st world" where
  "attempt_loop e g opt req correlation_id endpoint started attempt w =
     (let (outcome, w1) = transmit e req w;
          on_transport_failure = (\<lambda>is_timeout.
            let dec = ask_policy e g opt attempt None True w1; w2 = draw (snd dec) w1
            in if rd_should_retry (fst dec)
               then attempt_loop e g opt req correlation_id endpoint started (attempt + 1)
                 (snd (before_retry g opt correlation_id attempt dec w2))
               else fail_with e g started (Inr (transport_error opt correlation_id endpoint is_timeout)) w2)
      in case outcome of
        SendRaised x \<Rightarrow> (Inl x, w1)
      | TransportTimeoutError \<Rightarrow> on_transport_failure True
      | TransportNetworkError \<Rightarrow> on_transport_failure False
      | Received r \<Rightarrow>
          if is_success (rs_status_code r)
          then complete e g opt correlation_id endpoint started attempt r w1
          else let dec = ask_policy e g opt attempt (Some (rs_status_code r)) False w1;
                   w2 = draw (snd dec) w1
               in if rd_should_retry (fst dec)
                  then attempt_loop e g opt req correlation_id endpoint started (attempt + 1)
                    (snd (before_retry g opt correlation_id attempt dec w2))
                  else fail_with e g started (map_error e opt correlation_id endpoint r) w2)"
  by pat_completeness auto
termination
  by (relation "measure (\<lambda>(e, g, opt, req, cid, ep, st, attempt, w).
        nat (rc_max_attempts (en_policy g) - attempt))")
    (auto simp: ask_policy_def dest!: should_retry_attempt)

declare attempt_loop.simps [simp del]

section \<open>\<open>RequestEngine.execute\<close>\<close>

definition request_headers :: "request_options \<Rightarrow> string \<Rightarrow> string dict" where
  "request_headers opt correlation_id =
     (let headers = setdefault ''X-Correlation-ID'' correlation_id
            (setdefault ''Accept'' ''application/json'' (ro_headers opt))
      in case ro_idempotency_key opt of None \<Rightarrow> headers
         | Some key \<Rightarrow> setdefault ''Idempotency-Key'' key headers)"

definition transport_request_of ::
  "engine \<Rightarrow> request_options \<Rightarrow> string \<Rightarrow> string \<Rightarrow> transport_request" where
  "transport_request_of g opt correlation_id endpoint =
     \<lparr>tr_method = str_upper (ro_method opt),
      tr_url = build_url (en_config g) (ro_service opt) endpoint,
      tr_headers = request_headers opt correlation_id, tr_params = ro_params opt,
      tr_json = ro_json opt, tr_content = ro_content opt, tr_multipart = ro_multipart opt,
      tr_timeout = Some (cf_timeout (en_config g))\<rparr>"

definition correlation_id_for :: "env \<Rightarrow> request_options \<Rightarrow> ('st, string) action" where
  "correlation_id_for e opt = (case ro_correlation_id opt of
       Some cid \<Rightarrow> if cid = [] then new_id e else returnM cid
     | None \<Rightarrow> new_id e)"

definition execute :: "env \<Rightarrow> engine \<Rightarrow> request_options \<Rightarrow> ('st, raw_response) action" where
  "execute e g opt =
     bindM (correlation_id_for e opt) (\<lambda>correlation_id.
     bindM (liftM (validated_endpoint (ro_path opt))) (\<lambda>endpoint.
     bindM (read_monotonic e) (\<lambda>started.
     thenM (emit (en_logging g) INFO REQUEST_STARTED
       [(''service'', PStr (service_value (ro_service opt))), (''operation'', PStr (ro_operation opt)),
        (''method'', PStr (str_upper (ro_method opt))), (''endpoint'', PStr endpoint),
        (''correlation_id'', PStr correlation_id)])
     (attempt_loop e g opt (transport_request_of g opt correlation_id endpoint)
        correlation_id endpoint started 1))))"

end
