(* ===== verification/Engine_Facts.thy ===== *)
theory Engine_Facts
  imports Engine
begin

text \<open>
  What the attempt loop does, as one equation: a number of retried attempts, then one final
  attempt whose outcome decides the result. The properties of \<open>execute\<close> rest on it.
\<close>

section \<open>One attempt\<close>

definition outcome_retried :: "engine \<Rightarrow> request_options \<Rightarrow> int \<Rightarrow> send_outcome \<Rightarrow> bool" where
  "outcome_retried g opt attempt oc \<longleftrightarrow>
     attempt < rc_max_attempts (en_policy g)
     \<and> repeatable (ro_safety opt) (ro_idempotency_key opt \<noteq> None)
     \<and> (case oc of Received r \<Rightarrow> rs_status_code r \<in> TRANSIENT_STATUS_CODES
          | TransportTimeoutError \<Rightarrow> True | TransportNetworkError \<Rightarrow> True | SendRaised _ \<Rightarrow> False)"

definition final_result ::
  "env \<Rightarrow> request_options \<Rightarrow> string \<Rightarrow> string \<Rightarrow> send_outcome \<Rightarrow> exn + raw_response" where
  "final_result e opt cid ep oc = (case oc of
       SendRaised x \<Rightarrow> Inl x
     | TransportTimeoutError \<Rightarrow> Inl (Jibit (transport_error opt cid ep True))
     | TransportNetworkError \<Rightarrow> Inl (Jibit (transport_error opt cid ep False))
     | Received r \<Rightarrow> if is_success (rs_status_code r) then Inr (raw_of cid r)
         else (case map_error e opt cid ep r of Inl x \<Rightarrow> Inl x | Inr err \<Rightarrow> Inl (Jibit err)))"

definition sent_one :: "transport_request \<Rightarrow> 'st world \<Rightarrow> 'st world" where
  "sent_one req w = w\<lparr>w_sent := w_sent w @ [req]\<rparr>"

definition decision ::
  "env \<Rightarrow> engine \<Rightarrow> request_options \<Rightarrow> int \<Rightarrow> send_outcome \<Rightarrow> 'st world \<Rightarrow> retry_decision \<times> nat" where
  "decision e g opt attempt oc w = (case oc of
       Received r \<Rightarrow> ask_policy e g opt attempt (Some (rs_status_code r)) False w
     | _ \<Rightarrow> ask_policy e g opt attempt None True w)"

definition retry_world ::
  "env \<Rightarrow> engine \<Rightarrow> request_options \<Rightarrow> transport_request \<Rightarrow> string \<Rightarrow> int \<Rightarrow> 'st world \<Rightarrow> 'st world" where
  "retry_world e g opt req cid attempt w =
     (let dec = decision e g opt attempt (e_send e (length (w_sent w)) req) (sent_one req w)
      in snd (before_retry g opt cid attempt dec (draw (snd dec) (sent_one req w))))"

definition final_step ::
  "env \<Rightarrow> engine \<Rightarrow> request_options \<Rightarrow> transport_request \<Rightarrow> string \<Rightarrow> string \<Rightarrow> rat \<Rightarrow> int
     \<Rightarrow> ('st, raw_response) action" where
  "final_step e g opt req cid ep started attempt w =
     (case e_send e (length (w_sent w)) req of
        SendRaised x \<Rightarrow> (Inl x, sent_one req w)
      | TransportTimeoutError \<Rightarrow>
          fail_with e g started (Inr (transport_error opt cid ep True)) (sent_one req w)
      | TransportNetworkError \<Rightarrow>
          fail_with e g started (Inr (transport_error opt cid ep False)) (sent_one req w)
      | Received r \<Rightarrow> if is_success (rs_status_code r)
          then complete e g opt cid ep started attempt r (sent_one req w)
          else fail_with e g started (map_error e opt cid ep r) (sent_one req w))"

lemma transient_not_success: "sc \<in> TRANSIENT_STATUS_CODES \<Longrightarrow> \<not> is_success sc"
  by (auto simp: TRANSIENT_STATUS_CODES_def is_success_def)

lemma draw_zero [simp]: "draw 0 w = w"
  by (simp add: draw_def)

lemma ask_policy_retry:
  "rd_should_retry (fst (ask_policy e g opt attempt sc te w)) \<longleftrightarrow>
     attempt < rc_max_attempts (en_policy g)
     \<and> repeatable (ro_safety opt) (ro_idempotency_key opt \<noteq> None) \<and> transient sc te"
  by (simp add: ask_policy_def should_retry_iff)

lemma ask_policy_no_draw:
  "\<not> rd_should_retry (fst (ask_policy e g opt attempt sc te w)) \<Longrightarrow>
     snd (ask_policy e g opt attempt sc te w) = 0"
  by (simp add: ask_policy_def decide_draws)

lemma decision_retry:
  "rd_should_retry (fst (decision e g opt attempt oc w)) \<longleftrightarrow>
     outcome_retried g opt attempt oc \<or> (\<exists>x. oc = SendRaised x \<and>
       attempt < rc_max_attempts (en_policy g)
       \<and> repeatable (ro_safety opt) (ro_idempotency_key opt \<noteq> None))"
  by (cases oc) (auto simp: decision_def ask_policy_retry outcome_retried_def transient_def)

lemma attempt_loop_step:
  "attempt_loop e g opt req cid ep started attempt w =
     (if outcome_retried g opt attempt (e_send e (length (w_sent w)) req)
      then attempt_loop e g opt req cid ep started (attempt + 1) (retry_world e g opt req cid attempt w)
      else final_step e g opt req cid ep started attempt w)"
proof (cases "e_send e (length (w_sent w)) req")
  case (Received r)
  then show ?thesis
    by (subst attempt_loop.simps)
      (auto simp: transmit_def Let_def ask_policy_retry outcome_retried_def transient_def
        retry_world_def final_step_def sent_one_def decision_def ask_policy_no_draw
        dest: transient_not_success)
qed (subst attempt_loop.simps, auto simp: transmit_def Let_def ask_policy_retry outcome_retried_def
    transient_def retry_world_def final_step_def sent_one_def decision_def ask_policy_no_draw)+

lemma map_error_parts:
  assumes "map_error e opt cid ep r = Inr err"
  shows "je_kind err = status_kind (rs_status_code r)"
    and "ec_status_code (je_context err) = Some (rs_status_code r)"
    and "ec_service (je_context err) = Some (service_value (ro_service opt))"
    and "ec_operation (je_context err) = Some (ro_operation opt)"
    and "ec_correlation_id (je_context err) = Some cid"
    and "ec_upstream_message (je_context err) \<in> {None, Some REDACTED}"
    and "ec_retryable (je_context err) = error_retryable opt (rs_status_code r)"
proof -
  obtain c where err: "err = make_error (status_kind (rs_status_code r))
      (Some (''Jibit returned HTTP '' @ show_int (rs_status_code r))) (Some (context_post_init c))"
    and c: "ec_status_code c = Some (rs_status_code r)"
      "ec_service c = Some (service_value (ro_service opt))" "ec_operation c = Some (ro_operation opt)"
      "ec_correlation_id c = Some cid" "ec_retryable c = error_retryable opt (rs_status_code r)"
    using assms by (auto simp: map_error_def make_context_def Let_def simp del: append.simps
        split: sum.splits)
  from c show "ec_status_code (je_context err) = Some (rs_status_code r)"
    "ec_service (je_context err) = Some (service_value (ro_service opt))"
    "ec_operation (je_context err) = Some (ro_operation opt)"
    "ec_correlation_id (je_context err) = Some cid"
    "ec_retryable (je_context err) = error_retryable opt (rs_status_code r)"
    by (simp_all add: err)
  show "je_kind err = status_kind (rs_status_code r)"
    "ec_upstream_message (je_context err) \<in> {None, Some REDACTED}"
    using post_init_message by (simp_all add: err)
qed

lemma error_retryable_eq:
  "error_retryable opt sc \<longleftrightarrow> sc \<in> TRANSIENT_STATUS_CODES
     \<and> repeatable (ro_safety opt) (ro_idempotency_key opt \<noteq> None)"
  by (simp add: error_retryable_def TRANSIENT_STATUS_CODES_def repeatable_def)

section \<open>The retried attempts\<close>

primrec retry_iter ::
  "env \<Rightarrow> engine \<Rightarrow> request_options \<Rightarrow> transport_request \<Rightarrow> string \<Rightarrow> nat \<Rightarrow> int \<Rightarrow> 'st world
     \<Rightarrow> 'st world" where
  "retry_iter e g opt req cid 0 attempt w = w"
| "retry_iter e g opt req cid (Suc n) attempt w =
     retry_iter e g opt req cid n (attempt + 1) (retry_world e g opt req cid attempt w)"

lemma retry_world_sent [simp]: "w_sent (retry_world e g opt req cid attempt w) = w_sent w @ [req]"
  by (simp add: retry_world_def before_retry_def log_retry_def sleep_def emit_def comp_defs
      sent_one_def draw_def Let_def)

lemma retry_world_frame [simp]:
  "w_store (retry_world e g opt req cid attempt w) = w_store w"
  "w_audits (retry_world e g opt req cid attempt w) = w_audits w"
  "w_held (retry_world e g opt req cid attempt w) = w_held w"
  "w_clock (retry_world e g opt req cid attempt w) = w_clock w"
  "w_ids (retry_world e g opt req cid attempt w) = w_ids w"
  "w_locks (retry_world e g opt req cid attempt w) = w_locks w"
  "w_monotonic (retry_world e g opt req cid attempt w) = w_monotonic w"
  by (simp_all add: retry_world_def before_retry_def log_retry_def sleep_def emit_def comp_defs
      sent_one_def draw_def Let_def)

definition retry_delay ::
  "env \<Rightarrow> engine \<Rightarrow> request_options \<Rightarrow> transport_request \<Rightarrow> int \<Rightarrow> 'st world \<Rightarrow> rat" where
  "retry_delay e g opt req attempt w =
     rd_delay (fst (decision e g opt attempt (e_send e (length (w_sent w)) req) (sent_one req w)))"

lemma retry_world_sleeps [simp]:
  "w_sleeps (retry_world e g opt req cid attempt w) =
     w_sleeps w @ [retry_delay e g opt req attempt w]"
  by (simp add: retry_world_def before_retry_def log_retry_def sleep_def emit_def comp_defs
      sent_one_def draw_def Let_def retry_delay_def)

lemma retry_world_extends: "extends w (retry_world e g opt req cid attempt w)"
  by (simp add: retry_world_def before_retry_def log_retry_def sleep_def emit_def comp_defs
      sent_one_def draw_def Let_def extends_def)

lemma retry_world_clean: "all_clean w \<Longrightarrow> all_clean (retry_world e g opt req cid attempt w)"
  by (simp add: retry_world_def before_retry_def log_retry_def sleep_def emit_def comp_defs
      sent_one_def draw_def Let_def all_clean_def clean_redact)

lemma retry_iter_sent [simp]:
  "w_sent (retry_iter e g opt req cid n attempt w) = w_sent w @ replicate n req"
  by (induction n arbitrary: attempt w) (simp_all add: replicate_append_same)

lemma retry_iter_frame [simp]:
  "w_store (retry_iter e g opt req cid n attempt w) = w_store w"
  "w_audits (retry_iter e g opt req cid n attempt w) = w_audits w"
  "w_held (retry_iter e g opt req cid n attempt w) = w_held w"
  "w_clock (retry_iter e g opt req cid n attempt w) = w_clock w"
  "w_ids (retry_iter e g opt req cid n attempt w) = w_ids w"
  "w_locks (retry_iter e g opt req cid n attempt w) = w_locks w"
  "w_monotonic (retry_iter e g opt req cid n attempt w) = w_monotonic w"
  by (induction n arbitrary: attempt w) simp_all

lemma retry_iter_extends: "extends w (retry_iter e g opt req cid n attempt w)"
proof (induction n arbitrary: attempt w)
  case (Suc n)
  then show ?case
    using retry_world_extends [of w e g opt req cid attempt] by (simp add: extends_trans)
qed simp

lemma retry_iter_clean: "all_clean w \<Longrightarrow> all_clean (retry_iter e g opt req cid n attempt w)"
  by (induction n arbitrary: attempt w) (simp_all add: retry_world_clean)

section \<open>The whole loop\<close>

text \<open>\<open>retried_times e g opt req attempt k n\<close>: from attempt \<open>attempt\<close>, the transport's \<open>k\<close>-th
  call, exactly \<open>n\<close> attempts are retried.\<close>

definition retried_times ::
  "env \<Rightarrow> engine \<Rightarrow> request_options \<Rightarrow> transport_request \<Rightarrow> int \<Rightarrow> nat \<Rightarrow> nat \<Rightarrow> bool" where
  "retried_times e g opt req attempt k n \<longleftrightarrow>
     (\<forall>i < n. outcome_retried g opt (attempt + int i) (e_send e (k + i) req))
     \<and> \<not> outcome_retried g opt (attempt + int n) (e_send e (k + n) req)"

lemma retried_times_Suc:
  "outcome_retried g opt attempt (e_send e k req) \<Longrightarrow>
   retried_times e g opt req (attempt + 1) (Suc k) n \<Longrightarrow>
   retried_times e g opt req attempt k (Suc n)"
proof -
  assume first: "outcome_retried g opt attempt (e_send e k req)"
    and rest: "retried_times e g opt req (attempt + 1) (Suc k) n"
  have shift: "attempt + int (Suc i) = attempt + 1 + int i" "k + Suc i = Suc k + i" for i
    by simp_all
  have "outcome_retried g opt (attempt + int i) (e_send e (k + i) req)" if "i < Suc n" for i
  proof (cases i)
    case (Suc j)
    then show ?thesis using rest that unfolding Suc shift retried_times_def by blast
  qed (simp add: first)
  moreover have "\<not> outcome_retried g opt (attempt + int (Suc n)) (e_send e (k + Suc n) req)"
    using rest unfolding shift retried_times_def by blast
  ultimately show ?thesis by (simp add: retried_times_def)
qed

lemma retried_times_bound:
  assumes "retried_times e g opt req attempt k n" and "0 < n"
  shows "attempt + int n \<le> rc_max_attempts (en_policy g)"
    and "repeatable (ro_safety opt) (ro_idempotency_key opt \<noteq> None)"
proof -
  have "outcome_retried g opt (attempt + int (n - 1)) (e_send e (k + (n - 1)) req)"
    using assms unfolding retried_times_def by (meson diff_less zero_less_one)
  then show "attempt + int n \<le> rc_max_attempts (en_policy g)"
    and "repeatable (ro_safety opt) (ro_idempotency_key opt \<noteq> None)"
    using assms(2) by (auto simp: outcome_retried_def of_nat_diff)
qed

lemma attempt_loop_result:
  "\<exists>n. retried_times e g opt req attempt (length (w_sent w)) n \<and>
     attempt_loop e g opt req cid ep started attempt w =
       final_step e g opt req cid ep started (attempt + int n)
         (retry_iter e g opt req cid n attempt w)"
proof (induction "nat (rc_max_attempts (en_policy g) - attempt)" arbitrary: attempt w
    rule: less_induct)
  case less
  show ?case
  proof (cases "outcome_retried g opt attempt (e_send e (length (w_sent w)) req)")
    case False
    then have "retried_times e g opt req attempt (length (w_sent w)) 0"
      by (simp add: retried_times_def)
    with False show ?thesis by (intro exI [of _ 0]) (simp add: attempt_loop_step [of _ _ _ _ _ _ _ _ w])
  next
    case True
    let ?w = "retry_world e g opt req cid attempt w"
    have "nat (rc_max_attempts (en_policy g) - (attempt + 1))
        < nat (rc_max_attempts (en_policy g) - attempt)"
      using True by (auto simp: outcome_retried_def)
    then obtain n where n: "retried_times e g opt req (attempt + 1) (length (w_sent ?w)) n"
      and eq: "attempt_loop e g opt req cid ep started (attempt + 1) ?w =
        final_step e g opt req cid ep started (attempt + 1 + int n)
          (retry_iter e g opt req cid n (attempt + 1) ?w)"
      using less by blast
    have "retried_times e g opt req attempt (length (w_sent w)) (Suc n)"
      using True n by (intro retried_times_Suc) simp_all
    moreover have "attempt_loop e g opt req cid ep started attempt w =
        final_step e g opt req cid ep started (attempt + int (Suc n))
          (retry_iter e g opt req cid (Suc n) attempt w)"
      using True eq by (simp add: attempt_loop_step [of _ _ _ _ _ _ _ _ w] add.assoc)
    ultimately show ?thesis by blast
  qed
qed

end
