(* ===== verification/Engine_Run.thy ===== *)
theory Engine_Run
  imports Engine_Facts
begin

text \<open>
  From the loop equation of the previous theory to \<open>execute\<close>: how often a request is sent, what the
  pauses are, which records are written, and what \<open>execute\<close> returns. The bundle \<open>execute_cases\<close>
  carries the properties stated in the root theory.
\<close>

section \<open>The final step\<close>

definition log_entry :: "level \<Rightarrow> string \<Rightarrow> pydict \<Rightarrow> log_record" where
  "log_entry lvl event flds =
     \<lparr>lr_level = lvl, lr_event = event, lr_fields = redact None (PDict flds)\<rparr>"

lemma log_entry_simps [simp]:
  "lr_event (log_entry lvl event flds) = event" "clean (lr_fields (log_entry lvl event flds))"
  by (simp_all add: log_entry_def clean_redact)

lemma emit_entry:
  "emit b lvl event flds w =
     (Inr (), w\<lparr>w_logs := w_logs w @ (if b then [log_entry lvl event flds] else [])\<rparr>)"
  by (simp add: emit_def modifyM_def log_entry_def)

lemma some_entry: "\<exists>rec :: log_record. lr_event rec = event \<and> clean (lr_fields rec)"
  by (rule exI [of _ "log_entry INFO event []"]) simp

lemma complete_effect:
  "\<exists>rec. complete e g opt cid ep started attempt r w =
     (Inr (raw_of cid r), w\<lparr>w_monotonic := Suc (w_monotonic w),
        w_logs := w_logs w @ (if en_logging g then [rec] else [])\<rparr>)
     \<and> lr_event rec = REQUEST_COMPLETED \<and> clean (lr_fields rec)"
  unfolding complete_def comp_defs read_monotonic_def emit_entry
  by (simp add: some_entry) (metis log_entry_simps)

lemma log_failure_effect:
  "\<exists>rec. log_failure e g err started w =
     (Inr (), w\<lparr>w_monotonic := Suc (w_monotonic w),
        w_logs := w_logs w @ (if en_logging g then [rec] else [])\<rparr>)
     \<and> lr_event rec = REQUEST_FAILED \<and> clean (lr_fields rec)"
  unfolding log_failure_def comp_defs read_monotonic_def emit_entry
  by (simp add: some_entry) (metis log_entry_simps)

text \<open>The event of the one record that closes a run, or \<open>None\<close> when an injected part raised.\<close>

definition closing_event :: "exn + raw_response \<Rightarrow> bool \<Rightarrow> string option" where
  "closing_event r raised = (if raised then None
     else case r of Inr _ \<Rightarrow> Some REQUEST_COMPLETED | Inl _ \<Rightarrow> Some REQUEST_FAILED)"

definition raised_outside :: "env \<Rightarrow> request_options \<Rightarrow> string \<Rightarrow> string \<Rightarrow> send_outcome \<Rightarrow> bool" where
  "raised_outside e opt cid ep oc \<longleftrightarrow> (case oc of SendRaised _ \<Rightarrow> True
     | Received r \<Rightarrow> \<not> is_success (rs_status_code r) \<and> isl (map_error e opt cid ep r) | _ \<Rightarrow> False)"

lemma fail_with_effect:
  "(case out of
      Inl x \<Rightarrow> fail_with e g started out w = (Inl x, w)
    | Inr err \<Rightarrow> \<exists>rec. fail_with e g started out w =
        (Inl (Jibit err), w\<lparr>w_monotonic := Suc (w_monotonic w),
          w_logs := w_logs w @ (if en_logging g then [rec] else [])\<rparr>)
        \<and> lr_event rec = REQUEST_FAILED \<and> clean (lr_fields rec))"
proof (cases out)
  case (Inr err)
  obtain rec where "log_failure e g err started w =
     (Inr (), w\<lparr>w_monotonic := Suc (w_monotonic w),
        w_logs := w_logs w @ (if en_logging g then [rec] else [])\<rparr>)"
    and "lr_event rec = REQUEST_FAILED" and "clean (lr_fields rec)"
    using log_failure_effect by blast
  then show ?thesis using Inr by (auto simp: fail_with_def comp_defs)
qed (simp add: fail_with_def comp_defs)

lemma final_step_effect:
  fixes w :: "'st world" and e :: env and req :: transport_request
  defines "oc \<equiv> e_send e (length (w_sent w)) req"
  shows "\<exists>rec n. final_step e g opt req cid ep started attempt w =
     (final_result e opt cid ep oc,
      w\<lparr>w_sent := w_sent w @ [req], w_monotonic := w_monotonic w + n,
        w_logs := w_logs w @ (if en_logging g \<and> \<not> raised_outside e opt cid ep oc then [rec] else [])\<rparr>)
     \<and> Some (lr_event rec) = closing_event (final_result e opt cid ep oc) False
     \<and> clean (lr_fields rec)"
proof -
  have dummy: "\<exists>rec :: log_record. Some (lr_event rec) = closing_event x False \<and> clean (lr_fields rec)" for x
    by (cases x) (simp_all add: closing_event_def some_entry)
  let ?w = "sent_one req w"
  have fail: ?thesis if "\<not> raised_outside e opt cid ep oc"
    and "final_step e g opt req cid ep started attempt w = fail_with e g started (Inr err) ?w"
    and "final_result e opt cid ep oc = Inl (Jibit err)" for err
  proof -
    obtain rec where "fail_with e g started (Inr err) ?w =
        (Inl (Jibit err), ?w\<lparr>w_monotonic := Suc (w_monotonic ?w),
          w_logs := w_logs ?w @ (if en_logging g then [rec] else [])\<rparr>)"
      and "lr_event rec = REQUEST_FAILED" and "clean (lr_fields rec)"
      using fail_with_effect [where out = "Inr err" and e = e and g = g and started = started
          and w = ?w] by auto
    then show ?thesis
      using that by (intro exI [of _ rec] exI [of _ "Suc 0"]) (simp add: sent_one_def closing_event_def)
  qed
  show ?thesis
  proof (cases oc)
    case (SendRaised x)
    then show ?thesis
      using dummy [of "Inl x"] unfolding oc_def
      by (auto simp: final_step_def final_result_def raised_outside_def sent_one_def
          intro!: exI [of _ 0])
  next
    case (Received r)
    show ?thesis
    proof (cases "is_success (rs_status_code r)")
      case True
      then show ?thesis
        using Received complete_effect [of e g opt cid ep started attempt r ?w] unfolding oc_def
        by (auto simp: final_step_def final_result_def raised_outside_def sent_one_def
            closing_event_def intro!: exI [of _ "Suc 0"])
    next
      case False
      show ?thesis
      proof (cases "map_error e opt cid ep r")
        case (Inl x)
        then show ?thesis
          using Received False dummy [of "Inl x"] unfolding oc_def
          by (auto simp: final_step_def final_result_def raised_outside_def sent_one_def
              fail_with_def comp_defs intro!: exI [of _ 0])
      next
        case (Inr err)
        then show ?thesis
          using Received False unfolding oc_def
          by (intro fail [unfolded oc_def]) (simp_all add: final_step_def final_result_def raised_outside_def)
      qed
    qed
  qed (intro fail; simp add: final_step_def final_result_def raised_outside_def flip: oc_def)+
qed

section \<open>The retried attempts: records and pauses\<close>

lemma retry_world_log:
  "\<exists>rec. w_logs (retry_world e g opt req cid attempt w) =
     w_logs w @ (if en_logging g then [rec] else []) \<and> lr_event rec = RETRY_SCHEDULED"
  unfolding retry_world_def before_retry_def log_retry_def sleep_def emit_entry comp_defs Let_def
  by (simp add: sent_one_def draw_def) (metis log_entry_simps(1))

lemma retry_iter_logs:
  "\<exists>recs. w_logs (retry_iter e g opt req cid n attempt w) = w_logs w @ recs
     \<and> length recs = (if en_logging g then n else 0) \<and> list_all (\<lambda>r. lr_event r = RETRY_SCHEDULED) recs"
proof (induction n arbitrary: attempt w)
  case (Suc n)
  obtain rec where rec: "w_logs (retry_world e g opt req cid attempt w) =
     w_logs w @ (if en_logging g then [rec] else [])" "lr_event rec = RETRY_SCHEDULED"
    using retry_world_log by blast
  obtain recs where recs: "w_logs (retry_iter e g opt req cid n (attempt + 1)
       (retry_world e g opt req cid attempt w)) =
     w_logs (retry_world e g opt req cid attempt w) @ recs"
    "length recs = (if en_logging g then n else 0)"
    "list_all (\<lambda>r. lr_event r = RETRY_SCHEDULED) recs"
    using Suc.IH by blast
  show ?case
    using rec recs by (intro exI [of _ "(if en_logging g then [rec] else []) @ recs"]) simp
qed simp

definition delay_ok :: "retry_config \<Rightarrow> int \<Rightarrow> rat \<Rightarrow> bool" where
  "delay_ok cfg attempt d \<longleftrightarrow> backoff_base cfg attempt \<le> d \<and> d \<le> rc_max_delay cfg"

definition random_ok :: "env \<Rightarrow> bool" where
  "random_ok e \<longleftrightarrow> (\<forall>n. 0 \<le> e_random e n \<and> e_random e n \<le> 1)"

lemma retry_delay_ok:
  assumes "outcome_retried g opt attempt (e_send e (length (w_sent w)) req)"
    and "retry_fields_ok (en_policy g)" and "random_ok e"
  shows "delay_ok (en_policy g) attempt (retry_delay e g opt req attempt w)"
proof -
  let ?oc = "e_send e (length (w_sent w)) req"
  have "rd_should_retry (fst (decision e g opt attempt ?oc (sent_one req w)))"
    using assms(1) by (simp add: decision_retry)
  then show ?thesis
    using assms(2,3) unfolding delay_ok_def retry_delay_def decision_def ask_policy_def random_ok_def
    by (auto simp: delay_at_least_base delay_at_most_max split: send_outcome.splits)
qed

lemma retry_iter_sleeps:
  "(\<And>i. i < n \<Longrightarrow> outcome_retried g opt (attempt + int i) (e_send e (length (w_sent w) + i) req)) \<Longrightarrow>
   retry_fields_ok (en_policy g) \<Longrightarrow> random_ok e \<Longrightarrow>
   \<exists>ds. w_sleeps (retry_iter e g opt req cid n attempt w) = w_sleeps w @ ds \<and> length ds = n
     \<and> (\<forall>i < n. delay_ok (en_policy g) (attempt + int i) (ds ! i))"
proof (induction n arbitrary: attempt w)
  case (Suc n)
  let ?w = "retry_world e g opt req cid attempt w"
  have first: "outcome_retried g opt attempt (e_send e (length (w_sent w)) req)"
    using Suc.prems(1) [of 0] by simp
  have "outcome_retried g opt (attempt + 1 + int i) (e_send e (length (w_sent ?w) + i) req)"
    if "i < n" for i
    using Suc.prems(1) [of "Suc i"] that by (simp add: add.assoc)
  then obtain ds where ds: "w_sleeps (retry_iter e g opt req cid n (attempt + 1) ?w) = w_sleeps ?w @ ds"
    "length ds = n" "\<And>i. i < n \<Longrightarrow> delay_ok (en_policy g) (attempt + 1 + int i) (ds ! i)"
    using Suc.IH [of "attempt + 1" ?w] Suc.prems(2,3) by blast
  have "delay_ok (en_policy g) (attempt + int i) ((retry_delay e g opt req attempt w # ds) ! i)"
    if "i < Suc n" for i
    using that ds(3) [of "i - 1"] retry_delay_ok [OF first Suc.prems(2,3)]
    by (cases i) (simp_all add: add.assoc)
  then show ?case
    using ds by (intro exI [of _ "retry_delay e g opt req attempt w # ds"]) simp
qed simp

section \<open>\<open>execute\<close>\<close>

text \<open>The transport raises nothing but its two failures and the JSON decoder nothing but value
  errors.\<close>

definition behaved :: "env \<Rightarrow> bool" where
  "behaved e \<longleftrightarrow> (\<forall>k req x. e_send e k req \<noteq> SendRaised x)
     \<and> (\<forall>s x. e_json_loads e s = Inl x \<longrightarrow> is_value_error x)"

lemma behaved_outcome: "behaved e \<Longrightarrow> \<not> raised_outside e opt cid ep (e_send e k req)"
  by (cases "e_send e k req")
    (auto simp: behaved_def raised_outside_def map_error_def body_fields_def Let_def
      split: sum.splits pyval.splits if_splits)


definition effective_id :: "env \<Rightarrow> request_options \<Rightarrow> 'st world \<Rightarrow> string" where
  "effective_id e opt w = str_or (ro_correlation_id opt) (e_new_id e (w_ids w))"

definition identified :: "request_options \<Rightarrow> 'st world \<Rightarrow> 'st world" where
  "identified opt w = (if ro_correlation_id opt = None \<or> ro_correlation_id opt = Some []
     then w\<lparr>w_ids := Suc (w_ids w)\<rparr> else w)"

definition started_entry :: "request_options \<Rightarrow> string \<Rightarrow> string \<Rightarrow> log_record" where
  "started_entry opt cid ep = log_entry INFO REQUEST_STARTED
     [(''service'', PStr (service_value (ro_service opt))), (''operation'', PStr (ro_operation opt)),
      (''method'', PStr (str_upper (ro_method opt))), (''endpoint'', PStr ep),
      (''correlation_id'', PStr cid)]"

definition started_world :: "engine \<Rightarrow> request_options \<Rightarrow> string \<Rightarrow> string \<Rightarrow> 'st world \<Rightarrow> 'st world" where
  "started_world g opt cid ep w = (identified opt w)\<lparr>w_monotonic := Suc (w_monotonic w),
     w_logs := w_logs w @ (if en_logging g then [started_entry opt cid ep] else [])\<rparr>"

lemma correlation_id_for_eq: "correlation_id_for e opt w = (Inr (effective_id e opt w), identified opt w)"
  by (auto simp: correlation_id_for_def effective_id_def identified_def str_or_def new_id_def comp_defs
      split: option.splits)

lemma started_world_frame [simp]:
  "w_sent (started_world g opt cid ep w) = w_sent w"
  "w_sleeps (started_world g opt cid ep w) = w_sleeps w"
  "w_audits (started_world g opt cid ep w) = w_audits w"
  "w_held (started_world g opt cid ep w) = w_held w"
  "w_store (started_world g opt cid ep w) = w_store w"
  "w_clock (started_world g opt cid ep w) = w_clock w"
  "w_locks (started_world g opt cid ep w) = w_locks w"
  "w_random (started_world g opt cid ep w) = w_random w"
  by (simp_all add: started_world_def identified_def)

lemma execute_unfold:
  "execute e g opt w = (case validated_endpoint (ro_path opt) of
       Inl x \<Rightarrow> (Inl x, identified opt w)
     | Inr ep \<Rightarrow> (let cid = effective_id e opt w in
         attempt_loop e g opt (transport_request_of g opt cid ep) cid ep (e_monotonic e (w_monotonic w)) 1
           (started_world g opt cid ep w)))"
  by (simp add: execute_def bindM_def thenM_def liftM_def correlation_id_for_eq read_monotonic_def
      emit_entry Let_def started_world_def started_entry_def identified_def split: sum.splits)

lemma execute_final:
  assumes "validated_endpoint (ro_path opt) = Inr ep"
  obtains cid req n where "cid = effective_id e opt w" and "req = transport_request_of g opt cid ep"
    and "retried_times e g opt req 1 (length (w_sent w)) n"
    and "execute e g opt w = final_step e g opt req cid ep (e_monotonic e (w_monotonic w)) (1 + int n)
       (retry_iter e g opt req cid n 1 (started_world g opt cid ep w))"
proof -
  let ?cid = "effective_id e opt w"
  let ?req = "transport_request_of g opt ?cid ep"
  obtain n where "retried_times e g opt ?req 1 (length (w_sent (started_world g opt ?cid ep w))) n"
    and "attempt_loop e g opt ?req ?cid ep (e_monotonic e (w_monotonic w)) 1
         (started_world g opt ?cid ep w) =
       final_step e g opt ?req ?cid ep (e_monotonic e (w_monotonic w)) (1 + int n)
         (retry_iter e g opt ?req ?cid n 1 (started_world g opt ?cid ep w))"
    using attempt_loop_result by blast
  then show thesis
    using assms by (intro that [of ?cid ?req n]) (simp_all add: execute_unfold Let_def)
qed

text \<open>The same with the effect of the final step spelled out: what the properties unfold. \<open>v\<close> is
  the world before the final attempt, \<open>recs\<close> the closing record, if any.\<close>

definition closed_world ::
  "'st world \<Rightarrow> 'st world \<Rightarrow> nat \<Rightarrow> transport_request \<Rightarrow> nat \<Rightarrow> log_record list \<Rightarrow> 'st world" where
  "closed_world w v n req m recs = v\<lparr>w_sent := w_sent w @ replicate (Suc n) req,
     w_monotonic := w_monotonic v + m, w_logs := w_logs v @ recs\<rparr>"

lemma closed_world_simps [simp]:
  "w_sent (closed_world w v n req m recs) = w_sent w @ replicate (Suc n) req"
  "w_logs (closed_world w v n req m recs) = w_logs v @ recs"
  "w_sleeps (closed_world w v n req m recs) = w_sleeps v"
  "w_audits (closed_world w v n req m recs) = w_audits v"
  "w_store (closed_world w v n req m recs) = w_store v"
  "w_held (closed_world w v n req m recs) = w_held v"
  by (simp_all add: closed_world_def)

lemma closed_world_extends: "extends w v \<Longrightarrow> extends w (closed_world w v n req m recs)"
  by (auto simp: extends_def closed_world_def)

lemma closed_world_clean:
  "all_clean v \<Longrightarrow> list_all (\<lambda>r. clean (lr_fields r)) recs \<Longrightarrow> all_clean (closed_world w v n req m recs)"
  by (simp add: all_clean_def)

definition closing_records ::
  "engine \<Rightarrow> bool \<Rightarrow> exn + raw_response \<Rightarrow> log_record list \<Rightarrow> bool" where
  "closing_records g raised r recs \<longleftrightarrow> (if en_logging g \<and> \<not> raised
     then \<exists>rec. recs = [rec] \<and> Some (lr_event rec) = closing_event r False \<and> clean (lr_fields rec)
     else recs = [])"

lemma execute_outcome:
  assumes "validated_endpoint (ro_path opt) = Inr ep"
  obtains cid req n recs m v oc where "cid = effective_id e opt w"
    and "req = transport_request_of g opt cid ep"
    and "retried_times e g opt req 1 (length (w_sent w)) n"
    and "v = retry_iter e g opt req cid n 1 (started_world g opt cid ep w)"
    and "oc = e_send e (length (w_sent w) + n) req"
    and "execute e g opt w = (final_result e opt cid ep oc, closed_world w v n req m recs)"
    and "closing_records g (raised_outside e opt cid ep oc) (final_result e opt cid ep oc) recs"
proof -
  obtain cid req n where n: "cid = effective_id e opt w" "req = transport_request_of g opt cid ep"
    "retried_times e g opt req 1 (length (w_sent w)) n"
    and run: "execute e g opt w = final_step e g opt req cid ep (e_monotonic e (w_monotonic w)) (1 + int n)
       (retry_iter e g opt req cid n 1 (started_world g opt cid ep w))"
    using execute_final [OF assms] .
  let ?v = "retry_iter e g opt req cid n 1 (started_world g opt cid ep w)"
  let ?oc = "e_send e (length (w_sent w) + n) req"
  let ?r = "final_result e opt cid ep ?oc"
  have sent: "w_sent ?v @ [req] = w_sent w @ replicate (Suc n) req" "length (w_sent ?v) = length (w_sent w) + n"
    by (simp_all add: replicate_append_same)
  obtain rec m where world: "execute e g opt w = (?r, closed_world w ?v n req m
      (if en_logging g \<and> \<not> raised_outside e opt cid ep ?oc then [rec] else []))"
    and rec: "Some (lr_event rec) = closing_event ?r False" "clean (lr_fields rec)"
    using final_step_effect [where e = e and w = ?v and g = g and opt = opt and req = req and cid = cid
        and ep = ep and started = "e_monotonic e (w_monotonic w)" and attempt = "1 + int n"]
    unfolding sent run [symmetric] closed_world_def by blast
  show thesis
    by (rule that [OF n refl refl world]) (use rec in \<open>auto simp: closing_records_def\<close>)
qed

lemma closing_records_clean:
  "closing_records g raised r recs \<Longrightarrow> list_all (\<lambda>r. clean (lr_fields r)) recs"
  by (auto simp: closing_records_def split: if_splits)

section \<open>Facts the authenticator and the services use\<close>

definition attempt_limit :: "engine \<Rightarrow> request_options \<Rightarrow> nat" where
  "attempt_limit g opt = (if repeatable (ro_safety opt) (ro_idempotency_key opt \<noteq> None)
     then nat (max 1 (rc_max_attempts (en_policy g))) else 1)"

lemma execute_sent_bound:
  "length (w_sent (snd (execute e g opt w))) \<le> length (w_sent w) + attempt_limit g opt"
proof (cases "validated_endpoint (ro_path opt)")
  case (Inl x)
  then show ?thesis by (simp add: execute_unfold identified_def)
next
  case (Inr ep)
  show ?thesis
  proof (rule execute_outcome [OF Inr, of e w g])
    fix cid req n recs m v oc
    assume "retried_times e g opt req 1 (length (w_sent w)) n"
    note bound = retried_times_bound [OF this]
    assume "execute e g opt w = (final_result e opt cid ep oc, closed_world w v n req m recs)"
    then show ?thesis using bound by (cases "n = 0") (auto simp: attempt_limit_def)
  qed
qed

lemma execute_sent:
  "\<exists>n. w_sent (snd (execute e g opt w)) =
     w_sent w @ replicate n (transport_request_of g opt (effective_id e opt w) (ro_path opt))
     \<and> (n \<le> 1 \<or> repeatable (ro_safety opt) (ro_idempotency_key opt \<noteq> None))"
proof (cases "validated_endpoint (ro_path opt)")
  case (Inl x)
  then show ?thesis by (intro exI [of _ 0]) (simp add: execute_unfold identified_def)
next
  case (Inr ep)
  then have ep: "ep = ro_path opt"
    by (auto simp: validated_endpoint_def split: sum.splits if_splits)
  show ?thesis
  proof (rule execute_outcome [OF Inr, of e w g])
    fix cid req n recs m v oc
    assume "cid = effective_id e opt w" and "req = transport_request_of g opt cid ep"
      and times: "retried_times e g opt req 1 (length (w_sent w)) n"
      and "execute e g opt w = (final_result e opt cid ep oc, closed_world w v n req m recs)"
    then show ?thesis
      using retried_times_bound(2) [OF times]
      by (intro exI [of _ "Suc n"]) (auto simp: ep)
  qed
qed

lemma execute_extends_clean:
  "extends w (snd (execute e g opt w)) \<and> w_store (snd (execute e g opt w)) = w_store w
     \<and> w_audits (snd (execute e g opt w)) = w_audits w
     \<and> (all_clean w \<longrightarrow> all_clean (snd (execute e g opt w)))"
proof (cases "validated_endpoint (ro_path opt)")
  case (Inl x)
  then show ?thesis by (simp add: execute_unfold identified_def extends_def all_clean_def)
next
  case (Inr ep)
  show ?thesis
  proof (rule execute_outcome [OF Inr, of e w g])
    fix cid req n recs m v oc
    assume v: "v = retry_iter e g opt req cid n 1 (started_world g opt cid ep w)"
      and closing: "closing_records g (raised_outside e opt cid ep oc) (final_result e opt cid ep oc) recs"
    assume run: "execute e g opt w = (final_result e opt cid ep oc, closed_world w v n req m recs)"
    have "extends w (started_world g opt cid ep w)"
      and "all_clean w \<Longrightarrow> all_clean (started_world g opt cid ep w)"
      by (simp_all add: started_world_def identified_def extends_def all_clean_def started_entry_def)
    then have "extends w v" and "all_clean w \<Longrightarrow> all_clean v"
      unfolding v using retry_iter_extends retry_iter_clean extends_trans by blast+
    moreover have "w_store v = w_store w" "w_audits v = w_audits w"
      by (simp_all add: v)
    ultimately show ?thesis
      using closing by (simp add: run closed_world_extends closed_world_clean closing_records_clean)
  qed
qed


end
