(* ===== verification/Samples.thy ===== *)
theory Samples
  imports Engine_Run
begin

text \<open>Concrete environments, engines and requests at which the properties are applied.\<close>

definition sample_env :: "(nat \<Rightarrow> send_outcome) \<Rightarrow> env" where
  "sample_env outs = \<lparr>e_send = (\<lambda>k _. outs k), e_monotonic = (\<lambda>k. of_nat k / 10),
     e_clock = (\<lambda>k. 1000 + of_nat k), e_random = (\<lambda>_. 1 / 2), e_new_id = (\<lambda>k. ''id-'' @ show_nat k),
     e_sink = (\<lambda>_ _. None), e_lock = (\<lambda>_ _. None), e_unlock = (\<lambda>_ _. None),
     e_sha256_hex = (\<lambda>s. replicate 64 (CHR ''0'')),
     e_json_loads = (\<lambda>s. if s = ''{}'' then Inr (PDict []) else Inl JSONDecodeError),
     e_repr = (\<lambda>_. ''?'')\<rparr>"

definition sample_config :: jibit_config where
  "sample_config = default_config (\<lambda>s. if s = TRANSFERS then Some \<lparr>sc_credentials =
     \<lparr>cr_api_key = Some ''key'', cr_secret_key = Some ''secret'', cr_username = None,
      cr_password = None, cr_access_token = None\<rparr>, sc_base_url = None, sc_enabled = True,
      sc_scopes = []\<rparr> else None)"

definition sample_engine :: engine where
  "sample_engine = \<lparr>en_config = sample_config, en_policy = retry_default, en_logging = True\<rparr>"

definition sample_request :: "operation_safety \<Rightarrow> request_options" where
  "sample_request safety = request_options TRANSFERS ''transfers.list'' ''get'' ''/trf/v2/transfers'' safety"

definition response_200 :: transport_response where
  "response_200 = \<lparr>rs_status_code = 200, rs_headers = [], rs_content = ''{}''\<rparr>"

definition response_503 :: transport_response where
  "response_503 = \<lparr>rs_status_code = 503, rs_headers = [(''X-Request-ID'', ''up-1'')], rs_content = []\<rparr>"

text \<open>The transport is unavailable once and then answers.\<close>

definition flaky :: "nat \<Rightarrow> send_outcome" where
  "flaky k = (if k = 0 then Received response_503 else Received response_200)"

lemma sample_policy_ok [simp]: "retry_fields_ok (en_policy sample_engine)"
  by (simp add: sample_engine_def retry_default_def retry_fields_ok_def)

lemma sample_random_ok [simp]: "random_ok (sample_env outs)"
  by (simp add: random_ok_def sample_env_def)

lemma sample_endpoint [simp]:
  "validated_endpoint (ro_path (sample_request s)) = Inr ''/trf/v2/transfers''"
  by (cases s) (code_simp+)

lemma sample_sends [simp]: "e_send (sample_env outs) k req = outs k"
  by (simp add: sample_env_def)

end
