(* ===== verification/Engine_Privacy.thy ===== *)
theory Engine_Privacy
  imports Engine_Run
begin

text \<open>
  Two requests of the same operation that differ only in what they carry (headers, query, body,
  files, the value of an idempotency key) leave the same records and the same outcome, as long as
  the service answers both alike: nothing a request carries reaches a record or an error.
\<close>

definition same_identity :: "request_options \<Rightarrow> request_options \<Rightarrow> bool" where
  "same_identity a b \<longleftrightarrow> ro_service a = ro_service b \<and> ro_operation a = ro_operation b
     \<and> ro_method a = ro_method b \<and> ro_path a = ro_path b \<and> ro_safety a = ro_safety b
     \<and> ro_correlation_id a = ro_correlation_id b
     \<and> (ro_idempotency_key a = None \<longleftrightarrow> ro_idempotency_key b = None)"

definition answers_alike :: "env \<Rightarrow> bool" where
  "answers_alike e \<longleftrightarrow> (\<forall>k a b. e_send e k a = e_send e k b)"

definition with_sent :: "transport_request list \<Rightarrow> 'st world \<Rightarrow> 'st world" where
  "with_sent s w = w\<lparr>w_sent := s\<rparr>"

definition same_effects :: "'st world \<Rightarrow> 'st world \<Rightarrow> bool" where
  "same_effects v w \<longleftrightarrow> v = with_sent (w_sent v) w \<and> length (w_sent v) = length (w_sent w)"

lemma same_effects_logs:
  "same_effects v w \<Longrightarrow> w_logs v = w_logs w" "same_effects v w \<Longrightarrow> w_sleeps v = w_sleeps w"
  unfolding same_effects_def with_sent_def
  by (metis world.ext_inject world.surjective world.update_convs(1))+

lemma same_identity_cong:
  assumes "same_identity a b"
  shows "outcome_retried g a n oc = outcome_retried g b n oc"
    and "map_error e a cid ep r = map_error e b cid ep r"
    and "transport_error a cid ep t = transport_error b cid ep t"
    and "decision e g a n oc w = decision e g b n oc w"
    and "log_retry g a = log_retry g b"
    and "started_entry a = started_entry b"
    and "identified a = identified b" and "effective_id e a = effective_id e b"
proof -
  have ctx: "make_context a = make_context b" and retr: "error_retryable a = error_retryable b"
    using assms by (auto simp: same_identity_def make_context_def error_retryable_def fun_eq_iff)
  show "outcome_retried g a n oc = outcome_retried g b n oc"
    using assms by (simp add: same_identity_def outcome_retried_def)
  show "map_error e a cid ep r = map_error e b cid ep r"
    unfolding map_error_def ctx retr by (rule refl)
  show "transport_error a cid ep t = transport_error b cid ep t"
    by (simp add: transport_error_def ctx)
  show "decision e g a n oc w = decision e g b n oc w"
    using assms by (cases oc) (simp_all add: same_identity_def decision_def ask_policy_def)
  show "log_retry g a = log_retry g b" "started_entry a = started_entry b"
    "identified a = identified b" "effective_id e a = effective_id e b"
    using assms by (simp_all add: same_identity_def log_retry_def started_entry_def identified_def
        effective_id_def fun_eq_iff)
qed

lemma complete_cong:
  "same_identity a b \<Longrightarrow> complete e g a cid ep st n r = complete e g b cid ep st n r"
  by (simp add: same_identity_def complete_def)

lemma retry_world_alike:
  assumes "same_identity a b" and "answers_alike e" and "same_effects v w"
  shows "same_effects (retry_world e g a p cid n v) (retry_world e g b q cid n w)"
proof -
  obtain s where v: "v = w\<lparr>w_sent := s\<rparr>" and len: "length s = length (w_sent w)"
    using assms(3) by (auto simp: same_effects_def with_sent_def)
  have send: "e_send e (length s) p = e_send e (length (w_sent w)) q"
    using assms(2) len by (simp add: answers_alike_def)
  have dec: "decision e g b n oc (sent_one p v) = decision e g b n oc (sent_one q w)" for oc
    by (cases oc) (simp_all add: decision_def ask_policy_def sent_one_def v)
  have lens: "length (w_sent v) = length s" by (simp add: v)
  show ?thesis
    unfolding retry_world_def Let_def before_retry_def same_identity_cong [OF assms(1)] lens send dec
    by (simp add: v len draw_def comp_defs sleep_def emit_entry log_retry_def
        sent_one_def same_effects_def with_sent_def)
qed

lemma final_step_alike:
  assumes "same_identity a b" and "answers_alike e" and "same_effects v w"
  shows "fst (final_step e g a p cid ep st n v) = fst (final_step e g b q cid ep st n w)
     \<and> same_effects (snd (final_step e g a p cid ep st n v)) (snd (final_step e g b q cid ep st n w))"
proof -
  obtain s where v: "v = w\<lparr>w_sent := s\<rparr>" and len: "length s = length (w_sent w)"
    using assms(3) by (auto simp: same_effects_def with_sent_def)
  have send: "e_send e (length s) p = e_send e (length (w_sent w)) q"
    using assms(2) len by (simp add: answers_alike_def)
  have fail: "fst (fail_with e g st out (sent_one p v)) = fst (fail_with e g st out (sent_one q w))
     \<and> same_effects (snd (fail_with e g st out (sent_one p v))) (snd (fail_with e g st out (sent_one q w)))"
    for out
    by (cases out) (simp_all add: fail_with_def comp_defs log_failure_def read_monotonic_def emit_entry
        sent_one_def same_effects_def with_sent_def v len)
  have completed: "fst (complete e g b cid ep st n r (sent_one p v)) = fst (complete e g b cid ep st n r (sent_one q w))
     \<and> same_effects (snd (complete e g b cid ep st n r (sent_one p v)))
         (snd (complete e g b cid ep st n r (sent_one q w)))" for r
    by (simp add: comp_defs complete_def read_monotonic_def emit_entry
        sent_one_def same_effects_def with_sent_def v len)
  have sent: "same_effects (sent_one p v) (sent_one q w)"
    by (simp add: sent_one_def same_effects_def with_sent_def v len)
  have lens: "length (w_sent v) = length s" by (simp add: v)
  show ?thesis
    unfolding final_step_def lens send same_identity_cong [OF assms(1)] complete_cong [OF assms(1)]
    using fail completed sent by (simp split: send_outcome.split)
qed

lemma attempt_loop_alike:
  assumes "same_identity a b" and "answers_alike e"
  shows "same_effects v w \<Longrightarrow>
    fst (attempt_loop e g a p cid ep st n v) = fst (attempt_loop e g b q cid ep st n w)
     \<and> same_effects (snd (attempt_loop e g a p cid ep st n v)) (snd (attempt_loop e g b q cid ep st n w))"
proof (induction "nat (rc_max_attempts (en_policy g) - n)" arbitrary: n v w rule: less_induct)
  case less
  have send: "e_send e (length (w_sent v)) p = e_send e (length (w_sent w)) q"
    using assms(2) less.prems by (simp add: answers_alike_def same_effects_def)
  show ?case
  proof (cases "outcome_retried g b n (e_send e (length (w_sent w)) q)")
    case True
    then have "nat (rc_max_attempts (en_policy g) - (n + 1)) < nat (rc_max_attempts (en_policy g) - n)"
      by (auto simp: outcome_retried_def)
    from less.hyps [OF this retry_world_alike [OF assms less.prems]] show ?thesis
      using True
      by (simp add: attempt_loop_step [of _ _ a] attempt_loop_step [of _ _ b] send
          same_identity_cong [OF assms(1)])
  next
    case False
    then show ?thesis
      using final_step_alike [OF assms less.prems]
      by (simp add: attempt_loop_step [of _ _ a] attempt_loop_step [of _ _ b] send
          same_identity_cong [OF assms(1)])
  qed
qed

lemma execute_alike:
  assumes "same_identity a b" and "answers_alike e"
  shows "fst (execute e g a w) = fst (execute e g b w)
     \<and> same_effects (snd (execute e g a w)) (snd (execute e g b w))"
proof -
  have path: "ro_path a = ro_path b" using assms(1) by (simp add: same_identity_def)
  have refl: "same_effects v v" for v :: "'a world"
    by (simp add: same_effects_def with_sent_def)
  have start: "started_world g a = started_world g b"
    by (simp add: fun_eq_iff started_world_def same_identity_cong [OF assms(1)])
  show ?thesis
    unfolding execute_unfold path start same_identity_cong [OF assms(1)] Let_def
    using attempt_loop_alike [OF assms refl] refl by (auto split: sum.splits)
qed

end
