(* ===== verification/Engine_Properties.thy ===== *)
theory Engine_Properties
  imports Samples Engine_Privacy
begin

text \<open>
  The properties of \<open>RequestEngine.execute\<close>: attempts, pauses, effects, records, outcome and what
  its records and errors depend on.
\<close>

section \<open>Attempts and pauses\<close>

text \<open>C5: A request whose path is rejected is never sent. Otherwise \<open>execute\<close> sends one and the same
  transport request once for each attempt the policy repeats and once more, and its result is the
  mapping of the last outcome alone: the response of a success, the timeout or network error of a
  transport failure, the mapped error of any other response.\<close>

theorem execute_attempts:
  "(case validated_endpoint (ro_path opt) of
      Inl x \<Rightarrow> execute e g opt w = (Inl x, identified opt w)
    | Inr ep \<Rightarrow> \<exists>n cid req. cid = effective_id e opt w \<and> req = transport_request_of g opt cid ep
        \<and> retried_times e g opt req 1 (length (w_sent w)) n
        \<and> w_sent (snd (execute e g opt w)) = w_sent w @ replicate (Suc n) req
        \<and> fst (execute e g opt w) =
            final_result e opt cid ep (e_send e (length (w_sent w) + n) req))"
proof (cases "validated_endpoint (ro_path opt)")
  case (Inr ep)
  show ?thesis
    by (rule execute_outcome [OF Inr, of e w g]) (auto simp: Inr)
qed (simp add: execute_unfold)

text \<open>An \<open>UNSAFE\<close> operation, or an idempotency-protected one without a key, is sent at most once;
  any other at most \<open>max_attempts\<close> times.\<close>

lemma execute_send_limit:
  "length (w_sent (snd (execute e g opt w))) \<le> length (w_sent w)
     + (if repeatable (ro_safety opt) (ro_idempotency_key opt \<noteq> None)
        then nat (max 1 (rc_max_attempts (en_policy g))) else 1)"
  using execute_sent_bound [of e g opt w] by (simp add: attempt_limit_def)

text \<open>C23: Before each repetition, and only then, the engine sleeps once; the pause before attempt
  \<open>i + 2\<close> is at least the exponential backoff of attempt \<open>i + 1\<close> and at most \<open>max_delay\<close>, whatever
  the random source draws from the unit interval.\<close>

theorem execute_pauses:
  assumes "retry_fields_ok (en_policy g)" and "random_ok e"
    and "validated_endpoint (ro_path opt) = Inr ep"
  shows "\<exists>ds. w_sleeps (snd (execute e g opt w)) = w_sleeps w @ ds
     \<and> length (w_sent (snd (execute e g opt w))) = length (w_sent w) + Suc (length ds)
     \<and> (\<forall>i < length ds. backoff_base (en_policy g) (1 + int i) \<le> ds ! i
          \<and> ds ! i \<le> rc_max_delay (en_policy g))"
proof (rule execute_outcome [OF assms(3), of e w g])
  fix cid req n recs m v oc
  assume times: "retried_times e g opt req 1 (length (w_sent w)) n"
    and v: "v = retry_iter e g opt req cid n 1 (started_world g opt cid ep w)"
  assume run: "execute e g opt w = (final_result e opt cid ep oc, closed_world w v n req m recs)"
  have "outcome_retried g opt (1 + int i) (e_send e (length (w_sent (started_world g opt cid ep w)) + i) req)"
    if "i < n" for i
    using times that by (simp add: retried_times_def)
  from retry_iter_sleeps [OF this assms(1,2), of n cid] obtain ds
    where "w_sleeps v = w_sleeps w @ ds" and "length ds = n"
      and "\<forall>i < n. delay_ok (en_policy g) (1 + int i) (ds ! i)"
    unfolding v by auto
  then show ?thesis
    using run by (intro exI [of _ ds]) (simp add: delay_ok_def)
qed

theorem execute_pauses_witness:
  "\<exists>ds. w_sleeps (snd (execute (sample_env flaky) sample_engine (sample_request READ_ONLY)
        (initial_world ()))) = [] @ ds
     \<and> (\<forall>i < length ds. backoff_base retry_default (1 + int i) \<le> ds ! i \<and> ds ! i \<le> 4)"
proof -
  have policy: "en_policy sample_engine = retry_default" "rc_max_delay retry_default = 4"
    by (simp_all add: sample_engine_def retry_default_def)
  show ?thesis
    using execute_pauses [OF sample_policy_ok sample_random_ok [of flaky] sample_endpoint [of READ_ONLY],
        of "initial_world ()"]
    unfolding policy by (auto simp: initial_world_def)
qed

section \<open>Effects and records\<close>

text \<open>C21: \<open>execute\<close> touches neither the token store nor the audit sink nor any lock, its traces only
  grow, and every record it writes is clean when those before it were.\<close>

theorem execute_effects:
  "extends w (snd (execute e g opt w)) \<and> w_store (snd (execute e g opt w)) = w_store w
     \<and> w_audits (snd (execute e g opt w)) = w_audits w
     \<and> (if all_clean w then all_clean (snd (execute e g opt w)) else True)"
  using execute_extends_clean [of w e g opt] by simp

text \<open>C22: An enabled logger gets one \<open>started\<close> record, one \<open>retry_scheduled\<close> record for each repeated
  attempt and one closing record, \<open>completed\<close> exactly when \<open>execute\<close> returns and \<open>failed\<close> when it
  raises a mapped error; the closing record is missing only when an injected part itself raised. A
  disabled logger gets nothing.\<close>

theorem execute_records:
  assumes "validated_endpoint (ro_path opt) = Inr ep"
  shows "\<exists>retries closing. w_logs (snd (execute e g opt w)) = w_logs w @ (if en_logging g
         then [started_entry opt (effective_id e opt w) ep] @ retries @ closing else [])
     \<and> (en_logging g \<longrightarrow>
          length (w_sent (snd (execute e g opt w))) = length (w_sent w) + Suc (length retries))
     \<and> list_all (\<lambda>r. lr_event r = RETRY_SCHEDULED) retries
     \<and> (closing = [] \<or> map (\<lambda>r. Some (lr_event r)) closing
          = [closing_event (fst (execute e g opt w)) False])
     \<and> (en_logging g \<and> behaved e \<longrightarrow> closing \<noteq> [])"
proof (rule execute_outcome [OF assms, of e w g])
  fix cid req n recs m v oc
  assume cid: "cid = effective_id e opt w"
    and v: "v = retry_iter e g opt req cid n 1 (started_world g opt cid ep w)"
    and oc: "oc = e_send e (length (w_sent w) + n) req"
    and closing: "closing_records g (raised_outside e opt cid ep oc) (final_result e opt cid ep oc) recs"
  assume run: "execute e g opt w = (final_result e opt cid ep oc, closed_world w v n req m recs)"
  obtain retries where retries: "w_logs v = w_logs (started_world g opt cid ep w) @ retries"
    "length retries = (if en_logging g then n else 0)" "list_all (\<lambda>r. lr_event r = RETRY_SCHEDULED) retries"
    unfolding v using retry_iter_logs by blast
  have no_raise: "behaved e \<Longrightarrow> \<not> raised_outside e opt cid ep oc"
    unfolding oc by (rule behaved_outcome)
  show ?thesis
    using retries closing cid run no_raise
    by - (rule exI [of _ retries], rule exI [of _ recs],
      auto simp: started_world_def identified_def closing_records_def split: if_splits)
qed

theorem execute_records_witness:
  "\<exists>retries closing. w_logs (snd (execute (sample_env flaky) sample_engine (sample_request READ_ONLY)
        (initial_world ()))) =
      [started_entry (sample_request READ_ONLY) (effective_id (sample_env flaky) (sample_request READ_ONLY)
         (initial_world ())) ''/trf/v2/transfers''] @ retries @ closing \<and> closing \<noteq> []"
proof -
  have "behaved (sample_env flaky)" and "en_logging sample_engine"
    by (auto simp: behaved_def flaky_def sample_engine_def) (simp add: sample_env_def split: if_splits)
  then show ?thesis
    using execute_records [OF sample_endpoint [of READ_ONLY], of "sample_env flaky" sample_engine
        "initial_world ()"]
    by (auto simp: initial_world_def)
qed

section \<open>What the outcome depends on\<close>



text \<open>C7: The URL of every request is the configured base URL of its service, without trailing
  slashes, one slash, and the path without leading slashes: no path moves a request to another
  host. A header the caller sets is sent as set; the defaults only fill in missing ones.\<close>

theorem execute_requests:
  "\<exists>n req. w_sent (snd (execute e g opt w)) = w_sent w @ replicate n req
     \<and> tr_url req = rstrip_char CHR ''/'' (base_url_for (en_config g) (ro_service opt)) @ ''/''
          @ lstrip_char CHR ''/'' (ro_path opt)
     \<and> (\<forall>h. dict_get (tr_headers req) h = (case dict_get (ro_headers opt) h of
            Some v \<Rightarrow> Some v
          | None \<Rightarrow> if h = ''Accept'' then Some ''application/json''
              else if h = ''X-Correlation-ID'' then Some (effective_id e opt w)
              else if h = ''Idempotency-Key'' then ro_idempotency_key opt else None))
     \<and> tr_params req = ro_params opt \<and> tr_json req = ro_json opt
     \<and> tr_content req = ro_content opt \<and> tr_multipart req = ro_multipart opt"
proof -
  let ?req = "transport_request_of g opt (effective_id e opt w) (ro_path opt)"
  obtain n where "w_sent (snd (execute e g opt w)) = w_sent w @ replicate n ?req"
    using execute_sent by blast
  moreover have "tr_url ?req = rstrip_char CHR ''/'' (base_url_for (en_config g) (ro_service opt)) @ ''/''
      @ lstrip_char CHR ''/'' (ro_path opt)"
    by (simp add: transport_request_of_def build_url_def)
  moreover have "dict_get (tr_headers ?req) h = (case dict_get (ro_headers opt) h of
            Some v \<Rightarrow> Some v
          | None \<Rightarrow> if h = ''Accept'' then Some ''application/json''
              else if h = ''X-Correlation-ID'' then Some (effective_id e opt w)
              else if h = ''Idempotency-Key'' then ro_idempotency_key opt else None)" for h
    by (auto simp: transport_request_of_def request_headers_def Let_def split: option.splits)
  ultimately show ?thesis
    by (intro exI [of _ n] exI [of _ ?req]) (simp add: transport_request_of_def)
qed

text \<open>C17: Two requests of one operation that differ only in headers, query, body, files or the value of
  the idempotency key leave identical records, pauses and results when the service answers both
  alike: nothing a request carries reaches a log record or an error.\<close>

theorem execute_private:
  assumes "same_identity a b" and "answers_alike e"
  shows "fst (execute e g a w) = fst (execute e g b w)
     \<and> w_logs (snd (execute e g a w)) = w_logs (snd (execute e g b w))
     \<and> w_sleeps (snd (execute e g a w)) = w_sleeps (snd (execute e g b w))"
proof -
  have "fst (execute e g a w) = fst (execute e g b w)
     \<and> same_effects (snd (execute e g a w)) (snd (execute e g b w))"
    by (rule execute_alike [OF assms])
  then show ?thesis
    by (auto simp: same_effects_logs)
qed

theorem execute_private_witness:
  "w_logs (snd (execute (sample_env flaky) sample_engine
       ((sample_request READ_ONLY)\<lparr>ro_json := PStr ''secret''\<rparr>) (initial_world ())))
   = w_logs (snd (execute (sample_env flaky) sample_engine (sample_request READ_ONLY) (initial_world ())))"
proof -
  have "same_identity ((sample_request READ_ONLY)\<lparr>ro_json := PStr ''secret''\<rparr>) (sample_request READ_ONLY)"
    by (simp add: same_identity_def)
  moreover have "answers_alike (sample_env flaky)"
    by (simp add: answers_alike_def)
  ultimately show ?thesis
    using execute_private by blast
qed

end
