(* ===== verification/Base64.thy ===== *)
theory Base64
  imports Prelude
begin

text \<open>
  The base64 decoding behind \<open>base64.urlsafe_b64decode\<close>, as \<open>binascii\<close> does it in its non-strict
  mode: characters outside the alphabet are skipped, a pad that completes a group ends the input, and
  an incomplete last group is an error. The encoder is the reference the decoder is measured with.
\<close>

section \<open>The alphabet\<close>

definition sextet_char :: "nat \<Rightarrow> char" where
  "sextet_char n = (if n < 26 then char_of (65 + n) else if n < 52 then char_of (71 + n)
     else if n < 62 then char_of (n - 4) else if n = 62 then CHR ''-'' else CHR ''_'')"

text \<open>The URL-safe translation is applied first, so both spellings of 62 and 63 are accepted.\<close>

definition sextet_of :: "char \<Rightarrow> nat option" where
  "sextet_of c = (if is_upper c then Some (code c - 65) else if is_lower c then Some (code c - 71)
     else if is_digit c then Some (code c + 4)
     else if c = CHR ''-'' \<or> c = CHR ''+'' then Some 62
     else if c = CHR ''_'' \<or> c = CHR ''/'' then Some 63 else None)"

lemma sextet_of_char [simp]: "n < 64 \<Longrightarrow> sextet_of (sextet_char n) = Some n"
proof -
  assume "n < 64"
  then consider "n < 26" | "26 \<le> n" "n < 52" | "52 \<le> n" "n < 62" | "n = 62" | "n = 63"
    by linarith
  then show ?thesis
  proof cases
    case 3
    then have "48 \<le> n - 4" "n - 4 \<le> 57" "n - 4 < 65" by linarith+
    with 3 show ?thesis
      by (simp add: sextet_char_def sextet_of_def is_upper_def is_lower_def is_digit_def code_def)
  qed (simp_all add: sextet_char_def sextet_of_def is_upper_def is_lower_def is_digit_def code_def)
qed

lemma sextet_char_not_pad [simp]: "n < 64 \<Longrightarrow> sextet_char n \<noteq> CHR ''=''"
  using sextet_of_char [of n]
  by (auto simp: sextet_of_def is_upper_def is_lower_def is_digit_def code_def)

lemma sextet_char_ascii: "n < 64 \<Longrightarrow> code (sextet_char n) < 128 \<and> sextet_char n \<noteq> CHR ''.''"
proof -
  assume "n < 64"
  then consider "n < 26" | "26 \<le> n" "n < 52" | "52 \<le> n" "n < 62" | "n = 62" | "n = 63"
    by linarith
  then show ?thesis
  proof cases
    case 1 then show ?thesis using code_inject [of "char_of (65 + n)" "CHR ''.''"]
      by (simp add: sextet_char_def code_def)
  next
    case 2 then show ?thesis using code_inject [of "char_of (71 + n)" "CHR ''.''"]
      by (simp add: sextet_char_def code_def)
  next
    case 3
    then have "n - 4 \<noteq> 46" "n - 4 < 128" by linarith+
    with 3 show ?thesis using code_inject [of "char_of (n - 4)" "CHR ''.''"]
      by (simp add: sextet_char_def code_def)
  qed (simp_all add: sextet_char_def code_def)
qed

section \<open>Decoding\<close>

text \<open>\<open>quad\<close> counts the characters of the open group, \<open>left\<close> holds its unused bits.\<close>

fun a2b :: "nat \<Rightarrow> nat \<Rightarrow> nat \<Rightarrow> string \<Rightarrow> string option" where
  "a2b quad left pads [] = (if quad = 0 then Some [] else None)"
| "a2b quad left pads (c # cs) =
     (if c = CHR ''='' then
        if 2 \<le> quad then (if 4 \<le> quad + Suc pads then Some [] else a2b quad left (Suc pads) cs)
        else a2b quad left pads cs
      else case sextet_of c of
        None \<Rightarrow> a2b quad left pads cs
      | Some v \<Rightarrow>
          if quad = 0 then a2b 1 v 0 cs
          else if quad = 1 then map_option ((#) (char_of (left * 4 + v div 16))) (a2b 2 (v mod 16) 0 cs)
          else if quad = 2 then map_option ((#) (char_of (left * 16 + v div 4))) (a2b 3 (v mod 4) 0 cs)
          else map_option ((#) (char_of (left * 64 + v))) (a2b 0 0 0 cs))"

definition urlsafe_b64decode :: "string \<Rightarrow> string option" where
  "urlsafe_b64decode s = a2b 0 0 0 s"

section \<open>Encoding, and the round trip\<close>

fun urlsafe_b64encode :: "string \<Rightarrow> string" where
  "urlsafe_b64encode [] = []"
| "urlsafe_b64encode [a] = [sextet_char (code a div 4), sextet_char (code a mod 4 * 16)]"
| "urlsafe_b64encode [a, b] = [sextet_char (code a div 4),
     sextet_char (code a mod 4 * 16 + code b div 16), sextet_char (code b mod 16 * 4)]"
| "urlsafe_b64encode (a # b # c # s) = [sextet_char (code a div 4),
     sextet_char (code a mod 4 * 16 + code b div 16), sextet_char (code b mod 16 * 4 + code c div 64),
     sextet_char (code c mod 64)] @ urlsafe_b64encode s"

text \<open>The padding \<open>jwt_expiry\<close> appends: \<open>"=" * (-len(s) % 4)\<close>.\<close>

definition pad_b64 :: "string \<Rightarrow> string" where
  "pad_b64 s = s @ replicate ((4 - length s mod 4) mod 4) (CHR ''='')"

lemma sextet_bounds [simp]:
  "code a div 4 < 64" "code a mod 4 * 16 < 64" "code a mod 4 * 16 + code b div 16 < 64"
  "code b mod 16 * 4 < 64" "code b mod 16 * 4 + code c div 64 < 64" "code c mod 64 < 64"
  using code_less [of a] code_less [of b] code_less [of c] by linarith+

lemma char_of_code [simp]: "char_of (code c) = c"
  by (simp add: code_def)

lemma join_bits [simp]:
  "code b div 16 div 16 = 0" "code b div 16 mod 16 = code b div 16"
  "code c div 64 div 4 = 0" "code c div 64 mod 4 = code c div 64"
  using code_less [of b] code_less [of c] by (simp_all add: div_less mod_less less_mult_imp_div_less)

lemma b64decode_encode_pad: "urlsafe_b64decode (pad_b64 (urlsafe_b64encode s)) = Some s"
proof (induction s rule: urlsafe_b64encode.induct)
  case (4 a b c s)
  then show ?case
    by (simp add: urlsafe_b64decode_def pad_b64_def)
qed (simp_all add: urlsafe_b64decode_def pad_b64_def numeral_2_eq_2 [THEN arg_cong [where f = "\<lambda>n. replicate n _"]])

lemma b64encode_chars: "\<forall>c \<in> set (urlsafe_b64encode s). code c < 128 \<and> c \<noteq> CHR ''.''"
  by (induction s rule: urlsafe_b64encode.induct) (use sextet_char_ascii in auto)

section \<open>The standard alphabet, strictly\<close>

definition std_char :: "char \<Rightarrow> char" where
  "std_char c = (if c = CHR ''-'' then CHR ''+'' else if c = CHR ''_'' then CHR ''/'' else c)"

text \<open>\<open>base64.b64encode\<close>, and \<open>base64.b64decode(s, validate=True)\<close>: only characters of the alphabet,
  then exactly the pads that complete the last group.\<close>

definition b64encode :: "string \<Rightarrow> string" where
  "b64encode s = map std_char (pad_b64 (urlsafe_b64encode s))"

definition b64decode_strict :: "string \<Rightarrow> string option" where
  "b64decode_strict s =
     (let body = takeWhile (\<lambda>c. c \<noteq> CHR ''='') s; pads = dropWhile (\<lambda>c. c \<noteq> CHR ''='') s
      in if list_all (\<lambda>c. sextet_of c \<noteq> None \<and> c \<notin> set ''-_'') body \<and> list_all (\<lambda>c. c = CHR ''='') pads
            \<and> length s mod 4 = 0 \<and> length pads \<le> 2
         then a2b 0 0 0 s else None)"

lemma sextet_std [simp]: "sextet_of (std_char c) = sextet_of c"
  by (simp add: std_char_def sextet_of_def is_upper_def is_lower_def is_digit_def code_def)

lemma std_pad [simp]: "std_char c = CHR ''='' \<longleftrightarrow> c = CHR ''=''"
  by (simp add: std_char_def)

lemma a2b_std: "a2b quad left pads (map std_char s) = a2b quad left pads s"
  by (induction quad left pads s rule: a2b.induct) (simp_all split: option.split)

lemma b64encode_sextets:
  "\<forall>c \<in> set (urlsafe_b64encode s). sextet_of c \<noteq> None \<and> c \<noteq> CHR ''=''"
  by (induction s rule: urlsafe_b64encode.induct) auto

lemma length_b64encode: "length (urlsafe_b64encode s) mod 4 \<noteq> 1"
proof (induction s rule: urlsafe_b64encode.induct)
  case (4 a b c s)
  have "length (urlsafe_b64encode (a # b # c # s)) = 4 + length (urlsafe_b64encode s)"
    by simp
  then show ?case using 4 by presburger
qed simp_all

lemma all_pads: "list_all (\<lambda>c. c = x) (replicate n x)"
  by (induction n) simp_all

lemma b64decode_strict_encode: "b64decode_strict (b64encode s) = Some s"
proof -
  let ?u = "urlsafe_b64encode s"
  let ?n = "(4 - length ?u mod 4) mod 4"
  have chars: "c \<noteq> CHR ''=''" if "c \<in> set (map std_char ?u)" for c
  proof -
    from that obtain d where "d \<in> set ?u" and c: "c = std_char d" by (metis imageE list.set_map)
    then have "d \<noteq> CHR ''=''" using b64encode_sextets [of s] by blast
    then show ?thesis by (simp only: c std_pad not_False_eq_True)
  qed
  have rest: "takeWhile (\<lambda>c. c \<noteq> CHR ''='') (replicate n (CHR ''='')) = []"
    "dropWhile (\<lambda>c. c \<noteq> CHR ''='') (replicate n (CHR ''='')) = replicate n (CHR ''='')" for n
    by (cases n; simp)+
  have enc: "b64encode s = map std_char ?u @ replicate ?n (CHR ''='')"
    by (simp add: b64encode_def pad_b64_def std_char_def)
  have body: "takeWhile (\<lambda>c. c \<noteq> CHR ''='') (b64encode s) = map std_char ?u"
    unfolding enc by (subst takeWhile_append2) (simp_all only: chars rest append_Nil2 not_False_eq_True)
  have pads: "dropWhile (\<lambda>c. c \<noteq> CHR ''='') (b64encode s) = replicate ?n (CHR ''='')"
    unfolding enc by (subst dropWhile_append2) (simp_all only: chars rest not_False_eq_True)
  have std: "std_char c \<notin> set ''-_''" for c by (simp add: std_char_def)
  have "sextet_of c \<noteq> None \<and> c \<notin> set ''-_''" if "c \<in> set (map std_char ?u)" for c
  proof -
    from that obtain d where "d \<in> set ?u" and c: "c = std_char d" by (metis imageE list.set_map)
    then have "sextet_of d \<noteq> None" using b64encode_sextets [of s] by blast
    then show ?thesis using std unfolding c sextet_std by blast
  qed
  then have "list_all (\<lambda>c. sextet_of c \<noteq> None \<and> c \<notin> set ''-_'') (map std_char ?u)"
    unfolding list_all_iff by blast
  moreover have "list_all (\<lambda>c. c = CHR ''='') (replicate ?n (CHR ''=''))"
    by (rule all_pads)
  moreover have "length (b64encode s) mod 4 = 0"
  proof -
    have "(r + (4 - r) mod 4) mod 4 = 0" if "r < 4" for r :: nat
    proof -
      from that consider "r = 0" | "r = 1" | "r = 2" | "r = 3" by linarith
      then show ?thesis by cases simp_all
    qed
    from this [of "length ?u mod 4"] have "(length ?u + ?n) mod 4 = 0"
      by (simp only: mod_add_left_eq mod_less_divisor zero_less_numeral)
    then show ?thesis by (simp only: b64encode_def pad_b64_def length_map length_append length_replicate)
  qed
  moreover have "?n \<le> 2"
  proof -
    have "(4 - r) mod 4 \<le> 2" if "r < 4" "r \<noteq> 1" for r :: nat
    proof -
      from that consider "r = 0" | "r = 2" | "r = 3" by linarith
      then show ?thesis by cases simp_all
    qed
    from this [of "length ?u mod 4"] show ?thesis
      using length_b64encode [of s] by (simp only: mod_less_divisor zero_less_numeral not_False_eq_True)
  qed
  moreover have "a2b 0 0 0 (b64encode s) = Some s"
    using b64decode_encode_pad [of s] by (simp add: b64encode_def a2b_std urlsafe_b64decode_def)
  ultimately show ?thesis
    unfolding b64decode_strict_def Let_def body pads length_replicate by (simp only: if_True simp_thms)
qed

end
