(* ===== verification/Tokens.thy ===== *)
theory Tokens
  imports World Base64
begin

text \<open>
  \<open>src/jibit/auth/tokens.py\<close>: the token state, its validity, its serialization and the expiry hint
  read from a JWT. A \<open>SecretStr\<close> is its text; it is false when the text is empty.
\<close>

record token_state =
  tk_access_token :: string
  tk_refresh_token :: "string option"
  tk_expires_at :: "rat option"
  tk_refresh_expires_at :: "rat option"
  tk_token_type :: string
  tk_scopes :: "string list"

text \<open>\<open>__repr__\<close>, with \<open>rep\<close> for the \<open>!r\<close> conversions.\<close>

definition token_repr :: "(pyval \<Rightarrow> string) \<Rightarrow> token_state \<Rightarrow> string" where
  "token_repr rep t =
     (let stars = ''SecretStr('' @ [CHR 39] @ ''**********'' @ [CHR 39] @ '')'';
          refresh_repr = (if tk_refresh_token t \<noteq> None \<and> tk_refresh_token t \<noteq> Some []
            then stars else ''None'')
      in ''TokenState(access_token='' @ stars @ '', refresh_token='' @ refresh_repr
         @ '', expires_at='' @ rep (opt_float (tk_expires_at t))
         @ '', refresh_expires_at='' @ rep (opt_float (tk_refresh_expires_at t))
         @ '', token_type='' @ rep (PStr (tk_token_type t))
         @ '', scopes='' @ rep (PTuple (map PStr (tk_scopes t))) @ '')'')"

definition access_value :: "token_state \<Rightarrow> string" where
  "access_value t = tk_access_token t"

definition refresh_value :: "token_state \<Rightarrow> string option" where
  "refresh_value t = (if tk_refresh_token t = Some [] then None else tk_refresh_token t)"

definition is_access_valid :: "token_state \<Rightarrow> rat \<Rightarrow> rat \<Rightarrow> bool" where
  "is_access_valid t now leeway =
     (case tk_expires_at t of None \<Rightarrow> True | Some x \<Rightarrow> now + leeway < x)"

definition is_refresh_valid :: "token_state \<Rightarrow> rat \<Rightarrow> rat \<Rightarrow> bool" where
  "is_refresh_valid t now leeway \<longleftrightarrow> tk_refresh_token t \<noteq> None
     \<and> (case tk_refresh_expires_at t of None \<Rightarrow> True | Some x \<Rightarrow> now + leeway < x)"

section \<open>Numbers from values\<close>

text \<open>\<open>float(i)\<close> raises when the nearest float would be infinite.\<close>

definition float_limit :: int where
  "float_limit = 2 ^ 1024 - 2 ^ 970"

definition float_of_int :: "int \<Rightarrow> exn + rat" where
  "float_of_int i = (if float_limit \<le> \<bar>i\<bar> then Inl OverflowError else Inr (of_int i))"

definition py_space :: "char \<Rightarrow> bool" where
  "py_space c \<longleftrightarrow> (9 \<le> code c \<and> code c \<le> 13) \<or> (28 \<le> code c \<and> code c \<le> 32) \<or> code c \<in> {133, 160}"

definition py_strip :: "string \<Rightarrow> string" where
  "py_strip s = rev (dropWhile py_space (rev (dropWhile py_space s)))"

text \<open>Digits with single underscores between them.\<close>

fun digit_part :: "string \<Rightarrow> bool" where
  "digit_part [] = False"
| "digit_part [c] = is_digit c"
| "digit_part (c # d # s) \<longleftrightarrow> is_digit c \<and> (if d = CHR ''_'' then digit_part s else digit_part (d # s))"

definition digits_value :: "string \<Rightarrow> int" where
  "digits_value s = foldl (\<lambda>n c. n * 10 + (int (code c) - 48)) 0 (filter is_digit s)"

definition split_sign :: "string \<Rightarrow> int \<times> string" where
  "split_sign s = (case s of c # cs \<Rightarrow> if c = CHR ''-'' then (-1, cs)
     else if c = CHR ''+'' then (1, cs) else (1, s) | [] \<Rightarrow> (1, s))"

text \<open>\<open>float(s)\<close> for a decimal literal; the texts of infinities and of \<open>nan\<close> are outside the model,
  which has finite floats only.\<close>

definition float_of_str :: "string \<Rightarrow> exn + rat" where
  "float_of_str text =
     (let (sign, t) = split_sign (py_strip text);
          mantissa = takeWhile (\<lambda>c. c \<notin> set ''eE'') t; tail = dropWhile (\<lambda>c. c \<notin> set ''eE'') t;
          ip = takeWhile (\<lambda>c. c \<noteq> CHR ''.'') mantissa; dot = dropWhile (\<lambda>c. c \<noteq> CHR ''.'') mantissa;
          fp = drop 1 dot; (esign, ed) = split_sign (drop 1 tail);
          exponent = (if tail = [] then 0 else esign * digits_value ed)
      in if (digit_part ip \<or> (ip = [] \<and> dot \<noteq> [])) \<and> (digit_part fp \<or> fp = []) \<and> (ip \<noteq> [] \<or> fp \<noteq> [])
            \<and> (tail = [] \<or> digit_part ed)
         then Inr (of_int (sign * digits_value (ip @ fp))
           * 10 powi (exponent - int (length (filter is_digit fp))))
         else Inl ValueError)"

text \<open>\<open>float(value)\<close>.\<close>

definition py_float :: "pyval \<Rightarrow> exn + rat" where
  "py_float v = (case v of
       PBool b \<Rightarrow> Inr (of_bool b) | PInt i \<Rightarrow> float_of_int i | PFloat x \<Rightarrow> Inr x
     | PStr s \<Rightarrow> float_of_str s | PBytes s \<Rightarrow> float_of_str s | _ \<Rightarrow> Inl TypeError)"

definition optional_float :: "pyval \<Rightarrow> exn + rat option" where
  "optional_float v = (case v of
       PBool b \<Rightarrow> Inr (Some (of_bool b)) | PFloat x \<Rightarrow> Inr (Some x)
     | PInt i \<Rightarrow> map_sum id Some (float_of_int i) | _ \<Rightarrow> Inr None)"

section \<open>Serialization\<close>

definition to_cache_data :: "token_state \<Rightarrow> pydict" where
  "to_cache_data t =
     [(''access_token'', PStr (access_value t)), (''refresh_token'', opt_str (refresh_value t)),
      (''expires_at'', opt_float (tk_expires_at t)),
      (''refresh_expires_at'', opt_float (tk_refresh_expires_at t)),
      (''token_type'', PStr (tk_token_type t)), (''scopes'', PList (map PStr (tk_scopes t)))]"

text \<open>Iterating a value; a number or a foreign object is not iterable.\<close>

definition py_iter :: "pyval \<Rightarrow> exn + pyval list" where
  "py_iter v = (case v of
       PList xs \<Rightarrow> Inr xs | PTuple xs \<Rightarrow> Inr xs | PStr s \<Rightarrow> Inr (map (\<lambda>c. PStr [c]) s)
     | PBytes s \<Rightarrow> Inr (map (\<lambda>c. PInt (int (code c))) s) | PDict d \<Rightarrow> Inr (map (PStr \<circ> fst) d)
     | _ \<Rightarrow> Inl TypeError)"

definition from_cache_data :: "(pyval \<Rightarrow> string) \<Rightarrow> pydict \<Rightarrow> exn + token_state" where
  "from_cache_data rep value =
     (case pyget value ''access_token'' of
        PStr access \<Rightarrow>
          if access = [] then Inl ValueError
          else (case optional_float (pyget value ''expires_at'') of
            Inl x \<Rightarrow> Inl x
          | Inr expires \<Rightarrow> (case optional_float (pyget value ''refresh_expires_at'') of
              Inl x \<Rightarrow> Inl x
            | Inr refresh_expires \<Rightarrow> (case py_iter (py_or (pyget value ''scopes'') (PTuple [])) of
                Inl x \<Rightarrow> Inl x
              | Inr scopes \<Rightarrow> Inr \<lparr>tk_access_token = access,
                  tk_refresh_token = (case pyget value ''refresh_token'' of PStr s \<Rightarrow> Some s | _ \<Rightarrow> None),
                  tk_expires_at = expires, tk_refresh_expires_at = refresh_expires,
                  tk_token_type = py_str rep (py_or (pyget value ''token_type'') (PStr ''Bearer'')),
                  tk_scopes = map (py_str rep) scopes\<rparr>)))
      | _ \<Rightarrow> Inl ValueError)"

section \<open>The expiry of a JWT\<close>

definition jwt_expiry_value :: "env \<Rightarrow> string \<Rightarrow> exn + rat option" where
  "jwt_expiry_value e part =
     (if list_all (\<lambda>c. code c < 128) (pad_b64 part) then
        case urlsafe_b64decode (pad_b64 part) of
          None \<Rightarrow> Inl ValueError
        | Some bs \<Rightarrow> (case e_json_loads e bs of
            Inl x \<Rightarrow> Inl x
          | Inr decoded \<Rightarrow>
              (case (case decoded of PDict d \<Rightarrow> pyget d ''exp'' | _ \<Rightarrow> PNone) of
                 PNone \<Rightarrow> Inr None
               | expiry \<Rightarrow> map_sum id Some (py_float expiry)))
      else Inl ValueError)"

definition jwt_expiry :: "env \<Rightarrow> string \<Rightarrow> exn + rat option" where
  "jwt_expiry e token = (let parts = split_on CHR ''.'' token in
     if length parts \<noteq> 3 then Inr None
     else case jwt_expiry_value e (parts ! 1) of
       Inl x \<Rightarrow> if is_value_error x \<or> x = TypeError then Inr None else Inl x
     | Inr v \<Rightarrow> Inr v)"

section \<open>Facts\<close>

text \<open>A state the SDK itself can build: no empty access token, no empty refresh token, no empty type.\<close>

definition storable :: "token_state \<Rightarrow> bool" where
  "storable t \<longleftrightarrow> tk_access_token t \<noteq> [] \<and> tk_refresh_token t \<noteq> Some [] \<and> tk_token_type t \<noteq> []"

lemma optional_float_opt [simp]: "optional_float (opt_float x) = Inr x"
  by (cases x) (simp_all add: optional_float_def)

lemma from_to_cache_data: "storable t \<Longrightarrow> from_cache_data rep (to_cache_data t) = Inr t"
  by (cases t) (simp add: storable_def from_cache_data_def to_cache_data_def access_value_def
      refresh_value_def py_iter_def py_or_def opt_str_def comp_def split: option.split)

lemma from_cache_data_access:
  "from_cache_data rep d = Inr t \<Longrightarrow> tk_access_token t \<noteq> []"
  by (auto simp: from_cache_data_def split: pyval.splits sum.splits if_splits)

lemma py_iter_errors: "py_iter v = Inl x \<Longrightarrow> x = TypeError"
  by (auto simp: py_iter_def split: pyval.splits)

text \<open>A JWT made by the reference encoder: its expiry is the \<open>exp\<close> of its payload.\<close>

definition make_jwt :: "string \<Rightarrow> string \<Rightarrow> string \<Rightarrow> string" where
  "make_jwt header payload signature = header @ ''.'' @ urlsafe_b64encode payload @ ''.'' @ signature"

lemma jwt_parts:
  assumes "CHR ''.'' \<notin> set header" and "CHR ''.'' \<notin> set signature"
  shows "split_on CHR ''.'' (make_jwt header payload signature)
     = [header, urlsafe_b64encode payload, signature]"
proof -
  have "CHR ''.'' \<notin> set (urlsafe_b64encode payload)"
    using b64encode_chars by blast
  then show ?thesis
    using assms by (simp add: make_jwt_def split_on_append_absent split_on_absent)
qed

lemma jwt_expiry_payload:
  assumes "CHR ''.'' \<notin> set header" and "CHR ''.'' \<notin> set signature"
    and "e_json_loads e payload = Inr (PDict d)" and "pyget d ''exp'' = PInt i"
  shows "jwt_expiry e (make_jwt header payload signature) = map_sum id Some (float_of_int i)"
proof -
  have pad: "code (CHR ''='') < 128" by (simp add: code_def)
  have "code c < 128" if "c \<in> set (pad_b64 (urlsafe_b64encode payload))" for c
    using that b64encode_chars [of payload] pad by (fastforce simp: pad_b64_def)
  then have "list_all (\<lambda>c. code c < 128) (pad_b64 (urlsafe_b64encode payload))"
    by (simp add: list_all_iff)
  then have "jwt_expiry_value e (urlsafe_b64encode payload) = map_sum id Some (float_of_int i)"
    using assms(3,4) by (simp add: jwt_expiry_value_def b64decode_encode_pad py_float_def)
  then show ?thesis
    using assms(1,2) by (simp add: jwt_expiry_def jwt_parts float_of_int_def)
qed

lemma jwt_expiry_make:
  assumes "CHR ''.'' \<notin> set header" and "CHR ''.'' \<notin> set signature"
    and "e_json_loads e payload = Inr (PDict d)" and "pyget d ''exp'' = PInt i"
    and "\<bar>i\<bar> < float_limit"
  shows "jwt_expiry e (make_jwt header payload signature) = Inr (Some (of_int i))"
  using jwt_expiry_payload [OF assms(1-4)] assms(5) by (simp add: float_of_int_def)

end
