(* ===== verification/Json.thy ===== *)
theory Json
  imports Py_Values Exceptions Utf8
begin

text \<open>
  \<open>json.dumps(value, separators=(",", ":"))\<close> and \<open>json.loads(text)\<close> of the standard library, as
  \<open>auth/redis.py\<close> uses them. A text that is read is a list of code points, of which any may occur; a
  text that is written is ASCII. Writing and reading one float is an argument (\<open>float.__repr__\<close> and
  \<open>float\<close>), and so is what \<open>loads\<close> returns for a text whose value the type \<^typ>\<open>pyval\<close> does not have: one
  with a character above 255, or with a number that is not finite. The nesting is assumed to stay within
  the interpreter's recursion limit.
\<close>

record json_lib =
  jl_repr :: "rat \<Rightarrow> string"
  jl_float :: "string \<Rightarrow> rat option"
  jl_beyond :: "nat list \<Rightarrow> exn + pyval"

text \<open>An \<open>int\<close> of more than 4300 digits is neither written nor read.\<close>

definition int_text_digits :: nat where
  "int_text_digits = 4300"

definition int_text_limit :: int where
  "int_text_limit = 10 ^ int_text_digits"

section \<open>Writing\<close>

definition hex_char :: "nat \<Rightarrow> char" where
  "hex_char n = char_of (if n < 10 then 48 + n else 87 + n)"

definition escape_ascii :: "char \<Rightarrow> string" where
  "escape_ascii c =
     (if c = CHR 34 then [CHR 92, CHR 34] else if c = CHR 92 then [CHR 92, CHR 92]
      else if c = CHR 10 then [CHR 92, CHR ''n''] else if c = CHR 13 then [CHR 92, CHR ''r'']
      else if c = CHR 9 then [CHR 92, CHR ''t''] else if c = CHR 12 then [CHR 92, CHR ''f'']
      else if c = CHR 8 then [CHR 92, CHR ''b'']
      else if 32 \<le> code c \<and> code c \<le> 126 then [c]
      else [CHR 92, CHR ''u'', CHR ''0'', CHR ''0'', hex_char (code c div 16), hex_char (code c mod 16)])"

definition quote_ascii :: "string \<Rightarrow> string" where
  "quote_ascii s = CHR 34 # concat (map escape_ascii s) @ [CHR 34]"

text \<open>The first exception of a list of results, or all the values.\<close>

fun all_results :: "('e + 'a) list \<Rightarrow> 'e + 'a list" where
  "all_results [] = Inr []"
| "all_results (Inl x # rs) = Inl x"
| "all_results (Inr v # rs) = map_sum id (Cons v) (all_results rs)"

definition in_brackets :: "string \<Rightarrow> string \<Rightarrow> exn + string list \<Rightarrow> exn + string" where
  "in_brackets l r ts = map_sum id (\<lambda>ts. l @ join_with '','' ts @ r) ts"

fun json_value :: "json_lib \<Rightarrow> pyval \<Rightarrow> exn + string" where
  "json_value lib PNone = Inr ''null''"
| "json_value lib (PBool b) = Inr (if b then ''true'' else ''false'')"
| "json_value lib (PInt i) = (if int_text_limit \<le> \<bar>i\<bar> then Inl ValueError else Inr (show_int i))"
| "json_value lib (PFloat x) = Inr (jl_repr lib x)"
| "json_value lib (PStr s) = Inr (quote_ascii s)"
| "json_value lib (PList xs) = in_brackets ''['' '']'' (all_results (map (json_value lib) xs))"
| "json_value lib (PTuple xs) = in_brackets ''['' '']'' (all_results (map (json_value lib) xs))"
| "json_value lib (PDict d) = in_brackets ''{'' ''}''
     (all_results (map (\<lambda>(k, v). map_sum id (\<lambda>t. quote_ascii k @ '':'' @ t) (json_value lib v)) d))"
| "json_value lib (PBytes b) = Inl TypeError"
| "json_value lib (PObj s) = Inl TypeError"

section \<open>Reading\<close>

text \<open>What reading a piece gives: its value and the text after it, an exception, a value that the model
  does not have, or no answer within the fuel.\<close>

datatype 'a scan = Done 'a "nat list" | Fail exn | Beyond | Fuel

fun scan_bind :: "'a scan \<Rightarrow> ('a \<Rightarrow> nat list \<Rightarrow> 'b scan) \<Rightarrow> 'b scan" where
  "scan_bind (Done v s) f = f v s"
| "scan_bind (Fail x) f = Fail x"
| "scan_bind Beyond f = Beyond"
| "scan_bind Fuel f = Fuel"

definition skip_ws :: "nat list \<Rightarrow> nat list" where
  "skip_ws s = dropWhile (\<lambda>c. c \<in> {32, 9, 10, 13}) s"

text \<open>The character expected next.\<close>

definition expect :: "nat list \<Rightarrow> (nat \<Rightarrow> nat list \<Rightarrow> 'a scan) \<Rightarrow> 'a scan" where
  "expect s f = (case s of [] \<Rightarrow> Fail JSONDecodeError | c # t \<Rightarrow> f c t)"

subsection \<open>Strings\<close>

definition hex_digit :: "nat \<Rightarrow> nat option" where
  "hex_digit c = (if 48 \<le> c \<and> c \<le> 57 then Some (c - 48) else if 97 \<le> c \<and> c \<le> 102 then Some (c - 87)
     else if 65 \<le> c \<and> c \<le> 70 then Some (c - 55) else None)"

definition hex4 :: "nat \<Rightarrow> nat \<Rightarrow> nat \<Rightarrow> nat \<Rightarrow> nat option" where
  "hex4 a b c d = (case (hex_digit a, hex_digit b, hex_digit c, hex_digit d) of
       (Some w, Some x, Some y, Some z) \<Rightarrow> Some (((w * 16 + x) * 16 + y) * 16 + z) | _ \<Rightarrow> None)"

definition simple_escape :: "nat \<Rightarrow> nat option" where
  "simple_escape c = map_of [(34, 34), (92, 92), (47, 47), (98, 8), (102, 12), (110, 10), (114, 13), (116, 9)] c"

definition add_char :: "nat \<Rightarrow> string scan \<Rightarrow> string scan" where
  "add_char v r = scan_bind r (\<lambda>s t. if v < 256 then Done (char_of v # s) t else Beyond)"

text \<open>The text after the opening quote. A surrogate is above 255, so joining a pair changes nothing here.\<close>

fun scan_string :: "nat list \<Rightarrow> string scan" where
  "scan_string [] = Fail JSONDecodeError"
| "scan_string (c # s) =
     (if c = 34 then Done [] s
      else if c < 32 then Fail JSONDecodeError
      else if c \<noteq> 92 then add_char c (scan_string s)
      else case s of
        [] \<Rightarrow> Fail JSONDecodeError
      | e # t \<Rightarrow>
          if e = 117 then
            (case t of h1 # h2 # h3 # h4 # r \<Rightarrow> (case hex4 h1 h2 h3 h4 of
                 None \<Rightarrow> Fail JSONDecodeError | Some v \<Rightarrow> add_char v (scan_string r))
             | _ \<Rightarrow> Fail JSONDecodeError)
          else (case simple_escape e of
                 None \<Rightarrow> Fail JSONDecodeError | Some v \<Rightarrow> add_char v (scan_string t)))"

subsection \<open>Numbers\<close>

definition ascii_digit :: "nat \<Rightarrow> bool" where
  "ascii_digit c \<longleftrightarrow> 48 \<le> c \<and> c \<le> 57"

definition lex_integer :: "nat list \<Rightarrow> (nat list \<times> nat list) option" where
  "lex_integer s =
     (let sign = (if s \<noteq> [] \<and> hd s = 45 then [45] else []); t = drop (length sign) s
      in case t of [] \<Rightarrow> None
         | c # u \<Rightarrow> if c = 48 then Some (sign @ [48], u)
             else if ascii_digit c then Some (sign @ takeWhile ascii_digit t, dropWhile ascii_digit t)
             else None)"

definition lex_fraction :: "nat list \<Rightarrow> nat list \<times> nat list" where
  "lex_fraction s = (case s of [] \<Rightarrow> ([], [])
     | c # t \<Rightarrow> if c = 46 \<and> takeWhile ascii_digit t \<noteq> []
         then (46 # takeWhile ascii_digit t, dropWhile ascii_digit t) else ([], s))"

definition lex_exponent :: "nat list \<Rightarrow> nat list \<times> nat list" where
  "lex_exponent s = (case s of [] \<Rightarrow> ([], [])
     | c # t \<Rightarrow>
         let sign = (if t \<noteq> [] \<and> hd t \<in> {43, 45} then [hd t] else []); u = drop (length sign) t
         in if c \<in> {101, 69} \<and> takeWhile ascii_digit u \<noteq> []
            then (c # sign @ takeWhile ascii_digit u, dropWhile ascii_digit u) else ([], s))"

text \<open>The integer part, what makes it a float, and the text after the number.\<close>

definition lex_number :: "nat list \<Rightarrow> (nat list \<times> nat list \<times> nat list) option" where
  "lex_number s = (case lex_integer s of None \<Rightarrow> None
     | Some (i, r) \<Rightarrow> (let (f, r1) = lex_fraction r; (x, r2) = lex_exponent r1 in Some (i, f @ x, r2)))"

definition digits_int :: "nat list \<Rightarrow> int" where
  "digits_int s = foldl (\<lambda>n c. n * 10 + (int c - 48)) 0 s"

definition read_int :: "nat list \<Rightarrow> int" where
  "read_int s = (case s of [] \<Rightarrow> 0 | c # t \<Rightarrow> if c = 45 then - digits_int t else digits_int s)"

definition scan_number :: "json_lib \<Rightarrow> nat list \<Rightarrow> pyval scan" where
  "scan_number lib s = (case lex_number s of
       None \<Rightarrow> Fail JSONDecodeError
     | Some (i, fx, r) \<Rightarrow>
         if fx \<noteq> [] then (case jl_float lib (chars (i @ fx)) of None \<Rightarrow> Beyond | Some x \<Rightarrow> Done (PFloat x) r)
         else if int_text_digits < length (filter ascii_digit i) then Fail ValueError
         else Done (PInt (read_int i)) r)"

subsection \<open>Values\<close>

fun scan_value :: "nat \<Rightarrow> json_lib \<Rightarrow> nat list \<Rightarrow> pyval scan"
  and scan_elements :: "nat \<Rightarrow> json_lib \<Rightarrow> nat list \<Rightarrow> pyval list scan"
  and scan_members :: "nat \<Rightarrow> json_lib \<Rightarrow> pydict \<Rightarrow> nat list \<Rightarrow> pydict scan" where
  "scan_value 0 lib s = Fuel"
| "scan_value (Suc n) lib s = expect s (\<lambda>c t.
     if c = 34 then scan_bind (scan_string t) (\<lambda>x. Done (PStr x))
     else if c = 123 then expect (skip_ws t) (\<lambda>d r.
       if d = 125 then Done (PDict []) r else scan_bind (scan_members n lib [] (d # r)) (\<lambda>m. Done (PDict m)))
     else if c = 91 then expect (skip_ws t) (\<lambda>d r.
       if d = 93 then Done (PList []) r else scan_bind (scan_elements n lib (d # r)) (\<lambda>vs. Done (PList vs)))
     else if prefix (codes ''null'') s then Done PNone (drop 4 s)
     else if prefix (codes ''true'') s then Done (PBool True) (drop 4 s)
     else if prefix (codes ''false'') s then Done (PBool False) (drop 5 s)
     else if prefix (codes ''NaN'') s \<or> prefix (codes ''Infinity'') s \<or> prefix (codes ''-Infinity'') s then Beyond
     else scan_number lib s)"
| "scan_elements 0 lib s = Fuel"
| "scan_elements (Suc n) lib s = scan_bind (scan_value n lib s) (\<lambda>v r. expect (skip_ws r) (\<lambda>c t.
     if c = 93 then Done [v] t
     else if c = 44 then scan_bind (scan_elements n lib (skip_ws t)) (\<lambda>vs. Done (v # vs))
     else Fail JSONDecodeError))"
| "scan_members 0 lib m s = Fuel"
| "scan_members (Suc n) lib m s = expect s (\<lambda>c t.
     if c \<noteq> 34 then Fail JSONDecodeError
     else scan_bind (scan_string t) (\<lambda>k r. expect (skip_ws r) (\<lambda>c t.
       if c \<noteq> 58 then Fail JSONDecodeError
       else scan_bind (scan_value n lib (skip_ws t)) (\<lambda>v r. expect (skip_ws r) (\<lambda>c t.
         if c = 125 then Done (dict_set k v m) t
         else if c = 44 then scan_members n lib (dict_set k v m) (skip_ws t)
         else Fail JSONDecodeError)))))"

definition json_loads :: "json_lib \<Rightarrow> nat list \<Rightarrow> exn + pyval" where
  "json_loads lib s = (case scan_value (Suc (2 * length s)) lib (skip_ws s) of
       Done v r \<Rightarrow> if skip_ws r = [] then Inr v else Inl JSONDecodeError
     | Fail x \<Rightarrow> Inl x
     | Beyond \<Rightarrow> jl_beyond lib s
     | Fuel \<Rightarrow> Inl (OtherException ''RecursionError''))"

section \<open>Reading always ends with an answer\<close>

lemma scan_bind_Done: "scan_bind r f = Done y t \<longleftrightarrow> (\<exists>x s. r = Done x s \<and> f x s = Done y t)"
  by (cases r) auto

lemma scan_bind_Fuel: "scan_bind r f = Fuel \<longleftrightarrow> r = Fuel \<or> (\<exists>x s. r = Done x s \<and> f x s = Fuel)"
  by (cases r) auto

lemma expect_Done: "expect s f = Done y t \<longleftrightarrow> (\<exists>c r. s = c # r \<and> f c r = Done y t)"
  by (cases s) (auto simp: expect_def)

lemma expect_Fuel: "expect s f = Fuel \<longleftrightarrow> (\<exists>c r. s = c # r \<and> f c r = Fuel)"
  by (cases s) (auto simp: expect_def)

lemma skip_ws_length: "length (skip_ws s) \<le> length s"
  by (simp add: skip_ws_def length_dropWhile_le)

lemma skip_ws_Cons: "skip_ws s = c # t \<Longrightarrow> length t < length s"
  using skip_ws_length [of s] by simp

declare scan_string.simps(2) [simp del]

lemma scan_string_step:
  "scan_string (c # s) = Done x r \<Longrightarrow>
     r = s \<or> (\<exists>t y. length t \<le> length s \<and> scan_string t = Done y r)"
  by (subst (asm) scan_string.simps)
     (fastforce simp: add_char_def scan_bind_Done split: if_splits list.splits option.splits)

lemma scan_string_Done: "scan_string s = Done x r \<Longrightarrow> length r < length s"
proof (induction s arbitrary: x r rule: length_induct)
  case (1 s)
  then show ?case
    by (cases s) (auto dest!: scan_string_step simp: less_Suc_eq_le dest: less_imp_le)
qed

lemma scan_string_Fuel: "scan_string s \<noteq> Fuel"
proof (induction s rule: scan_string.induct)
  case (2 c s)
  then show ?case
    by (subst scan_string.simps) (auto simp: add_char_def scan_bind_Fuel split: list.split option.split)
qed simp

text \<open>What is taken off and what is left make up the text.\<close>

lemma lex_integer_parts: "lex_integer s = Some (i, r) \<Longrightarrow> s = i @ r \<and> i \<noteq> []"
  by (cases s; cases "tl s") (auto simp: lex_integer_def Let_def split: if_splits list.splits)

lemma lex_fraction_parts: "lex_fraction s = (f, r) \<Longrightarrow> s = f @ r"
  by (auto simp: lex_fraction_def split: if_splits list.splits)

lemma lex_exponent_parts: "lex_exponent s = (x, r) \<Longrightarrow> s = x @ r"
  by (cases s; cases "tl s") (auto simp: lex_exponent_def Let_def split: if_splits)

lemma lex_number_parts: "lex_number s = Some (i, fx, r) \<Longrightarrow> s = i @ fx @ r \<and> i \<noteq> []"
  by (auto simp: lex_number_def split: option.splits prod.splits
      dest!: lex_integer_parts lex_fraction_parts lex_exponent_parts)

lemma scan_number_Done: "scan_number lib s = Done v r \<Longrightarrow> length r < length s"
  by (auto simp: scan_number_def split: option.splits if_splits dest!: lex_number_parts)

lemma scan_number_Fuel: "scan_number lib s \<noteq> Fuel"
  by (auto simp: scan_number_def split: option.splits)

lemma prefix_length: "prefix p s \<Longrightarrow> p \<noteq> [] \<Longrightarrow> length (drop (length p) s) < length s"
  by (auto simp: prefix_def)

lemma expect_ws_Done:
  "expect (skip_ws s) f = Done y r \<Longrightarrow> \<exists>c t. f c t = Done y r \<and> length t < length s"
  by (auto simp: expect_Done dest!: skip_ws_Cons)

lemma scan_consumes:
  "(\<forall>s v r. scan_value n lib s = Done v r \<longrightarrow> length r < length s) \<and>
   (\<forall>s vs r. scan_elements n lib s = Done vs r \<longrightarrow> length r < length s) \<and>
   (\<forall>m s d r. scan_members n lib m s = Done d r \<longrightarrow> length r < length s)"
proof (induction n)
  case (Suc n)
  then have V: "length r < length s" if "scan_value n lib s = Done v r" for s v r
    using that by blast
  from Suc have E: "length r < length s" if "scan_elements n lib s = Done vs r" for s vs r
    using that by blast
  from Suc have M: "length r < length s" if "scan_members n lib m s = Done d r" for m s d r
    using that by blast
  have "length r < length s" if v: "scan_value (Suc n) lib s = Done v r" for s v r
  proof -
    obtain c t where s: "s = c # t"
      using v by (auto simp: expect_Done)
    consider "scan_number lib s = Done v r" | "r \<in> {drop 4 s, drop 5 s}"
      | x where "scan_string t = Done x r" | d where "skip_ws t = d # r"
      | d u m where "skip_ws t = d # u" "scan_members n lib [] (d # u) = Done m r"
      | d u vs where "skip_ws t = d # u" "scan_elements n lib (d # u) = Done vs r"
      using v unfolding s
      by (auto simp: expect_Done scan_bind_Done simp del: codes_simps split: if_splits)
    then show ?thesis
    proof cases
      case 2
      then show ?thesis by (auto simp: s)
    qed (use s skip_ws_length [of t] in \<open>auto dest!: scan_number_Done scan_string_Done E M\<close>)
  qed
  moreover have "length r < length s" if v: "scan_elements (Suc n) lib s = Done vs r" for s vs r
  proof -
    obtain x u t where u: "scan_value n lib s = Done x u" "length t < length u"
        and e: "r = t \<or> (\<exists>vs. scan_elements n lib (skip_ws t) = Done vs r)"
      using v by (auto simp: scan_bind_Done split: if_splits dest!: expect_ws_Done)
    from e show ?thesis
      using V [OF u(1)] u(2) skip_ws_length [of t] by (auto dest!: E)
  qed
  moreover have "length r < length s" if v: "scan_members (Suc n) lib m s = Done d r" for m s d r
  proof -
    obtain q k r1 t1 x r2 t2 m' where "s = 34 # q" "scan_string q = Done k r1" "length t1 < length r1"
        "scan_value n lib (skip_ws t1) = Done x r2" "length t2 < length r2"
        and e: "r = t2 \<or> scan_members n lib m' (skip_ws t2) = Done d r"
      using v by (fastforce simp: scan_bind_Done expect_Done [of s] split: if_splits dest!: expect_ws_Done)
    moreover from e have "length r \<le> length t2"
      using skip_ws_length [of t2] by (auto dest!: M)
    ultimately show ?thesis
      using skip_ws_length [of t1] by (auto dest!: V scan_string_Done)
  qed
  ultimately show ?case by blast
qed simp_all

text \<open>Fuel of twice the length of the text is enough, whatever the text.\<close>

lemma scan_fuel:
  "(\<forall>s. 2 * length s < n \<longrightarrow> scan_value n lib s \<noteq> Fuel) \<and>
   (\<forall>s. Suc (2 * length s) < n \<longrightarrow> scan_elements n lib s \<noteq> Fuel) \<and>
   (\<forall>m s. Suc (2 * length s) < n \<longrightarrow> scan_members n lib m s \<noteq> Fuel)"
proof (induction n)
  case (Suc n)
  then have V: "scan_value n lib s \<noteq> Fuel" if "2 * length s < n" for s
    using that by blast
  from Suc have E: "scan_elements n lib s \<noteq> Fuel" if "Suc (2 * length s) < n" for s
    using that by blast
  from Suc have M: "scan_members n lib m s \<noteq> Fuel" if "Suc (2 * length s) < n" for m s
    using that by blast
  have "scan_value (Suc n) lib s \<noteq> Fuel" if len: "2 * length s < Suc n" for s
  proof
    assume v: "scan_value (Suc n) lib s = Fuel"
    then obtain c t where s: "s = c # t"
      by (auto simp: expect_Fuel)
    then obtain d u where u: "skip_ws t = d # u"
        and "scan_members n lib [] (d # u) = Fuel \<or> scan_elements n lib (d # u) = Fuel"
      using v by (auto simp: expect_Fuel scan_bind_Fuel scan_string_Fuel scan_number_Fuel split: if_splits)
    moreover have "Suc (2 * length (d # u)) < n"
      using len skip_ws_length [of t] unfolding s u by simp
    ultimately show False
      using E M by blast
  qed
  moreover have "scan_elements (Suc n) lib s \<noteq> Fuel" if len: "Suc (2 * length s) < Suc n" for s
  proof
    assume "scan_elements (Suc n) lib s = Fuel"
    then obtain v r c t where "scan_value n lib s = Done v r" "skip_ws r = c # t"
        "scan_elements n lib (skip_ws t) = Fuel"
      using V [of s] len by (auto simp: scan_bind_Fuel expect_Fuel split: if_splits)
    moreover from this have "Suc (2 * length (skip_ws t)) < n"
      using len scan_consumes [of n lib] skip_ws_length [of t] skip_ws_Cons [of r c t] by fastforce
    ultimately show False
      using E by blast
  qed
  moreover have "scan_members (Suc n) lib m s \<noteq> Fuel" if len: "Suc (2 * length s) < Suc n" for m s
  proof
    assume "scan_members (Suc n) lib m s = Fuel"
    then obtain q k r t where s: "s = 34 # q" "scan_string q = Done k r" "skip_ws r = 58 # t"
        and e: "scan_value n lib (skip_ws t) = Fuel \<or> (\<exists>v r' c u m'. scan_value n lib (skip_ws t) = Done v r'
          \<and> skip_ws r' = c # u \<and> scan_members n lib m' (skip_ws u) = Fuel)"
      by (fastforce simp: scan_bind_Fuel expect_Fuel scan_string_Fuel split: if_splits)
    from s have t: "length (skip_ws t) < length s"
      using scan_string_Done [of q k r] skip_ws_Cons [of r 58 t] skip_ws_length [of t] by simp
    with len obtain v r' c u m' where "scan_value n lib (skip_ws t) = Done v r'" "skip_ws r' = c # u"
        "scan_members n lib m' (skip_ws u) = Fuel"
      using e V [of "skip_ws t"] by auto
    moreover from this have "Suc (2 * length (skip_ws u)) < n"
      using len t scan_consumes [of n lib] skip_ws_length [of u] skip_ws_Cons [of r' c u] by fastforce
    ultimately show False
      using M by blast
  qed
  ultimately show ?case by blast
qed simp_all

lemma json_loads_fuel: "scan_value (Suc (2 * length s)) lib (skip_ws s) \<noteq> Fuel"
  using scan_fuel [of "Suc (2 * length s)" lib] skip_ws_length [of s] by simp

section \<open>What is written is read back\<close>

text \<open>The values \<open>dumps\<close> and \<open>loads\<close> keep: no bytes, tuple or foreign object, and the keys of a dict differ.\<close>

fun jsonable :: "pyval \<Rightarrow> bool" where
  "jsonable (PInt i) \<longleftrightarrow> \<bar>i\<bar> < int_text_limit"
| "jsonable (PList xs) \<longleftrightarrow> list_all jsonable xs"
| "jsonable (PDict d) \<longleftrightarrow> distinct (keys d) \<and> list_all (\<lambda>(k, v). jsonable v) d"
| "jsonable (PTuple xs) = False"
| "jsonable (PBytes b) = False"
| "jsonable (PObj s) = False"
| "jsonable v = True"

text \<open>A text that is read as one float, and an interpreter that reads every float it writes.\<close>

definition float_text :: "string \<Rightarrow> bool" where
  "float_text t = (case lex_number (codes t) of None \<Rightarrow> False | Some (i, fx, r) \<Rightarrow> fx \<noteq> [] \<and> r = [])"

definition faithful_floats :: "json_lib \<Rightarrow> bool" where
  "faithful_floats lib \<longleftrightarrow> (\<forall>x. float_text (jl_repr lib x) \<and> jl_float lib (jl_repr lib x) = Some x)"

subsection \<open>Strings\<close>

lemma hex_digit_char: "n < 16 \<Longrightarrow> hex_digit (code (hex_char n)) = Some n"
  by (auto simp: hex_digit_def hex_char_def)

lemma scan_escape: "scan_string (codes (escape_ascii c) @ s) = add_char (code c) (scan_string s)"
proof -
  consider "c \<in> {CHR 34, CHR 92, CHR 10, CHR 13, CHR 9, CHR 12, CHR 8}"
    | "c \<notin> {CHR 34, CHR 92, CHR 10, CHR 13, CHR 9, CHR 12, CHR 8}" "32 \<le> code c" "code c \<le> 126"
    | "c \<notin> {CHR 34, CHR 92, CHR 10, CHR 13, CHR 9, CHR 12, CHR 8}" "\<not> (32 \<le> code c \<and> code c \<le> 126)"
    by blast
  then show ?thesis
  proof cases
    case 1
    then show ?thesis
      by (auto simp: escape_ascii_def scan_string.simps code_def simple_escape_def)
  next
    case 2
    then have "code c \<noteq> 34" "code c \<noteq> 92"
      using code_inject [of c "CHR 34"] code_inject [of c "CHR 92"] by (auto simp: code_def)
    with 2 show ?thesis
      by (simp add: escape_ascii_def scan_string.simps)
  next
    case 3
    have "hex4 (code CHR ''0'') (code CHR ''0'') (code (hex_char (code c div 16))) (code (hex_char (code c mod 16)))
        = Some (code c)"
      using code_less [of c] hex_digit_char [of "code c div 16"] hex_digit_char [of "code c mod 16"]
      by (simp add: hex4_def) (simp add: hex_digit_def code_def)
    with 3 show ?thesis
      by (auto simp: escape_ascii_def scan_string.simps(2) [of "code CHR 92"]) (auto simp: code_def)
  qed
qed

lemma scan_quoted: "scan_string (codes (concat (map escape_ascii s)) @ 34 # r) = Done s r"
proof (induction s)
  case Nil
  then show ?case by (simp add: scan_string.simps)
next
  case (Cons c s)
  then show ?case
    using code_less [of c] by (simp add: scan_escape add_char_def) (simp add: code_def)
qed

subsection \<open>Numbers\<close>

text \<open>What may follow a value: nothing, a comma or a closing bracket.\<close>

definition ends :: "nat list \<Rightarrow> bool" where
  "ends r \<longleftrightarrow> r = [] \<or> hd r \<in> {44, 93, 125}"

lemma ends_simps [simp]: "ends []" "ends (44 # r)" "ends (93 # r)" "ends (125 # r)"
  by (simp_all add: ends_def)

lemma digits_stop:
  assumes "r = [] \<or> \<not> ascii_digit (hd r)"
  shows "takeWhile ascii_digit (s @ r) = takeWhile ascii_digit s"
    and "dropWhile ascii_digit (s @ r) = dropWhile ascii_digit s @ r"
    and "takeWhile ascii_digit r = []" and "dropWhile ascii_digit r = r"
  using assms by (induction s; cases r; auto)+

lemma ends_stop: "ends r \<Longrightarrow> r = [] \<or> \<not> ascii_digit (hd r)"
  by (auto simp: ends_def ascii_digit_def)

lemmas digits_ends = digits_stop [OF ends_stop]

lemma lex_integer_stop:
  "lex_integer s = Some (i, q) \<Longrightarrow> r = [] \<or> \<not> ascii_digit (hd r) \<Longrightarrow> lex_integer (s @ r) = Some (i, q @ r)"
  by (cases s; cases "tl s")
     (auto simp: lex_integer_def Let_def digits_stop split: if_splits list.splits)

lemmas lex_integer_ends = lex_integer_stop [OF _ ends_stop]

lemma lex_fraction_ends: "ends r \<Longrightarrow> lex_fraction (s @ r) = map_prod id (\<lambda>q. q @ r) (lex_fraction s)"
  by (cases s; cases r) (auto simp: lex_fraction_def digits_ends, auto simp: ends_def)

lemma lex_exponent_ends: "ends r \<Longrightarrow> lex_exponent (s @ r) = map_prod id (\<lambda>q. q @ r) (lex_exponent s)"
  by (cases s; cases "tl s"; cases r)
     (auto simp: lex_exponent_def Let_def digits_ends, auto simp: ends_def ascii_digit_def)

lemma lex_number_ends: "lex_number s = Some (i, fx, q) \<Longrightarrow> ends r \<Longrightarrow> lex_number (s @ r) = Some (i, fx, q @ r)"
  by (auto simp: lex_number_def lex_integer_ends lex_fraction_ends lex_exponent_ends split: option.splits prod.splits)

lemma digit_code: "is_digit c \<longleftrightarrow> ascii_digit (code c)"
  by (simp add: is_digit_def ascii_digit_def)

lemma show_nat_codes: "list_all ascii_digit (codes (show_nat n))"
  using show_nat_digits [of n] by (simp add: codes_def list.pred_map comp_def flip: digit_code)

lemma digits_int_snoc [simp]: "digits_int (s @ [c]) = digits_int s * 10 + (int c - 48)"
  by (simp add: digits_int_def)

lemma digits_int_show: "digits_int (codes (show_nat n)) = int n"
proof (induction n rule: show_nat.induct)
  case (1 n)
  have "int (n div 10) * 10 + int (n mod 10) = int n"
    by presburger
  with 1 show ?case
    by (subst show_nat.simps) (auto simp: digit_char_def digits_int_def)
qed

lemma show_nat_hd: "0 < n \<Longrightarrow> code (hd (show_nat n)) \<noteq> 48"
  by (induction n rule: show_nat.induct) (subst show_nat.simps, auto simp: digit_char_def)

lemma show_nat_length: "n < 10 ^ k \<Longrightarrow> 0 < k \<Longrightarrow> length (show_nat n) \<le> k"
proof (induction n arbitrary: k rule: show_nat.induct)
  case (1 n)
  show ?case
  proof (cases "n < 10")
    case True
    with 1 show ?thesis by (subst show_nat.simps) simp
  next
    case False
    with 1(2,3) obtain j where "k = Suc j" "0 < j"
      by (cases k; cases "k - 1") auto
    with 1 False show ?thesis
      by (subst show_nat.simps) (auto simp: less_mult_imp_div_less mult.commute)
  qed
qed

lemma lex_integer_show: "lex_integer (codes (show_int i)) = Some (codes (show_int i), [])"
proof -
  have n: "lex_integer (codes (show_nat n)) = Some (codes (show_nat n), [])
      \<and> lex_integer (45 # codes (show_nat n)) = Some (45 # codes (show_nat n), [])" for n
  proof -
    obtain c t where s: "show_nat n = c # t"
      by (cases "show_nat n") simp_all
    have d: "takeWhile ascii_digit (codes (show_nat n)) = codes (show_nat n)"
        "dropWhile ascii_digit (codes (show_nat n)) = []"
      using show_nat_codes [of n] by (simp_all add: list_all_iff takeWhile_eq_all_conv)
    have "code c = 48 \<Longrightarrow> t = []"
      using show_nat_hd [of n] s by (cases "n = 0") (simp_all add: show_nat.simps [of 0])
    moreover have "ascii_digit (code c)"
      using show_nat_codes [of n] s by simp
    ultimately show ?thesis
      using d unfolding s by (auto simp: lex_integer_def Let_def ascii_digit_def)
  qed
  then show ?thesis
    by (simp add: show_int_def) (simp add: code_def n)
qed

lemma read_int_show: "read_int (codes (show_int i)) = i"
proof -
  obtain c t where s: "codes (show_nat (nat i)) = c # t"
    by (cases "codes (show_nat (nat i))") (auto simp: codes_def)
  then have "ascii_digit c"
    using show_nat_codes [of "nat i"] by simp
  then have "c \<noteq> 45"
    by (auto simp: ascii_digit_def)
  then have "0 \<le> i \<Longrightarrow> read_int (codes (show_nat (nat i))) = i"
    using digits_int_show [of "nat i"] unfolding s by (simp add: read_int_def)
  then show ?thesis
    using digits_int_show [of "nat (- i)"] by (simp add: show_int_def) (simp add: read_int_def code_def)
qed

lemma show_int_length:
  assumes "\<bar>i\<bar> < int_text_limit"
  shows "length (filter ascii_digit (codes (show_int i))) \<le> int_text_digits"
proof -
  have "0 < int_text_digits"
    by (simp add: int_text_digits_def)
  moreover have "nat i < 10 ^ int_text_digits" "nat (- i) < 10 ^ int_text_digits"
    using assms unfolding int_text_limit_def by (simp_all add: nat_less_iff abs_less_iff)
  ultimately have "length (show_nat (nat i)) \<le> int_text_digits" "length (show_nat (nat (- i))) \<le> int_text_digits"
    by (simp_all add: show_nat_length)
  then show ?thesis
    using length_filter_le [of ascii_digit "codes (show_nat (nat i))"]
      length_filter_le [of ascii_digit "codes (show_nat (nat (- i)))"]
    by (simp add: show_int_def) (simp add: code_def ascii_digit_def)
qed

lemma scan_show_int:
  assumes "\<bar>i\<bar> < int_text_limit" and "ends r"
  shows "scan_number lib (codes (show_int i) @ r) = Done (PInt i) r"
proof -
  have "lex_number (codes (show_int i)) = Some (codes (show_int i), [], [])"
    by (simp add: lex_number_def lex_integer_show lex_fraction_def lex_exponent_def)
  moreover have "length (filter ascii_digit (codes (show_int i))) \<le> int_text_digits"
    by (rule show_int_length [OF assms(1)])
  ultimately show ?thesis
    using lex_number_ends [OF _ assms(2)] by (simp add: scan_number_def read_int_show)
qed

lemma lex_number_hd:
  assumes "lex_number s = Some p"
  shows "\<exists>c t. s = c # t \<and> (ascii_digit c \<or> c = 45 \<and> t \<noteq> [] \<and> hd t \<noteq> 73)"
  using assms
  by (cases s; cases "tl s")
     (auto simp: lex_number_def lex_integer_def Let_def ascii_digit_def split: option.splits if_splits)

text \<open>A text that begins as a number does is scanned as one.\<close>

lemma scan_value_number:
  assumes "lex_number s = Some p"
  shows "scan_value (Suc n) lib s = scan_number lib s"
proof -
  obtain c t where s: "s = c # t" and c: "ascii_digit c \<or> c = 45 \<and> t \<noteq> [] \<and> hd t \<noteq> 73"
    using lex_number_hd [OF assms] by blast
  then have "c \<notin> {34, 123, 91, 110, 116, 102, 78, 73}" "c = 45 \<Longrightarrow> \<not> prefix [73, 110, 102, 105, 110, 105, 116, 121] t"
    by (auto simp: ascii_digit_def prefix_def)
  then show ?thesis
    unfolding s by (simp add: expect_def) (auto simp: code_def)
qed

definition starts :: "nat list \<Rightarrow> bool" where
  "starts s \<longleftrightarrow> s \<noteq> [] \<and> hd s \<notin> {32, 9, 10, 13, 93, 125}"

lemma skip_ws_starts [simp]: "starts s \<Longrightarrow> skip_ws (s @ r) = s @ r"
  by (cases s) (auto simp: starts_def skip_ws_def)

lemma skip_ws_ends [simp]: "ends r \<Longrightarrow> skip_ws r = r"
  by (cases r) (auto simp: ends_def skip_ws_def)

lemma starts_number: "lex_number s = Some p \<Longrightarrow> starts s"
  by (drule lex_number_hd) (auto simp: starts_def ascii_digit_def)

subsection \<open>Values\<close>

text \<open>One value: whatever may follow, the text is read as the value and no further.\<close>

definition reads :: "json_lib \<Rightarrow> pyval \<Rightarrow> string \<Rightarrow> bool" where
  "reads lib v t \<longleftrightarrow> starts (codes t)
     \<and> (\<forall>n r. 2 * length t < n \<longrightarrow> ends r \<longrightarrow> scan_value n lib (codes t @ r) = Done v r)"

lemma readsI:
  assumes "starts (codes t)"
    and "\<And>n r. 2 * length t \<le> n \<Longrightarrow> ends r \<Longrightarrow> scan_value (Suc n) lib (codes t @ r) = Done v r"
  shows "reads lib v t"
  unfolding reads_def
proof (intro conjI allI impI)
  fix n r
  assume "2 * length t < n" "ends r"
  then show "scan_value n lib (codes t @ r) = Done v r"
    using assms(2) by (cases n) simp_all
qed (rule assms(1))

lemma reads_int: "\<bar>i\<bar> < int_text_limit \<Longrightarrow> reads lib (PInt i) (show_int i)"
proof -
  assume i: "\<bar>i\<bar> < int_text_limit"
  have l: "lex_number (codes (show_int i)) = Some (codes (show_int i), [], [])"
    by (simp add: lex_number_def lex_integer_show lex_fraction_def lex_exponent_def)
  show ?thesis
    using scan_value_number [OF lex_number_ends [OF l]] scan_show_int [OF i] starts_number [OF l]
    by (intro readsI) simp_all
qed

lemma chars_inj: "i @ fx = codes t \<Longrightarrow> chars (i @ fx) = t"
  by simp

lemma reads_float: "faithful_floats lib \<Longrightarrow> reads lib (PFloat x) (jl_repr lib x)"
proof -
  assume "faithful_floats lib"
  then obtain i fx where l: "lex_number (codes (jl_repr lib x)) = Some (i, fx, [])" "fx \<noteq> []"
      and x: "jl_float lib (jl_repr lib x) = Some x"
    by (force simp: faithful_floats_def float_text_def split: option.splits)
  have "chars (i @ fx) = jl_repr lib x"
    using lex_number_parts [OF l(1)] by (intro chars_inj) simp
  then show ?thesis
    using scan_value_number [OF lex_number_ends [OF l(1)]] lex_number_ends [OF l(1)] starts_number [OF l(1)] l(2) x
    by (intro readsI) (simp_all add: scan_number_def)
qed

lemma reads_str: "reads lib (PStr s) (quote_ascii s)"
  by (intro readsI) (simp_all add: quote_ascii_def starts_def code_def expect_def scan_quoted [unfolded code_def])

lemma reads_atoms:
  "reads lib PNone ''null''" "reads lib (PBool True) ''true''" "reads lib (PBool False) ''false''"
  by (intro readsI; simp add: starts_def code_def expect_def)+

lemma reads_scan: "reads lib v t \<Longrightarrow> 2 * length t < n \<Longrightarrow> ends r \<Longrightarrow> scan_value n lib (codes t @ r) = Done v r"
  by (simp add: reads_def)

lemma reads_starts: "reads lib v t \<Longrightarrow> starts (codes t)"
  by (simp add: reads_def)

lemma starts_append: "starts s \<Longrightarrow> starts (s @ r)"
  by (cases s) (simp_all add: starts_def)

lemma join_Cons: "ts \<noteq> [] \<Longrightarrow> join_with sep (t # ts) = t @ sep @ join_with sep ts"
  by (cases ts) simp_all

lemma starts_join: "starts (codes t) \<Longrightarrow> starts (codes (join_with '','' (t # ts)))"
  by (cases ts) (simp_all add: starts_append)

lemma code_comma [simp]: "code CHR '','' = 44" and code_colon [simp]: "code CHR '':'' = 58"
  by (simp_all add: code_def)

lemma scan_elements_join:
  "list_all2 (reads lib) vs ts \<Longrightarrow> vs \<noteq> [] \<Longrightarrow> Suc (2 * length (join_with '','' ts)) < n \<Longrightarrow>
   scan_elements n lib (codes (join_with '','' ts) @ 93 # r) = Done vs r"
proof (induction vs ts arbitrary: n rule: list_all2_induct)
  case (Cons v vs t ts)
  then obtain m where n: "n = Suc m"
    by (cases n) simp_all
  show ?case
  proof (cases "vs = []")
    case True
    with Cons show ?thesis
      by (auto simp: n reads_scan expect_def)
  next
    case False
    then obtain t' ts' where ts: "ts = t' # ts'" "reads lib (hd vs) t'"
      using Cons(2) by (cases vs; cases ts) auto
    have s: "skip_ws (codes (join_with '','' ts) @ 93 # r) = codes (join_with '','' ts) @ 93 # r"
      unfolding ts(1) by (intro skip_ws_starts starts_join reads_starts [OF ts(2)])
    have len: "2 * length t < m" "Suc (2 * length (join_with '','' ts)) < m"
      using Cons.prems(2) ts(1) by (simp_all add: n join_Cons)
    have "scan_value m lib (codes t @ 44 # codes (join_with '','' ts) @ 93 # r)
        = Done v (44 # codes (join_with '','' ts) @ 93 # r)"
      using reads_scan [OF Cons(1) len(1)] by simp
    with Cons.IH [OF False len(2)] s ts(1) show ?thesis
      by (simp add: n join_Cons expect_def)
  qed
qed simp

lemma dict_set_new: "k \<notin> set (keys m) \<Longrightarrow> dict_set k v m = m @ [(k, v)]"
  unfolding dict_set_def by (induction m) auto

text \<open>A member of an object: its quoted key, a colon, and a text that is read as its value.\<close>

definition member :: "json_lib \<Rightarrow> string \<times> pyval \<Rightarrow> string \<Rightarrow> bool" where
  "member lib kv t \<longleftrightarrow> (\<exists>u. t = quote_ascii (fst kv) @ '':'' @ u \<and> reads lib (snd kv) u)"

lemma scan_members_join:
  "list_all2 (member lib) d ts \<Longrightarrow> d \<noteq> [] \<Longrightarrow> distinct (keys (m @ d)) \<Longrightarrow>
   Suc (2 * length (join_with '','' ts)) < n \<Longrightarrow>
   scan_members n lib m (codes (join_with '','' ts) @ 125 # r) = Done (m @ d) r"
proof (induction d ts arbitrary: n m rule: list_all2_induct)
  case (Cons kv d t ts)
  then obtain j where n: "n = Suc j"
    by (cases n) simp_all
  obtain k v where kv: "kv = (k, v)"
    by (cases kv)
  obtain u where t: "t = quote_ascii k @ '':'' @ u" and u: "reads lib v u"
    using Cons(1) by (auto simp: member_def kv)
  have set: "dict_set k v m = m @ [kv]"
    using Cons.prems(2) by (simp add: dict_set_new kv)
  have u_len: "length u < length t"
    by (simp add: t)
  have str: "codes t = 34 # codes (concat (map escape_ascii k)) @ 34 # 58 # codes u"
    by (simp add: t quote_ascii_def) (simp add: code_def)
  have colon: "skip_ws (58 # s) = 58 # s" for s
    by (simp add: skip_ws_def)
  show ?case
  proof (cases "d = []")
    case True
    with Cons(2) have "ts = []"
      by simp
    moreover have "scan_value j lib (codes u @ 125 # r) = Done v (125 # r)"
      using Cons.prems(3) u_len \<open>ts = []\<close> by (intro reads_scan [OF u]) (simp_all add: n)
    ultimately show ?thesis
      using True set skip_ws_starts [OF reads_starts [OF u]]
      by (simp add: n str expect_def scan_quoted colon)
  next
    case False
    then obtain kv' t' ts' where ts: "ts = t' # ts'" "member lib kv' t'"
      using Cons(2) by (cases d; cases ts) auto
    then have "starts (codes t')"
      by (auto simp: member_def quote_ascii_def starts_def code_def)
    then have s: "skip_ws (codes (join_with '','' ts) @ 125 # r) = codes (join_with '','' ts) @ 125 # r"
      unfolding ts(1) by (intro skip_ws_starts starts_join)
    have len: "2 * length u < j" "Suc (2 * length (join_with '','' ts)) < j"
      using Cons.prems(3) ts(1) u_len by (simp_all add: n join_Cons)
    have "scan_value j lib (codes u @ 44 # codes (join_with '','' ts) @ 125 # r)
        = Done v (44 # codes (join_with '','' ts) @ 125 # r)"
      using reads_scan [OF u len(1)] by simp
    moreover have "scan_members j lib (m @ [kv]) (codes (join_with '','' ts) @ 125 # r) = Done ((m @ [kv]) @ d) r"
      using Cons.prems(2) by (intro Cons.IH [OF False _ len(2)]) simp
    ultimately show ?thesis
      using set s ts(1) skip_ws_starts [OF reads_starts [OF u]]
      by (simp add: n join_Cons str expect_def scan_quoted colon)
  qed
qed simp

lemma all_results_map [simp]: "all_results (map Inr ts) = Inr ts"
  by (induction ts) simp_all

lemma map_sum_Inr_iff: "map_sum id g r = Inr y \<longleftrightarrow> (\<exists>x. r = Inr x \<and> y = g x)"
  by (cases r) auto

lemma all_results_Inr: "all_results rs = Inr ts \<longleftrightarrow> rs = map Inr ts"
proof
  show "all_results rs = Inr ts \<Longrightarrow> rs = map Inr ts"
    by (induction rs arbitrary: ts rule: all_results.induct) (auto simp: map_sum_Inr_iff)
qed simp

lemma in_brackets_Inr: "in_brackets l r (all_results rs) = Inr t \<longleftrightarrow>
    (\<exists>ts. rs = map Inr ts \<and> t = l @ join_with '','' ts @ r)"
  by (simp add: in_brackets_def map_sum_Inr_iff all_results_Inr)

lemma starts_brackets:
  "starts (codes (''['' @ t))" "starts (codes (''{'' @ t))"
  by (simp_all add: starts_def code_def)

lemma reads_list:
  assumes "list_all2 (reads lib) vs ts"
  shows "reads lib (PList vs) (''['' @ join_with '','' ts @ '']'')"
proof (rule readsI [OF starts_brackets(1)])
  fix n r
  assume len: "2 * length (''['' @ join_with '','' ts @ '']'') \<le> n"
  show "scan_value (Suc n) lib (codes (''['' @ join_with '','' ts @ '']'') @ r) = Done (PList vs) r"
  proof (cases "vs = []")
    case True
    with assms show ?thesis by (simp add: expect_def code_def skip_ws_def)
  next
    case False
    then obtain t ts' where ts: "ts = t # ts'" "starts (codes t)"
      using assms by (cases vs; cases ts) (auto dest: reads_starts)
    have s: "starts (codes (join_with '','' ts))"
      unfolding ts(1) by (rule starts_join [OF ts(2)])
    then obtain c u where u: "codes (join_with '','' ts) @ 93 # r = c # u" "c \<noteq> 93"
      by (cases "codes (join_with '','' ts)") (auto simp: starts_def)
    have "scan_elements n lib (c # u) = Done vs r"
      using scan_elements_join [OF assms False, of n r] len u(1) by simp
    then show ?thesis
      using skip_ws_starts [OF s, of "93 # r"] u by (simp add: expect_def) (simp add: code_def u)
  qed
qed

lemma reads_dict:
  assumes "list_all2 (member lib) d ts" and "distinct (keys d)"
  shows "reads lib (PDict d) (''{'' @ join_with '','' ts @ ''}'')"
proof (rule readsI [OF starts_brackets(2)])
  fix n r
  assume len: "2 * length (''{'' @ join_with '','' ts @ ''}'') \<le> n"
  show "scan_value (Suc n) lib (codes (''{'' @ join_with '','' ts @ ''}'') @ r) = Done (PDict d) r"
  proof (cases "d = []")
    case True
    with assms show ?thesis by (simp add: expect_def code_def skip_ws_def)
  next
    case False
    then obtain t ts' where ts: "ts = t # ts'" "starts (codes t)"
      using assms by (cases d; cases ts) (auto simp: member_def quote_ascii_def starts_def code_def)
    have s: "starts (codes (join_with '','' ts))"
      unfolding ts(1) by (rule starts_join [OF ts(2)])
    then obtain c u where u: "codes (join_with '','' ts) @ 125 # r = c # u" "c \<noteq> 125"
      by (cases "codes (join_with '','' ts)") (auto simp: starts_def)
    have "scan_members n lib [] (c # u) = Done d r"
      using scan_members_join [OF assms(1) False, of "[]" n r] assms(2) len u(1) by simp
    then show ?thesis
      using skip_ws_starts [OF s, of "125 # r"] u by (simp add: expect_def) (simp add: code_def u)
  qed
qed

lemma map_eq_Inr_iff: "map f xs = map Inr ts \<longleftrightarrow> list_all2 (\<lambda>x t. f x = Inr t) xs ts"
  by (induction xs arbitrary: ts) (auto simp: list_all2_Cons1 Cons_eq_map_conv)

lemma written_reads:
  assumes "faithful_floats lib"
  shows "jsonable v \<Longrightarrow> json_value lib v = Inr t \<Longrightarrow> reads lib v t"
  using assms
proof (induction lib v arbitrary: t rule: json_value.induct)
  case (2 lib b)
  then show ?case by (cases b) (auto simp: reads_atoms)
next
  case (6 lib xs)
  then obtain ts where ts: "list_all2 (\<lambda>x t. json_value lib x = Inr t) xs ts" "t = ''['' @ join_with '','' ts @ '']''"
    by (auto simp: in_brackets_Inr map_eq_Inr_iff)
  from ts(1) have "list_all2 (reads lib) xs ts"
    by (rule list.rel_mono_strong) (use 6 in \<open>auto simp: list_all_iff\<close>)
  then show ?case
    using reads_list ts(2) by simp
next
  case (8 lib d)
  then obtain ts where ts: "list_all2 (\<lambda>kv t. (case kv of (k, v) \<Rightarrow>
        map_sum id (\<lambda>t. quote_ascii k @ '':'' @ t) (json_value lib v)) = Inr t) d ts"
      "t = ''{'' @ join_with '','' ts @ ''}''"
    by (auto simp: in_brackets_Inr map_eq_Inr_iff)
  from ts(1) have "list_all2 (member lib) d ts"
    by (rule list.rel_mono_strong) (use 8 in \<open>fastforce simp: member_def list_all_iff map_sum_Inr_iff\<close>)
  then show ?case
    using reads_dict ts(2) 8 by simp
qed (auto simp: reads_atoms reads_int reads_float reads_str split: if_splits)

text \<open>Every such value is written.\<close>

lemma all_results_total: "(\<And>r. r \<in> set rs \<Longrightarrow> \<exists>t. r = Inr t) \<Longrightarrow> \<exists>ts. all_results rs = Inr ts"
  by (induction rs rule: all_results.induct) fastforce+

lemma jsonable_written: "jsonable v \<Longrightarrow> \<exists>t. json_value lib v = Inr t"
proof (induction lib v rule: json_value.induct)
  case (6 lib xs)
  then have "\<exists>ts. all_results (map (json_value lib) xs) = Inr ts"
    by (intro all_results_total) (auto simp: list_all_iff)
  then show ?case by (auto simp: in_brackets_def)
next
  case (8 lib d)
  then have "\<exists>ts. all_results (map (\<lambda>(k, v). map_sum id (\<lambda>t. quote_ascii k @ '':'' @ t) (json_value lib v)) d) = Inr ts"
    by (intro all_results_total) (force simp: list_all_iff map_sum_Inr_iff)
  then show ?case by (auto simp: in_brackets_def)
qed simp_all

lemma loads_dumps:
  assumes "faithful_floats lib" and "jsonable v"
  obtains t where "json_value lib v = Inr t" and "json_loads lib (codes t) = Inr v"
proof -
  obtain t where t: "json_value lib v = Inr t"
    using jsonable_written [OF assms(2)] by blast
  then have r: "reads lib v t"
    by (rule written_reads [OF assms])
  then have "scan_value (Suc (2 * length t)) lib (codes t) = Done v []"
    using reads_scan [OF r, of "Suc (2 * length t)" "[]"] by simp
  with t show thesis
    using that skip_ws_starts [OF reads_starts [OF r], of "[]"] by (simp add: json_loads_def del: scan_value.simps)
qed

declare json_value.simps [simp del] scan_value.simps [simp del] scan_elements.simps [simp del]
  scan_members.simps [simp del]

end
