(* ===== verification/Store.thy ===== *)
theory Store
  imports Tokens Json
begin

text \<open>
  \<open>src/jibit/auth/store.py\<close>, \<open>auth/django.py\<close>, \<open>auth/redis.py\<close>: the token stores. A store is a
  record of three functions on a state type. The contract its clients rely on is the locale
  \<open>lawful_store\<close>; the in-memory store satisfies it outright, the Django and Redis stores when the
  backend behind them, which is not under \<open>src/\<close> and is an argument here, keeps what it is given.
\<close>

record 'st token_store =
  ts_get :: "string \<Rightarrow> 'st \<Rightarrow> exn + token_state option"
  ts_set :: "string \<Rightarrow> token_state \<Rightarrow> 'st \<Rightarrow> exn + 'st"
  ts_delete :: "string \<Rightarrow> 'st \<Rightarrow> exn + 'st"

section \<open>The contract\<close>

datatype store_op = Put string token_state | Drop string

fun apply_op :: "'st token_store \<Rightarrow> store_op \<Rightarrow> 'st \<Rightarrow> exn + 'st" where
  "apply_op S (Put k t) s = ts_set S k t s"
| "apply_op S (Drop k) s = ts_delete S k s"

fun apply_ops :: "'st token_store \<Rightarrow> store_op list \<Rightarrow> 'st \<Rightarrow> exn + 'st" where
  "apply_ops S [] s = Inr s"
| "apply_ops S (p # ps) s = (case apply_op S p s of Inl x \<Rightarrow> Inl x | Inr s' \<Rightarrow> apply_ops S ps s')"

text \<open>The same operations on a map: what the store promises to its clients.\<close>

fun spec_op :: "store_op \<Rightarrow> (string \<Rightarrow> token_state option) \<Rightarrow> (string \<Rightarrow> token_state option)" where
  "spec_op (Put k t) m = m(k \<mapsto> t)"
| "spec_op (Drop k) m = m(k := None)"

definition represents :: "'st token_store \<Rightarrow> 'st \<Rightarrow> (string \<Rightarrow> token_state option) \<Rightarrow> bool" where
  "represents S s m \<longleftrightarrow> (\<forall>k. ts_get S k s = Inr (m k))"

fun op_storable :: "store_op \<Rightarrow> bool" where
  "op_storable (Put k t) = storable t"
| "op_storable (Drop k) = True"

locale lawful_store =
  fixes S :: "'st token_store"
  assumes set_total: "storable t \<Longrightarrow> \<exists>s'. ts_set S k t s = Inr s'"
    and delete_total: "\<exists>s'. ts_delete S k s = Inr s'"
    and get_set: "storable t \<Longrightarrow> ts_set S k t s = Inr s' \<Longrightarrow>
      ts_get S k' s' = (if k' = k then Inr (Some t) else ts_get S k' s)"
    and get_delete: "ts_delete S k s = Inr s' \<Longrightarrow>
      ts_get S k' s' = (if k' = k then Inr None else ts_get S k' s)"
begin

lemma represents_op:
  assumes "represents S s m" and "op_storable p"
  shows "\<exists>s'. apply_op S p s = Inr s' \<and> represents S s' (spec_op p m)"
proof (cases p)
  case (Put k t)
  then obtain s' where "ts_set S k t s = Inr s'" using set_total [of t k s] assms(2) by auto
  then show ?thesis using Put assms get_set by (auto simp: represents_def)
next
  case (Drop k)
  then obtain s' where "ts_delete S k s = Inr s'" using delete_total by blast
  then show ?thesis using Drop assms get_delete by (auto simp: represents_def)
qed

lemma represents_ops:
  "represents S s m \<Longrightarrow> list_all op_storable ps \<Longrightarrow>
     \<exists>s'. apply_ops S ps s = Inr s' \<and> represents S s' (fold spec_op ps m)"
proof (induction ps arbitrary: s m)
  case (Cons p ps)
  then obtain s1 where "apply_op S p s = Inr s1" "represents S s1 (spec_op p m)"
    using represents_op by fastforce
  then show ?case using Cons by fastforce
qed simp

end

section \<open>\<open>InMemoryTokenStore\<close>\<close>

definition memory_get :: "string \<Rightarrow> token_state dict \<Rightarrow> exn + token_state option" where
  "memory_get key tokens = Inr (dict_get tokens key)"

definition memory_set :: "string \<Rightarrow> token_state \<Rightarrow> token_state dict \<Rightarrow> exn + token_state dict" where
  "memory_set key token tokens = Inr (dict_set key token tokens)"

definition memory_delete :: "string \<Rightarrow> token_state dict \<Rightarrow> exn + token_state dict" where
  "memory_delete key tokens = Inr (dict_del key tokens)"

definition memory_store :: "token_state dict token_store" where
  "memory_store = \<lparr>ts_get = memory_get, ts_set = memory_set, ts_delete = memory_delete\<rparr>"

lemma memory_store_simps [simp]:
  "ts_get memory_store = memory_get" "ts_set memory_store = memory_set"
  "ts_delete memory_store = memory_delete"
  by (simp_all add: memory_store_def)

interpretation memory: lawful_store memory_store
  by unfold_locales (auto simp: memory_get_def memory_set_def memory_delete_def)

section \<open>\<open>DjangoCacheTokenStore\<close>\<close>

text \<open>The three methods the store calls on a Django cache; a missing key reads as \<open>None\<close>.\<close>

record 'c cache_backend =
  ca_get :: "string \<Rightarrow> 'c \<Rightarrow> exn + pyval"
  ca_set :: "string \<Rightarrow> pyval \<Rightarrow> rat option \<Rightarrow> 'c \<Rightarrow> exn + 'c"
  ca_delete :: "string \<Rightarrow> 'c \<Rightarrow> exn + 'c"

definition cache_key_of :: "string \<Rightarrow> string \<Rightarrow> string" where
  "cache_key_of key_prefix key = key_prefix @ '':'' @ key"

definition django_get ::
  "(pyval \<Rightarrow> string) \<Rightarrow> string \<Rightarrow> 'c cache_backend \<Rightarrow> string \<Rightarrow> 'c \<Rightarrow> exn + token_state option" where
  "django_get rep key_prefix cache key c = (case ca_get cache (cache_key_of key_prefix key) c of
       Inl x \<Rightarrow> Inl x
     | Inr PNone \<Rightarrow> Inr None
     | Inr (PDict d) \<Rightarrow> map_sum id Some (from_cache_data rep d)
     | Inr _ \<Rightarrow> Inl ValueError)"

definition django_set ::
  "string \<Rightarrow> 'c cache_backend \<Rightarrow> string \<Rightarrow> token_state \<Rightarrow> 'c \<Rightarrow> exn + 'c" where
  "django_set key_prefix cache key token c =
     ca_set cache (cache_key_of key_prefix key) (PDict (to_cache_data token)) None c"

definition django_delete :: "string \<Rightarrow> 'c cache_backend \<Rightarrow> string \<Rightarrow> 'c \<Rightarrow> exn + 'c" where
  "django_delete key_prefix cache key c = ca_delete cache (cache_key_of key_prefix key) c"

definition django_store ::
  "(pyval \<Rightarrow> string) \<Rightarrow> string \<Rightarrow> 'c cache_backend \<Rightarrow> 'c token_store" where
  "django_store rep key_prefix cache = \<lparr>ts_get = django_get rep key_prefix cache,
     ts_set = django_set key_prefix cache, ts_delete = django_delete key_prefix cache\<rparr>"

text \<open>A cache that never loses a value stored without a timeout.\<close>

definition faithful_cache :: "'c cache_backend \<Rightarrow> bool" where
  "faithful_cache cache \<longleftrightarrow> (\<forall>k v t c. \<exists>c'. ca_set cache k v t c = Inr c')
     \<and> (\<forall>k c. \<exists>c'. ca_delete cache k c = Inr c')
     \<and> (\<forall>k v c c' k'. ca_set cache k v None c = Inr c' \<longrightarrow>
          ca_get cache k' c' = (if k' = k then Inr v else ca_get cache k' c))
     \<and> (\<forall>k c c' k'. ca_delete cache k c = Inr c' \<longrightarrow>
          ca_get cache k' c' = (if k' = k then Inr PNone else ca_get cache k' c))"

lemma cache_key_of_inject [simp]: "cache_key_of p k = cache_key_of p k' \<longleftrightarrow> k = k'"
  by (simp add: cache_key_of_def)

lemma django_store_lawful: "faithful_cache cache \<Longrightarrow> lawful_store (django_store rep p cache)"
  by unfold_locales
    (auto simp: faithful_cache_def django_store_def django_get_def django_set_def django_delete_def
      from_to_cache_data)

section \<open>\<open>RedisTokenStore\<close>\<close>

text \<open>The client's \<open>get\<close> returns bytes, text or \<open>None\<close>; \<open>rep\<close> is the interpreter's \<open>repr\<close>.\<close>

record 'c redis_client =
  rd_get :: "string \<Rightarrow> 'c \<Rightarrow> exn + pyval"
  rd_set :: "string \<Rightarrow> string \<Rightarrow> 'c \<Rightarrow> exn + 'c"
  rd_delete :: "string \<Rightarrow> 'c \<Rightarrow> exn + 'c"

definition redis_parse ::
  "json_lib \<Rightarrow> (pyval \<Rightarrow> string) \<Rightarrow> nat list \<Rightarrow> exn + token_state option" where
  "redis_parse lib rep value = (case json_loads lib value of
       Inl x \<Rightarrow> Inl x
     | Inr (PDict parsed) \<Rightarrow> map_sum id Some (from_cache_data rep parsed)
     | Inr _ \<Rightarrow> Inl ValueError)"

definition redis_get ::
  "json_lib \<Rightarrow> (pyval \<Rightarrow> string) \<Rightarrow> string \<Rightarrow> 'c redis_client \<Rightarrow> string \<Rightarrow> 'c \<Rightarrow> exn + token_state option" where
  "redis_get lib rep key_prefix client key c = (case rd_get client (cache_key_of key_prefix key) c of
       Inl x \<Rightarrow> Inl x
     | Inr PNone \<Rightarrow> Inr None
     | Inr (PBytes b) \<Rightarrow> (case utf8_strict (codes b) of
         None \<Rightarrow> Inl UnicodeDecodeError | Some value \<Rightarrow> redis_parse lib rep value)
     | Inr (PStr text) \<Rightarrow> redis_parse lib rep (codes text)
     | Inr _ \<Rightarrow> Inl TypeError)"

definition redis_set ::
  "json_lib \<Rightarrow> string \<Rightarrow> 'c redis_client \<Rightarrow> string \<Rightarrow> token_state \<Rightarrow> 'c \<Rightarrow> exn + 'c" where
  "redis_set lib key_prefix client key token c = (case json_value lib (PDict (to_cache_data token)) of
       Inl x \<Rightarrow> Inl x
     | Inr text \<Rightarrow> rd_set client (cache_key_of key_prefix key) text c)"

definition redis_delete :: "string \<Rightarrow> 'c redis_client \<Rightarrow> string \<Rightarrow> 'c \<Rightarrow> exn + 'c" where
  "redis_delete key_prefix client key c = rd_delete client (cache_key_of key_prefix key) c"

definition redis_store ::
  "json_lib \<Rightarrow> (pyval \<Rightarrow> string) \<Rightarrow> string \<Rightarrow> 'c redis_client \<Rightarrow> 'c token_store" where
  "redis_store lib rep key_prefix client = \<lparr>ts_get = redis_get lib rep key_prefix client,
     ts_set = redis_set lib key_prefix client, ts_delete = redis_delete key_prefix client\<rparr>"

text \<open>A server that keeps the text it is given, and returns it as text or as its UTF-8 bytes.\<close>

definition faithful_redis :: "'c redis_client \<Rightarrow> bool" where
  "faithful_redis client \<longleftrightarrow> (\<forall>k v c. \<exists>c'. rd_set client k v c = Inr c')
     \<and> (\<forall>k c. \<exists>c'. rd_delete client k c = Inr c')
     \<and> (\<forall>k v c c'. rd_set client k v c = Inr c' \<longrightarrow>
          rd_get client k c' \<in> {Inr (PBytes (utf8_bytes v)), Inr (PStr v)})
     \<and> (\<forall>k v c c' k'. rd_set client k v c = Inr c' \<longrightarrow> k' \<noteq> k \<longrightarrow> rd_get client k' c' = rd_get client k' c)
     \<and> (\<forall>k c c' k'. rd_delete client k c = Inr c' \<longrightarrow>
          rd_get client k' c' = (if k' = k then Inr PNone else rd_get client k' c))"

lemma faithful_redisD:
  assumes "faithful_redis client" and "rd_set client k v c = Inr c'"
  shows "rd_get client k c' \<in> {Inr (PBytes (utf8_bytes v)), Inr (PStr v)}"
    and "k' \<noteq> k \<Longrightarrow> rd_get client k' c' = rd_get client k' c"
  using assms unfolding faithful_redis_def by blast+

lemma cache_data_jsonable: "jsonable (PDict (to_cache_data t))"
  by (auto simp: to_cache_data_def opt_str_def opt_float_def list_all_iff split: option.split)

text \<open>What \<open>set\<close> writes, \<open>get\<close> reads, from bytes and from text.\<close>

lemma redis_written:
  assumes "faithful_floats lib"
  obtains t where "json_value lib (PDict (to_cache_data token)) = Inr t"
    and "redis_parse lib rep (codes t) = map_sum id Some (from_cache_data rep (to_cache_data token))"
proof -
  obtain t where t: "json_value lib (PDict (to_cache_data token)) = Inr t"
      "json_loads lib (codes t) = Inr (PDict (to_cache_data token))"
    by (rule loads_dumps [OF assms cache_data_jsonable [of token]])
  show thesis
    by (rule that [OF t(1)]) (simp add: redis_parse_def t(2))
qed

lemma redis_get_set:
  assumes "faithful_redis client" and "faithful_floats lib" and "storable token"
    and "redis_set lib p client key token c = Inr c'"
  shows "redis_get lib rep p client key c' = Inr (Some token)"
proof -
  obtain t where t: "json_value lib (PDict (to_cache_data token)) = Inr t"
      "redis_parse lib rep (codes t) = map_sum id Some (from_cache_data rep (to_cache_data token))"
    by (rule redis_written [OF assms(2)])
  then have "rd_get client (cache_key_of p key) c' \<in> {Inr (PBytes (utf8_bytes t)), Inr (PStr t)}"
    using assms(4) by (intro faithful_redisD [OF assms(1)]) (simp add: redis_set_def)
  then show ?thesis
    using t(2) assms(3) by (auto simp: redis_get_def utf8_bytes_strict from_to_cache_data)
qed

lemma redis_store_lawful:
  assumes "faithful_redis client" and "faithful_floats lib"
  shows "lawful_store (redis_store lib rep p client)"
proof unfold_locales
  fix token key c
  assume "storable token"
  obtain t where "json_value lib (PDict (to_cache_data token)) = Inr t"
    by (rule redis_written [OF assms(2)])
  then show "\<exists>c'. ts_set (redis_store lib rep p client) key token c = Inr c'"
    using assms(1) by (simp add: redis_store_def redis_set_def faithful_redis_def)
next
  fix token key c c' key'
  assume "storable token" "ts_set (redis_store lib rep p client) key token c = Inr c'"
  then have set: "redis_set lib p client key token c = Inr c'"
    by (simp add: redis_store_def)
  then obtain doc where "rd_set client (cache_key_of p key) doc c = Inr c'"
    by (auto simp: redis_set_def split: sum.splits)
  then have "key' \<noteq> key \<Longrightarrow> rd_get client (cache_key_of p key') c' = rd_get client (cache_key_of p key') c"
    by (intro faithful_redisD(2) [OF assms(1), of "cache_key_of p key" doc]) simp_all
  then show "ts_get (redis_store lib rep p client) key' c'
      = (if key' = key then Inr (Some token) else ts_get (redis_store lib rep p client) key' c)"
    using redis_get_set [OF assms \<open>storable token\<close> set]
    by (auto simp: redis_store_def) (simp add: redis_get_def)
qed (use assms(1) in \<open>auto simp: faithful_redis_def redis_store_def redis_get_def redis_delete_def\<close>)

end
