(* ===== verification/Auth.thy ===== *)
theory Auth
  imports Store Engine_Run "HOL-Library.Char_ord" "HOL-Library.List_Lexorder"
begin

text \<open>
  \<open>src/jibit/auth/specs.py\<close>, \<open>auth/locks.py\<close> and \<open>auth/provider.py\<close>: the documented token
  endpoints, the refresh lock, and \<open>ServiceAuthenticator\<close>, one definition per method.
\<close>

section \<open>Token endpoint contracts\<close>

record auth_spec =
  sp_service :: service_name
  sp_generate_path :: string
  sp_refresh_path :: string
  sp_api_key_field :: string
  sp_secret_key_field :: string
  sp_access_response_field :: string
  sp_refresh_response_field :: string
  sp_refresh_token_field :: string
  sp_refresh_access_token_field :: "string option"
  sp_scopes_field :: "string option"
  sp_expires_in_field :: "string option"
  sp_refresh_expires_in_field :: "string option"
  sp_documented_access_ttl_seconds :: "int option"
  sp_documented_refresh_ttl_seconds :: "int option"

definition camel_spec :: "service_name \<Rightarrow> string \<Rightarrow> string \<Rightarrow> auth_spec" where
  "camel_spec s generate refresh = \<lparr>sp_service = s, sp_generate_path = generate,
     sp_refresh_path = refresh, sp_api_key_field = ''apiKey'', sp_secret_key_field = ''secretKey'',
     sp_access_response_field = ''accessToken'', sp_refresh_response_field = ''refreshToken'',
     sp_refresh_token_field = ''refreshToken'', sp_refresh_access_token_field = None,
     sp_scopes_field = None, sp_expires_in_field = None, sp_refresh_expires_in_field = None,
     sp_documented_access_ttl_seconds = None, sp_documented_refresh_ttl_seconds = None\<rparr>"

definition snake_spec :: "service_name \<Rightarrow> string \<Rightarrow> string \<Rightarrow> auth_spec" where
  "snake_spec s generate refresh = \<lparr>sp_service = s, sp_generate_path = generate,
     sp_refresh_path = refresh, sp_api_key_field = ''api_key'', sp_secret_key_field = ''secret_key'',
     sp_access_response_field = ''access_token'', sp_refresh_response_field = ''refresh_token'',
     sp_refresh_token_field = ''refresh_token'', sp_refresh_access_token_field = Some ''access_token'',
     sp_scopes_field = None, sp_expires_in_field = None, sp_refresh_expires_in_field = None,
     sp_documented_access_ttl_seconds = None, sp_documented_refresh_ttl_seconds = None\<rparr>"

fun AUTH_SPECS :: "service_name \<Rightarrow> auth_spec option" where
  "AUTH_SPECS PAYMENT_GATEWAY = Some ((camel_spec PAYMENT_GATEWAY ''/ppg/v3/tokens''
     ''/ppg/v3/tokens/refresh'')\<lparr>sp_documented_access_ttl_seconds := Some 86400,
       sp_documented_refresh_ttl_seconds := Some 172800\<rparr>)"
| "AUTH_SPECS TRANSFERS = Some ((camel_spec TRANSFERS ''/trf/v2/tokens/generate''
     ''/trf/v2/tokens/refresh'')\<lparr>sp_refresh_access_token_field := Some ''accessToken'',
       sp_documented_access_ttl_seconds := Some 86400,
       sp_documented_refresh_ttl_seconds := Some 172800\<rparr>)"
| "AUTH_SPECS COBANK = Some ((camel_spec COBANK ''/cobank/v1/tokens/generate''
     ''/cobank/v1/tokens/refresh'')\<lparr>sp_refresh_access_token_field := Some ''accessToken'',
       sp_scopes_field := Some ''scopes''\<rparr>)"
| "AUTH_SPECS IDENTICATOR = Some ((camel_spec IDENTICATOR ''/ide/v1/tokens/generate''
     ''/ide/v1/tokens/refresh'')\<lparr>sp_refresh_access_token_field := Some ''accessToken'',
       sp_documented_access_ttl_seconds := Some 86400,
       sp_documented_refresh_ttl_seconds := Some 172800\<rparr>)"
| "AUTH_SPECS DIRECT_DEBIT = Some (snake_spec DIRECT_DEBIT ''/directdebit/api/v1/auth/authenticate''
     ''/directdebit/api/v1/auth/refresh-token'')"
| "AUTH_SPECS SMS = Some (snake_spec SMS ''/pulse/api/v1/auth/authenticate''
     ''/pulse/api/v1/auth/refresh-token'')"
| "AUTH_SPECS CONTRACTS = Some ((camel_spec CONTRACTS ''/mzahub/v1/auth/login''
     ''/mzahub/v1/auth/refresh'')\<lparr>sp_expires_in_field := Some ''expiresIn'',
       sp_refresh_expires_in_field := Some ''refreshTokenExpiresIn''\<rparr>)"
| "AUTH_SPECS KYC = None"

section \<open>The refresh lock\<close>

text \<open>
  \<open>with locks.lock(key): body\<close>: entering may raise (a distributed lock that times out), the body
  runs while the key is held, and the lock is left on every way out; leaving may raise too, and then
  that exception replaces the body's outcome. A local lock is not re-entrant: entering a lock the
  caller already holds would block forever, which is the exception \<open>deadlock\<close> here.
\<close>

definition deadlock :: exn where
  "deadlock = OtherException ''deadlock''"

definition with_lock :: "env \<Rightarrow> string \<Rightarrow> ('st, 'a) action \<Rightarrow> ('st, 'a) action" where
  "with_lock e key body = (\<lambda>w.
     if key \<in> set (w_held w) then (Inl deadlock, w)
     else case e_lock e (w_locks w) key of
       Some x \<Rightarrow> (Inl x, w\<lparr>w_locks := Suc (w_locks w)\<rparr>)
     | None \<Rightarrow>
         (let (r, w') = body (w\<lparr>w_locks := Suc (w_locks w), w_held := key # w_held w\<rparr>)
          in (case e_unlock e (w_locks w) key of None \<Rightarrow> r | Some x \<Rightarrow> Inl x,
              w'\<lparr>w_held := w_held w\<rparr>)))"

section \<open>\<open>ServiceAuthenticator\<close>: construction\<close>

record 'st authenticator =
  sa_service :: service_name
  sa_config :: jibit_config
  sa_service_config :: service_config
  sa_spec :: auth_spec
  sa_engine :: engine
  sa_store :: "'st token_store"
  sa_logging :: bool
  sa_cache_key :: string

definition secret_or :: "string option \<Rightarrow> string option \<Rightarrow> string option" where
  "secret_or a b = (case a of Some s \<Rightarrow> if s = [] then b else Some s | None \<Rightarrow> b)"

definition quoted :: "string \<Rightarrow> string" where
  "quoted s = [CHR 39] @ s @ [CHR 39]"

definition build_cache_key ::
  "env \<Rightarrow> jibit_config \<Rightarrow> service_name \<Rightarrow> service_config \<Rightarrow> exn + string" where
  "build_cache_key e cfg service sc =
     (case secret_or (cr_api_key (sc_credentials sc)) (cr_username (sc_credentials sc)) of
        None \<Rightarrow> Inl (raise_jibit JibitConfigurationError
          (''Service '' @ quoted (service_value service) @ '' has no cache-safe credential identifier''))
      | Some identifier \<Rightarrow>
          (let base = (case sc_base_url sc of Some u \<Rightarrow> u | None \<Rightarrow> cf_base_url cfg);
               cache_identity = join_with [CHR 0x00]
                 ([identifier, rstrip_char CHR ''/'' base] @ sort (sc_scopes sc));
               digest = take 20 (e_sha256_hex e cache_identity)
           in Inr (au_cache_key_prefix (cf_auth cfg) @ '':'' @ service_value service @ '':'' @ digest)))"

definition service_authenticator ::
  "env \<Rightarrow> service_name \<Rightarrow> jibit_config \<Rightarrow> engine \<Rightarrow> 'st token_store \<Rightarrow> bool \<Rightarrow> exn + 'st authenticator" where
  "service_authenticator e service cfg g store logging_on = (case AUTH_SPECS service of
       None \<Rightarrow> Inl (raise_jibit JibitConfigurationError
         (''Automatic token authentication is not documented for '' @ quoted (service_value service)))
     | Some spec \<Rightarrow> (case config_service cfg service of
         Inl x \<Rightarrow> Inl x
       | Inr sc \<Rightarrow> (case build_cache_key e cfg service sc of
           Inl x \<Rightarrow> Inl x
         | Inr key \<Rightarrow> Inr \<lparr>sa_service = service, sa_config = cfg, sa_service_config = sc,
             sa_spec = spec, sa_engine = g, sa_store = store, sa_logging = logging_on,
             sa_cache_key = key\<rparr>)))"

section \<open>Store access\<close>

definition store_get :: "'st authenticator \<Rightarrow> ('st, token_state option) action" where
  "store_get a = (\<lambda>w. (ts_get (sa_store a) (sa_cache_key a) (w_store w), w))"

definition store_update :: "('st \<Rightarrow> exn + 'st) \<Rightarrow> ('st, unit) action" where
  "store_update f = (\<lambda>w. case f (w_store w) of Inl x \<Rightarrow> (Inl x, w) | Inr s \<Rightarrow> (Inr (), w\<lparr>w_store := s\<rparr>))"

definition invalidate :: "'st authenticator \<Rightarrow> ('st, unit) action" where
  "invalidate a = store_update (ts_delete (sa_store a) (sa_cache_key a))"

definition safe_get :: "'st authenticator \<Rightarrow> ('st, token_state option) action" where
  "safe_get a = catchM (store_get a) (\<lambda>x.
     if x = TypeError \<or> is_value_error x then thenM (invalidate a) (returnM None) else raiseM x)"

section \<open>Requesting a token\<close>

definition integer_field :: "pydict \<Rightarrow> string option \<Rightarrow> int option" where
  "integer_field body field_name = (case (case field_name of None \<Rightarrow> PNone | Some f \<Rightarrow> pyget body f) of
       PInt i \<Rightarrow> if 0 < i then Some i else None
     | PBool b \<Rightarrow> if b then Some 1 else None
     | _ \<Rightarrow> None)"

definition generation_body :: "auth_spec \<Rightarrow> service_config \<Rightarrow> exn + pydict" where
  "generation_body spec sc =
     (case (cr_api_key (sc_credentials sc), cr_secret_key (sc_credentials sc)) of
        (Some api_key, Some secret_key) \<Rightarrow>
          (let body = [(sp_api_key_field spec, PStr api_key), (sp_secret_key_field spec, PStr secret_key)]
           in Inr (case sp_scopes_field spec of
                Some f \<Rightarrow> if sc_scopes sc \<noteq> [] then dict_set f (PList (map PStr (sc_scopes sc))) body
                  else body
              | None \<Rightarrow> body))
      | _ \<Rightarrow> Inl (raise_jibit JibitConfigurationError
          (''Service '' @ quoted (service_value (sp_service spec)) @ '' requires api_key and secret_key'')))"

text \<open>\<open>spec.documented_access_ttl_seconds or auth.unknown_access_token_ttl_seconds\<close>.\<close>

definition fallback_ttl :: "'st authenticator \<Rightarrow> int option" where
  "fallback_ttl a = (case sp_documented_access_ttl_seconds (sa_spec a) of
       Some t \<Rightarrow> if t = 0 then au_unknown_access_token_ttl_seconds (cf_auth (sa_config a)) else Some t
     | None \<Rightarrow> au_unknown_access_token_ttl_seconds (cf_auth (sa_config a)))"

definition access_expiry ::
  "'st authenticator \<Rightarrow> pydict \<Rightarrow> rat \<Rightarrow> rat option \<Rightarrow> rat option" where
  "access_expiry a body now hint = (case hint of
       Some x \<Rightarrow> Some x
     | None \<Rightarrow> map_option (\<lambda>ttl. now + of_int ttl)
         (case integer_field body (sp_expires_in_field (sa_spec a)) of
            Some ttl \<Rightarrow> Some ttl | None \<Rightarrow> fallback_ttl a))"

definition refresh_expiry ::
  "'st authenticator \<Rightarrow> pydict \<Rightarrow> rat \<Rightarrow> token_state option \<Rightarrow> string option \<Rightarrow> rat option" where
  "refresh_expiry a body now previous refresh =
     (case (case integer_field body (sp_refresh_expires_in_field (sa_spec a)) of
              Some ttl \<Rightarrow> Some ttl | None \<Rightarrow> sp_documented_refresh_ttl_seconds (sa_spec a)) of
        Some ttl \<Rightarrow> Some (now + of_int ttl)
      | None \<Rightarrow> (case previous of
          Some p \<Rightarrow> if refresh = refresh_value p then tk_refresh_expires_at p else None
        | None \<Rightarrow> None))"

definition parse_token ::
  "env \<Rightarrow> 'st authenticator \<Rightarrow> pydict \<Rightarrow> token_state option \<Rightarrow> ('st, token_state) action" where
  "parse_token e a body previous =
     (case pyget body (sp_access_response_field (sa_spec a)) of
        PStr access \<Rightarrow>
          if access = [] then raiseM (raise_jibit JibitResponseError ''The token response has no access token'')
          else
            (let previous_refresh = (case previous of Some p \<Rightarrow> refresh_value p | None \<Rightarrow> None);
                 refresh = (case pyget body (sp_refresh_response_field (sa_spec a)) of
                   PStr r \<Rightarrow> if r = [] then previous_refresh else Some r | _ \<Rightarrow> previous_refresh)
             in bindM (read_clock e) (\<lambda>now.
                bindM (liftM (jwt_expiry e access)) (\<lambda>hint.
                returnM \<lparr>tk_access_token = access, tk_refresh_token = refresh,
                  tk_expires_at = access_expiry a body now hint,
                  tk_refresh_expires_at = refresh_expiry a body now previous refresh,
                  tk_token_type = py_str (e_repr e) (py_or (pyget body ''tokenType'') (PStr ''Bearer'')),
                  tk_scopes = (case pyget body ''scopes'' of
                    PList xs \<Rightarrow> map (py_str (e_repr e)) xs
                  | PTuple xs \<Rightarrow> map (py_str (e_repr e)) xs
                  | _ \<Rightarrow> sc_scopes (sa_service_config a))\<rparr>)))
      | _ \<Rightarrow> raiseM (raise_jibit JibitResponseError ''The token response has no access token''))"

text \<open>The path, the operation name and the body of a token request.\<close>

definition token_call ::
  "'st authenticator \<Rightarrow> token_state option \<Rightarrow> exn + string \<times> string \<times> pydict" where
  "token_call a refresh = (case refresh of
       None \<Rightarrow> map_sum id (\<lambda>body. (sp_generate_path (sa_spec a), ''generate_token'', body))
         (generation_body (sa_spec a) (sa_service_config a))
     | Some t \<Rightarrow> (case refresh_value t of
         None \<Rightarrow> Inl (raise_jibit JibitAuthenticationError ''No refresh token is available'')
       | Some r \<Rightarrow>
           (let body = [(sp_refresh_token_field (sa_spec a), PStr r)]
            in Inr (sp_refresh_path (sa_spec a), ''refresh_token'',
              case sp_refresh_access_token_field (sa_spec a) of
                Some f \<Rightarrow> dict_set f (PStr (access_value t)) body | None \<Rightarrow> body))))"

definition token_options ::
  "'st authenticator \<Rightarrow> string \<Rightarrow> string \<Rightarrow> pydict \<Rightarrow> request_options" where
  "token_options a path operation body =
     (request_options (sa_service a) operation ''POST'' path IDEMPOTENT)\<lparr>ro_json := PDict body\<rparr>"

definition request_token ::
  "env \<Rightarrow> 'st authenticator \<Rightarrow> token_state option \<Rightarrow> ('st, token_state) action" where
  "request_token e a refresh =
     bindM (liftM (token_call a refresh)) (\<lambda>(path, operation, body).
     bindM (execute e (sa_engine a) (token_options a path operation body)) (\<lambda>raw.
     bindM (liftM (raw_json e raw)) (\<lambda>parsed.
     case parsed of
       PDict d \<Rightarrow> parse_token e a d refresh
     | _ \<Rightarrow> raiseM (raise_jibit JibitResponseError ''The token response must be a JSON object''))))"

section \<open>The token lifecycle\<close>

definition store_token :: "'st authenticator \<Rightarrow> string \<Rightarrow> string \<Rightarrow> token_state \<Rightarrow> ('st, token_state) action" where
  "store_token a event source token =
     thenM (store_update (ts_set (sa_store a) (sa_cache_key a) token))
     (thenM (emit (sa_logging a) INFO event
        [(''service'', PStr (service_value (sa_service a))), (''source'', PStr source)])
      (returnM token))"

definition acquire :: "env \<Rightarrow> 'st authenticator \<Rightarrow> ('st, token_state) action" where
  "acquire e a = bindM (request_token e a None) (store_token a TOKEN_ACQUIRED ''credentials'')"

definition refresh_rejected :: "exn \<Rightarrow> bool" where
  "refresh_rejected x = is_jibit {JibitAuthenticationError, JibitValidationError} x"

definition leeway_of :: "'st authenticator \<Rightarrow> rat" where
  "leeway_of a = of_int (au_expiry_leeway_seconds (cf_auth (sa_config a)))"

text \<open>\<open>try ... except (rejected): ... else: ...\<close>: the \<open>else\<close> part is outside the \<open>try\<close>.\<close>

definition refresh_or_acquire ::
  "env \<Rightarrow> 'st authenticator \<Rightarrow> token_state option \<Rightarrow> rat \<Rightarrow> ('st, token_state) action" where
  "refresh_or_acquire e a cached now = (case cached of
       Some t \<Rightarrow>
         if is_refresh_valid t now (leeway_of a) then (\<lambda>w.
           case request_token e a (Some t) w of
             (Inl x, w') \<Rightarrow>
               if refresh_rejected x then
                 thenM (emit (sa_logging a) WARNING TOKEN_REFRESH_FAILED
                   [(''service'', PStr (service_value (sa_service a))), (''reason'', PStr ''refresh_rejected'')])
                   (acquire e a) w'
               else (Inl x, w')
           | (Inr token, w') \<Rightarrow> store_token a TOKEN_REFRESHED ''refresh_token'' token w')
         else acquire e a
     | None \<Rightarrow> acquire e a)"

definition usable :: "'st authenticator \<Rightarrow> rat \<Rightarrow> token_state option \<Rightarrow> bool" where
  "usable a now cached = (case cached of None \<Rightarrow> False | Some t \<Rightarrow> is_access_valid t now (leeway_of a))"

definition get_token :: "env \<Rightarrow> 'st authenticator \<Rightarrow> ('st, token_state) action" where
  "get_token e a =
     bindM (read_clock e) (\<lambda>now.
     bindM (safe_get a) (\<lambda>cached.
     if usable a now cached then returnM (the cached)
     else with_lock e (sa_cache_key a)
       (bindM (read_clock e) (\<lambda>now.
        bindM (safe_get a) (\<lambda>cached.
        if usable a now cached then returnM (the cached)
        else refresh_or_acquire e a cached now)))))"

definition replaced_by_other :: "'st authenticator \<Rightarrow> rat \<Rightarrow> string \<Rightarrow> token_state option \<Rightarrow> bool" where
  "replaced_by_other a now rejected cached = (case cached of
       None \<Rightarrow> False
     | Some t \<Rightarrow> access_value t \<noteq> rejected \<and> is_access_valid t now (leeway_of a))"

definition recover_from_unauthorized ::
  "env \<Rightarrow> 'st authenticator \<Rightarrow> string \<Rightarrow> ('st, token_state) action" where
  "recover_from_unauthorized e a rejected_access_token =
     with_lock e (sa_cache_key a)
       (bindM (safe_get a) (\<lambda>cached.
        bindM (read_clock e) (\<lambda>now.
        if replaced_by_other a now rejected_access_token cached then returnM (the cached)
        else refresh_or_acquire e a cached now)))"

end
