(* ===== verification/Auth_Facts.thy ===== *)
theory Auth_Facts
  imports Auth
begin

text \<open>
  What the token lifecycle leaves in the world: traces grow, locks are released, records stay clean,
  and only token requests are sent.
\<close>

section \<open>Relations kept by every method\<close>

definition tidy :: "'st world \<Rightarrow> 'st world \<Rightarrow> bool" where
  "tidy w w' \<longleftrightarrow> extends w w' \<and> (all_clean w \<longrightarrow> all_clean w')"

lemma reflp_tidy [intro, simp]: "reflp tidy"
  by (simp add: reflp_def tidy_def)

lemma transp_tidy [intro, simp]: "transp tidy"
  by (rule transpI) (auto simp: tidy_def intro: extends_trans)

definition sends :: "(transport_request \<Rightarrow> bool) \<Rightarrow> 'st world \<Rightarrow> 'st world \<Rightarrow> bool" where
  "sends P w w' \<longleftrightarrow> (\<exists>rs. w_sent w' = w_sent w @ rs \<and> list_all P rs)"

lemma reflp_sends [intro, simp]: "reflp (sends P)"
  by (simp add: reflp_def sends_def)

lemma transp_sends [intro, simp]: "transp (sends P)"
  by (rule transpI) (auto simp: sends_def)

lemma sends_same [intro]: "w_sent w' = w_sent w \<Longrightarrow> sends P w w'"
  by (simp add: sends_def)

lemma tidy_sources [effects]:
  "keeps tidy (read_clock e)" "keeps tidy (emit b l ev fs)" "keeps tidy (store_get a)"
  "keeps tidy (store_update f)"
proof -
  show "keeps tidy (read_clock e)" and "keeps tidy (store_get a)" and "keeps tidy (store_update f)"
    by (auto simp: keeps_def tidy_def extends_def all_clean_def read_clock_def store_get_def
        store_update_def split: sum.splits)
  show "keeps tidy (emit b l ev fs)"
    using keeps_extends_sources(5) emit_clean by (fastforce simp: keeps_def tidy_def)
qed

lemma sends_sources [effects]:
  "keeps (sends P) (read_clock e)" "keeps (sends P) (emit b l ev fs)" "keeps (sends P) (store_get a)"
  "keeps (sends P) (store_update f)"
  by (auto simp: keeps_def read_clock_def store_get_def store_update_def emit_def modifyM_def
      split: sum.splits)

lemma tidy_with_lock [effects]:
  assumes "keeps tidy body"
  shows "keeps tidy (with_lock e key body)"
proof (rule keepsI)
  fix w r w'
  assume run: "with_lock e key body w = (r, w')"
  show "tidy w w'"
  proof (cases "key \<in> set (w_held w) \<or> e_lock e (w_locks w) key \<noteq> None")
    case True
    then show ?thesis
      using run by (auto simp: with_lock_def tidy_def extends_def all_clean_def split: if_splits)
  next
    case False
    obtain r1 w1 where body: "body (w\<lparr>w_locks := Suc (w_locks w), w_held := key # w_held w\<rparr>) = (r1, w1)"
      by (cases "body (w\<lparr>w_locks := Suc (w_locks w), w_held := key # w_held w\<rparr>)")
    have "tidy (w\<lparr>w_locks := Suc (w_locks w), w_held := key # w_held w\<rparr>) w1"
      using keepsD [OF assms body] .
    moreover have "w' = w1\<lparr>w_held := w_held w\<rparr>"
      using run False body by (simp add: with_lock_def)
    ultimately show ?thesis
      by (simp add: tidy_def extends_def all_clean_def)
  qed
qed

lemma sends_with_lock [effects]:
  assumes "keeps (sends P) body"
  shows "keeps (sends P) (with_lock e key body)"
proof (rule keepsI)
  fix w r w'
  assume run: "with_lock e key body w = (r, w')"
  obtain r1 w1 where body: "body (w\<lparr>w_locks := Suc (w_locks w), w_held := key # w_held w\<rparr>) = (r1, w1)"
    by (cases "body (w\<lparr>w_locks := Suc (w_locks w), w_held := key # w_held w\<rparr>)")
  then have "sends P (w\<lparr>w_locks := Suc (w_locks w), w_held := key # w_held w\<rparr>) w1"
    using keepsD [OF assms body] by simp
  then show "sends P w w'"
    using run body by (auto simp: with_lock_def sends_def split: if_splits option.splits)
qed

section \<open>The engine\<close>

lemma tidy_execute [effects]: "keeps tidy (execute e g opt)"
  using execute_extends_clean by (auto simp: keeps_def tidy_def)

lemma sends_execute:
  "keeps (sends (\<lambda>r. tr_url r = build_url (en_config g) (ro_service opt) (ro_path opt)
     \<and> tr_method r = str_upper (ro_method opt))) (execute e g opt)"
proof (rule keepsI)
  fix w r w'
  assume run: "execute e g opt w = (r, w')"
  obtain n where "w_sent (snd (execute e g opt w)) =
      w_sent w @ replicate n (transport_request_of g opt (effective_id e opt w) (ro_path opt))"
    using execute_sent by blast
  then show "sends (\<lambda>r. tr_url r = build_url (en_config g) (ro_service opt) (ro_path opt)
     \<and> tr_method r = str_upper (ro_method opt)) w w'"
    by (auto simp: run sends_def transport_request_of_def list_all_iff)
qed

section \<open>The authenticator\<close>

definition token_urls :: "'st authenticator \<Rightarrow> string set" where
  "token_urls a = {build_url (en_config (sa_engine a)) (sa_service a) (sp_generate_path (sa_spec a)),
     build_url (en_config (sa_engine a)) (sa_service a) (sp_refresh_path (sa_spec a))}"

definition token_request :: "'st authenticator \<Rightarrow> transport_request \<Rightarrow> bool" where
  "token_request a r \<longleftrightarrow> tr_url r \<in> token_urls a \<and> tr_method r = ''POST''"

lemma sends_mono: "(\<And>r. P r \<Longrightarrow> Q r) \<Longrightarrow> keeps (sends P) m \<Longrightarrow> keeps (sends Q) m"
  by (force simp: keeps_def sends_def list_all_iff)

lemma token_call_path:
  "token_call a refresh = Inr (path, operation, body) \<Longrightarrow>
     path \<in> {sp_generate_path (sa_spec a), sp_refresh_path (sa_spec a)}"
  by (cases "generation_body (sa_spec a) (sa_service_config a)")
    (auto simp: token_call_def Let_def split: option.splits if_splits)

lemma sends_token_execute:
  "path \<in> {sp_generate_path (sa_spec a), sp_refresh_path (sa_spec a)} \<Longrightarrow>
   keeps (sends (token_request a)) (execute e (sa_engine a) (token_options a path operation body))"
  by (rule sends_mono [OF _ sends_execute])
    (auto simp: token_request_def token_urls_def token_options_def request_options_def)

lemma keeps_parse_token:
  assumes "reflp R" and "transp R" and "keeps R (read_clock e)"
  shows "keeps R (parse_token e a body previous)"
  unfolding parse_token_def Let_def
  by (cases "pyget body (sp_access_response_field (sa_spec a))")
    (use assms in \<open>auto intro!: keeps_bindM keeps_raiseM keeps_liftM keeps_returnM\<close>)

lemma keeps_request_token:
  assumes "reflp R" and "transp R" and "keeps R (read_clock e)"
    and "\<And>path operation body. path \<in> {sp_generate_path (sa_spec a), sp_refresh_path (sa_spec a)} \<Longrightarrow>
      keeps R (execute e (sa_engine a) (token_options a path operation body))"
  shows "keeps R (request_token e a refresh)"
proof (cases "token_call a refresh")
  case (Inl x)
  then show ?thesis
    using assms(1) by (simp add: request_token_def keeps_def comp_defs reflpD)
next
  case (Inr call)
  obtain path operation body where call: "call = (path, operation, body)" by (cases call)
  have rest: "keeps R (case parsed of PDict d \<Rightarrow> parse_token e a d refresh
     | _ \<Rightarrow> raiseM (raise_jibit JibitResponseError ''The token response must be a JSON object''))"
    for parsed
    using assms(1-3) by (cases parsed) (auto intro!: keeps_parse_token keeps_raiseM)
  have "keeps R (bindM (execute e (sa_engine a) (token_options a path operation body)) (\<lambda>raw.
     bindM (liftM (raw_json e raw)) (\<lambda>parsed. case parsed of PDict d \<Rightarrow> parse_token e a d refresh
     | _ \<Rightarrow> raiseM (raise_jibit JibitResponseError ''The token response must be a JSON object''))))"
    using token_call_path [OF Inr [unfolded call]]
    by (intro keeps_bindM assms keeps_liftM rest) auto
  then show ?thesis
    using Inr call by (simp add: request_token_def keeps_def comp_defs)
qed

lemma keeps_store_token:
  assumes "reflp R" and "transp R" and "\<And>f. keeps R (store_update f)"
    and "\<And>l ev fs. keeps R (emit (sa_logging a) l ev fs)"
  shows "keeps R (store_token a event source token)"
  unfolding store_token_def by (intro keeps_thenM keeps_returnM assms)

lemma keeps_acquire:
  assumes "reflp R" and "transp R" and "\<And>f. keeps R (store_update f)"
    and "\<And>l ev fs. keeps R (emit (sa_logging a) l ev fs)" and "keeps R (request_token e a None)"
  shows "keeps R (acquire e a)"
  unfolding acquire_def by (intro keeps_bindM keeps_store_token assms)

lemma keeps_refresh_or_acquire:
  assumes "reflp R" and "transp R" and "\<And>f. keeps R (store_update f)"
    and "\<And>l ev fs. keeps R (emit (sa_logging a) l ev fs)" and "\<And>t. keeps R (request_token e a t)"
  shows "keeps R (refresh_or_acquire e a cached now)"
proof (cases "\<exists>t. cached = Some t \<and> is_refresh_valid t now (leeway_of a)")
  case False
  then have "refresh_or_acquire e a cached now = acquire e a"
    by (auto simp: refresh_or_acquire_def split: option.split)
  then show ?thesis using keeps_acquire assms by metis
next
  case True
  then obtain t where t: "cached = Some t" "is_refresh_valid t now (leeway_of a)" by blast
  have fallback: "keeps R (thenM (emit (sa_logging a) WARNING TOKEN_REFRESH_FAILED
      [(''service'', PStr (service_value (sa_service a))), (''reason'', PStr ''refresh_rejected'')])
      (acquire e a))"
    by (intro keeps_thenM keeps_acquire assms)
  have stored: "keeps R (store_token a TOKEN_REFRESHED ''refresh_token'' token)" for token
    by (intro keeps_store_token assms)
  show ?thesis
  proof (rule keepsI)
    fix w r w'
    assume run: "refresh_or_acquire e a cached now w = (r, w')"
    obtain r1 w1 where first: "request_token e a (Some t) w = (r1, w1)"
      by (cases "request_token e a (Some t) w")
    then have "R w w1" using keepsD [OF assms(5)] by blast
    moreover have "R w1 w'"
      using run first t assms(1) keepsD [OF fallback] keepsD [OF stored]
      by (auto simp: refresh_or_acquire_def reflpD split: sum.splits if_splits)
    ultimately show "R w w'" using assms(2) by (rule transpD [rotated 1])
  qed
qed

lemma keeps_safe_get:
  assumes "reflp R" and "transp R" and "\<And>f. keeps R (store_update f)" and "keeps R (store_get a)"
  shows "keeps R (safe_get a)"
  unfolding safe_get_def invalidate_def
  by (intro keeps_catchM assms) (auto intro!: keeps_thenM keeps_returnM keeps_raiseM assms(1-3))

lemma keeps_get_token:
  assumes "reflp R" and "transp R" and "\<And>f. keeps R (store_update f)" and "keeps R (store_get a)"
    and "\<And>l ev fs. keeps R (emit (sa_logging a) l ev fs)" and "\<And>t. keeps R (request_token e a t)"
    and "keeps R (read_clock e)"
    and "\<And>m :: ('st, token_state) action. keeps R m \<Longrightarrow> keeps R (with_lock e (sa_cache_key a) m)"
  shows "keeps R (get_token e a)" and "keeps R (recover_from_unauthorized e a rejected)"
proof -
  have fresh: "keeps R (refresh_or_acquire e a cached now)" for cached now
    by (intro keeps_refresh_or_acquire assms)
  show "keeps R (get_token e a)"
    unfolding get_token_def
    by (intro keeps_bindM assms keeps_safe_get)
      (auto intro!: keeps_bindM keeps_safe_get keeps_returnM fresh assms)
  show "keeps R (recover_from_unauthorized e a rejected)"
    unfolding recover_from_unauthorized_def
    by (intro assms keeps_bindM keeps_safe_get) (auto intro!: keeps_returnM fresh assms(1))
qed

lemma tidy_request_token [effects]: "keeps tidy (request_token e a refresh)"
  by (intro keeps_request_token effects reflp_tidy transp_tidy)

lemma tidy_get_token [effects]:
  "keeps tidy (get_token e a)" "keeps tidy (recover_from_unauthorized e a rejected)"
  by (intro keeps_get_token effects reflp_tidy transp_tidy; assumption)+

lemma sends_get_token [effects]:
  "keeps (sends (token_request a)) (get_token e a)"
  "keeps (sends (token_request a)) (recover_from_unauthorized e a rejected)"
proof -
  have token: "keeps (sends (token_request a)) (request_token e a refresh)" for refresh
    by (intro keeps_request_token effects reflp_sends transp_sends sends_token_execute)
  show "keeps (sends (token_request a)) (get_token e a)"
    by (intro keeps_get_token effects reflp_sends transp_sends token; assumption)
  show "keeps (sends (token_request a)) (recover_from_unauthorized e a rejected)"
    by (intro keeps_get_token effects reflp_sends transp_sends token; assumption)
qed

section \<open>The token that is returned\<close>

definition just_stored :: "'st authenticator \<Rightarrow> token_state \<Rightarrow> 'st world \<Rightarrow> bool" where
  "just_stored a t w \<longleftrightarrow> (\<exists>s. ts_set (sa_store a) (sa_cache_key a) t s = Inr (w_store w))"

definition cached_valid :: "env \<Rightarrow> 'st authenticator \<Rightarrow> token_state \<Rightarrow> 'st world \<Rightarrow> 'st world \<Rightarrow> bool" where
  "cached_valid e a t w w' \<longleftrightarrow> w_sent w' = w_sent w \<and> w_logs w' = w_logs w
     \<and> ts_get (sa_store a) (sa_cache_key a) (w_store w') = Inr (Some t)
     \<and> (\<exists>k. w_clock w \<le> k \<and> is_access_valid t (e_clock e k) (leeway_of a))"

lemma store_token_stored:
  "store_token a ev src t w = (Inr t', w') \<Longrightarrow> t' = t \<and> just_stored a t w'"
  by (auto simp: store_token_def store_update_def just_stored_def comp_defs emit_def split: sum.splits)

lemma acquire_stored: "acquire e a w = (Inr t, w') \<Longrightarrow> just_stored a t w'"
  unfolding acquire_def bindM_Inr_iff using store_token_stored by blast

lemma refresh_or_acquire_stored:
  "refresh_or_acquire e a cached now w = (Inr t, w') \<Longrightarrow> just_stored a t w'"
  using store_token_stored acquire_stored
  by (fastforce simp: refresh_or_acquire_def thenM_def bindM_Inr_iff
      split: option.splits if_splits prod.splits sum.splits)

lemma safe_get_Some:
  "safe_get a w = (Inr (Some t), w') \<Longrightarrow>
     w' = w \<and> ts_get (sa_store a) (sa_cache_key a) (w_store w) = Inr (Some t)"
  by (auto simp: safe_get_def store_get_def catchM_def thenM_def bindM_Inr_iff returnM_def raiseM_def
      split: prod.splits sum.splits if_splits)

lemma safe_get_frame:
  "safe_get a w = (r, w') \<Longrightarrow> w_sent w' = w_sent w \<and> w_logs w' = w_logs w \<and> w_clock w' = w_clock w"
  by (auto simp: safe_get_def store_get_def catchM_def comp_defs invalidate_def store_update_def
      split: prod.splits sum.splits if_splits)

lemma with_lock_Inr:
  "with_lock e key body w = (Inr x, w') \<Longrightarrow> \<exists>w1.
     body (w\<lparr>w_locks := Suc (w_locks w), w_held := key # w_held w\<rparr>) = (Inr x, w1)
     \<and> w' = w1\<lparr>w_held := w_held w\<rparr>"
  by (auto simp: with_lock_def Let_def split: if_splits option.splits prod.splits)

lemma read_clock_result [simp]:
  "bindM (read_clock e) f w = f (e_clock e (w_clock w)) (w\<lparr>w_clock := Suc (w_clock w)\<rparr>)"
  by (simp add: bindM_def read_clock_def)

lemma usable_cached: "usable a now cached \<Longrightarrow> \<exists>t. cached = Some t \<and> is_access_valid t now (leeway_of a)"
  by (auto simp: usable_def split: option.splits)

lemma locked_get_token:
  assumes "(bindM (read_clock e) (\<lambda>now. bindM (safe_get a) (\<lambda>cached.
      if usable a now cached then returnM (the cached) else refresh_or_acquire e a cached now))) w = (Inr t, w')"
  shows "just_stored a t w' \<or> cached_valid e a t w w'"
proof -
  obtain cached w1 where get: "safe_get a (w\<lparr>w_clock := Suc (w_clock w)\<rparr>) = (Inr cached, w1)"
    and rest: "(if usable a (e_clock e (w_clock w)) cached then returnM (the cached)
        else refresh_or_acquire e a cached (e_clock e (w_clock w))) w1 = (Inr t, w')"
    using assms by (auto simp: bindM_Inr_iff)
  show ?thesis
  proof (cases "usable a (e_clock e (w_clock w)) cached")
    case True
    then obtain u where u: "cached = Some u" "is_access_valid u (e_clock e (w_clock w)) (leeway_of a)"
      using usable_cached by blast
    then have "w' = w1" "t = u" using rest True by (auto simp: returnM_def)
    then show ?thesis
      using safe_get_Some [OF get [unfolded u]] u by (auto simp: cached_valid_def)
  next
    case False
    then show ?thesis using rest refresh_or_acquire_stored by auto
  qed
qed

lemma get_token_result:
  assumes run: "get_token e a w = (Inr t, w')"
  shows "just_stored a t w' \<or> cached_valid e a t w w'"
proof -
  obtain cached w1 where get: "safe_get a (w\<lparr>w_clock := Suc (w_clock w)\<rparr>) = (Inr cached, w1)"
    and rest: "(if usable a (e_clock e (w_clock w)) cached then returnM (the cached)
        else with_lock e (sa_cache_key a) (bindM (read_clock e) (\<lambda>now. bindM (safe_get a) (\<lambda>cached.
        if usable a now cached then returnM (the cached) else refresh_or_acquire e a cached now)))) w1 = (Inr t, w')"
    using run by (auto simp: get_token_def bindM_Inr_iff)
  show ?thesis
  proof (cases "usable a (e_clock e (w_clock w)) cached")
    case True
    then obtain u where u: "cached = Some u" "is_access_valid u (e_clock e (w_clock w)) (leeway_of a)"
      using usable_cached by blast
    then have "w' = w1" "t = u" using rest True by (auto simp: returnM_def)
    then show ?thesis
      using safe_get_Some [OF get [unfolded u]] u by (auto simp: cached_valid_def)
  next
    case False
    let ?w = "w1\<lparr>w_locks := Suc (w_locks w1), w_held := sa_cache_key a # w_held w1\<rparr>"
    let ?body = "bindM (read_clock e) (\<lambda>now. bindM (safe_get a) (\<lambda>cached.
      if usable a now cached then returnM (the cached) else refresh_or_acquire e a cached now))"
    have "with_lock e (sa_cache_key a) ?body w1 = (Inr t, w')"
      using rest False by simp
    from with_lock_Inr [OF this] obtain w2 where "?body ?w = (Inr t, w2)"
      and w': "w' = w2\<lparr>w_held := w_held w1\<rparr>"
      by blast
    from locked_get_token [OF this(1)] have "just_stored a t w' \<or> cached_valid e a t ?w w'"
      unfolding w' by (simp add: just_stored_def cached_valid_def)
    then show ?thesis
      using safe_get_frame [OF get] by (auto simp: cached_valid_def) (meson Suc_leD)
  qed
qed

end
