(* ===== verification/Executors.thy ===== *)
theory Executors
  imports Auth_Facts
begin

text \<open>
  What a service facade is handed to execute requests: \<open>auth/authenticated.py\<close>, \<open>auth/static.py\<close>
  and the audited executor of \<open>services/base.py\<close>. The contract the facades rely on is the locale
  \<open>request_executor\<close>; each executor is an instance of it.
\<close>

type_synonym 'st executor = "request_options \<Rightarrow> ('st, raw_response) action"

section \<open>\<open>AuthenticatedRequestEngine\<close>\<close>

definition authorize :: "request_options \<Rightarrow> string \<Rightarrow> string \<Rightarrow> request_options" where
  "authorize opt token_type access_token =
     opt\<lparr>ro_headers := dict_set ''Authorization'' (token_type @ '' '' @ access_token) (ro_headers opt)\<rparr>"

definition can_replay :: "request_options \<Rightarrow> bool" where
  "can_replay opt \<longleftrightarrow> ro_safety opt \<in> {READ_ONLY, IDEMPOTENT}
     \<or> (ro_safety opt = IDEMPOTENCY_PROTECTED \<and> ro_idempotency_key opt \<noteq> None)"

definition unauthorized :: "exn \<Rightarrow> bool" where
  "unauthorized x = is_jibit {JibitAuthenticationError} x"

definition with_token :: "request_options \<Rightarrow> token_state \<Rightarrow> request_options" where
  "with_token opt token = authorize opt (tk_token_type token) (access_value token)"

text \<open>The second attempt after a recovered rejection.\<close>

definition replay ::
  "env \<Rightarrow> engine \<Rightarrow> 'st authenticator \<Rightarrow> request_options \<Rightarrow> token_state \<Rightarrow> ('st, raw_response) action" where
  "replay e g a opt replacement =
     catchM (execute e g (with_token opt replacement)) (\<lambda>x.
       if unauthorized x then thenM (invalidate a) (raiseM x) else raiseM x)"

definition authenticated_execute ::
  "env \<Rightarrow> engine \<Rightarrow> 'st authenticator \<Rightarrow> 'st executor" where
  "authenticated_execute e g a opt =
     bindM (get_token e a) (\<lambda>token.
       catchM (execute e g (with_token opt token)) (\<lambda>x.
         if unauthorized x then
           if can_replay opt then
             bindM (recover_from_unauthorized e a (access_value token)) (replay e g a opt)
           else thenM (invalidate a) (raiseM x)
         else raiseM x))"

section \<open>\<open>StaticBearerRequestEngine\<close>\<close>

definition static_bearer :: "jibit_config \<Rightarrow> service_name \<Rightarrow> exn + string" where
  "static_bearer cfg service = (case config_service cfg service of
       Inl x \<Rightarrow> Inl x
     | Inr sc \<Rightarrow> (case cr_access_token (sc_credentials sc) of
         None \<Rightarrow> Inl (raise_jibit JibitConfigurationError
           (''Service '' @ quoted (service_value service) @ '' requires a configured access_token''))
       | Some token \<Rightarrow> Inr token))"

definition static_execute :: "env \<Rightarrow> engine \<Rightarrow> string \<Rightarrow> 'st executor" where
  "static_execute e g access_token opt =
     execute e g (opt\<lparr>ro_headers :=
       dict_set ''Authorization'' (''Bearer '' @ access_token) (ro_headers opt)\<rparr>)"

section \<open>\<open>AuditedRequestExecutor\<close>\<close>

text \<open>An exception of the sink that is an \<open>Exception\<close> is logged and dropped; every \<open>exn\<close> is one.\<close>

definition audit_emit ::
  "env \<Rightarrow> bool \<Rightarrow> string \<Rightarrow> request_options \<Rightarrow> string \<Rightarrow> string \<Rightarrow> pydict \<Rightarrow> ('st, unit) action" where
  "audit_emit e logging_on event_name opt correlation_id outcome metadata =
     catchM (sink_emit e (make_audit_event event_name correlation_id (service_value (ro_service opt))
         (ro_operation opt) outcome metadata))
       (\<lambda>x. emit logging_on ERROR AUDIT_EMIT_FAILED
         [(''service'', PStr (service_value (ro_service opt))), (''operation'', PStr (ro_operation opt)),
          (''correlation_id'', PStr correlation_id), (''error_type'', PStr (exn_name x))])"

definition audit_outcome :: "jibit_error \<Rightarrow> string" where
  "audit_outcome err = (if je_kind err \<in> {JibitTimeoutError, JibitNetworkError, JibitServerError,
       JibitResponseError} then ''unknown'' else ''failed'')"

definition audited_execute ::
  "env \<Rightarrow> bool \<Rightarrow> string \<Rightarrow> 'st executor \<Rightarrow> 'st executor" where
  "audited_execute e logging_on event_name run opt =
     bindM (catchM (run opt) (\<lambda>x. case x of
       Jibit err \<Rightarrow>
         thenM (audit_emit e logging_on event_name opt
           (str_or (ec_correlation_id (je_context err)) ''unavailable'') (audit_outcome err)
           [(''error_type'', PStr (kind_name (je_kind err))),
            (''error_code'', opt_str (ec_error_code (je_context err))),
            (''status_code'', opt_int (ec_status_code (je_context err)))])
         (raiseM x)
     | _ \<Rightarrow> raiseM x)) (\<lambda>response.
       thenM (audit_emit e logging_on event_name opt (rw_correlation_id response) ''succeeded''
         [(''status_code'', PInt (rw_status_code response))])
       (returnM response))"

section \<open>The contract of an executor\<close>

text \<open>How many of the requests sent between two worlds go to a URL.\<close>

definition sent_to :: "string \<Rightarrow> 'st world \<Rightarrow> 'st world \<Rightarrow> nat" where
  "sent_to url w w' =
     length (filter (\<lambda>r. tr_url r = url) (drop (length (w_sent w)) (w_sent w')))"

definition operation_url :: "engine \<Rightarrow> request_options \<Rightarrow> string" where
  "operation_url g opt = build_url (en_config g) (ro_service opt) (ro_path opt)"

definition repeatable_request :: "request_options \<Rightarrow> bool" where
  "repeatable_request opt = repeatable (ro_safety opt) (ro_idempotency_key opt \<noteq> None)"

text \<open>
  \<open>reserved\<close> are the URLs of the token endpoints: requests to them are the executor's own business.
\<close>

locale request_executor =
  fixes run :: "'st executor" and url :: "request_options \<Rightarrow> string" and reserved :: "string set"
  assumes run_tidy: "keeps tidy (run opt)"
    and run_once: "\<not> repeatable_request opt \<Longrightarrow> url opt \<notin> reserved \<Longrightarrow>
      sent_to (url opt) w (snd (run opt w)) \<le> 1"
    and run_targets: "keeps (sends (\<lambda>r. tr_url r \<in> insert (url opt) reserved)) (run opt)"

lemma can_replay_iff: "can_replay opt \<longleftrightarrow> repeatable_request opt"
  by (simp add: can_replay_def repeatable_request_def repeatable_def)

lemma tidy_sink_emit: "clean (ae_metadata ev) \<Longrightarrow> keeps tidy (sink_emit e ev)"
  using keeps_extends_sources(6) sink_emit_clean by (fastforce simp: keeps_def tidy_def)

lemma tidy_audit_emit [effects]: "keeps tidy (audit_emit e b n opt cid oc m)"
  unfolding audit_emit_def
  by (intro keeps_catchM transp_tidy tidy_sink_emit make_audit_event_clean tidy_sources)

lemma audit_emit_frame:
  "fst (audit_emit e b n opt cid oc m w) = Inr ()"
  "w_sent (snd (audit_emit e b n opt cid oc m w)) = w_sent w"
  "w_store (snd (audit_emit e b n opt cid oc m w)) = w_store w"
  by (auto simp: audit_emit_def catchM_def sink_emit_def emit_def modifyM_def split: option.splits)

text \<open>Auditing changes neither the outcome nor the requests nor the store.\<close>

lemma audited_execute_frame:
  "fst (audited_execute e b n run opt w) = fst (run opt w)"
  "w_sent (snd (audited_execute e b n run opt w)) = w_sent (snd (run opt w))"
  "w_store (snd (audited_execute e b n run opt w)) = w_store (snd (run opt w))"
proof -
  obtain r w1 where run: "run opt w = (r, w1)" by (cases "run opt w")
  have audit: "audit_emit e b n opt cid oc m v =
      (Inr (), snd (audit_emit e b n opt cid oc m v))" for cid oc m v
    using audit_emit_frame(1) by (metis prod.collapse)
  note defs = audited_execute_def bindM_def thenM_def catchM_def returnM_def raiseM_def
  show "fst (audited_execute e b n run opt w) = fst (run opt w)"
    "w_sent (snd (audited_execute e b n run opt w)) = w_sent (snd (run opt w))"
    "w_store (snd (audited_execute e b n run opt w)) = w_store (snd (run opt w))"
    unfolding defs run
    by (cases r; (cases "projl r")?; simp add: run; subst audit; simp add: audit_emit_frame)+
qed

context request_executor
begin

lemma audited_lawful: "request_executor (audited_execute e b n run) url reserved"
proof
  show "keeps tidy (audited_execute e b n run opt)" for opt
    unfolding audited_execute_def
    by (intro keeps_bindM keeps_catchM transp_tidy run_tidy keeps_thenM effects keeps_returnM reflp_tidy)
      (auto split: exn.split intro!: keeps_thenM effects keeps_raiseM)
  show "sent_to (url opt) w (snd (audited_execute e b n run opt w)) \<le> 1"
    if "\<not> repeatable_request opt" "url opt \<notin> reserved" for opt w
    using run_once [OF that] by (simp add: sent_to_def audited_execute_frame)
  show "keeps (sends (\<lambda>r. tr_url r \<in> insert (url opt) reserved)) (audited_execute e b n run opt)" for opt
    using run_targets by (simp add: keeps_def sends_def audited_execute_frame)
qed

end

section \<open>The executors of the SDK keep the contract\<close>

lemma sent_to_append: "w_sent w' = w_sent w @ rs \<Longrightarrow> sent_to url w w' = length (filter (\<lambda>r. tr_url r = url) rs)"
  by (simp add: sent_to_def)

lemma sent_to_add:
  "prefix (w_sent w) (w_sent w1) \<Longrightarrow> prefix (w_sent w1) (w_sent w2) \<Longrightarrow>
     sent_to url w w2 = sent_to url w w1 + sent_to url w1 w2"
  by (auto simp: sent_to_def prefix_def)

lemma sent_to_refl [simp]: "w_sent w' = w_sent w \<Longrightarrow> sent_to url w w' = 0"
  by (simp add: sent_to_def)

lemma sends_none: "sends P w w' \<Longrightarrow> (\<And>r. P r \<Longrightarrow> tr_url r \<noteq> url) \<Longrightarrow> sent_to url w w' = 0"
  by (auto simp: sends_def sent_to_append list_all_iff filter_empty_conv)

lemma execute_once:
  "\<not> repeatable_request opt \<Longrightarrow> sent_to url w (snd (execute e g opt w)) \<le> 1"
proof -
  assume "\<not> repeatable_request opt"
  then obtain n where "w_sent (snd (execute e g opt w)) =
      w_sent w @ replicate n (transport_request_of g opt (effective_id e opt w) (ro_path opt))"
    and "n \<le> 1"
    using execute_sent [of e g opt w] by (auto simp: repeatable_request_def)
  then show ?thesis by (auto simp: sent_to_append intro: order_trans [OF length_filter_le])
qed

interpretation engine_executor: request_executor "execute e g" "operation_url g" "{}" for e g
proof
  show "keeps tidy (execute e g opt)" for opt by (rule effects)
  show "sent_to (operation_url g opt) w (snd (execute e g opt w)) \<le> 1"
    if "\<not> repeatable_request opt" for opt w
    using execute_once that .
  show "keeps (sends (\<lambda>r. tr_url r \<in> insert (operation_url g opt) {})) (execute e g opt)" for opt
    by (rule sends_mono [OF _ sends_execute]) (simp add: operation_url_def)
qed

interpretation static_executor: request_executor "static_execute e g token" "operation_url g" "{}"
  for e g token
proof
  show "keeps tidy (static_execute e g token opt)" for opt
    unfolding static_execute_def by (rule effects)
  show "sent_to (operation_url g opt) w (snd (static_execute e g token opt w)) \<le> 1"
    if "\<not> repeatable_request opt" for opt w
    unfolding static_execute_def using that
    by (intro execute_once) (simp add: repeatable_request_def)
  show "keeps (sends (\<lambda>r. tr_url r \<in> insert (operation_url g opt) {})) (static_execute e g token opt)" for opt
    unfolding static_execute_def
    by (rule sends_mono [OF _ sends_execute]) (simp add: operation_url_def)
qed

section \<open>The authenticated executor\<close>

lemma with_token_simps [simp]:
  "ro_service (with_token opt t) = ro_service opt" "ro_path (with_token opt t) = ro_path opt"
  "ro_method (with_token opt t) = ro_method opt" "ro_operation (with_token opt t) = ro_operation opt"
  "repeatable_request (with_token opt t) = repeatable_request opt"
  "operation_url g (with_token opt t) = operation_url g opt"
  by (simp_all add: with_token_def authorize_def repeatable_request_def operation_url_def)

lemma keeps_authenticated:
  assumes "reflp R" and "transp R" and "keeps R (get_token e a)"
    and "\<And>t. keeps R (recover_from_unauthorized e a t)" and "\<And>f. keeps R (store_update f)"
    and "\<And>t. keeps R (execute e g (with_token opt t))"
  shows "keeps R (authenticated_execute e g a opt)"
proof -
  have gone: "keeps R (thenM (invalidate a) (raiseM x))" for x :: exn
    unfolding invalidate_def by (intro keeps_thenM keeps_raiseM assms)
  have again: "keeps R (replay e g a opt t)" for t
    unfolding replay_def
    by (intro keeps_catchM assms) (auto intro: gone keeps_raiseM assms(1))
  have recovered: "keeps R (bindM (recover_from_unauthorized e a u) (replay e g a opt))" for u
    by (intro keeps_bindM assms again)
  show ?thesis
    unfolding authenticated_execute_def
    by (intro keeps_bindM keeps_catchM assms)
      (auto intro: gone recovered keeps_raiseM assms(1))
qed

lemma tidy_authenticated: "keeps tidy (authenticated_execute e g a opt)"
  by (intro keeps_authenticated effects reflp_tidy transp_tidy)

lemma sends_authenticated:
  "keeps (sends (\<lambda>r. tr_url r \<in> insert (operation_url g opt) (token_urls a)))
     (authenticated_execute e g a opt)"
proof (intro keeps_authenticated effects reflp_sends transp_sends)
  show "keeps (sends (\<lambda>r. tr_url r \<in> insert (operation_url g opt) (token_urls a))) (get_token e a)"
    by (rule sends_mono [OF _ sends_get_token(1)]) (simp add: token_request_def)
  show "keeps (sends (\<lambda>r. tr_url r \<in> insert (operation_url g opt) (token_urls a)))
      (recover_from_unauthorized e a t)" for t
    by (rule sends_mono [OF _ sends_get_token(2)]) (simp add: token_request_def)
  show "keeps (sends (\<lambda>r. tr_url r \<in> insert (operation_url g opt) (token_urls a)))
      (execute e g (with_token opt t))" for t
    by (rule sends_mono [OF _ sends_execute]) (simp add: operation_url_def)
qed

lemma get_token_no_operation:
  "url \<notin> token_urls a \<Longrightarrow> sent_to url w (snd (get_token e a w)) = 0"
  by (rule sends_none [where P = "token_request a"])
    (use sends_get_token(1) in \<open>auto simp: keeps_def token_request_def\<close>)

lemma recover_no_operation:
  "url \<notin> token_urls a \<Longrightarrow> sent_to url w (snd (recover_from_unauthorized e a t w)) = 0"
  by (rule sends_none [where P = "token_request a"])
    (use sends_get_token(2) in \<open>auto simp: keeps_def token_request_def\<close>)

lemma tidy_prefix: "tidy w w' \<Longrightarrow> prefix (w_sent w) (w_sent w')"
  by (simp add: tidy_def extends_def)

text \<open>An operation that may not be repeated: the rejected token is forgotten, nothing is sent again.\<close>

lemma authenticated_no_replay:
  assumes "\<not> can_replay opt" and "get_token e a w = (Inr t, w1)"
    and "execute e g (with_token opt t) w1 = (r, w2)"
  shows "authenticated_execute e g a opt w = (case r of
      Inl x \<Rightarrow> if unauthorized x then thenM (invalidate a) (raiseM x) w2 else (Inl x, w2)
    | Inr raw \<Rightarrow> (Inr raw, w2))"
  using assms by (simp add: authenticated_execute_def bindM_def catchM_def raiseM_def split: sum.splits)

lemma invalidate_frame: "w_sent (snd (thenM (invalidate a) (raiseM x) w)) = w_sent w"
  by (simp add: invalidate_def store_update_def comp_defs split: sum.splits)

lemma authenticated_once:
  assumes "\<not> repeatable_request opt" and "url \<notin> token_urls a"
  shows "sent_to url w (snd (authenticated_execute e g a opt w)) \<le> 1"
proof -
  obtain tr w1 where get: "get_token e a w = (tr, w1)" by (cases "get_token e a w")
  have none: "sent_to url w w1 = 0"
    using get_token_no_operation [OF assms(2), of w e] get by simp
  show ?thesis
  proof (cases tr)
    case (Inl x)
    then show ?thesis using get none by (simp add: authenticated_execute_def bindM_def)
  next
    case (Inr t)
    obtain r w2 where run: "execute e g (with_token opt t) w1 = (r, w2)"
      by (cases "execute e g (with_token opt t) w1")
    have one: "sent_to url w1 w2 \<le> 1"
      using execute_once [of "with_token opt t" url w1 e g] assms(1) run by simp
    have "prefix (w_sent w) (w_sent w1)" and "prefix (w_sent w1) (w_sent w2)"
      by (fact tidy_prefix [OF keepsD [OF tidy_get_token(1) get]]
        tidy_prefix [OF keepsD [OF tidy_execute run]])+
    then have total: "sent_to url w w2 \<le> 1"
      using none one sent_to_add [of w w1 w2 url] by simp
    have "w_sent (snd (authenticated_execute e g a opt w)) = w_sent w2"
      unfolding authenticated_no_replay [OF assms(1) [folded can_replay_iff] get [unfolded Inr] run]
      by (cases r) (simp_all add: invalidate_frame)
    then show ?thesis using total by (simp add: sent_to_def)
  qed
qed

interpretation authenticated_executor:
  request_executor "authenticated_execute e g a" "operation_url g" "token_urls a" for e g a
proof
  show "keeps tidy (authenticated_execute e g a opt)" for opt by (rule tidy_authenticated)
  show "sent_to (operation_url g opt) w (snd (authenticated_execute e g a opt w)) \<le> 1"
    if "\<not> repeatable_request opt" "operation_url g opt \<notin> token_urls a" for opt w
    using authenticated_once that .
  show "keeps (sends (\<lambda>r. tr_url r \<in> insert (operation_url g opt) (token_urls a)))
      (authenticated_execute e g a opt)" for opt
    by (rule sends_authenticated)
qed

interpretation audited_authenticated:
  request_executor "audited_execute e b n (authenticated_execute e g a)" "operation_url g" "token_urls a"
  for e b n g a
  by (rule authenticated_executor.audited_lawful)

interpretation audited_static:
  request_executor "audited_execute e b n (static_execute e g token)" "operation_url g" "{}"
  for e b n g token
  by (rule static_executor.audited_lawful)

text \<open>A rejected token does not stay in the store.\<close>

lemma invalidate_forgets:
  assumes "lawful_store (sa_store a)" and "thenM (invalidate a) (raiseM x) w = (r, w')"
  shows "r = Inl x \<and> ts_get (sa_store a) (sa_cache_key a) (w_store w') = Inr None"
proof -
  obtain s where s: "ts_delete (sa_store a) (sa_cache_key a) (w_store w) = Inr s"
    using lawful_store.delete_total [OF assms(1)] by blast
  then show ?thesis
    using assms(2) lawful_store.get_delete [OF assms(1) s]
    by (auto simp: invalidate_def store_update_def comp_defs)
qed

lemma authenticated_forgets:
  assumes "lawful_store (sa_store a)" and "\<not> can_replay opt" and "get_token e a w = (Inr t, w1)"
    and "authenticated_execute e g a opt w = (Inl x, w')" and "unauthorized x"
  shows "ts_get (sa_store a) (sa_cache_key a) (w_store w') = Inr None"
proof -
  obtain r w2 where run: "execute e g (with_token opt t) w1 = (r, w2)"
    by (cases "execute e g (with_token opt t) w1")
  from assms(4) have result: "(case r of
      Inl y \<Rightarrow> if unauthorized y then thenM (invalidate a) (raiseM y) w2 else (Inl y, w2)
    | Inr raw \<Rightarrow> (Inr raw, w2)) = (Inl x, w')"
    unfolding authenticated_no_replay [OF assms(2,3) run] .
  then obtain y where y: "r = Inl y" by (cases r) auto
  then have "unauthorized y" using result assms(5) by (cases "unauthorized y") auto
  with result y have "(thenM (invalidate a) (raiseM y) w2 :: (exn + raw_response) \<times> _) = (Inl x, w')"
    by simp
  then show ?thesis using invalidate_forgets [OF assms(1)] by blast
qed

lemma replay_forgets:
  assumes "lawful_store (sa_store a)" and "replay e g a opt t w = (Inl x, w')" and "unauthorized x"
  shows "ts_get (sa_store a) (sa_cache_key a) (w_store w') = Inr None"
proof -
  obtain r w2 where run: "execute e g (with_token opt t) w = (r, w2)"
    by (cases "execute e g (with_token opt t) w")
  then obtain y where "r = Inl y" by (cases r) (use assms(2) in \<open>auto simp: replay_def catchM_def\<close>)
  show ?thesis
  proof (cases "unauthorized y")
    case True
    then show ?thesis
      using assms run \<open>r = Inl y\<close> invalidate_forgets [OF assms(1)] by (auto simp: replay_def catchM_def)
  next
    case False
    then show ?thesis
      using assms run \<open>r = Inl y\<close> by (auto simp: replay_def catchM_def raiseM_def)
  qed
qed

end
