(* ===== verification/Models.thy ===== *)
theory Models
  imports Executors
begin

text \<open>
  \<open>src/jibit/models.py\<close> and the vocabulary in which the pydantic models of the services are written
  down: a model is its name, whether it forbids unknown fields, its fields in order and its \<open>after\<close>
  validator. The validation engine (pydantic) is not under \<open>src/\<close>: it is the function \<open>lb_validate\<close>
  of the record \<open>lib\<close>, with the law \<open>lawful_lib\<close> that what it accepts conforms to the declaration.
  A validated instance is a dict from Python field names to values.
\<close>

section \<open>Declarations\<close>

datatype constr =
    MinLen nat | MaxLen nat | Gt int | Ge int | Le int
  | Pattern "string \<Rightarrow> bool"
  | Check "pyval \<Rightarrow> bool"

datatype ftype =
    TStr | TInt | TBool | TFloat | TBytes | TDatetime | TAwareDatetime | TUuid | THttpUrl | TIp
  | TAny | TDict
  | TEnum "string list"
  | TMap ftype
  | TOpt ftype
  | TList ftype
  | TTuple ftype
  | TUnion ftype ftype
  | TModel string bool "fdecl list" "pydict \<Rightarrow> exn option"
and fdecl = Fdecl string "string option" ftype "pyval option" "constr list"

type_synonym mdecl = ftype

definition no_check :: "pydict \<Rightarrow> exn option" where
  "no_check d = None"

text \<open>\<open>JibitModel\<close> and \<open>JibitRequestModel\<close> subclasses.\<close>

definition response_model :: "string \<Rightarrow> fdecl list \<Rightarrow> mdecl" where
  "response_model name fs = TModel name False fs no_check"

definition request_model :: "string \<Rightarrow> fdecl list \<Rightarrow> mdecl" where
  "request_model name fs = TModel name True fs no_check"

definition request_model_with :: "string \<Rightarrow> (pydict \<Rightarrow> exn option) \<Rightarrow> fdecl list \<Rightarrow> mdecl" where
  "request_model_with name after fs = TModel name True fs after"

text \<open>A required field, and an optional one with default \<open>None\<close>.\<close>

definition needed :: "string \<Rightarrow> ftype \<Rightarrow> constr list \<Rightarrow> fdecl" where
  "needed name t cs = Fdecl name None t None cs"

definition optional :: "string \<Rightarrow> ftype \<Rightarrow> constr list \<Rightarrow> fdecl" where
  "optional name t cs = Fdecl name None (TOpt t) (Some PNone) cs"

definition with_default :: "string \<Rightarrow> ftype \<Rightarrow> pyval \<Rightarrow> constr list \<Rightarrow> fdecl" where
  "with_default name t v cs = Fdecl name None t (Some v) cs"

fun aliased :: "string \<Rightarrow> fdecl \<Rightarrow> fdecl" where
  "aliased a (Fdecl name _ t v cs) = Fdecl name (Some a) t v cs"

section \<open>The patterns of string fields\<close>

text \<open>The regular expressions are matched by the validation engine; \<open>$\<close> is the end of the text there.\<close>

definition pat_iban :: "string \<Rightarrow> bool" where
  "pat_iban s \<longleftrightarrow> take 2 s = ''IR'' \<and> length s = 26 \<and> list_all is_digit (drop 2 s)"

definition pat_digits :: "string \<Rightarrow> bool" where
  "pat_digits s \<longleftrightarrow> s \<noteq> [] \<and> list_all is_digit s"

definition pat_digits_n :: "nat \<Rightarrow> string \<Rightarrow> bool" where
  "pat_digits_n n s \<longleftrightarrow> length s = n \<and> list_all is_digit s"

definition ascii_alnum :: "char \<Rightarrow> bool" where
  "ascii_alnum c \<longleftrightarrow> is_upper c \<or> is_lower c \<or> is_digit c"

definition pat_reference :: "string \<Rightarrow> bool" where
  "pat_reference s \<longleftrightarrow> s \<noteq> [] \<and> list_all (\<lambda>c. ascii_alnum c \<or> c \<in> set ''._-'') s"

definition pat_track_id :: "string \<Rightarrow> bool" where
  "pat_track_id s \<longleftrightarrow> s \<noteq> [] \<and> list_all (\<lambda>c. ascii_alnum c \<or> c \<in> set ''_-'') s"

definition pat_date :: "string \<Rightarrow> bool" where
  "pat_date s \<longleftrightarrow> length s = 10 \<and> list_all is_digit (take 4 s) \<and> s ! 4 = CHR ''-''
     \<and> list_all is_digit (take 2 (drop 5 s)) \<and> s ! 7 = CHR ''-'' \<and> list_all is_digit (drop 8 s)"

section \<open>Wire names\<close>

text \<open>\<open>str.capitalize\<close>.\<close>

definition capitalize :: "string \<Rightarrow> string" where
  "capitalize s = (case s of [] \<Rightarrow> [] | c # cs \<Rightarrow> upper_char c # map lower_char cs)"

definition to_camel :: "string \<Rightarrow> string" where
  "to_camel value = (case split_on CHR ''_'' value of
       [] \<Rightarrow> [] | head # tail \<Rightarrow> head @ concat (map capitalize tail))"

fun field_name :: "fdecl \<Rightarrow> string" where
  "field_name (Fdecl name _ _ _ _) = name"

fun wire_name :: "fdecl \<Rightarrow> string" where
  "wire_name (Fdecl name a _ _ _) = (case a of Some s \<Rightarrow> s | None \<Rightarrow> to_camel name)"

fun model_fields :: "mdecl \<Rightarrow> fdecl list" where
  "model_fields (TModel _ _ fs _) = fs"
| "model_fields _ = []"

section \<open>Values that conform to a declaration\<close>

datatype pydatetime = Naive rat | Aware rat

text \<open>\<open>a < b\<close>; a naive and an aware time cannot be compared.\<close>

fun datetime_less :: "pydatetime \<Rightarrow> pydatetime \<Rightarrow> exn + bool" where
  "datetime_less (Naive a) (Naive b) = Inr (a < b)"
| "datetime_less (Aware a) (Aware b) = Inr (a < b)"
| "datetime_less _ _ = Inl TypeError"

fun datetime_instant :: "pydatetime \<Rightarrow> rat" where
  "datetime_instant (Naive a) = a"
| "datetime_instant (Aware a) = a"

record lib =
  lb_validate :: "mdecl \<Rightarrow> pyval \<Rightarrow> exn + pyval"
  lb_json :: "pyval \<Rightarrow> pyval"
  lb_datetime :: "pyval \<Rightarrow> pydatetime"

text \<open>The length a \<open>min_length\<close> or \<open>max_length\<close> measures.\<close>

fun value_length :: "pyval \<Rightarrow> nat" where
  "value_length (PStr s) = length s"
| "value_length (PObj s) = length s"
| "value_length (PBytes s) = length s"
| "value_length (PList xs) = length xs"
| "value_length (PTuple xs) = length xs"
| "value_length (PDict d) = length d"
| "value_length _ = 0"

fun int_value :: "pyval \<Rightarrow> int" where
  "int_value (PInt i) = i"
| "int_value (PFloat x) = \<lceil>x\<rceil>"
| "int_value _ = 0"

fun holds :: "constr \<Rightarrow> pyval \<Rightarrow> bool" where
  "holds (MinLen n) v \<longleftrightarrow> n \<le> value_length v"
| "holds (MaxLen n) v \<longleftrightarrow> value_length v \<le> n"
| "holds (Gt i) v \<longleftrightarrow> i < int_value v"
| "holds (Ge i) v \<longleftrightarrow> i \<le> int_value v"
| "holds (Le i) v \<longleftrightarrow> int_value v \<le> i"
| "holds (Pattern p) v \<longleftrightarrow> (case v of PStr s \<Rightarrow> p s | _ \<Rightarrow> False)"
| "holds (Check p) v \<longleftrightarrow> p v"

fun conforms :: "ftype \<Rightarrow> pyval \<Rightarrow> bool" and field_ok :: "fdecl \<Rightarrow> pydict \<Rightarrow> bool" where
  "conforms TStr v = (case v of PStr s \<Rightarrow> True | _ \<Rightarrow> False)"
| "conforms TInt v = (case v of PInt i \<Rightarrow> True | _ \<Rightarrow> False)"
| "conforms TBool v = (case v of PBool b \<Rightarrow> True | _ \<Rightarrow> False)"
| "conforms TFloat v = (case v of PFloat x \<Rightarrow> True | _ \<Rightarrow> False)"
| "conforms TBytes v = (case v of PBytes s \<Rightarrow> True | _ \<Rightarrow> False)"
| "conforms TDatetime v = (case v of PObj s \<Rightarrow> True | _ \<Rightarrow> False)"
| "conforms TAwareDatetime v = (case v of PObj s \<Rightarrow> True | _ \<Rightarrow> False)"
| "conforms TUuid v = (case v of PObj s \<Rightarrow> True | _ \<Rightarrow> False)"
| "conforms THttpUrl v = (case v of PObj s \<Rightarrow> True | _ \<Rightarrow> False)"
| "conforms TIp v = (case v of PObj s \<Rightarrow> True | _ \<Rightarrow> False)"
| "conforms TAny v = True"
| "conforms TDict v = (case v of PDict d \<Rightarrow> True | _ \<Rightarrow> False)"
| "conforms (TMap t) v = (case v of PDict d \<Rightarrow> \<forall>x \<in> snd ` set d. conforms t x | _ \<Rightarrow> False)"
| "conforms (TEnum vs) v = (case v of PStr s \<Rightarrow> s \<in> set vs | _ \<Rightarrow> False)"
| "conforms (TOpt t) v \<longleftrightarrow> v = PNone \<or> conforms t v"
| "conforms (TList t) v = (case v of PList xs \<Rightarrow> \<forall>x \<in> set xs. conforms t x | _ \<Rightarrow> False)"
| "conforms (TTuple t) v = (case v of PTuple xs \<Rightarrow> \<forall>x \<in> set xs. conforms t x | _ \<Rightarrow> False)"
| "conforms (TUnion s t) v \<longleftrightarrow> conforms s v \<or> conforms t v"
| "conforms (TModel name forbid fs after) v = (case v of
       PDict d \<Rightarrow> (\<forall>f \<in> set fs. field_ok f d) \<and> after d = None | _ \<Rightarrow> False)"
| "field_ok (Fdecl name a t v cs) d \<longleftrightarrow> conforms t (pyget d name)
     \<and> (pyget d name \<noteq> PNone \<longrightarrow> (\<forall>c \<in> set cs. holds c (pyget d name)))"

text \<open>The same as statements about the value.\<close>

lemma conforms_iff [simp]:
  "conforms TStr v \<longleftrightarrow> (\<exists>s. v = PStr s)"
  "conforms TInt v \<longleftrightarrow> (\<exists>i. v = PInt i)"
  "conforms TBool v \<longleftrightarrow> (\<exists>b. v = PBool b)"
  "conforms TFloat v \<longleftrightarrow> (\<exists>x. v = PFloat x)"
  "conforms TBytes v \<longleftrightarrow> (\<exists>s. v = PBytes s)"
  "conforms TDatetime v \<longleftrightarrow> (\<exists>s. v = PObj s)"
  "conforms TAwareDatetime v \<longleftrightarrow> (\<exists>s. v = PObj s)"
  "conforms TUuid v \<longleftrightarrow> (\<exists>s. v = PObj s)"
  "conforms THttpUrl v \<longleftrightarrow> (\<exists>s. v = PObj s)"
  "conforms TIp v \<longleftrightarrow> (\<exists>s. v = PObj s)"
  "conforms TDict v \<longleftrightarrow> (\<exists>d. v = PDict d)"
  "conforms (TMap t) v \<longleftrightarrow> (\<exists>d. v = PDict d \<and> (\<forall>x \<in> snd ` set d. conforms t x))"
  "conforms (TEnum vs) v \<longleftrightarrow> (\<exists>s \<in> set vs. v = PStr s)"
  "conforms (TList t) v \<longleftrightarrow> (\<exists>xs. v = PList xs \<and> (\<forall>x \<in> set xs. conforms t x))"
  "conforms (TTuple t) v \<longleftrightarrow> (\<exists>xs. v = PTuple xs \<and> (\<forall>x \<in> set xs. conforms t x))"
  "conforms (TModel name forbid fs after) v \<longleftrightarrow>
     (\<exists>d. v = PDict d \<and> (\<forall>f \<in> set fs. field_ok f d) \<and> after d = None)"
  by (cases v; auto)+

declare conforms.simps(1-10,12-14,16,17,19) [simp del]

definition lawful_lib :: "lib \<Rightarrow> bool" where
  "lawful_lib L \<longleftrightarrow> (\<forall>m v out. lb_validate L m v = Inr out \<longrightarrow> conforms m out)"

section \<open>Serialization\<close>

text \<open>
  \<open>model_dump(by_alias=True, exclude_none=True, mode="json")\<close>: fields in order under their wire
  names, \<open>None\<close> left out, leaves by \<open>lb_json\<close>, sequences as lists.
\<close>

fun dump :: "(pyval \<Rightarrow> pyval) \<Rightarrow> ftype \<Rightarrow> pyval \<Rightarrow> pyval"
  and dump_field :: "(pyval \<Rightarrow> pyval) \<Rightarrow> fdecl \<Rightarrow> pydict \<Rightarrow> (string \<times> pyval) list" where
  "dump js (TOpt t) v = (if v = PNone then PNone else dump js t v)"
| "dump js (TList t) v = (case v of PList xs \<Rightarrow> PList (map (dump js t) xs) | _ \<Rightarrow> js v)"
| "dump js (TTuple t) v = (case v of PTuple xs \<Rightarrow> PList (map (dump js t) xs) | _ \<Rightarrow> js v)"
| "dump js (TModel name forbid fs after) v = (case v of
       PDict d \<Rightarrow> PDict (concat (map (\<lambda>f. dump_field js f d) fs)) | _ \<Rightarrow> js v)"
| "dump js t v = js v"
| "dump_field js (Fdecl name a t dv cs) d =
     (if pyget d name = PNone then []
      else [(case a of Some s \<Rightarrow> s | None \<Rightarrow> to_camel name, dump js t (pyget d name))])"

text \<open>\<open>to_payload\<close>; \<open>to_query\<close> is the same.\<close>

definition to_payload :: "lib \<Rightarrow> mdecl \<Rightarrow> pydict \<Rightarrow> pydict" where
  "to_payload L m d = concat (map (\<lambda>f. dump_field (lb_json L) f d) (model_fields m))"

definition to_query :: "lib \<Rightarrow> mdecl \<Rightarrow> pydict \<Rightarrow> pydict" where
  "to_query L m d = to_payload L m d"

definition model_repr :: "mdecl \<Rightarrow> string" where
  "model_repr m = (case m of TModel name _ _ _ \<Rightarrow> name @ ''([REDACTED])'' | _ \<Rightarrow> [])"

lemma dump_field_keys: "set (keys (dump_field js f d)) \<subseteq> {wire_name f}"
  by (cases f) (simp add: keys_def)

lemma wire_keys_distinct:
  assumes "distinct (map wire_name fs)"
  shows "distinct (keys (concat (map (\<lambda>f. dump_field js f d) fs)))
     \<and> set (keys (concat (map (\<lambda>f. dump_field js f d) fs))) \<subseteq> set (map wire_name fs)"
  using assms
proof (induction fs)
  case (Cons f fs)
  let ?rest = "concat (map (\<lambda>f. dump_field js f d) fs)"
  have first: "distinct (keys (dump_field js f d))" by (cases f) simp
  have IH: "distinct (keys ?rest)" "set (keys ?rest) \<subseteq> set (map wire_name fs)"
    using Cons by auto
  have "wire_name f \<notin> set (keys ?rest)" using IH Cons.prems by auto
  then have "set (keys (dump_field js f d)) \<inter> set (keys ?rest) = {}"
    using dump_field_keys [of js f d] by auto
  then have "distinct (keys (dump_field js f d @ ?rest))"
    using first IH by (simp only: keys_simps distinct_append)
  moreover have "set (keys (dump_field js f d @ ?rest)) \<subseteq> set (map wire_name (f # fs))"
    using IH(2) dump_field_keys [of js f d] by (auto simp only: keys_simps set_append list.map list.set)
  ultimately show ?case by simp
qed simp

lemma payload_field:
  assumes "distinct (map wire_name fs)" and "f \<in> set fs" and "f = Fdecl name a t dv cs"
  shows "dict_get (concat (map (\<lambda>f. dump_field js f d) fs)) (wire_name f) =
    (if pyget d name = PNone then None else Some (dump js t (pyget d name)))"
  using assms(1,2)
proof (induction fs)
  case (Cons g fs)
  show ?case
  proof (cases "g = f")
    case True
    have "wire_name f \<notin> set (keys (concat (map (\<lambda>f. dump_field js f d) fs)))"
      using Cons.prems(1) True wire_keys_distinct [of fs js d] by auto
    then have "dict_get (concat (map (\<lambda>f. dump_field js f d) fs)) (wire_name f) = None"
      by (rule dict_get_None_iff [THEN iffD2])
    then show ?thesis using True assms(3) by (simp add: dict_get_append)
  next
    case False
    then have "wire_name g \<noteq> wire_name f"
      using Cons.prems by auto
    then have "dict_get (dump_field js g d) (wire_name f) = None"
      using dump_field_keys [of js g d] dict_get_None_iff [of "dump_field js g d" "wire_name f"] by auto
    then have "dict_get (concat (map (\<lambda>f. dump_field js f d) (g # fs))) (wire_name f)
        = dict_get (concat (map (\<lambda>f. dump_field js f d) fs)) (wire_name f)"
      by (simp add: dict_get_append)
    then show ?thesis using Cons False by simp
  qed
qed simp

end
