(* ===== verification/Foundation_Properties.thy ===== *)
theory Foundation_Properties
  imports Samples Models
begin

text \<open>
  The properties of the shared layers: redaction, errors, configuration, retry decisions, tokens
  and token stores.
\<close>

section \<open>Redaction\<close>

lemma keys_redacted:
  "keys (map (\<lambda>(k, x). (k, redact (Some k) x)) d) = keys d"
  by (induction d) (auto simp: keys_def)


definition underscored :: "string \<Rightarrow> string" where
  "underscored s = concat (map (\<lambda>x. if is_upper x then [CHR ''_'', x] else [x]) s)"

lemma underscored_append [simp]: "underscored (a @ b) = underscored a @ underscored b"
  by (simp add: underscored_def)

lemma insert_underscores_lower: "\<not> is_upper c \<Longrightarrow> insert_underscores (c # s) = underscored (c # s)"
  by (simp add: insert_underscores_def underscored_def)

lemma insert_underscores_append:
  "\<not> is_upper c \<Longrightarrow> \<exists>p. insert_underscores (a @ c # s) = p @ underscored (c # s)"
  by (cases a) (auto simp: insert_underscores_def underscored_def)

text \<open>A sensitive key that starts with a small letter stays sensitive inside a longer key.\<close>

lemma sensitive_inside:
  assumes "\<not> is_upper c" and "is_sensitive_key (c # q)"
  shows "is_sensitive_key (a @ (c # q) @ b)"
proof -
  let ?norm = "\<lambda>s. map (\<lambda>c. if c = CHR ''-'' then CHR ''_'' else c) (str_lower s)"
  obtain p where "insert_underscores (a @ c # (q @ b)) = p @ underscored (c # (q @ b))"
    using insert_underscores_append [OF assms(1)] by blast
  also have "underscored (c # (q @ b)) = insert_underscores (c # q) @ underscored b"
    using insert_underscores_lower [OF assms(1)] underscored_append [of "c # q" b] by simp
  finally have "normalize_key (a @ (c # q) @ b)
      = ?norm p @ normalize_key (c # q) @ ?norm (underscored b)"
    by (simp add: normalize_key_def str_lower_def)
  moreover obtain part x y where part: "part \<in> set SENSITIVE_KEY_PARTS"
    and "normalize_key (c # q) = x @ part @ y"
    using assms(2) by (auto simp: is_sensitive_key_def Let_def list_ex_iff contains_iff_sublist sublist_def)
  ultimately have whole: "normalize_key (a @ (c # q) @ b)
      = (?norm p @ x) @ part @ (y @ ?norm (underscored b))"
    by simp
  then have "contains part (normalize_key (a @ (c # q) @ b))"
    unfolding contains_iff_sublist whole by - (rule sublist_appendI)
  with part have "\<exists>part \<in> set SENSITIVE_KEY_PARTS. contains part (normalize_key (a @ (c # q) @ b))"
    by blast
  then show ?thesis
    by (auto simp: is_sensitive_key_def Let_def list_ex_iff)
qed

lemma sensitive_inside_word:
  "q \<noteq> [] \<and> \<not> is_upper (hd q) \<and> is_sensitive_key q \<Longrightarrow> is_sensitive_key (a @ q @ b)"
  using sensitive_inside by (cases q) auto

definition plainly_sensitive :: "string \<Rightarrow> bool" where
  "plainly_sensitive q \<longleftrightarrow> q \<noteq> [] \<and> \<not> is_upper (hd q) \<and> is_sensitive_key q"

lemma parts_plainly_sensitive:
  "list_all (\<lambda>q. plainly_sensitive q \<and> plainly_sensitive (to_camel q)) SENSITIVE_KEY_PARTS"
  by code_simp

text \<open>A field name is sensitive as soon as it contains one of the listed names, in the SDK's own
  spelling or in the camel case of the wire, wherever it stands in the field name.\<close>

lemma sensitive_names:
  "list_all (\<lambda>q. is_sensitive_key (a @ q @ b) \<and> is_sensitive_key (a @ to_camel q @ b)) SENSITIVE_KEY_PARTS"
  using parts_plainly_sensitive sensitive_inside_word
  by (auto simp: list_all_iff plainly_sensitive_def)

text \<open>The wire names that end in an acronym escape the list: the underscore before every capital
  splits \<open>ID\<close> in two, so the values of \<open>transferID\<close>, \<open>batchID\<close> and \<open>paymentID\<close> are masked as free
  text only.\<close>

lemma acronym_names_escape:
  "list_all (\<lambda>k. \<not> is_sensitive_key k) [''transferID'', ''batchID'', ''paymentID'', ''IBAN'', ''OTP'']
   \<and> redact None (PDict [(''transferID'', PStr s)]) = PDict [(''transferID'', PStr (redact_text s))]"
proof -
  have "list_all (\<lambda>k. \<not> is_sensitive_key k) [''transferID'', ''batchID'', ''paymentID'', ''IBAN'', ''OTP'']"
    by code_simp
  then show ?thesis
    by (simp add: redact_dict) (simp add: redact.simps)
qed

section \<open>Errors\<close>

text \<open>C20: What an SDK error shows is clean: its message has no run of exactly ten digits, every entry
  of the context's safe dict is clean, and an upstream message is never kept, neither when the
  context is made nor after \<open>with_context\<close>.\<close>

theorem error_is_clean:
  "\<not> has_run 10 False (je_message (make_error k m c))
   \<and> list_all (\<lambda>(key, v). clean v) (safe_dict ctx)
   \<and> ec_upstream_message (context_post_init ctx) \<in> {None, Some REDACTED}
   \<and> ec_upstream_message (je_context (with_context change err)) \<in> {None, Some REDACTED}
   \<and> je_kind (with_context change err) = je_kind err"
  using make_error_message_clean post_init_message
  by (auto simp: list_all_iff with_context_def dest: safe_dict_clean)

section \<open>Configuration\<close>

text \<open>A credentials object is accepted exactly when it holds one complete method and nothing of
  another: an API key with its secret, a user name with its password, or an access token.\<close>

lemma credential_methods:
  "require_a_complete_credential_pair c = Inr c' \<longleftrightarrow> c' = c \<and>
     (cr_api_key c \<noteq> None) = (cr_secret_key c \<noteq> None) \<and> (cr_username c \<noteq> None) = (cr_password c \<noteq> None)
     \<and> length (filter id [cr_api_key c \<noteq> None, cr_username c \<noteq> None, cr_access_token c \<noteq> None]) = 1"
  unfolding credentials_exactly_one
  by (cases c) auto

text \<open>C39: Normalizing a configuration mapping twice is the same as once; a service entry at the top
  level wins over one under \<open>services\<close>, every other key is kept, and no service name stays at the
  top level.\<close>

theorem normalize_mapping_idempotent:
  assumes "normalize_mapping value = Inr out"
  shows "normalize_mapping out = Inr out
     \<and> (\<forall>s. dict_get out (service_value s) = None)
     \<and> (\<forall>k. k \<noteq> ''services'' \<and> k \<notin> service_value ` UNIV \<longrightarrow> dict_get out k = dict_get value k)
     \<and> (\<exists>services. dict_get out ''services'' = Some (PDict services) \<and>
          (\<forall>s. dict_get value (service_value s) \<noteq> None \<longrightarrow>
            dict_get services (service_value s) = map_option lift_credentials (dict_get value (service_value s))))"
proof -
  let ?lift = "map (\<lambda>(k, v). (k, lift_credentials v))"
  obtain services0 raw services where
    move: "move_services all_services (dict_del ''services'' value) services0 = (raw, services)"
    and out: "out = dict_set ''services'' (PDict (?lift services)) raw"
    using assms unfolding normalize_mapping_Inr by blast
  have named: "service_value s \<noteq> ''services''" for s
    by (cases s) simp_all
  have raw: "dict_get raw k = (if k \<in> service_value ` UNIV then None
      else if k = ''services'' then None else dict_get value k)" for k
    using move_services_raw [OF move, of k] by (auto simp: image_iff)
  have none: "dict_get raw ''services'' = None"
    using raw named by auto
  have drop: "dict_del ''services'' out = raw"
    using none unfolding out by (rule dict_del_set)
  have stay: "move_services all_services raw sv = (raw, sv)" for sv
    by (rule move_services_none) (simp add: raw)
  have again: "?lift (?lift services) = ?lift services"
    by (auto simp: comp_def)
  have "normalize_mapping out = Inr out"
    unfolding normalize_mapping_Inr drop using stay again out
    by - (rule exI [of _ "?lift services"], rule exI [of _ raw], rule exI [of _ "?lift services"],
      simp only: dict_get_set again simp_thms option.case if_True)
  moreover have "dict_get (?lift services) (service_value s)
      = map_option lift_credentials (dict_get value (service_value s))"
    if "dict_get value (service_value s) \<noteq> None" for s
    using move_services_services [OF distinct_all_services move, of "service_value s"] that named [of s]
    by (simp add: dict_get_map_values image_iff)
  ultimately show ?thesis
    using raw named by (auto simp: out)
qed

definition sample_mapping :: pydict where
  "sample_mapping = [(''cobank'', PDict [(''api_key'', PStr ''k''), (''secret_key'', PStr ''s'')]),
     (''verify_ssl'', PBool True)]"

theorem normalize_mapping_idempotent_witness:
  "\<exists>out services. normalize_mapping sample_mapping = Inr out \<and> normalize_mapping out = Inr out
     \<and> dict_get out ''services'' = Some (PDict services) \<and> dict_get services ''cobank'' \<noteq> None
     \<and> dict_get out ''verify_ssl'' = Some (PBool True)"
proof -
  obtain out where out: "normalize_mapping sample_mapping = Inr out"
    by (cases "move_services all_services (dict_del ''services'' sample_mapping) []")
      (simp add: normalize_mapping_def sample_mapping_def)
  have none: "''verify_ssl'' \<notin> service_value ` UNIV"
  proof
    assume "''verify_ssl'' \<in> service_value ` UNIV"
    then obtain s where "''verify_ssl'' = service_value s" by blast
    then show False by (cases s) simp_all
  qed
  have other: "dict_get out ''verify_ssl'' = dict_get sample_mapping ''verify_ssl''"
    using normalize_mapping_idempotent [OF out] none by auto
  obtain services where services: "dict_get out ''services'' = Some (PDict services)"
    and each: "\<forall>s. dict_get sample_mapping (service_value s) \<noteq> None \<longrightarrow>
      dict_get services (service_value s) = map_option lift_credentials (dict_get sample_mapping (service_value s))"
    using normalize_mapping_idempotent [OF out] by blast
  have "dict_get services ''cobank'' \<noteq> None"
    using each [rule_format, of COBANK] by (simp add: sample_mapping_def)
  moreover have "dict_get out ''verify_ssl'' = Some (PBool True)"
    using other by (simp add: sample_mapping_def)
  ultimately show ?thesis
    using out services conjunct1 [OF normalize_mapping_idempotent [OF out]] by blast
qed

section \<open>Retry decisions\<close>

text \<open>C38: The policy repeats an attempt exactly when attempts are left, the operation is repeatable and
  the outcome is transient; the random source is drawn exactly then. A repeated attempt waits at
  least its exponential backoff and never longer than \<open>max_delay\<close>, and the backoff never shrinks.\<close>

theorem retry_decision_bounds:
  assumes "retry_fields_ok cfg" and "0 \<le> rnd"
  shows "let (decision, drawn) = decide cfg rnd attempt safety status_code te has_key in
     rd_should_retry decision = (attempt < rc_max_attempts cfg \<and> repeatable safety has_key
       \<and> transient status_code te)
     \<and> drawn = of_bool (rd_should_retry decision)
     \<and> rd_delay decision \<le> rc_max_delay cfg
     \<and> (if rd_should_retry decision then backoff_base cfg attempt \<le> rd_delay decision
        else rd_delay decision = 0)
     \<and> backoff_base cfg attempt \<le> backoff_base cfg (attempt + 1)"
proof -
  obtain decision drawn where d: "decide cfg rnd attempt safety status_code te has_key
      = (decision, drawn)"
    by (cases "decide cfg rnd attempt safety status_code te has_key")
  have "rd_delay decision = 0" if "\<not> rd_should_retry decision"
    using d that by (auto simp: decide_def no_retry_def Let_def split: if_splits)
  moreover have "backoff_base cfg attempt \<le> backoff_base cfg (attempt + 1)"
    using assms(1) by (rule backoff_base_mono) simp
  moreover have "backoff_base cfg attempt \<le> rd_delay decision" if "rd_should_retry decision"
    using delay_at_least_base [OF assms, of attempt safety status_code te has_key] d that by simp
  ultimately show ?thesis
    using d should_retry_iff [of cfg rnd attempt safety status_code te has_key]
      decide_draws [of cfg rnd attempt safety status_code te has_key]
      delay_at_most_max [OF assms(1), of rnd attempt safety status_code te has_key]
    by simp
qed

theorem retry_decision_bounds_witness:
  "let (decision, drawn) = decide retry_default (1 / 2) 1 IDEMPOTENT (Some 503) False False in
     rd_should_retry decision \<and> drawn = 1 \<and> rd_delay decision \<le> 4"
proof -
  have "retry_fields_ok retry_default" "rc_max_delay retry_default = 4" "rc_max_attempts retry_default = 3"
    by (simp_all add: retry_default_def retry_fields_ok_def)
  then show ?thesis
    using retry_decision_bounds [of retry_default "1 / 2" 1 IDEMPOTENT "Some 503" False False]
    by (auto simp: repeatable_def transient_def TRANSIENT_STATUS_CODES_def Let_def split: prod.splits)
qed

section \<open>The text of a response\<close>

text \<open>C36: \<open>RawResponse.text\<close> never fails: content that is UTF-8 is decoded to exactly the text it encodes;
  any other content gives a text with a replacement character in it. Every character of the text is a
  Unicode scalar value, no surrogate and nothing above U+10FFFF, and there are at most as many as bytes.\<close>

theorem raw_text_decodes:
  "list_all code_point (raw_text r) \<and> length (raw_text r) \<le> length (rw_content r)
   \<and> (if \<exists>cs. list_all code_point cs \<and> codes (rw_content r) = utf8_encode cs
      then list_all code_point (raw_text r) \<and> codes (rw_content r) = utf8_encode (raw_text r)
      else 0xFFFD \<in> set (raw_text r))"
proof (cases "utf8_strict (codes (rw_content r))")
  case None
  then have "\<nexists>cs. list_all code_point cs \<and> codes (rw_content r) = utf8_encode cs"
    using utf8_strict_iff [of "codes (rw_content r)"] by auto
  then show ?thesis
    using strict_None_replaced [OF None] replace_length [of "codes (rw_content r)"]
    by (simp add: raw_text_def replace_code_point)
next
  case (Some cs)
  then have "list_all code_point cs" "codes (rw_content r) = utf8_encode cs" "raw_text r = cs"
    using utf8_strict_iff strict_replace by (auto simp: raw_text_def)
  moreover have "length (raw_text r) \<le> length (rw_content r)"
    using replace_length [of "codes (rw_content r)"] by (simp add: raw_text_def)
  ultimately show ?thesis
    by auto
qed

section \<open>Tokens\<close>

text \<open>A token state survives its serialization for a cache: reading back what \<open>to_cache_data\<close> wrote
  gives the same state, for every state the SDK builds.\<close>

lemma token_cache_roundtrip:
  assumes "storable t"
  shows "from_cache_data rep (to_cache_data t) = Inr t"
  using assms by (rule from_to_cache_data)


definition jwt_env :: "int \<Rightarrow> env" where
  "jwt_env i = (sample_env (\<lambda>_. Received response_200))
     \<lparr>e_json_loads := \<lambda>s. if s = ''P'' then Inr (PDict [(''exp'', PInt i)]) else Inl JSONDecodeError\<rparr>"


lemma map_sum_Inl: "map_sum id f r = Inl x \<longleftrightarrow> r = Inl x"
  by (cases r) auto

lemma jwt_value_fails:
  assumes "jwt_expiry_value e part = Inl x"
  shows "x = ValueError \<or> (\<exists>bs. e_json_loads e bs = Inl x) \<or> (\<exists>v. py_float v = Inl x)"
proof -
  have float: "\<exists>v. py_float v = Inl x" if "(case u of PNone \<Rightarrow> Inr None | v \<Rightarrow> map_sum id Some (py_float v)) = Inl x" for u
    using that by (cases u) (auto simp: map_sum_Inl)
  show ?thesis
    using assms unfolding jwt_expiry_value_def
    by (auto split: if_splits option.splits sum.splits dest!: float)
qed

text \<open>Reading the expiry fails only in two ways: on a number no float can hold, where the
  \<open>OverflowError\<close> is not caught, and on what the JSON decoder raises beyond value and type errors.\<close>

lemma jwt_expiry_failures:
  "(case jwt_expiry e token of
      Inr _ \<Rightarrow> True
    | Inl x \<Rightarrow> x = OverflowError \<or> (\<exists>bs. e_json_loads e bs = Inl x))
   \<and> jwt_expiry (jwt_env (2 ^ 1024)) (make_jwt ''h'' ''P'' ''s'') = Inl OverflowError"
proof -
  have float: "py_float v = Inl x \<Longrightarrow> is_value_error x \<or> x = TypeError \<or> x = OverflowError" for v x
    by (auto simp: py_float_def float_of_int_def float_of_str_def Let_def split: pyval.splits if_splits
        prod.splits)
  have "x = OverflowError \<or> (\<exists>bs. e_json_loads e bs = Inl x)"
    if "jwt_expiry_value e part = Inl x" "\<not> is_value_error x" "x \<noteq> TypeError" for part x
    using jwt_value_fails [OF that(1)] that(2,3) float by auto
  then have first: "case jwt_expiry e token of Inr _ \<Rightarrow> True
      | Inl x \<Rightarrow> x = OverflowError \<or> (\<exists>bs. e_json_loads e bs = Inl x)"
    by (auto simp: jwt_expiry_def Let_def split: sum.splits if_splits)
  have "jwt_expiry (jwt_env (2 ^ 1024)) (make_jwt ''h'' ''P'' ''s'') = map_sum id Some (float_of_int (2 ^ 1024))"
    by (rule jwt_expiry_payload [where d = "[(''exp'', PInt (2 ^ 1024))]"])
      (simp_all add: jwt_env_def pyget_def)
  moreover have "float_of_int (2 ^ 1024) = Inl OverflowError"
    by (simp add: float_of_int_def float_limit_def)
  ultimately have "jwt_expiry (jwt_env (2 ^ 1024)) (make_jwt ''h'' ''P'' ''s'') = Inl OverflowError"
    by simp
  with first show ?thesis by simp
qed

end
