(* ===== verification/Store_Properties.thy ===== *)
theory Store_Properties
  imports Samples Auth "HOL-Library.Countable" "HOL-Library.Multiset"
begin

text \<open>
  The properties of the token stores and of the keys under which tokens are kept.
\<close>

section \<open>The in-memory store\<close>

text \<open>C31: The in-memory store is a map from keys to tokens: after any sequence of \<open>set\<close> and \<open>delete\<close>
  on an empty store, \<open>get\<close> of every key returns what the same sequence leaves in the map, and no
  operation raises.\<close>

theorem memory_store_refines_map:
  assumes "list_all op_storable ops"
  shows "\<exists>s. apply_ops memory_store ops [] = Inr s
     \<and> (\<forall>k. ts_get memory_store k s = Inr (fold spec_op ops Map.empty k))"
proof -
  have "represents memory_store [] Map.empty"
    by (simp add: represents_def memory_get_def)
  from memory.represents_ops [OF this assms] show ?thesis
    by (simp add: represents_def)
qed

definition sample_state :: token_state where
  "sample_state = \<lparr>tk_access_token = ''at'', tk_refresh_token = Some ''rt'', tk_expires_at = Some 2000,
     tk_refresh_expires_at = None, tk_token_type = ''Bearer'', tk_scopes = []\<rparr>"

definition sample_ops :: "store_op list" where
  "sample_ops = [Put ''a'' sample_state, Put ''b'' sample_state, Drop ''a'']"

lemma sample_ops_storable: "list_all op_storable sample_ops"
  by (simp add: sample_ops_def sample_state_def storable_def)

lemma sample_spec: "fold spec_op sample_ops Map.empty = [''b'' \<mapsto> sample_state]"
  by (auto simp: sample_ops_def)

theorem memory_store_refines_map_witness:
  "\<exists>s. apply_ops memory_store sample_ops [] = Inr s \<and> ts_get memory_store ''b'' s = Inr (Some sample_state)
     \<and> ts_get memory_store ''a'' s = Inr None"
  using memory_store_refines_map [OF sample_ops_storable] by (auto simp: sample_spec)

section \<open>The Django store\<close>

text \<open>C32: The Django store is the same map, behind a prefix, whenever the cache keeps what is stored
  without a timeout: what \<open>set\<close> serializes, \<open>get\<close> reads back, whatever the prefix.\<close>

theorem django_store_refines_map:
  assumes "faithful_cache cache" and "represents (django_store rep p cache) s m"
    and "list_all op_storable ops"
  shows "\<exists>s'. apply_ops (django_store rep p cache) ops s = Inr s'
     \<and> (\<forall>k. ts_get (django_store rep p cache) k s' = Inr (fold spec_op ops m k))"
  using lawful_store.represents_ops [OF django_store_lawful [OF assms(1)] assms(2,3)]
  by (simp add: represents_def)

text \<open>A cache that is a dict.\<close>

definition dict_cache :: "pydict cache_backend" where
  "dict_cache = \<lparr>ca_get = (\<lambda>k c. Inr (pyget c k)), ca_set = (\<lambda>k v t c. Inr (dict_set k v c)),
     ca_delete = (\<lambda>k c. Inr (dict_del k c))\<rparr>"

lemma dict_cache_faithful: "faithful_cache dict_cache"
  by (simp add: faithful_cache_def dict_cache_def pyget_def)

theorem django_store_refines_map_witness:
  "\<exists>s'. apply_ops (django_store (\<lambda>_. ''?'') ''p'' dict_cache) sample_ops [] = Inr s'
     \<and> ts_get (django_store (\<lambda>_. ''?'') ''p'' dict_cache) ''b'' s' = Inr (Some sample_state)"
proof -
  have "represents (django_store (\<lambda>_. ''?'') ''p'' dict_cache) [] Map.empty"
    by (simp add: represents_def django_store_def django_get_def dict_cache_def pyget_def)
  from django_store_refines_map [OF dict_cache_faithful this sample_ops_storable]
  show ?thesis by (auto simp: sample_spec)
qed

section \<open>The Redis store\<close>

text \<open>C33: The Redis store is the same map whenever the server keeps the text it is given (and returns it
  as bytes or as text) and the interpreter reads back the floats it writes: every token that \<open>set\<close> writes
  as JSON, \<open>get\<close> decodes, parses and validates to the same token.\<close>

theorem redis_store_refines_map:
  assumes "faithful_redis client" and "faithful_floats lib"
    and "represents (redis_store lib rep p client) s m" and "list_all op_storable ops"
  shows "\<exists>s'. apply_ops (redis_store lib rep p client) ops s = Inr s'
     \<and> (\<forall>k. ts_get (redis_store lib rep p client) k s' = Inr (fold spec_op ops m k))"
  using lawful_store.represents_ops [OF redis_store_lawful [OF assms(1,2)] assms(3,4)]
  by (simp add: represents_def)

text \<open>A server that is a dict of texts and answers in bytes.\<close>

definition dict_redis :: "string dict redis_client" where
  "dict_redis = \<lparr>rd_get = (\<lambda>k c. Inr (case dict_get c k of None \<Rightarrow> PNone | Some s \<Rightarrow> PBytes (utf8_bytes s))),
     rd_set = (\<lambda>k v c. Inr (dict_set k v c)), rd_delete = (\<lambda>k c. Inr (dict_del k c))\<rparr>"

lemma dict_redis_faithful: "faithful_redis dict_redis"
  by (simp add: faithful_redis_def dict_redis_def)

text \<open>Floats written as the two integers of the fraction, in the shape of a JSON number.\<close>

definition fraction_text :: "rat \<Rightarrow> string" where
  "fraction_text x = (let (p, q) = quotient_of x in show_int p @ ''.0e'' @ show_int q)"

definition read_fraction :: "string \<Rightarrow> rat option" where
  "read_fraction t = Some (Fract (read_int (codes (takeWhile (\<lambda>c. c \<noteq> CHR ''.'') t)))
     (read_int (codes (drop 3 (dropWhile (\<lambda>c. c \<noteq> CHR ''.'') t)))))"

definition sample_lib :: json_lib where
  "sample_lib = \<lparr>jl_repr = fraction_text, jl_float = read_fraction, jl_beyond = (\<lambda>_. Inl ValueError)\<rparr>"

lemma show_int_no_point: "CHR ''.'' \<notin> set (show_int i)"
proof -
  have "\<not> is_digit CHR ''.''"
    by (simp add: is_digit_def code_def)
  then have "CHR ''.'' \<notin> set (show_nat n)" for n
    using show_nat_digits [of n] by (auto simp: list_all_iff)
  then show ?thesis
    by (simp add: show_int_def)
qed

lemma while_point:
  "CHR ''.'' \<notin> set s \<Longrightarrow> takeWhile (\<lambda>c. c \<noteq> CHR ''.'') (s @ CHR ''.'' # t) = s"
  "CHR ''.'' \<notin> set s \<Longrightarrow> dropWhile (\<lambda>c. c \<noteq> CHR ''.'') (s @ CHR ''.'' # t) = CHR ''.'' # t"
  by (induction s) auto

lemmas takeWhile_point = while_point [OF show_int_no_point]

lemma read_fraction_text: "read_fraction (fraction_text x) = Some x"
  by (cases "quotient_of x") (simp add: fraction_text_def read_fraction_def takeWhile_point read_int_show
      Fract_of_int_quotient quotient_of_div [symmetric])

lemma float_text_fraction: "float_text (fraction_text x)"
proof -
  obtain p q where x: "quotient_of x = (p, q)"
    by (cases "quotient_of x")
  obtain n where q: "show_int q = show_nat n"
    using quotient_of_denom_pos [OF x] by (simp add: show_int_def)
  let ?r = "codes (''.0e'' @ show_nat n)"
  have r: "?r = [46, 48, 101] @ codes (show_nat n)"
    by (simp add: code_def)
  have "lex_integer (codes (show_int p) @ ?r) = Some (codes (show_int p), ?r)"
    using lex_integer_stop [OF lex_integer_show, of ?r p] unfolding r by (simp add: ascii_digit_def)
  moreover have "lex_fraction ?r = ([46, 48], 101 # codes (show_nat n))"
    unfolding r by (simp add: lex_fraction_def ascii_digit_def)
  moreover have "lex_exponent (101 # codes (show_nat n)) = (101 # codes (show_nat n), [])"
  proof -
    obtain c t where s: "codes (show_nat n) = c # t"
      by (cases "codes (show_nat n)") (auto simp: codes_def)
    have "list_all ascii_digit (c # t)"
      using show_nat_codes [of n] unfolding s .
    then show ?thesis
      unfolding s by (auto simp: lex_exponent_def list_all_iff ascii_digit_def takeWhile_eq_all_conv [THEN iffD2])
  qed
  ultimately show ?thesis
    by (simp add: float_text_def fraction_text_def x q lex_number_def)
qed

lemma sample_lib_faithful: "faithful_floats sample_lib"
  by (simp add: faithful_floats_def sample_lib_def float_text_fraction read_fraction_text)

theorem redis_store_refines_map_witness:
  "\<exists>s'. apply_ops (redis_store sample_lib (\<lambda>_. ''?'') ''p'' dict_redis) sample_ops [] = Inr s'
     \<and> ts_get (redis_store sample_lib (\<lambda>_. ''?'') ''p'' dict_redis) ''b'' s' = Inr (Some sample_state)"
proof -
  have "represents (redis_store sample_lib (\<lambda>_. ''?'') ''p'' dict_redis) [] Map.empty"
    by (simp add: represents_def redis_store_def redis_get_def dict_redis_def)
  from redis_store_refines_map [OF dict_redis_faithful sample_lib_faithful this sample_ops_storable]
  show ?thesis by (auto simp: sample_spec)
qed


definition sample_document :: pyval where
  "sample_document = PDict [(''a'', PList [PInt (-12), PFloat (1 / 3), PNone]), ([CHR 34], PStr [CHR 10, CHR 0xE9])]"


section \<open>Cache keys\<close>

lemma service_value_no_colon: "CHR '':'' \<notin> set (service_value s)"
  by (cases s) simp_all

lemma prefix_before_colon:
  "a @ CHR '':'' # x = b @ CHR '':'' # y \<Longrightarrow> CHR '':'' \<notin> set a \<Longrightarrow> CHR '':'' \<notin> set b \<Longrightarrow> a = b"
proof (induction a arbitrary: b)
  case Nil
  then show ?case by (cases b) auto
next
  case (Cons c a)
  then show ?case by (cases b) auto
qed

lemma cache_key_parts:
  "build_cache_key e cfg service sc = Inr key \<Longrightarrow>
     \<exists>digest. key = au_cache_key_prefix (cf_auth cfg) @ '':'' @ service_value service @ '':'' @ digest"
  by (auto simp: build_cache_key_def Let_def split: option.splits)

text \<open>C35: Under one configuration, two services never share a cache key, whatever the digest; for one
  service the order of the configured scopes does not matter.\<close>

theorem cache_keys_separate:
  assumes "build_cache_key e cfg service sc = Inr key" and "mset (sc_scopes sc') = mset (sc_scopes sc)"
    and "sc_credentials sc' = sc_credentials sc" and "sc_base_url sc' = sc_base_url sc"
  shows "build_cache_key e cfg service sc' = Inr key
     \<and> (build_cache_key e cfg other sc2 = Inr key \<longrightarrow> other = service)"
proof
  have scopes: "sort (sc_scopes sc') = sort (sc_scopes sc)"
    by (rule properties_for_sort) (simp_all add: assms(2))
  show "build_cache_key e cfg service sc' = Inr key"
    using assms(1) unfolding build_cache_key_def assms(3,4) scopes by simp
  show "build_cache_key e cfg other sc2 = Inr key \<longrightarrow> other = service"
    using cache_key_parts [OF assms(1)] cache_key_parts [of e cfg other sc2 key] service_value_no_colon
      prefix_before_colon [of "service_value service" _ "service_value other"]
    by auto
qed

definition sample_service :: "string list \<Rightarrow> service_config" where
  "sample_service scopes = \<lparr>sc_credentials = \<lparr>cr_api_key = Some ''key'', cr_secret_key = Some ''secret'',
     cr_username = None, cr_password = None, cr_access_token = None\<rparr>, sc_base_url = None,
     sc_enabled = True, sc_scopes = scopes\<rparr>"

theorem cache_keys_separate_witness:
  "\<exists>key. build_cache_key (sample_env flaky) sample_config COBANK (sample_service [''x'', ''y'']) = Inr key
     \<and> build_cache_key (sample_env flaky) sample_config COBANK (sample_service [''y'', ''x'']) = Inr key
     \<and> build_cache_key (sample_env flaky) sample_config SMS (sample_service [''x'', ''y'']) \<noteq> Inr key"
proof -
  obtain key where key: "build_cache_key (sample_env flaky) sample_config COBANK
      (sample_service [''x'', ''y'']) = Inr key"
    by (simp add: build_cache_key_def sample_service_def secret_or_def Let_def)
  have "mset (sc_scopes (sample_service [''y'', ''x''])) = mset (sc_scopes (sample_service [''x'', ''y'']))"
    by (simp add: sample_service_def)
  from cache_keys_separate [OF key this, of SMS "sample_service [''x'', ''y'']"] key show ?thesis
    by (auto simp: sample_service_def)
qed

end
