(* ===== verification/Services_Base.thy ===== *)
theory Services_Base
  imports Models
begin

text \<open>
  \<open>src/jibit/services/base.py\<close>: response parsing, request validation and the helpers every facade
  shares. A facade holds an executor; \<open>facade\<close> adds the environment and the validation library the
  Python modules reach globally. (\<open>compact_values\<close> is in \<open>Py_Values\<close>, the audited executor in
  \<open>Executors\<close>.)
\<close>

record 'st facade =
  fa_env :: env
  fa_lib :: lib
  fa_run :: "'st executor"

type_synonym parsed_response = "pyval api_response"

section \<open>Parsing a response\<close>

definition local_context :: "string \<Rightarrow> string \<Rightarrow> string \<Rightarrow> string \<Rightarrow> error_context" where
  "local_context service operation method endpoint = context_post_init
     (empty_context\<lparr>ec_service := Some service, ec_operation := Some operation,
       ec_method := Some method, ec_endpoint := Some endpoint, ec_retryable := False\<rparr>)"

definition contract_mismatch ::
  "raw_response \<Rightarrow> string \<Rightarrow> string \<Rightarrow> string \<Rightarrow> string \<Rightarrow> exn" where
  "contract_mismatch raw service operation method endpoint =
     Jibit (make_error JibitResponseError
       (Some ''The upstream response does not match the documented contract'')
       (Some (context_post_init ((local_context service operation method endpoint)
         \<lparr>ec_status_code := Some (rw_status_code raw),
          ec_correlation_id := Some (rw_correlation_id raw)\<rparr>))))"

definition parse_model_response ::
  "env \<Rightarrow> raw_response \<Rightarrow> (pyval \<Rightarrow> exn + pyval) \<Rightarrow> string \<Rightarrow> string \<Rightarrow> string \<Rightarrow> string
     \<Rightarrow> exn + parsed_response" where
  "parse_model_response e raw model_validate service operation method endpoint =
     (case (case raw_json e raw of Inl x \<Rightarrow> Inl x | Inr v \<Rightarrow> model_validate v) of
        Inr data \<Rightarrow> Inr \<lparr>ar_data = data, ar_raw = raw\<rparr>
      | Inl x \<Rightarrow> if is_jibit {JibitResponseError} x \<or> x = ValidationError \<or> x = TypeError
          then Inl (contract_mismatch raw service operation method endpoint) else Inl x)"

definition typed_request ::
  "'st facade \<Rightarrow> request_options \<Rightarrow> (pyval \<Rightarrow> exn + pyval) \<Rightarrow> ('st, parsed_response) action" where
  "typed_request fc opt model_validate =
     bindM (fa_run fc opt) (\<lambda>raw.
       liftM (parse_model_response (fa_env fc) raw model_validate (service_value (ro_service opt))
         (ro_operation opt) (ro_method opt) (ro_path opt)))"

section \<open>Validating a request\<close>

definition request_validation_error ::
  "string \<Rightarrow> string \<Rightarrow> string \<Rightarrow> string \<Rightarrow> string \<Rightarrow> exn" where
  "request_validation_error service operation method endpoint message =
     Jibit (make_error JibitValidationError (Some message)
       (Some (local_context service operation method endpoint)))"

definition fields_of :: "pyval \<Rightarrow> pydict" where
  "fields_of v = (case v of PDict d \<Rightarrow> d | _ \<Rightarrow> [])"

definition validate_request ::
  "lib \<Rightarrow> mdecl \<Rightarrow> pydict \<Rightarrow> string \<Rightarrow> string \<Rightarrow> string \<Rightarrow> string \<Rightarrow> exn + pydict" where
  "validate_request L model values service operation method endpoint =
     (case lb_validate L model (PDict values) of
        Inr v \<Rightarrow> Inr (fields_of v)
      | Inl x \<Rightarrow> if x = ValidationError
          then Inl (request_validation_error service operation method endpoint
            ''The request parameters are invalid'')
          else Inl x)"

section \<open>Building options\<close>

text \<open>\<open>RequestOptions(service, operation, method, path, safety, params=..., json=...)\<close>.\<close>

definition service_options ::
  "service_name \<Rightarrow> string \<Rightarrow> string \<Rightarrow> string \<Rightarrow> operation_safety \<Rightarrow> pydict option \<Rightarrow> pyval
     \<Rightarrow> request_options" where
  "service_options service operation method path safety params json =
     (request_options service operation method path safety)\<lparr>ro_params := params, ro_json := json\<rparr>"

definition status_request ::
  "'st facade \<Rightarrow> request_options \<Rightarrow> ('st, status_result api_response) action" where
  "status_request fc opt = bindM (fa_run fc opt) (\<lambda>raw. returnM (status_response raw))"

section \<open>Facts\<close>

lemma validate_request_conforms:
  "lawful_lib L \<Longrightarrow> validate_request L m v s oper me ep = Inr d \<Longrightarrow>
     \<exists>out. conforms m out \<and> d = fields_of out"
  by (auto simp: validate_request_def lawful_lib_def split: sum.splits if_splits)

lemma conforms_model:
  "conforms (TModel n b fs after) out \<Longrightarrow>
     (\<forall>f \<in> set fs. field_ok f (fields_of out)) \<and> after (fields_of out) = None"
  by (auto simp: fields_of_def)

text \<open>A typed request does to the world what its executor does.\<close>

lemma typed_request_world: "snd (typed_request fc opt p w) = snd (fa_run fc opt w)"
  by (auto simp: typed_request_def bindM_def liftM_def split: prod.splits sum.splits)

lemma status_request_world: "snd (status_request fc opt w) = snd (fa_run fc opt w)"
  by (auto simp: status_request_def bindM_def returnM_def split: prod.splits sum.splits)

lemma typed_request_Inl:
  "typed_request fc opt p w = (Inl x, w') \<Longrightarrow> fa_run fc opt w = (Inr raw, w1) \<Longrightarrow>
     parse_model_response (fa_env fc) raw p (service_value (ro_service opt)) (ro_operation opt)
       (ro_method opt) (ro_path opt) = Inl x"
  by (simp add: typed_request_def bindM_def liftM_def)

lemma service_options_simps [simp]:
  "ro_service (service_options s oper m p sf ps js) = s"
  "ro_operation (service_options s oper m p sf ps js) = oper"
  "ro_method (service_options s oper m p sf ps js) = m"
  "ro_path (service_options s oper m p sf ps js) = p"
  "ro_safety (service_options s oper m p sf ps js) = sf"
  "ro_params (service_options s oper m p sf ps js) = ps"
  "ro_json (service_options s oper m p sf ps js) = js"
  "ro_headers (service_options s oper m p sf ps js) = []"
  "ro_multipart (service_options s oper m p sf ps js) = None"
  "ro_idempotency_key (service_options s oper m p sf ps js) = None"
  by (simp_all add: service_options_def request_options_def)

section \<open>What a facade inherits from its executor\<close>

text \<open>\<open>at_most n url m\<close>: running \<open>m\<close> sends at most \<open>n\<close> requests to \<open>url\<close>.\<close>

definition at_most :: "nat \<Rightarrow> string \<Rightarrow> ('st, 'a) action \<Rightarrow> bool" where
  "at_most n url m \<longleftrightarrow> (\<forall>w. sent_to url w (snd (m w)) \<le> n)"

lemma at_most_raise [simp]: "at_most n url (raiseM x)"
  by (simp add: at_most_def raiseM_def)

lemma at_most_return [simp]: "at_most n url (returnM x)"
  by (simp add: at_most_def returnM_def)

lemma at_most_lift: "(\<And>y. at_most n url (f y)) \<Longrightarrow> at_most n url (bindM (liftM r) f)"
  by (cases r) (simp_all add: at_most_def bindM_def liftM_def)

lemma at_most_typed: "at_most n url (fa_run fc opt) \<Longrightarrow> at_most n url (typed_request fc opt p)"
  by (simp add: at_most_def typed_request_world)

lemma at_most_status: "at_most n url (fa_run fc opt) \<Longrightarrow> at_most n url (status_request fc opt)"
  by (simp add: at_most_def status_request_world)

lemma at_most_bind:
  assumes "keeps tidy m" and "at_most i url m"
    and "\<And>x. keeps tidy (f x)" and "\<And>x. at_most j url (f x)"
  shows "at_most (i + j) url (bindM m f)"
  unfolding at_most_def
proof
  fix w
  obtain r w1 where m: "m w = (r, w1)" by (cases "m w")
  have first: "sent_to url w w1 \<le> i" using assms(2) m by (metis at_most_def snd_conv)
  show "sent_to url w (snd (bindM m f w)) \<le> i + j"
  proof (cases r)
    case (Inl x)
    then show ?thesis using first m by (simp add: bindM_def)
  next
    case (Inr x)
    obtain r2 w2 where f: "f x w1 = (r2, w2)" by (cases "f x w1")
    have "sent_to url w1 w2 \<le> j" using assms(4) f by (metis at_most_def snd_conv)
    moreover have "sent_to url w w2 = sent_to url w w1 + sent_to url w1 w2"
      by (intro sent_to_add tidy_prefix keepsD [OF assms(1) m] keepsD [OF assms(3) f])
    ultimately show ?thesis using first m f Inr by (simp add: bindM_def)
  qed
qed

lemma at_most_catch:
  assumes "keeps tidy m" and "at_most i url m"
    and "\<And>x. keeps tidy (h x)" and "\<And>x. at_most j url (h x)"
  shows "at_most (i + j) url (catchM m h)"
  unfolding at_most_def
proof
  fix w
  obtain r w1 where m: "m w = (r, w1)" by (cases "m w")
  have first: "sent_to url w w1 \<le> i" using assms(2) m by (metis at_most_def snd_conv)
  show "sent_to url w (snd (catchM m h w)) \<le> i + j"
  proof (cases r)
    case (Inr x)
    then show ?thesis using first m by (simp add: catchM_def)
  next
    case (Inl x)
    obtain r2 w2 where h: "h x w1 = (r2, w2)" by (cases "h x w1")
    have "sent_to url w1 w2 \<le> j" using assms(4) h by (metis at_most_def snd_conv)
    moreover have "sent_to url w w2 = sent_to url w w1 + sent_to url w1 w2"
      by (intro sent_to_add tidy_prefix keepsD [OF assms(1) m] keepsD [OF assms(3) h])
    ultimately show ?thesis using first m h Inl by (simp add: catchM_def)
  qed
qed

lemma at_most_mono: "at_most i url m \<Longrightarrow> i \<le> j \<Longrightarrow> at_most j url m"
  by (auto simp: at_most_def intro: order_trans)

context request_executor
begin

lemma unsafe_at_most:
  "ro_safety opt = UNSAFE \<Longrightarrow> url opt \<notin> reserved \<Longrightarrow> at_most 1 (url opt) (run opt)"
  using run_once by (simp add: at_most_def repeatable_request_def repeatable_def)

end

end
