(* ===== verification/Auth_Properties.thy ===== *)
theory Auth_Properties
  imports Samples Services_Base
begin

text \<open>
  The properties of the token lifecycle and of the executors that put tokens on requests.
\<close>

section \<open>A sample authenticator\<close>

definition auth_env :: "(nat \<Rightarrow> send_outcome) \<Rightarrow> env" where
  "auth_env outs = (sample_env outs)\<lparr>e_json_loads := \<lambda>s. if s = ''T''
     then Inr (PDict [(''accessToken'', PStr ''at''), (''refreshToken'', PStr ''rt'')])
     else Inl JSONDecodeError\<rparr>"

definition token_response :: send_outcome where
  "token_response = Received \<lparr>rs_status_code = 200, rs_headers = [], rs_content = ''T''\<rparr>"

definition response_401 :: send_outcome where
  "response_401 = Received \<lparr>rs_status_code = 401, rs_headers = [], rs_content = []\<rparr>"

definition sample_auth :: "token_state dict authenticator" where
  "sample_auth = \<lparr>sa_service = TRANSFERS, sa_config = sample_config,
     sa_service_config = the (cf_services sample_config TRANSFERS),
     sa_spec = the (AUTH_SPECS TRANSFERS), sa_engine = sample_engine, sa_store = memory_store,
     sa_logging = True, sa_cache_key = ''k''\<rparr>"

definition kept_token :: token_state where
  "kept_token = \<lparr>tk_access_token = ''kept'', tk_refresh_token = None, tk_expires_at = None,
     tk_refresh_expires_at = None, tk_token_type = ''Bearer'', tk_scopes = []\<rparr>"

lemma sample_auth_simps [simp]:
  "sa_store sample_auth = memory_store" "sa_cache_key sample_auth = ''k''"
  "sa_engine sample_auth = sample_engine" "sa_service sample_auth = TRANSFERS"
  by (simp_all add: sample_auth_def)

lemma kept_token_valid [simp]: "is_access_valid kept_token now leeway"
  by (simp add: is_access_valid_def kept_token_def)

lemma kept_token_value [simp]: "access_value kept_token = ''kept''"
  by (simp add: access_value_def kept_token_def)

section \<open>Which token is used\<close>

text \<open>C8: A token that \<open>get_token\<close> returns is one that the store held and that is valid past the
  leeway, in which case nothing is sent and nothing logged, or the one it has just stored. On every
  way out the traces only grow, every lock is released, records stay clean, and the only requests
  sent are \<open>POST\<close> requests to the two token endpoints of the service.\<close>

theorem get_token_outcome:
  "(case get_token e a w of (r, w') \<Rightarrow> tidy w w'
     \<and> (\<exists>rs. w_sent w' = w_sent w @ rs \<and> list_all (token_request a) rs)
     \<and> (case r of Inl _ \<Rightarrow> True | Inr t \<Rightarrow> just_stored a t w' \<or> cached_valid e a t w w'))"
proof -
  obtain r w' where run: "get_token e a w = (r, w')" by (cases "get_token e a w")
  have "tidy w w'"
    by (rule keepsD [OF tidy_get_token(1) run])
  moreover have "sends (token_request a) w w'"
    by (rule keepsD [OF sends_get_token(1) run])
  moreover have "just_stored a t w' \<or> cached_valid e a t w w'" if "r = Inr t" for t
    using get_token_result run that by blast
  ultimately show ?thesis
    by (simp add: run sends_def split: sum.split)
qed

text \<open>While the store holds a token that is valid past the leeway, \<open>get_token\<close> returns that token
  after one look at the clock: it takes no lock, sends nothing, logs nothing and leaves the store
  alone.\<close>

lemma get_token_cached:
  assumes "ts_get (sa_store a) (sa_cache_key a) (w_store w) = Inr (Some t)"
    and "is_access_valid t (e_clock e (w_clock w)) (leeway_of a)"
  shows "get_token e a w = (Inr t, w\<lparr>w_clock := Suc (w_clock w)\<rparr>)"
  using assms
  by (simp add: get_token_def safe_get_def store_get_def bindM_def catchM_def usable_def returnM_def
      read_clock_def)

lemma get_token_cached_witness:
  "get_token (auth_env flaky) sample_auth (initial_world [(''k'', kept_token)])
     = (Inr kept_token, (initial_world [(''k'', kept_token)])\<lparr>w_clock := 1\<rparr>)"
  using get_token_cached [of sample_auth "initial_world [(''k'', kept_token)]" kept_token "auth_env flaky"]
  by (simp add: initial_world_def memory_get_def)

text \<open>A worker whose token was rejected takes the lock and looks again: when another worker has
  meanwhile stored a different valid token, that one is returned, without a request and without a
  change to the store, and the lock is free again.\<close>

lemma recover_reuses_replacement:
  assumes "sa_cache_key a \<notin> set (w_held w)" and "e_lock e (w_locks w) (sa_cache_key a) = None"
    and "e_unlock e (w_locks w) (sa_cache_key a) = None"
    and "ts_get (sa_store a) (sa_cache_key a) (w_store w) = Inr (Some t)" and "access_value t \<noteq> rejected"
    and "is_access_valid t (e_clock e (w_clock w)) (leeway_of a)"
  shows "recover_from_unauthorized e a rejected w
     = (Inr t, w\<lparr>w_clock := Suc (w_clock w), w_locks := Suc (w_locks w)\<rparr>)"
  using assms
  by (simp add: recover_from_unauthorized_def with_lock_def safe_get_def store_get_def bindM_def
      catchM_def read_clock_def returnM_def replaced_by_other_def Let_def)

lemma recover_reuses_replacement_witness:
  "recover_from_unauthorized (auth_env flaky) sample_auth ''old'' (initial_world [(''k'', kept_token)])
     = (Inr kept_token, (initial_world [(''k'', kept_token)])\<lparr>w_clock := 1, w_locks := 1\<rparr>)"
  using recover_reuses_replacement [of sample_auth "initial_world [(''k'', kept_token)]" "auth_env flaky"
      kept_token "''old''"]
  by (simp add: initial_world_def memory_get_def auth_env_def sample_env_def)

section \<open>Falling back to the credentials\<close>


definition unusable_refresh :: token_state where
  "unusable_refresh = kept_token\<lparr>tk_refresh_token := Some [], tk_expires_at := Some 0\<rparr>"


section \<open>How often an operation is sent\<close>

lemma execute_at_most:
  "at_most (attempt_limit g opt) url (execute e g opt :: ('st, raw_response) action)"
  unfolding at_most_def
proof
  fix w :: "'st world"
  have "sent_to url w (snd (execute e g opt w)) \<le> length (w_sent (snd (execute e g opt w))) - length (w_sent w)"
    by (simp add: sent_to_def order_trans [OF length_filter_le])
  then show "sent_to url w (snd (execute e g opt w)) \<le> attempt_limit g opt"
    using execute_sent_bound [of e g opt w] by linarith
qed

lemma attempt_limit_token [simp]: "attempt_limit g (with_token opt t) = attempt_limit g opt"
  by (simp add: attempt_limit_def with_token_def authorize_def)

lemma at_most_forget: "at_most 0 url (thenM (invalidate a) (raiseM x))"
  by (simp add: at_most_def invalidate_frame)

lemma tidy_forget: "keeps tidy (thenM (invalidate a) (raiseM x))"
  unfolding invalidate_def by (intro keeps_thenM keeps_raiseM effects) auto

lemma replay_at_most: "at_most (attempt_limit g opt) url (replay e g a opt t)"
proof -
  have "at_most (attempt_limit g (with_token opt t) + 0) url (replay e g a opt t)"
    unfolding replay_def
    by (intro at_most_catch execute_at_most effects) (auto intro: tidy_forget at_most_forget)
  then show ?thesis by simp
qed

lemma tidy_replay: "keeps tidy (replay e g a opt t)"
  unfolding replay_def by (intro keeps_catchM effects) (auto intro: tidy_forget)

text \<open>C2: Whatever the token endpoints answer, an authenticated operation reaches its own URL at most
  once when it may not be repeated, and at most twice the attempt limit otherwise: a rejected token
  costs a repeatable operation one more round and an unrepeatable one none.\<close>

theorem authenticated_send_limit:
  assumes "url \<notin> token_urls a"
  shows "sent_to url w (snd (authenticated_execute e g a opt w))
     \<le> (if repeatable_request opt then 2 * attempt_limit g opt else 1)"
proof (cases "repeatable_request opt")
  case False
  then show ?thesis using authenticated_once [OF False assms] by simp
next
  case True
  have get: "at_most 0 url (get_token e a)" and recover: "at_most 0 url (recover_from_unauthorized e a u)" for u
    using assms by (simp_all add: at_most_def get_token_no_operation recover_no_operation)
  have again: "at_most (attempt_limit g opt) url (bindM (recover_from_unauthorized e a u) (replay e g a opt))" for u
    using at_most_bind [OF tidy_get_token(2) recover tidy_replay replay_at_most] by simp
  have tidy_again: "keeps tidy (bindM (recover_from_unauthorized e a u) (replay e g a opt))" for u
    by (intro keeps_bindM effects tidy_replay transp_tidy)
  have first: "at_most (attempt_limit g opt + attempt_limit g opt) url
      (catchM (execute e g (with_token opt t)) (\<lambda>x. if unauthorized x then
         if can_replay opt then bindM (recover_from_unauthorized e a (access_value t)) (replay e g a opt)
         else thenM (invalidate a) (raiseM x) else raiseM x))" for t
    by (intro at_most_catch effects)
      (auto intro: again tidy_again tidy_forget at_most_mono [OF at_most_forget] execute_at_most
        execute_at_most [of g "with_token opt t", simplified])
  have tidy_first: "keeps tidy (catchM (execute e g (with_token opt t)) (\<lambda>x. if unauthorized x then
         if can_replay opt then bindM (recover_from_unauthorized e a (access_value t)) (replay e g a opt)
         else thenM (invalidate a) (raiseM x) else raiseM x))" for t
    by (intro keeps_catchM effects transp_tidy) (auto intro: tidy_again tidy_forget)
  have "at_most (0 + (attempt_limit g opt + attempt_limit g opt)) url (authenticated_execute e g a opt)"
    unfolding authenticated_execute_def
    by (intro at_most_bind get first tidy_first effects)
  then show ?thesis using True by (simp add: at_most_def mult_2)
qed

definition sample_url :: string where
  "sample_url = operation_url sample_engine (sample_request READ_ONLY)"

lemma sample_url_not_reserved: "sample_url \<notin> token_urls sample_auth"
  unfolding sample_url_def token_urls_def sample_auth_def by code_simp

theorem authenticated_send_limit_witness:
  "sent_to sample_url (initial_world []) (snd (authenticated_execute (auth_env (\<lambda>_. response_401))
     sample_engine sample_auth (sample_request READ_ONLY) (initial_world []))) \<le> 6"
proof -
  have "attempt_limit sample_engine (sample_request READ_ONLY) = 3" "repeatable_request (sample_request READ_ONLY)"
    by (simp_all add: attempt_limit_def repeatable_def repeatable_request_def sample_request_def
        request_options_def sample_engine_def retry_default_def)
  then show ?thesis
    using authenticated_send_limit [OF sample_url_not_reserved, of "initial_world []"
        "auth_env (\<lambda>_. response_401)" sample_engine "sample_request READ_ONLY"]
    by simp
qed

section \<open>Rejected tokens\<close>

lemma replayed_result:
  assumes "can_replay opt" and "get_token e a w = (Inr t, w1)"
    and "authenticated_execute e g a opt w = (Inl x, w')" and "unauthorized x"
  shows "\<exists>w2. bindM (recover_from_unauthorized e a (access_value t)) (replay e g a opt) w2 = (Inl x, w')"
proof -
  obtain r w2 where run: "execute e g (with_token opt t) w1 = (r, w2)"
    by (cases "execute e g (with_token opt t) w1")
  show ?thesis
  proof (cases r)
    case (Inr raw)
    then show ?thesis using assms run by (simp add: authenticated_execute_def bindM_def catchM_def)
  next
    case (Inl y)
    have "unauthorized y"
      using assms run Inl by (auto simp: authenticated_execute_def bindM_def catchM_def raiseM_def split: if_splits)
    then show ?thesis
      using assms run Inl by (auto simp: authenticated_execute_def bindM_def catchM_def)
  qed
qed

text \<open>C13: A token the service rejected does not survive in the store: when an operation that had
  got a token ends with an authentication error, either the store has no token under the key any more
  or no replacement could be got, and then that failure is the one reported.\<close>

theorem rejected_token_forgotten:
  assumes "lawful_store (sa_store a)" and "get_token e a w = (Inr t, w1)"
    and "authenticated_execute e g a opt w = (Inl x, w')" and "unauthorized x"
  shows "ts_get (sa_store a) (sa_cache_key a) (w_store w') = Inr None
     \<or> (can_replay opt \<and> (\<exists>w2. recover_from_unauthorized e a (access_value t) w2 = (Inl x, w')))"
proof (cases "can_replay opt")
  case True
  obtain w2 where both: "bindM (recover_from_unauthorized e a (access_value t)) (replay e g a opt) w2
      = (Inl x, w')"
    using replayed_result [OF True assms(2-4)] by blast
  obtain r w3 where recover: "recover_from_unauthorized e a (access_value t) w2 = (r, w3)"
    by (cases "recover_from_unauthorized e a (access_value t) w2")
  show ?thesis
  proof (cases r)
    case (Inl y)
    then show ?thesis using both recover True by (auto simp: bindM_def)
  next
    case (Inr t2)
    then have "replay e g a opt t2 w3 = (Inl x, w')" using both recover by (simp add: bindM_def)
    then show ?thesis using replay_forgets [OF assms(1) _ assms(4)] by blast
  qed
next
  case False
  then show ?thesis using authenticated_forgets [OF assms(1) _ assms(2,3,4)] by blast
qed

lemma execute_constant:
  assumes "validated_endpoint (ro_path opt) = Inr ep" and "\<And>k req. e_send e k req = oc"
  shows "\<exists>w'. execute e g opt w = (final_result e opt (effective_id e opt w) ep oc, w')
     \<and> w_store w' = w_store w"
proof -
  have "fst (execute e g opt w) = final_result e opt (effective_id e opt w) ep oc"
    by (rule execute_outcome [OF assms(1), of e w g]) (simp add: assms(2))
  then show ?thesis
    using execute_extends_clean [of w e g opt] by (metis prod.collapse)
qed

lemma rejected_401:
  "\<exists>x. final_result (auth_env (\<lambda>_. response_401)) opt cid ep response_401 = Inl x \<and> unauthorized x"
proof -
  let ?r = "\<lparr>rs_status_code = 401, rs_headers = [], rs_content = []\<rparr>"
  obtain err where err: "map_error (auth_env (\<lambda>_. response_401)) opt cid ep ?r = Inr err"
    by (simp add: map_error_def body_fields_def Let_def)
  have "je_kind err = JibitAuthenticationError"
    using map_error_parts [OF err] by (simp add: status_kind_def)
  then show ?thesis
    using err by (simp add: final_result_def response_401_def is_success_def unauthorized_def is_jibit_def)
qed

theorem rejected_token_forgotten_witness:
  "\<exists>x w'. authenticated_execute (auth_env (\<lambda>_. response_401)) sample_engine sample_auth
       (sample_request UNSAFE) (initial_world [(''k'', kept_token)]) = (Inl x, w')
     \<and> memory_get ''k'' (w_store w') = Inr None"
proof -
  let ?e = "auth_env (\<lambda>_. response_401)" and ?opt = "sample_request UNSAFE"
  let ?w1 = "(initial_world [(''k'', kept_token)])\<lparr>w_clock := 1\<rparr>"
  have get: "get_token ?e sample_auth (initial_world [(''k'', kept_token)]) = (Inr kept_token, ?w1)"
    by (simp add: get_token_def safe_get_def store_get_def bindM_def catchM_def usable_def returnM_def
      read_clock_def initial_world_def memory_get_def)
  have fixed: "\<not> can_replay ?opt" "ro_path (with_token ?opt kept_token) = ro_path ?opt"
    by (simp_all add: can_replay_def sample_request_def request_options_def)
  obtain x w2 where run: "execute ?e sample_engine (with_token ?opt kept_token) ?w1 = (Inl x, w2)"
    and x: "unauthorized x"
    using execute_constant [of "with_token ?opt kept_token" _ ?e response_401 sample_engine ?w1] rejected_401
      sample_endpoint [of UNSAFE] fixed(2)
    by (fastforce simp: auth_env_def)
  obtain y w' where "authenticated_execute ?e sample_engine sample_auth ?opt
      (initial_world [(''k'', kept_token)]) = (Inl y, w')" and "y = x"
    using authenticated_no_replay [OF fixed(1) get run] x
    by (auto simp: invalidate_def store_update_def comp_defs memory_delete_def)
  then show ?thesis
    using rejected_token_forgotten [of sample_auth ?e _ kept_token ?w1 sample_engine ?opt x w'] fixed(1) get x
      memory.lawful_store_axioms
    by auto
qed

section \<open>Auditing\<close>

lemma audit_emit_audits:
  "w_audits (snd (audit_emit e b n opt cid oc m w)) = w_audits w @ [make_audit_event n cid
     (service_value (ro_service opt)) (ro_operation opt) oc m]"
  by (auto simp: audit_emit_def catchM_def sink_emit_def emit_def modifyM_def split: option.splits)

lemma audit_then:
  "thenM (audit_emit e b n opt cid oc m) k w = k (snd (audit_emit e b n opt cid oc m w))"
proof -
  obtain r v where "audit_emit e b n opt cid oc m w = (r, v)" by (cases "audit_emit e b n opt cid oc m w")
  then show ?thesis
    using audit_emit_frame(1) [of e b n opt cid oc m w] by (simp add: thenM_def bindM_def)
qed

text \<open>C16: Auditing is transparent and complete: whatever the sink does, the audited executor returns or
  raises what the executor inside does, with the same requests and the same store; it hands the sink
  exactly one event for a response or an SDK error, marked \<open>succeeded\<close>, \<open>failed\<close> or, when the outcome at
  the service is open, \<open>unknown\<close>, and none for another exception.\<close>

theorem audit_transparent:
  "(let (r, w1) = run opt w; (r', w') = audited_execute e b n run opt w in
     r' = r \<and> w_sent w' = w_sent w1 \<and> w_store w' = w_store w1
     \<and> map ae_outcome (w_audits w') = map ae_outcome (w_audits w1) @ (case r of
         Inr _ \<Rightarrow> [''succeeded'']
       | Inl x \<Rightarrow> if is_jibit {JibitTimeoutError, JibitNetworkError, JibitServerError, JibitResponseError} x
           then [''unknown''] else if is_jibit UNIV x then [''failed''] else []))"
proof -
  obtain r w1 where run: "run opt w = (r, w1)" by (cases "run opt w")
  obtain r' w' where audited: "audited_execute e b n run opt w = (r', w')"
    by (cases "audited_execute e b n run opt w")
  have "map ae_outcome (w_audits w') = map ae_outcome (w_audits w1) @ (case r of
         Inr _ \<Rightarrow> [''succeeded'']
       | Inl x \<Rightarrow> if is_jibit {JibitTimeoutError, JibitNetworkError, JibitServerError, JibitResponseError} x
           then [''unknown''] else if is_jibit UNIV x then [''failed''] else [])"
  proof (cases r)
    case (Inr raw)
    then have "w' = snd (audit_emit e b n opt (rw_correlation_id raw) ''succeeded''
        [(''status_code'', PInt (rw_status_code raw))] w1)"
      using audited run by (simp add: audited_execute_def bindM_def catchM_def audit_then returnM_def)
    then show ?thesis using Inr by (simp add: audit_emit_audits make_audit_event_def)
  next
    case (Inl x)
    then show ?thesis
      using audited run
      by (cases x) (auto simp: audited_execute_def bindM_def catchM_def raiseM_def is_jibit_def audit_then
          audit_emit_audits make_audit_event_def audit_outcome_def)
  qed
  then show ?thesis
    using audited_execute_frame [of e b n run opt w] run audited by simp
qed

text \<open>A static bearer goes out on every request: whatever \<open>Authorization\<close> header the caller set is
  replaced, and a service that is absent, disabled or has no access token gets no executor at all.\<close>

lemma static_bearer_sent:
  "(\<exists>n req. w_sent (snd (static_execute e g token opt w)) = w_sent w @ replicate n req
      \<and> dict_get (tr_headers req) ''Authorization'' = Some (''Bearer '' @ token))
   \<and> (static_bearer cfg s = Inr token \<longleftrightarrow> (\<exists>sc. cf_services cfg s = Some sc \<and> sc_enabled sc
        \<and> cr_access_token (sc_credentials sc) = Some token))"
proof
  let ?opt = "opt\<lparr>ro_headers := dict_set ''Authorization'' (''Bearer '' @ token) (ro_headers opt)\<rparr>"
  let ?req = "transport_request_of g ?opt (effective_id e ?opt w) (ro_path opt)"
  obtain n where "w_sent (snd (static_execute e g token opt w)) = w_sent w @ replicate n ?req"
    using execute_sent [of e g ?opt w] by (auto simp: static_execute_def)
  moreover have "dict_get (tr_headers ?req) ''Authorization'' = Some (''Bearer '' @ token)"
    by (simp add: transport_request_of_def request_headers_def Let_def split: option.splits)
  ultimately show "\<exists>n req. w_sent (snd (static_execute e g token opt w)) = w_sent w @ replicate n req
      \<and> dict_get (tr_headers req) ''Authorization'' = Some (''Bearer '' @ token)"
    by blast
qed (auto simp: static_bearer_def config_service_def split: option.splits)

section \<open>User names and passwords\<close>

definition user_credentials :: "string \<Rightarrow> string \<Rightarrow> credentials" where
  "user_credentials u p = \<lparr>cr_api_key = None, cr_secret_key = None, cr_username = Some u,
     cr_password = Some p, cr_access_token = None\<rparr>"

lemma acquire_without_key:
  assumes "cr_api_key (sc_credentials (sa_service_config a)) = None"
  shows "\<exists>x. acquire e a w = (Inl x, w)"
  using assms by (simp add: acquire_def request_token_def token_call_def generation_body_def bindM_def liftM_def)

lemma with_lock_fails:
  assumes "m (w\<lparr>w_locks := Suc (w_locks w), w_held := key # w_held w\<rparr>) = (Inl x, v)" and "w_sent v = w_sent w"
  shows "(\<exists>x. fst (with_lock e key m w) = Inl x) \<and> w_sent (snd (with_lock e key m w)) = w_sent w"
  by (simp add: with_lock_def assms split: option.split)



end
