(* ===== verification/Token_Workers.thy ===== *)
theory Token_Workers
  imports Samples Executors
begin

text \<open>
  Several workers (threads, or processes with a distributed lock) share one token store and one
  lock: \<open>get_token\<close> and \<open>recover_from_unauthorized\<close> of \<open>src/jibit/auth/provider.py\<close> cut into the steps
  between which other workers may run. The guards are the ones of \<open>Auth\<close>; a token request is one
  step that is answered with a token or fails. \<open>Auth\<close> has the same methods as whole functions.
\<close>

section \<open>Workers\<close>

datatype job = GetToken | Recover string

datatype phase = Start | Waiting | Locked | Requesting | Finished token_state | Failed

record pool =
  pl_store :: "token_state option"
  pl_holder :: "nat option"
  pl_phase :: "nat \<Rightarrow> phase"
  pl_clock :: rat
  pl_granted :: nat
  pl_refused :: nat

definition init_pool :: "token_state option \<Rightarrow> rat \<Rightarrow> pool" where
  "init_pool s c = \<lparr>pl_store = s, pl_holder = None, pl_phase = (\<lambda>_. Start), pl_clock = c,
     pl_granted = 0, pl_refused = 0\<rparr>"

text \<open>The check a worker makes once it holds the lock.\<close>

fun settled :: "'st authenticator \<Rightarrow> rat \<Rightarrow> job \<Rightarrow> token_state option \<Rightarrow> bool" where
  "settled a now GetToken s = usable a now s"
| "settled a now (Recover rejected) s = replaced_by_other a now rejected s"

definition set_phase :: "nat \<Rightarrow> phase \<Rightarrow> pool \<Rightarrow> pool" where
  "set_phase i ph p = p\<lparr>pl_phase := (pl_phase p)(i := ph)\<rparr>"

text \<open>\<open>grants t\<close>: the token endpoint may answer with \<open>t\<close>. Time passes between any two steps.\<close>

inductive worker_step ::
  "'st authenticator \<Rightarrow> (nat \<Rightarrow> job) \<Rightarrow> (token_state \<Rightarrow> bool) \<Rightarrow> pool \<Rightarrow> pool \<Rightarrow> bool"
  for a jobs grants where
  look_hit: "pl_phase p i = Start \<Longrightarrow> jobs i = GetToken \<Longrightarrow> pl_store p = Some t \<Longrightarrow>
     usable a (pl_clock p) (Some t) \<Longrightarrow> worker_step a jobs grants p (set_phase i (Finished t) p)"
| look_miss: "pl_phase p i = Start \<Longrightarrow> jobs i = GetToken \<Longrightarrow> \<not> usable a (pl_clock p) (pl_store p) \<Longrightarrow>
     worker_step a jobs grants p (set_phase i Waiting p)"
| rejected: "pl_phase p i = Start \<Longrightarrow> jobs i = Recover r \<Longrightarrow>
     worker_step a jobs grants p (set_phase i Waiting p)"
| enter: "pl_phase p i = Waiting \<Longrightarrow> pl_holder p = None \<Longrightarrow>
     worker_step a jobs grants p (set_phase i Locked (p\<lparr>pl_holder := Some i\<rparr>))"
| locked_hit: "pl_phase p i = Locked \<Longrightarrow> pl_store p = Some t \<Longrightarrow> settled a (pl_clock p) (jobs i) (Some t) \<Longrightarrow>
     worker_step a jobs grants p (set_phase i (Finished t) (p\<lparr>pl_holder := None\<rparr>))"
| locked_miss: "pl_phase p i = Locked \<Longrightarrow> \<not> settled a (pl_clock p) (jobs i) (pl_store p) \<Longrightarrow>
     worker_step a jobs grants p (set_phase i Requesting p)"
| granted: "pl_phase p i = Requesting \<Longrightarrow> grants t \<Longrightarrow> worker_step a jobs grants p
     (set_phase i (Finished t) (p\<lparr>pl_holder := None, pl_store := Some t, pl_granted := Suc (pl_granted p)\<rparr>))"
| refused: "pl_phase p i = Requesting \<Longrightarrow> worker_step a jobs grants p
     (set_phase i Failed (p\<lparr>pl_holder := None, pl_refused := Suc (pl_refused p)\<rparr>))"
| tick: "pl_clock p \<le> c \<Longrightarrow> worker_step a jobs grants p (p\<lparr>pl_clock := c\<rparr>)"

inductive reachable_pool ::
  "'st authenticator \<Rightarrow> (nat \<Rightarrow> job) \<Rightarrow> (token_state \<Rightarrow> bool) \<Rightarrow> token_state option \<Rightarrow> rat \<Rightarrow> pool \<Rightarrow> bool"
  for a jobs grants s c where
  initial: "reachable_pool a jobs grants s c (init_pool s c)"
| further: "reachable_pool a jobs grants s c p \<Longrightarrow> worker_step a jobs grants p q \<Longrightarrow>
     reachable_pool a jobs grants s c q"

lemma set_phase_simps [simp]:
  "pl_store (set_phase i ph p) = pl_store p" "pl_holder (set_phase i ph p) = pl_holder p"
  "pl_phase (set_phase i ph p) = (pl_phase p)(i := ph)" "pl_clock (set_phase i ph p) = pl_clock p"
  "pl_granted (set_phase i ph p) = pl_granted p" "pl_refused (set_phase i ph p) = pl_refused p"
  by (simp_all add: set_phase_def)

section \<open>The invariant\<close>

text \<open>The lock's holder is the one worker inside.\<close>

fun inside :: "phase \<Rightarrow> bool" where
  "inside Locked = True" | "inside Requesting = True" | "inside Start = False" | "inside Waiting = False"
| "inside (Finished t) = False" | "inside Failed = False"

definition lock_agrees :: "pool \<Rightarrow> bool" where
  "lock_agrees p \<longleftrightarrow> (\<forall>i. inside (pl_phase p i) \<longleftrightarrow> pl_holder p = Some i)"

text \<open>The store holds the token it started with, or one the endpoint granted; so does every worker.\<close>

definition tokens_known :: "(token_state \<Rightarrow> bool) \<Rightarrow> token_state option \<Rightarrow> pool \<Rightarrow> bool" where
  "tokens_known grants s p \<longleftrightarrow>
     (if pl_granted p = 0 then pl_store p = s else \<exists>t. pl_store p = Some t \<and> grants t)
     \<and> (\<forall>i t. pl_phase p i = Finished t \<longrightarrow> s = Some t \<or> grants t)"

text \<open>Up to the horizon, a worker only asks for a token while none has been granted.\<close>

definition single_flight :: "rat \<Rightarrow> pool \<Rightarrow> bool" where
  "single_flight horizon p \<longleftrightarrow> (pl_clock p \<le> horizon \<longrightarrow>
     pl_granted p \<le> 1 \<and> (pl_granted p = 0 \<or> (\<forall>i. pl_phase p i \<noteq> Requesting)))"

lemma lock_agrees_keep:
  "lock_agrees p \<Longrightarrow> inside ph = inside (pl_phase p i) \<Longrightarrow> lock_agrees (set_phase i ph p)"
  by (auto simp: lock_agrees_def)

lemma lock_agrees_free:
  "lock_agrees p \<Longrightarrow> inside (pl_phase p i) \<Longrightarrow> \<not> inside ph \<Longrightarrow> pl_phase q = pl_phase p \<Longrightarrow>
     pl_holder q = None \<Longrightarrow> lock_agrees (set_phase i ph q)"
  by (auto simp: lock_agrees_def)

lemma lock_agrees_step: "worker_step a jobs grants p q \<Longrightarrow> lock_agrees p \<Longrightarrow> lock_agrees q"
proof (induction rule: worker_step.induct)
  case (enter p i)
  then show ?case by (auto simp: lock_agrees_def)
next
  case (tick p c)
  then show ?case by (simp add: lock_agrees_def)
qed (auto intro: lock_agrees_keep lock_agrees_free)

lemma tokens_known_step:
  "worker_step a jobs grants p q \<Longrightarrow> tokens_known grants s p \<Longrightarrow> tokens_known grants s q"
  by (induction rule: worker_step.induct) (auto simp: tokens_known_def split: if_splits)

definition lasting :: "'st authenticator \<Rightarrow> (nat \<Rightarrow> job) \<Rightarrow> (token_state \<Rightarrow> bool) \<Rightarrow> rat \<Rightarrow> bool" where
  "lasting a jobs grants horizon \<longleftrightarrow>
     (\<forall>t i now. grants t \<longrightarrow> now \<le> horizon \<longrightarrow> settled a now (jobs i) (Some t))"

lemma only_one_inside: "lock_agrees p \<Longrightarrow> inside (pl_phase p i) \<Longrightarrow> inside (pl_phase p j) \<Longrightarrow> i = j"
  by (auto simp: lock_agrees_def)

lemma no_other_request:
  "lock_agrees p \<Longrightarrow> pl_phase p i = Requesting \<Longrightarrow> ph \<noteq> Requesting \<Longrightarrow> ((pl_phase p)(i := ph)) j \<noteq> Requesting"
  using only_one_inside [of p i j] by (cases "j = i") auto

lemma unsettled_none_granted:
  assumes "tokens_known grants s p" and "lasting a jobs grants horizon" and "pl_clock p \<le> horizon"
    and "\<not> settled a (pl_clock p) (jobs i) (pl_store p)"
  shows "pl_granted p = 0"
proof (rule ccontr)
  assume "pl_granted p \<noteq> 0"
  then obtain t where "pl_store p = Some t" "grants t" using assms(1) by (auto simp: tokens_known_def)
  then show False using assms(2-4) by (simp add: lasting_def)
qed

lemma single_flight_keep:
  "single_flight horizon p \<Longrightarrow> ph \<noteq> Requesting \<Longrightarrow> pl_phase q = pl_phase p \<Longrightarrow>
     pl_granted q = pl_granted p \<Longrightarrow> pl_clock q = pl_clock p \<Longrightarrow> single_flight horizon (set_phase i ph q)"
  by (auto simp: single_flight_def)

lemma single_flight_step:
  assumes "worker_step a jobs grants p q" and "lock_agrees p" and "tokens_known grants s p"
    and "lasting a jobs grants horizon" and "single_flight horizon p"
  shows "single_flight horizon q"
  using assms
proof (induction rule: worker_step.induct)
  case (locked_miss p i)
  then have "pl_clock p \<le> horizon \<Longrightarrow> pl_granted p = 0"
    using unsettled_none_granted by blast
  then show ?case by (simp add: single_flight_def)
next
  case (granted p i t)
  have "pl_clock p \<le> horizon \<Longrightarrow> pl_granted p = 0"
    using granted.hyps(1) granted.prems(4) by (auto simp: single_flight_def)
  then show ?case
    using no_other_request [OF granted.prems(1) granted.hyps(1), of "Finished t"]
    by (simp add: single_flight_def)
next
  case (tick p c)
  then show ?case by (auto simp: single_flight_def)
qed (rule single_flight_keep, assumption, simp, simp, simp, simp)+

lemma pool_invariant:
  assumes "reachable_pool a jobs grants s c p" and "lasting a jobs grants horizon"
  shows "lock_agrees p \<and> tokens_known grants s p \<and> single_flight horizon p"
  using assms(1)
proof (induction rule: reachable_pool.induct)
  case initial
  then show ?case by (simp add: init_pool_def lock_agrees_def tokens_known_def single_flight_def)
next
  case (further p q)
  then show ?case
    using lock_agrees_step tokens_known_step single_flight_step [OF _ _ _ assms(2)] by blast
qed

section \<open>Progress\<close>

fun rank :: "phase \<Rightarrow> nat" where
  "rank Start = 4" | "rank Waiting = 3" | "rank Locked = 2" | "rank Requesting = 1"
| "rank (Finished t) = 0" | "rank Failed = 0"

lemma moving_step:
  assumes "lock_agrees p" and "rank (pl_phase p i) \<noteq> 0"
  shows "\<exists>j q ph. worker_step a jobs grants p q \<and> pl_phase q = (pl_phase p)(j := ph)
     \<and> rank ph < rank (pl_phase p j) \<and> (j = i \<or> (pl_holder p = Some j \<and> pl_holder q \<in> {Some j, None}))"
proof -
  have from_inside: ?thesis if at: "inside (pl_phase p j)" and j: "j = i \<or> pl_holder p = Some j" for j
  proof (cases "pl_phase p j = Requesting")
    case True
    have "worker_step a jobs grants p
       (set_phase j Failed (p\<lparr>pl_holder := None, pl_refused := Suc (pl_refused p)\<rparr>))"
      using True by (rule refused)
    then show ?thesis using True j by (intro exI [of _ j]) fastforce
  next
    case False
    then have locked: "pl_phase p j = Locked" using at by (cases "pl_phase p j") auto
    show ?thesis
    proof (cases "settled a (pl_clock p) (jobs j) (pl_store p)")
      case True
      then obtain t where t: "pl_store p = Some t"
        by (cases "jobs j"; cases "pl_store p") (auto simp: usable_def replaced_by_other_def)
      have "worker_step a jobs grants p (set_phase j (Finished t) (p\<lparr>pl_holder := None\<rparr>))"
        using locked t True [unfolded t] by (rule locked_hit)
      then show ?thesis using locked j by (intro exI [of _ j]) fastforce
    next
      case False
      have "worker_step a jobs grants p (set_phase j Requesting p)"
        using locked False by (rule locked_miss)
      then show ?thesis using locked j by (intro exI [of _ j]) fastforce
    qed
  qed
  consider "pl_phase p i = Start" | "pl_phase p i = Waiting" | "inside (pl_phase p i)"
    using assms(2) by (cases "pl_phase p i") auto
  then show ?thesis
  proof cases
    case 1
    have "\<exists>ph. worker_step a jobs grants p (set_phase i ph p) \<and> rank ph < 4"
    proof (cases "jobs i")
      case GetToken
      show ?thesis
      proof (cases "usable a (pl_clock p) (pl_store p)")
        case True
        then obtain t where "pl_store p = Some t" using usable_cached by blast
        then have "worker_step a jobs grants p (set_phase i (Finished t) p)"
          using 1 GetToken True by (auto intro: look_hit)
        then show ?thesis by fastforce
      next
        case False
        with 1 GetToken have "worker_step a jobs grants p (set_phase i Waiting p)" by (rule look_miss)
        then show ?thesis by fastforce
      qed
    next
      case (Recover r)
      with 1 have "worker_step a jobs grants p (set_phase i Waiting p)" by (rule rejected)
      then show ?thesis by fastforce
    qed
    then show ?thesis using 1 by (metis rank.simps(1) set_phase_simps(3))
  next
    case 2
    show ?thesis
    proof (cases "pl_holder p")
      case None
      have "worker_step a jobs grants p (set_phase i Locked (p\<lparr>pl_holder := Some i\<rparr>))"
        using 2 None by (rule enter)
      then show ?thesis using 2 by (intro exI [of _ i]) fastforce
    next
      case (Some j)
      then show ?thesis using from_inside [of j] assms(1) by (auto simp: lock_agrees_def)
    qed
  next
    case 3
    then show ?thesis using from_inside [of i] by blast
  qed
qed

text \<open>What is left until worker \<open>i\<close> is done: its own steps, and those of the worker inside.\<close>

definition distance :: "nat \<Rightarrow> pool \<Rightarrow> nat" where
  "distance i p = 10 * rank (pl_phase p i)
     + (case pl_holder p of None \<Rightarrow> 0 | Some j \<Rightarrow> if j = i then 0 else rank (pl_phase p j))"

lemma rank_bound: "rank ph \<le> 4"
  by (cases ph) simp_all

lemma closer_step:
  assumes "lock_agrees p" and "rank (pl_phase p i) \<noteq> 0"
  shows "\<exists>q. worker_step a jobs grants p q \<and> distance i q < distance i p"
proof -
  obtain j q ph where step: "worker_step a jobs grants p q" and q: "pl_phase q = (pl_phase p)(j := ph)"
    and less: "rank ph < rank (pl_phase p j)"
    and j: "j = i \<or> (pl_holder p = Some j \<and> pl_holder q \<in> {Some j, None})"
    using moving_step [OF assms] by blast
  have "distance i q < distance i p"
  proof (cases "j = i")
    case True
    have "(case pl_holder q of None \<Rightarrow> 0 | Some j \<Rightarrow> if j = i then 0 else rank (pl_phase q j)) \<le> 4"
      using rank_bound by (auto split: option.split)
    then show ?thesis using q less True by (simp add: distance_def)
  next
    case False
    then show ?thesis using q less j by (auto simp: distance_def)
  qed
  with step show ?thesis by blast
qed

lemma can_finish:
  "lock_agrees p \<Longrightarrow> \<exists>q. (worker_step a jobs grants)\<^sup>*\<^sup>* p q \<and> rank (pl_phase q i) = 0"
proof (induction "distance i p" arbitrary: p rule: less_induct)
  case less
  show ?case
  proof (cases "rank (pl_phase p i) = 0")
    case False
    then obtain q where q: "worker_step a jobs grants p q" "distance i q < distance i p"
      using closer_step [OF less.prems] by blast
    then obtain r where "(worker_step a jobs grants)\<^sup>*\<^sup>* q r" "rank (pl_phase r i) = 0"
      using less.hyps lock_agrees_step less.prems by blast
    then show ?thesis using q(1) converse_rtranclp_into_rtranclp by metis
  qed blast
qed

lemma reachable_lock_agrees: "reachable_pool a jobs grants s c p \<Longrightarrow> lock_agrees p"
proof (induction rule: reachable_pool.induct)
  case initial
  then show ?case by (simp add: init_pool_def lock_agrees_def)
next
  case (further p q)
  then show ?case using lock_agrees_step by blast
qed

section \<open>Properties\<close>

text \<open>C10: Any number of workers that find no usable token, or whose token was rejected, make one
  successful token request between them: under every interleaving, while the granted tokens are not
  yet near their expiry, at most one request has been granted, at most one worker is inside the lock,
  and every worker that is done has the token of the store or a granted one.\<close>

theorem workers_single_flight:
  assumes "reachable_pool a jobs grants s c p" and "lasting a jobs grants horizon" and "pl_clock p \<le> horizon"
  shows "pl_granted p \<le> 1 \<and> (\<exists>\<^sub>\<le>\<^sub>1 i. pl_phase p i \<in> {Locked, Requesting})
     \<and> (\<forall>i t. pl_phase p i = Finished t \<longrightarrow> s = Some t \<or> grants t)
     \<and> (pl_granted p = 0 \<longrightarrow> pl_store p = s)"
proof -
  have inv: "lock_agrees p" "tokens_known grants s p" "single_flight horizon p"
    using pool_invariant [OF assms(1,2)] by simp_all
  have "\<exists>\<^sub>\<le>\<^sub>1 i. pl_phase p i \<in> {Locked, Requesting}"
    using only_one_inside [OF inv(1)] by (intro Uniq_I) auto
  then show ?thesis
    using inv(2,3) assms(3) by (auto simp: tokens_known_def single_flight_def split: if_splits)
qed

definition fresh_token :: token_state where
  "fresh_token = \<lparr>tk_access_token = ''new'', tk_refresh_token = None, tk_expires_at = Some 5000,
     tk_refresh_expires_at = None, tk_token_type = ''Bearer'', tk_scopes = []\<rparr>"

definition plain_auth :: "unit authenticator" where
  "plain_auth = \<lparr>sa_service = TRANSFERS, sa_config = sample_config,
     sa_service_config = the (cf_services sample_config TRANSFERS),
     sa_spec = the (AUTH_SPECS TRANSFERS), sa_engine = sample_engine,
     sa_store = \<lparr>ts_get = \<lambda>k s. Inr None, ts_set = \<lambda>k t s. Inr s, ts_delete = \<lambda>k s. Inr s\<rparr>,
     sa_logging = False, sa_cache_key = ''k''\<rparr>"

lemma fresh_lasting: "lasting plain_auth (\<lambda>_. GetToken) (\<lambda>t. t = fresh_token) 2000"
  by (simp add: lasting_def usable_def is_access_valid_def fresh_token_def leeway_of_def plain_auth_def
      sample_config_def default_config_def auth_default_def)

text \<open>Two workers look and find nothing; the first gets a token.\<close>

lemma served_pool:
  "\<exists>p. reachable_pool plain_auth (\<lambda>_. GetToken) (\<lambda>t. t = fresh_token) None 1000 p
     \<and> pl_granted p = 1 \<and> pl_clock p = 1000 \<and> pl_phase p 0 = Finished fresh_token \<and> pl_phase p 1 = Waiting"
proof -
  let ?step = "worker_step plain_auth (\<lambda>_. GetToken) (\<lambda>t. t = fresh_token)"
  let ?p0 = "init_pool None 1000"
  let ?p1 = "set_phase 0 Waiting ?p0" let ?p2 = "set_phase 1 Waiting ?p1"
  let ?p3 = "set_phase 0 Locked (?p2\<lparr>pl_holder := Some 0\<rparr>)" let ?p4 = "set_phase 0 Requesting ?p3"
  let ?p5 = "set_phase 0 (Finished fresh_token) (?p4\<lparr>pl_holder := None, pl_store := Some fresh_token,
    pl_granted := Suc (pl_granted ?p4)\<rparr>)"
  have "?step ?p0 ?p1" and "?step ?p1 ?p2"
    by (rule look_miss; simp add: init_pool_def usable_def)+
  moreover have "?step ?p2 ?p3" by (rule enter) (simp_all add: init_pool_def)
  moreover have "?step ?p3 ?p4" by (rule locked_miss) (simp_all add: init_pool_def usable_def)
  moreover have "?step ?p4 ?p5" by (rule granted) simp_all
  ultimately have "reachable_pool plain_auth (\<lambda>_. GetToken) (\<lambda>t. t = fresh_token) None 1000 ?p5"
    by - (rule further, rule further, rule further, rule further, rule further, rule initial)
  then show ?thesis by (intro exI [of _ ?p5]) (simp add: init_pool_def)
qed

theorem workers_single_flight_witness:
  "\<exists>p :: pool. pl_granted p = 1 \<and> pl_phase p 0 = Finished fresh_token \<and> (\<exists>\<^sub>\<le>\<^sub>1 i. pl_phase p i \<in> {Locked, Requesting})"
proof -
  obtain p where p: "reachable_pool plain_auth (\<lambda>_. GetToken) (\<lambda>t. t = fresh_token) None 1000 p"
    "pl_granted p = 1" "pl_clock p = 1000" "pl_phase p 0 = Finished fresh_token"
    using served_pool by blast
  then have "\<exists>\<^sub>\<le>\<^sub>1 i. pl_phase p i \<in> {Locked, Requesting}"
    using workers_single_flight [OF p(1) fresh_lasting] by simp
  with p(2,4) show ?thesis by blast
qed

text \<open>C11: No interleaving blocks a worker for good: from every reachable state there is a continuation
  in which a given worker is done, because the lock is only held by a worker that can move and is
  given back on every way out.\<close>

theorem workers_can_finish:
  assumes "reachable_pool a jobs grants s c p"
  shows "\<exists>q. (worker_step a jobs grants)\<^sup>*\<^sup>* p q \<and> (pl_phase q i = Failed \<or> (\<exists>t. pl_phase q i = Finished t))"
proof -
  have "lock_agrees p" using assms by (rule reachable_lock_agrees)
  then obtain q where q: "(worker_step a jobs grants)\<^sup>*\<^sup>* p q" "rank (pl_phase q i) = 0"
    using can_finish by blast
  then show ?thesis by (cases "pl_phase q i") auto
qed

theorem workers_can_finish_witness:
  "\<exists>p q. pl_phase p 1 = Waiting \<and> (worker_step plain_auth (\<lambda>_. GetToken) (\<lambda>t. t = fresh_token))\<^sup>*\<^sup>* p q
     \<and> (pl_phase q 1 = Failed \<or> (\<exists>t. pl_phase q 1 = Finished t))"
proof -
  obtain p where p: "reachable_pool plain_auth (\<lambda>_. GetToken) (\<lambda>t. t = fresh_token) None 1000 p"
    "pl_phase p 1 = Waiting"
    using served_pool by blast
  then show ?thesis
    using workers_can_finish [OF p(1), of 1] by blast
qed

section \<open>The whole method is a run of one worker\<close>

text \<open>What the store holds under the key; an entry that cannot be read counts as none.\<close>

definition stored :: "'st authenticator \<Rightarrow> 'st world \<Rightarrow> token_state option" where
  "stored a w = (case ts_get (sa_store a) (sa_cache_key a) (w_store w) of Inr x \<Rightarrow> x | Inl _ \<Rightarrow> None)"

lemma safe_get_stored:
  assumes "lawful_store (sa_store a)" and "safe_get a w = (Inr cached, w1)"
  shows "cached = stored a w \<and> stored a w1 = stored a w \<and> w_clock w1 = w_clock w"
proof (cases "ts_get (sa_store a) (sa_cache_key a) (w_store w)")
  case (Inr x)
  then show ?thesis using assms(2) by (simp add: safe_get_def store_get_def catchM_def stored_def)
next
  case (Inl x)
  obtain s where s: "ts_delete (sa_store a) (sa_cache_key a) (w_store w) = Inr s"
    using lawful_store.delete_total [OF assms(1)] by blast
  show ?thesis
    using assms(2) Inl s lawful_store.get_delete [OF assms(1) s]
    by (auto simp: safe_get_def store_get_def catchM_def stored_def invalidate_def store_update_def
        comp_defs split: if_splits)
qed

lemma just_stored_stored:
  "lawful_store (sa_store a) \<Longrightarrow> storable t \<Longrightarrow> just_stored a t w \<Longrightarrow> stored a w = Some t"
  using lawful_store.get_set by (fastforce simp: just_stored_def stored_def)

lemma stored_frame [simp]:
  "stored a (w\<lparr>w_clock := n\<rparr>) = stored a w" "stored a (w\<lparr>w_held := h\<rparr>) = stored a w"
  "stored a (w\<lparr>w_locks := n\<rparr>) = stored a w"
  by (simp_all add: stored_def)

text \<open>The part under the lock.\<close>

lemma locked_part_run:
  assumes "lawful_store (sa_store a)" and "storable t"
    and "(bindM (read_clock e) (\<lambda>now. bindM (safe_get a) (\<lambda>cached.
      if usable a now cached then returnM (the cached) else refresh_or_acquire e a cached now))) w = (Inr t, w')"
  shows "\<exists>q. (worker_step a (\<lambda>_. GetToken) storable)\<^sup>*\<^sup>*
      (set_phase 0 Locked ((init_pool (stored a w) (e_clock e (w_clock w)))\<lparr>pl_holder := Some 0\<rparr>)) q
     \<and> pl_phase q 0 = Finished t \<and> pl_store q = stored a w' \<and> pl_holder q = None"
proof -
  let ?now = "e_clock e (w_clock w)"
  let ?p = "set_phase 0 Locked ((init_pool (stored a w) ?now)\<lparr>pl_holder := Some 0\<rparr>)"
  let ?step = "worker_step a (\<lambda>_. GetToken) storable"
  obtain cached w1 where get: "safe_get a (w\<lparr>w_clock := Suc (w_clock w)\<rparr>) = (Inr cached, w1)"
    and rest: "(if usable a ?now cached then returnM (the cached)
        else refresh_or_acquire e a cached ?now) w1 = (Inr t, w')"
    using assms(3) by (auto simp: bindM_Inr_iff)
  have cached: "cached = stored a w" "stored a w1 = stored a w"
    using safe_get_stored [OF assms(1) get] by simp_all
  show ?thesis
  proof (cases "usable a ?now cached")
    case True
    obtain u where u: "cached = Some u" using usable_cached [OF True] by blast
    then have t: "t = u" "w' = w1" using rest True by (auto simp: returnM_def)
    have "?step ?p (set_phase 0 (Finished t) (?p\<lparr>pl_holder := None\<rparr>))"
      by (rule locked_hit) (use True u t cached in \<open>simp_all add: init_pool_def\<close>)
    then show ?thesis
      using cached t by (intro exI [of _ "set_phase 0 (Finished t) (?p\<lparr>pl_holder := None\<rparr>)"])
        (simp add: init_pool_def r_into_rtranclp)
  next
    case False
    let ?q = "set_phase 0 Requesting ?p"
    let ?r = "set_phase 0 (Finished t) (?q\<lparr>pl_holder := None, pl_store := Some t, pl_granted := Suc (pl_granted ?q)\<rparr>)"
    have "?step ?p ?q"
      by (rule locked_miss) (use False cached in \<open>simp_all add: init_pool_def\<close>)
    moreover have "?step ?q ?r"
      by (rule granted) (simp_all add: assms(2))
    moreover have "stored a w' = Some t"
    proof -
      have "refresh_or_acquire e a cached ?now w1 = (Inr t, w')" using rest False by simp
      then show ?thesis by (rule just_stored_stored [OF assms(1,2) refresh_or_acquire_stored])
    qed
    ultimately show ?thesis
      by (intro exI [of _ ?r]) (auto intro: converse_rtranclp_into_rtranclp)
  qed
qed


definition memory_auth :: "token_state dict authenticator" where
  "memory_auth = \<lparr>sa_service = TRANSFERS, sa_config = sample_config,
     sa_service_config = the (cf_services sample_config TRANSFERS),
     sa_spec = the (AUTH_SPECS TRANSFERS), sa_engine = sample_engine, sa_store = memory_store,
     sa_logging = False, sa_cache_key = ''k''\<rparr>"


end
