(* ===== verification/Gateway_Models.thy ===== *)
theory Gateway_Models
  imports Services_Base
begin

text \<open>
  The enumerations and data models of the Payment Gateway, declared field by field
  (\<open>src/jibit/services/payment_gateway/models.py\<close>).
\<close>

section \<open>Cross-field validators\<close>

definition validate_purchase_constraints :: "pydict \<Rightarrow> exn option" where
  "validate_purchase_constraints d =
     (if int_value (pyget d ''amount'') * 15 < int_value (pyget d ''wage'') * 100 then Some ValueError
      else if truthy (pyget d ''check_payer_mobile_number'') \<and> \<not> truthy (pyget d ''payer_mobile_number'')
      then Some ValueError
      else if truthy (pyget d ''payer_card_number'') \<and> truthy (pyget d ''payer_card_numbers'')
      then Some ValueError
      else if truthy (pyget d ''payer_card_numbers'')
        \<and> \<not> distinct (case pyget d ''payer_card_numbers'' of PTuple xs \<Rightarrow> xs | _ \<Rightarrow> [])
      then Some ValueError
      else None)"

definition require_purchase_identifier :: "pydict \<Rightarrow> exn option" where
  "require_purchase_identifier d =
     (if pyget d ''client_reference_number'' = PNone \<and> pyget d ''purchase_id'' = PNone
      then Some ValueError else None)"

definition validate_date_range :: "lib \<Rightarrow> pydict \<Rightarrow> exn option" where
  "validate_date_range L d =
     (if pyget d ''from_'' \<noteq> PNone \<and> pyget d ''to'' \<noteq> PNone then
        case datetime_less (lb_datetime L (pyget d ''from_'')) (lb_datetime L (pyget d ''to'')) of
          Inl x \<Rightarrow> Some x
        | Inr earlier \<Rightarrow> if earlier then None else Some ValueError
      else None)"

definition three_hours :: rat where
  "three_hours = 3 * 3600"

definition validate_history_criteria :: "lib \<Rightarrow> pydict \<Rightarrow> exn option" where
  "validate_history_criteria L d =
     (let from_v = pyget d ''from_''; to_v = pyget d ''to'';
          rest = (if pyget d ''purchase_id'' = PNone \<and> pyget d ''statuses'' = PNone \<and> from_v = PNone
              then Some ValueError
            else if pyget d ''statuses'' \<noteq> PNone \<and> \<not> truthy (pyget d ''statuses'')
              then Some ValueError else None)
      in if (from_v = PNone) \<noteq> (to_v = PNone) then Some ValueError
         else if from_v \<noteq> PNone \<and> to_v \<noteq> PNone then
           (case datetime_less (lb_datetime L from_v) (lb_datetime L to_v) of
              Inl x \<Rightarrow> Some x
            | Inr earlier \<Rightarrow> if \<not> earlier then Some ValueError
                else if three_hours \<le> datetime_instant (lb_datetime L to_v)
                       - datetime_instant (lb_datetime L from_v) then Some ValueError
                else rest)
         else rest)"

section \<open>Models\<close>

definition Currency :: "string list" where
  "Currency =
     [''IRR'']"

definition PurchaseState :: "string list" where
  "PurchaseState =
     [''MANUALLY_SUCCESS'', ''SUCCESS'', ''REVERSED'', ''FAILED'', ''UNKNOWN'', ''EXPIRED'', ''IN_PROGRESS'', ''READY_TO_VERIFY'']"

definition PurchaseHistoryStatus :: "string list" where
  "PurchaseHistoryStatus =
     [''MANUALLY_SUCCESS'', ''REVERSED'', ''UNKNOWN'']"

definition VerifyStatus :: "string list" where
  "VerifyStatus =
     [''SUCCESSFUL'', ''ALREADY_VERIFIED'', ''NOT_VERIFIABLE'', ''FAILED'', ''UNKNOWN'']"

definition ReverseStatus :: "string list" where
  "ReverseStatus =
     [''SUCCESSFUL'', ''ALREADY_REVERSED'', ''NOT_REVERSIBLE'', ''FAILED'', ''UNKNOWN'']"

definition SettlementState :: "string list" where
  "SettlementState =
     [''IN_PROGRESS'', ''FAILED'', ''SETTLED'', ''OBSOLETE'', ''EARLY_SETTLED'']"

definition HealthStatus :: "string list" where
  "HealthStatus =
     [''UP'', ''DOWN'', ''NOT_IMPLEMENTED'']"

definition TerminalType :: "string list" where
  "TerminalType =
     [''NORMAL'', ''PAYMENT_FACILITATION'', ''AUTO_SETTLING_PF'']"

definition TerminalSwitching :: mdecl where
  "TerminalSwitching = request_model ''TerminalSwitching''
     [needed ''terminal_ids'' (TTuple TStr) [MinLen 1],
      with_default ''auto_switching'' TBool (PBool True) []]"

definition CreatePurchaseRequest :: mdecl where
  "CreatePurchaseRequest = request_model_with ''CreatePurchaseRequest'' validate_purchase_constraints
     [needed ''amount'' TInt [Ge 5000],
      needed ''callback_url'' THttpUrl [MaxLen 1024],
      needed ''client_reference_number'' TStr [MinLen 1, MaxLen 50],
      with_default ''wage'' TInt (PInt 0) [Ge 0],
      with_default ''currency'' (TEnum Currency) (PStr ''IRR'') [],
      optional ''payer_mobile_number'' TStr [],
      with_default ''check_payer_mobile_number'' TBool (PBool False) [],
      optional ''payer_card_number'' TStr [],
      optional ''payer_card_numbers'' (TTuple TStr) [],
      optional ''payer_national_code'' TStr [],
      optional ''description'' TStr [MaxLen 256],
      optional ''switching'' TerminalSwitching [],
      optional ''additional_data'' TDict [],
      optional ''user_identifier'' TStr [MaxLen 50]]"

definition CreatePurchaseResult :: mdecl where
  "CreatePurchaseResult = response_model ''CreatePurchaseResult''
     [needed ''purchase_id'' TInt [],
      optional ''purchase_id_str'' TStr [],
      needed ''client_reference_number'' TStr [],
      needed ''psp_switching_url'' THttpUrl [],
      optional ''fee'' TInt [],
      optional ''affiliate_fee'' TInt [],
      optional ''shaparak_fee'' TInt [],
      optional ''net_amount'' TInt [],
      optional ''payable_amount'' TInt [],
      with_default ''currency'' (TEnum Currency) (PStr ''IRR'') []]"

definition VerifyPurchaseResult :: mdecl where
  "VerifyPurchaseResult = response_model ''VerifyPurchaseResult''
     [needed ''status'' (TEnum VerifyStatus) []]"

definition PurchaseIdentifierRequest :: mdecl where
  "PurchaseIdentifierRequest = request_model_with ''_PurchaseIdentifierRequest'' require_purchase_identifier
     [optional ''client_reference_number'' TStr [MinLen 1, MaxLen 50],
      optional ''purchase_id'' TInt [Gt 0]]"

definition ReversePurchaseRequest :: mdecl where
  "ReversePurchaseRequest = request_model_with ''ReversePurchaseRequest'' require_purchase_identifier
     [optional ''client_reference_number'' TStr [MinLen 1, MaxLen 50],
      optional ''purchase_id'' TInt [Gt 0]]"

definition ReversePurchaseResult :: mdecl where
  "ReversePurchaseResult = response_model ''ReversePurchaseResult''
     [needed ''status'' (TEnum ReverseStatus) []]"

definition RefundPurchaseRequest :: mdecl where
  "RefundPurchaseRequest = request_model_with ''RefundPurchaseRequest'' require_purchase_identifier
     [optional ''client_reference_number'' TStr [MinLen 1, MaxLen 50],
      optional ''purchase_id'' TInt [Gt 0],
      optional ''amount'' TInt [Gt 0],
      with_default ''cancellable'' TBool (PBool False) []]"

definition RefundPurchaseResult :: mdecl where
  "RefundPurchaseResult = response_model ''RefundPurchaseResult''
     [needed ''refund_id'' TInt [],
      optional ''partial_refund_index'' TInt [],
      optional ''batch_id'' TStr [],
      optional ''transfer_id'' TStr []]"

definition RefundActionRequest :: mdecl where
  "RefundActionRequest = request_model ''RefundActionRequest''
     [optional ''transfer_id'' TStr [MinLen 1]]"

definition PspFailReason :: mdecl where
  "PspFailReason = response_model ''PspFailReason''
     [optional ''code'' TInt [],
      optional ''description'' TStr [],
      optional ''psp_error'' TStr []]"

definition RefundTransfer :: mdecl where
  "RefundTransfer = response_model ''RefundTransfer''
     [optional ''refund_id'' TInt [],
      optional ''partial_refund_index'' TInt [],
      optional ''transfer_mode'' TStr [],
      optional ''destination'' TStr [],
      optional ''destination_first_name'' TStr [],
      optional ''destination_last_name'' TStr [],
      optional ''amount'' TInt [],
      optional ''currency'' TStr [],
      optional ''description'' TStr [],
      optional ''metadata'' TStr [],
      optional ''cancellable'' TBool [],
      optional ''state'' TStr [],
      optional ''fail_reason'' TStr [],
      optional ''fee_currency'' TStr [],
      optional ''fee_amount'' TInt [],
      optional ''created_at'' TDatetime [],
      optional ''modified_at'' TDatetime [],
      aliased ''notifyURL'' (optional ''notify_url'' TStr []),
      aliased ''paymentID'' (optional ''payment_id'' TStr []),
      aliased ''bankTransferID'' (optional ''bank_transfer_id'' TStr []),
      aliased ''transferID'' (optional ''transfer_id'' TStr [])]"

definition RefundInquiryResult :: mdecl where
  "RefundInquiryResult = response_model ''RefundInquiryResult''
     [with_default ''transfers'' (TList RefundTransfer) (PList []) [],
      aliased ''batchID'' (optional ''batch_id'' TStr []),
      optional ''refunded_amount'' TInt []]"

definition DetailedPurchase :: mdecl where
  "DetailedPurchase = response_model ''DetailedPurchase''
     [needed ''purchase_id'' TInt [],
      optional ''purchase_id_str'' TStr [],
      optional ''client_code'' TStr [],
      optional ''amount'' TInt [],
      optional ''wage'' TInt [],
      optional ''fee'' TInt [],
      optional ''fee_payment_type'' TStr [],
      optional ''shaparak_fee'' TInt [],
      optional ''reseller_code'' TStr [],
      optional ''affiliate_fee'' TInt [],
      optional ''net_amount'' TInt [],
      optional ''currency'' (TEnum Currency) [],
      optional ''callback_url'' TStr [],
      optional ''state'' (TEnum PurchaseState) [],
      optional ''client_reference_number'' TStr [],
      optional ''psp_name'' TStr [],
      optional ''psp_rrn'' TStr [],
      optional ''psp_reference_number'' TStr [],
      optional ''psp_trace_number'' TStr [],
      optional ''expiration_date'' TDatetime [],
      optional ''user_identifier'' TStr [],
      optional ''payer_mobile_number'' TStr [],
      optional ''payer_card_number'' TStr [],
      optional ''payer_national_code'' TStr [],
      optional ''description'' TStr [],
      optional ''additional_data'' TDict [],
      optional ''psp_masked_card_number'' TStr [],
      optional ''psp_hashed_card_number'' TStr [],
      optional ''psp_card_owner'' TStr [],
      optional ''psp_fail_reason'' TStr [],
      with_default ''psp_fail_reasons'' (TList PspFailReason) (PList []) [],
      optional ''init_payer_ip'' TStr [],
      optional ''redirect_payer_ip'' TStr [],
      optional ''psp_settled'' TBool [],
      optional ''refunded'' TBool [],
      optional ''refund_inquiry_result'' RefundInquiryResult [],
      optional ''refundable_amount'' TInt [],
      optional ''created_at'' TDatetime [],
      optional ''billing_date'' TDatetime [],
      optional ''verified_at'' TDatetime [],
      optional ''psp_settled_at'' TDatetime [],
      optional ''settlement_id'' TInt [],
      optional ''has_contradiction'' TBool []]"

definition PurchasePage :: mdecl where
  "PurchasePage = response_model ''PurchasePage''
     [needed ''page_number'' TInt [],
      needed ''size'' TInt [],
      needed ''number_of_elements'' TInt [],
      needed ''has_next'' TBool [],
      needed ''has_previous'' TBool [],
      with_default ''elements'' (TList DetailedPurchase) (PList []) []]"

definition PurchaseFilter :: "lib \<Rightarrow> mdecl" where
  "PurchaseFilter L = request_model_with ''PurchaseFilter'' (validate_date_range L)
     [optional ''purchase_id'' TInt [Gt 0],
      optional ''status'' (TEnum PurchaseState) [],
      optional ''client_reference_number'' TStr [],
      optional ''psp_reference_number'' TStr [],
      optional ''psp_rrn'' TStr [],
      optional ''psp_trace_number'' TStr [],
      optional ''user_identifier'' TStr [],
      aliased ''from'' (optional ''from_'' TDatetime []),
      optional ''to'' TDatetime [],
      optional ''page'' TInt [Ge 1, Le 20],
      optional ''size'' TInt [Ge 1, Le 250]]"

definition DetailedPurchaseHistory :: mdecl where
  "DetailedPurchaseHistory = response_model ''DetailedPurchaseHistory''
     [needed ''purchase_id'' TInt [],
      aliased ''clientRefNum'' (optional ''client_reference_number'' TStr []),
      needed ''new_state'' (TEnum PurchaseState) [],
      needed ''created_at'' TDatetime []]"

definition PurchaseHistoryPage :: mdecl where
  "PurchaseHistoryPage = response_model ''PurchaseHistoryPage''
     [needed ''size'' TInt [],
      optional ''total_count'' TInt [],
      needed ''has_next'' TBool [],
      optional ''next_page_id'' TStr [],
      with_default ''elements'' (TList DetailedPurchaseHistory) (PList []) []]"

definition PurchaseHistoryFilter :: "lib \<Rightarrow> mdecl" where
  "PurchaseHistoryFilter L = request_model_with ''PurchaseHistoryFilter'' (validate_history_criteria L)
     [aliased ''from'' (optional ''from_'' TDatetime []),
      optional ''to'' TDatetime [],
      optional ''purchase_id'' TInt [Gt 0],
      optional ''statuses'' (TTuple (TEnum PurchaseHistoryStatus)) [],
      optional ''next_page_id'' TInt [Gt 0],
      optional ''page'' TInt [Ge 1, Le 10],
      optional ''size'' TInt [Ge 1, Le 20000]]"

definition DetailedSettlement :: mdecl where
  "DetailedSettlement = response_model ''DetailedSettlement''
     [optional ''client_code'' TStr [],
      optional ''client_name'' TStr [],
      needed ''settlement_id'' TInt [],
      optional ''terminal_id'' TUuid [],
      optional ''file_name'' TStr [],
      optional ''state'' (TEnum SettlementState) [],
      optional ''amount'' TInt [],
      optional ''wage'' TInt [],
      optional ''direct_settlement'' TBool [],
      optional ''currency'' (TEnum Currency) [],
      optional ''cutoff'' TStr [],
      optional ''acceptor_code'' TStr [],
      optional ''ledger_account'' TStr [],
      optional ''iin'' TInt [],
      optional ''payment_facilitator_iban'' TStr [],
      optional ''settlement_iban'' TStr [],
      optional ''reseller_code'' TStr [],
      optional ''affiliate_fee'' TInt [],
      optional ''shaparak_fail_reason'' TStr [],
      optional ''shaparak_reference_number'' TStr [],
      optional ''shaparak_tracking_number'' TStr [],
      optional ''shaparak_transaction_id'' TStr [],
      optional ''variance'' TInt [],
      optional ''created_at'' TDatetime [],
      optional ''modified_at'' TDatetime [],
      optional ''settled_at'' TDatetime []]"

definition SettlementPage :: mdecl where
  "SettlementPage = response_model ''SettlementPage''
     [needed ''page_number'' TInt [],
      needed ''size'' TInt [],
      needed ''number_of_elements'' TInt [],
      needed ''has_next'' TBool [],
      needed ''has_previous'' TBool [],
      with_default ''elements'' (TList DetailedSettlement) (PList []) []]"

definition SettlementFilter :: mdecl where
  "SettlementFilter = request_model ''SettlementFilter''
     [optional ''settlement_id'' TInt [Gt 0],
      optional ''page'' TInt [Ge 1, Le 20],
      optional ''size'' TInt [Ge 1, Le 250]]"

definition Terminal :: mdecl where
  "Terminal = response_model ''Terminal''
     [needed ''natural_id'' TStr [],
      optional ''client_code'' TStr [],
      optional ''client_name'' TStr [],
      optional ''psp_name'' TStr [],
      optional ''psp_terminal_id'' TStr [],
      optional ''psp_merchant_number'' TStr [],
      optional ''type'' (TEnum TerminalType) [],
      optional ''direct_settlement'' TBool [],
      optional ''priority'' TInt [],
      optional ''is_auto_verify_enabled'' TBool [],
      optional ''is_check_payer_mobile_number_active'' TBool [],
      optional ''is_check_payer_national_code_active'' TBool [],
      optional ''is_single_card_freeze_active'' TBool [],
      optional ''created_at'' TDatetime []]"

definition TerminalCollection :: mdecl where
  "TerminalCollection = response_model ''TerminalCollection''
     [with_default ''elements'' (TList Terminal) (PList []) []]"

definition Balance :: mdecl where
  "Balance = response_model ''Balance''
     [needed ''balance_type'' TStr [],
      needed ''amount'' TInt [],
      needed ''currency'' (TEnum Currency) []]"

definition ClientBalances :: mdecl where
  "ClientBalances = response_model ''ClientBalances''
     [with_default ''balances'' (TList Balance) (PList []) []]"

definition HealthResult :: mdecl where
  "HealthResult = response_model ''HealthResult''
     [needed ''status'' (TEnum HealthStatus) [],
      with_default ''psp_status_map'' (TMap (TEnum HealthStatus)) (PDict []) []]"

end
