(* ===== verification/Gateway.thy ===== *)
theory Gateway
  imports Gateway_Models
begin

text \<open>
  \<open>src/jibit/services/payment_gateway/service.py\<close>: \<open>PaymentGatewayService\<close>, one definition per
  method. This facade audits its financial operations itself: it holds the sink and the logger
  beside the executor, which is not the audited one.
\<close>

record 'st gateway =
  gw_facade :: "'st facade"
  gw_logging :: bool

section \<open>Auditing\<close>

definition gateway_emit_audit ::
  "'st gateway \<Rightarrow> string \<Rightarrow> string \<Rightarrow> string \<Rightarrow> string \<Rightarrow> pydict \<Rightarrow> ('st, unit) action" where
  "gateway_emit_audit gw name correlation_id operation outcome metadata =
     catchM (sink_emit (fa_env (gw_facade gw)) (make_audit_event name correlation_id
         (service_value PAYMENT_GATEWAY) operation outcome metadata))
       (\<lambda>x. emit (gw_logging gw) ERROR AUDIT_EMIT_FAILED
         [(''service'', PStr (service_value PAYMENT_GATEWAY)), (''operation'', PStr operation),
          (''correlation_id'', PStr correlation_id), (''error_type'', PStr (exn_name x))])"

definition gateway_audit ::
  "'st gateway \<Rightarrow> string \<Rightarrow> string \<Rightarrow> raw_response \<Rightarrow> pydict \<Rightarrow> ('st, unit) action" where
  "gateway_audit gw name operation raw metadata =
     gateway_emit_audit gw name (rw_correlation_id raw) operation ''succeeded'' metadata"

definition gateway_audit_error ::
  "'st gateway \<Rightarrow> string \<Rightarrow> string \<Rightarrow> jibit_error \<Rightarrow> ('st, unit) action" where
  "gateway_audit_error gw name operation err =
     gateway_emit_audit gw name (str_or (ec_correlation_id (je_context err)) ''unavailable'') operation
       (audit_outcome err)
       [(''error_type'', PStr (kind_name (je_kind err))),
        (''error_code'', opt_str (ec_error_code (je_context err))),
        (''status_code'', opt_int (ec_status_code (je_context err)))]"

text \<open>\<open>try: m except JibitError as exc: self._audit_error(...); raise\<close>.\<close>

definition audited_failure ::
  "'st gateway \<Rightarrow> string \<Rightarrow> string \<Rightarrow> ('st, 'a) action \<Rightarrow> ('st, 'a) action" where
  "audited_failure gw name operation m = catchM m (\<lambda>x. case x of
       Jibit err \<Rightarrow> thenM (gateway_audit_error gw name operation err) (raiseM x)
     | _ \<Rightarrow> raiseM x)"

section \<open>Shared steps\<close>

definition gateway_error :: "string \<Rightarrow> string \<Rightarrow> string \<Rightarrow> string \<Rightarrow> exn" where
  "gateway_error operation method path message = Jibit (make_error JibitValidationError (Some message)
     (Some (local_context (service_value PAYMENT_GATEWAY) operation method path)))"

definition gateway_request ::
  "'st gateway \<Rightarrow> mdecl \<Rightarrow> pydict \<Rightarrow> string \<Rightarrow> string \<Rightarrow> string \<Rightarrow> ('st, pydict) action" where
  "gateway_request gw model values operation method path =
     liftM (case lb_validate (fa_lib (gw_facade gw)) model (PDict values) of
         Inr v \<Rightarrow> Inr (fields_of v)
       | Inl x \<Rightarrow> if x = ValidationError
           then Inl (gateway_error operation method path ''The request parameters are invalid'')
           else Inl x)"

definition gateway_typed ::
  "'st gateway \<Rightarrow> string \<Rightarrow> string \<Rightarrow> string \<Rightarrow> operation_safety \<Rightarrow> mdecl \<Rightarrow> pyval \<Rightarrow> pydict option
     \<Rightarrow> ('st, parsed_response) action" where
  "gateway_typed gw operation method path safety model body params =
     bindM (fa_run (gw_facade gw)
       (service_options PAYMENT_GATEWAY operation method path safety params body)) (\<lambda>raw.
     liftM (parse_model_response (fa_env (gw_facade gw)) raw (lb_validate (fa_lib (gw_facade gw)) model)
       (service_value PAYMENT_GATEWAY) operation method path))"

definition financial_typed ::
  "'st gateway \<Rightarrow> string \<Rightarrow> string \<Rightarrow> string \<Rightarrow> string \<Rightarrow> operation_safety \<Rightarrow> mdecl \<Rightarrow> pyval
     \<Rightarrow> ('st, parsed_response) action" where
  "financial_typed gw audit_name operation method path safety model body =
     audited_failure gw audit_name operation (gateway_typed gw operation method path safety model body None)"

text \<open>A financial operation: the audited call, then the audit event of the success.\<close>

definition financial_operation ::
  "'st gateway \<Rightarrow> string \<Rightarrow> string \<Rightarrow> string \<Rightarrow> string \<Rightarrow> operation_safety \<Rightarrow> mdecl \<Rightarrow> pyval
     \<Rightarrow> (pydict \<Rightarrow> pydict) \<Rightarrow> ('st, parsed_response) action" where
  "financial_operation gw audit_name operation method path safety model body metadata =
     bindM (financial_typed gw audit_name operation method path safety model body) (\<lambda>result.
     thenM (gateway_audit gw audit_name operation (ar_raw result) (metadata (fields_of (ar_data result))))
       (returnM result))"

section \<open>Purchases\<close>

definition create_purchase :: "'st gateway \<Rightarrow> pyval \<Rightarrow> pyval \<Rightarrow> pyval \<Rightarrow> pyval \<Rightarrow> pyval \<Rightarrow> pyval
     \<Rightarrow> pyval \<Rightarrow> pyval \<Rightarrow> pyval \<Rightarrow> pyval \<Rightarrow> pyval \<Rightarrow> pyval \<Rightarrow> pyval \<Rightarrow> pyval
     \<Rightarrow> ('st, parsed_response) action" where
  "create_purchase gw amount callback_url client_reference_number wage currency payer_mobile_number
       check_payer_mobile_number payer_card_number payer_card_numbers payer_national_code
       description switching additional_data user_identifier =
     bindM (gateway_request gw CreatePurchaseRequest
       [(''amount'', amount), (''callback_url'', callback_url),
        (''client_reference_number'', client_reference_number), (''wage'', wage),
        (''currency'', currency), (''payer_mobile_number'', payer_mobile_number),
        (''check_payer_mobile_number'', check_payer_mobile_number),
        (''payer_card_number'', payer_card_number), (''payer_card_numbers'', payer_card_numbers),
        (''payer_national_code'', payer_national_code), (''description'', description),
        (''switching'', switching), (''additional_data'', additional_data),
        (''user_identifier'', user_identifier)]
       ''create_purchase'' ''POST'' ''/ppg/v3/purchases'') (\<lambda>request.
     financial_operation gw ''jibit.payment.purchase_created'' ''create_purchase'' ''POST''
       ''/ppg/v3/purchases'' UNSAFE CreatePurchaseResult
       (PDict (to_payload (fa_lib (gw_facade gw)) CreatePurchaseRequest request))
       (\<lambda>data. [(''purchase_id'', pyget data ''purchase_id''),
          (''client_reference_number'', pyget data ''client_reference_number'')]))"

definition filter_purchases :: "'st gateway \<Rightarrow> pydict option \<Rightarrow> ('st, parsed_response) action" where
  "filter_purchases gw criteria =
     (let L = fa_lib (gw_facade gw);
          query = to_query L (PurchaseFilter L) (case criteria of Some d \<Rightarrow> d | None \<Rightarrow> [])
      in gateway_typed gw ''filter_purchases'' ''GET'' ''/ppg/v3/purchases'' READ_ONLY PurchasePage PNone
           (Some query))"

definition inquire_purchase ::
  "'st gateway \<Rightarrow> pyval \<Rightarrow> pyval \<Rightarrow> ('st, parsed_response) action" where
  "inquire_purchase gw purchase_id client_reference_number =
     (if purchase_id = PNone \<and> client_reference_number = PNone then
        raiseM (gateway_error ''inquire_purchase'' ''GET'' ''/ppg/v3/purchases''
          ''purchase_id or client_reference_number is required'')
      else bindM (gateway_request gw (PurchaseFilter (fa_lib (gw_facade gw)))
          [(''purchase_id'', purchase_id), (''client_reference_number'', client_reference_number),
           (''size'', PInt 1)] ''inquire_purchase'' ''GET'' ''/ppg/v3/purchases'') (\<lambda>criteria.
        filter_purchases gw (Some criteria)))"

definition verify_purchase :: "'st gateway \<Rightarrow> int \<Rightarrow> ('st, parsed_response) action" where
  "verify_purchase gw purchase_id =
     (let path = ''/ppg/v3/purchases/'' @ show_int purchase_id @ ''/verify''
      in if purchase_id \<le> 0 then
           raiseM (gateway_error ''verify_purchase'' ''POST'' path ''purchase_id must be positive'')
         else financial_operation gw ''jibit.payment.purchase_verified'' ''verify_purchase'' ''POST'' path
           IDEMPOTENT VerifyPurchaseResult PNone
           (\<lambda>data. [(''purchase_id'', PInt purchase_id), (''status'', pyget data ''status'')]))"

definition reverse_purchase ::
  "'st gateway \<Rightarrow> pyval \<Rightarrow> pyval \<Rightarrow> ('st, parsed_response) action" where
  "reverse_purchase gw purchase_id client_reference_number =
     bindM (gateway_request gw ReversePurchaseRequest
       [(''purchase_id'', purchase_id), (''client_reference_number'', client_reference_number)]
       ''reverse_purchase'' ''POST'' ''/ppg/v3/purchases/reverse'') (\<lambda>request.
     financial_operation gw ''jibit.payment.purchase_reversed'' ''reverse_purchase'' ''POST''
       ''/ppg/v3/purchases/reverse'' IDEMPOTENT ReversePurchaseResult
       (PDict (to_payload (fa_lib (gw_facade gw)) ReversePurchaseRequest request))
       (\<lambda>data. [(''purchase_id'', purchase_id), (''status'', pyget data ''status'')]))"

section \<open>Refunds\<close>

definition refund_purchase ::
  "'st gateway \<Rightarrow> pyval \<Rightarrow> pyval \<Rightarrow> pyval \<Rightarrow> pyval \<Rightarrow> ('st, parsed_response) action" where
  "refund_purchase gw purchase_id client_reference_number amount cancellable =
     bindM (gateway_request gw RefundPurchaseRequest
       [(''purchase_id'', purchase_id), (''client_reference_number'', client_reference_number),
        (''amount'', amount), (''cancellable'', cancellable)]
       ''refund_purchase'' ''POST'' ''/ppg/v3/purchases/refund'') (\<lambda>request.
     financial_operation gw ''jibit.payment.refund_submitted'' ''refund_purchase'' ''POST''
       ''/ppg/v3/purchases/refund'' UNSAFE RefundPurchaseResult
       (PDict (to_payload (fa_lib (gw_facade gw)) RefundPurchaseRequest request))
       (\<lambda>data. [(''purchase_id'', purchase_id), (''refund_id'', pyget data ''refund_id''),
          (''batch_id'', pyget data ''batch_id''), (''transfer_id'', pyget data ''transfer_id'')]))"

definition inquire_refund :: "'st gateway \<Rightarrow> int \<Rightarrow> ('st, parsed_response) action" where
  "inquire_refund gw refund_id =
     (let path = ''/ppg/v3/purchases/refunds/'' @ show_int refund_id
      in if refund_id \<le> 0 then
           raiseM (gateway_error ''inquire_refund'' ''GET'' path ''refund_id must be positive'')
         else gateway_typed gw ''inquire_refund'' ''GET'' path READ_ONLY RefundInquiryResult PNone None)"

definition refund_action ::
  "'st gateway \<Rightarrow> string \<Rightarrow> int \<Rightarrow> string \<Rightarrow> pyval \<Rightarrow> ('st, status_result api_response) action" where
  "refund_action gw operation refund_id action_name transfer_id =
     (let path = ''/ppg/v3/purchases/refunds/'' @ show_int refund_id @ ''/'' @ action_name
      in if refund_id \<le> 0 then
           raiseM (gateway_error operation ''POST'' path ''refund_id must be positive'')
         else bindM (gateway_request gw RefundActionRequest [(''transfer_id'', transfer_id)] operation
             ''POST'' path) (\<lambda>request.
           bindM (audited_failure gw (''jibit.payment.'' @ operation) operation
             (fa_run (gw_facade gw) (service_options PAYMENT_GATEWAY operation ''POST'' path UNSAFE None
                (PDict (to_payload (fa_lib (gw_facade gw)) RefundActionRequest request))))) (\<lambda>raw.
           thenM (gateway_audit gw (''jibit.payment.'' @ operation) operation raw
             [(''refund_id'', PInt refund_id), (''transfer_id'', transfer_id)])
             (returnM (status_response raw)))))"

definition verify_refund :: "'st gateway \<Rightarrow> int \<Rightarrow> pyval \<Rightarrow> ('st, status_result api_response) action" where
  "verify_refund gw refund_id transfer_id =
     refund_action gw ''verify_refund'' refund_id ''verify'' transfer_id"

definition retry_refund :: "'st gateway \<Rightarrow> int \<Rightarrow> pyval \<Rightarrow> ('st, status_result api_response) action" where
  "retry_refund gw refund_id transfer_id =
     refund_action gw ''retry_refund'' refund_id ''retry'' transfer_id"

definition cancel_refund :: "'st gateway \<Rightarrow> int \<Rightarrow> pyval \<Rightarrow> ('st, status_result api_response) action" where
  "cancel_refund gw refund_id transfer_id =
     refund_action gw ''cancel_refund'' refund_id ''cancel'' transfer_id"

definition ignore_refund_cancellable_delay ::
  "'st gateway \<Rightarrow> int \<Rightarrow> pyval \<Rightarrow> ('st, status_result api_response) action" where
  "ignore_refund_cancellable_delay gw refund_id transfer_id =
     refund_action gw ''ignore_refund_cancellable_delay'' refund_id ''ignore-cancellable'' transfer_id"

section \<open>Terminals, settlements, histories, balances, health\<close>

definition list_terminals :: "'st gateway \<Rightarrow> ('st, parsed_response) action" where
  "list_terminals gw = gateway_typed gw ''list_terminals'' ''GET'' ''/ppg/v3/terminals/list'' READ_ONLY
     TerminalCollection PNone None"

definition filter_settlements :: "'st gateway \<Rightarrow> pydict option \<Rightarrow> ('st, parsed_response) action" where
  "filter_settlements gw criteria = gateway_typed gw ''filter_settlements'' ''GET'' ''/ppg/v3/settlements''
     READ_ONLY SettlementPage PNone (Some (to_query (fa_lib (gw_facade gw)) SettlementFilter
       (case criteria of Some d \<Rightarrow> d | None \<Rightarrow> [])))"

definition filter_purchase_histories :: "'st gateway \<Rightarrow> pydict \<Rightarrow> ('st, parsed_response) action" where
  "filter_purchase_histories gw criteria = gateway_typed gw ''filter_purchase_histories'' ''GET''
     ''/ppg/v3/purchases/histories'' READ_ONLY PurchaseHistoryPage PNone
     (Some (to_query (fa_lib (gw_facade gw)) (PurchaseHistoryFilter (fa_lib (gw_facade gw))) criteria))"

definition gateway_get_balances :: "'st gateway \<Rightarrow> ('st, parsed_response) action" where
  "gateway_get_balances gw = gateway_typed gw ''get_balances'' ''GET'' ''/ppg/v3/balances'' READ_ONLY
     ClientBalances PNone None"

definition gateway_health :: "'st gateway \<Rightarrow> ('st, parsed_response) action" where
  "gateway_health gw = gateway_typed gw ''health'' ''GET'' ''/ppg/v3/app/health'' READ_ONLY HealthResult
     PNone None"

end
