(* ===== verification/Transfer_Models.thy ===== *)
theory Transfer_Models
  imports Services_Base
begin

text \<open>
  The enumerations and data models of the transfer service, declared field by field
  (\<open>src/jibit/services/transfer/models.py\<close>, \<open>src/jibit/services/transfer/service.py\<close>).
\<close>

section \<open>Cross-field validators\<close>

definition require_reference :: "pydict \<Rightarrow> exn option" where
  "require_reference d = (if pyget d ''batch_id'' = PNone \<and> pyget d ''transfer_id'' = PNone
     then Some ValueError else None)"

definition validate_time_range :: "lib \<Rightarrow> pydict \<Rightarrow> exn option" where
  "validate_time_range L d =
     (if pyget d ''from_time'' \<noteq> PNone \<and> pyget d ''to_time'' \<noteq> PNone then
        case datetime_less (lb_datetime L (pyget d ''to_time'')) (lb_datetime L (pyget d ''from_time'')) of
          Inl x \<Rightarrow> Some x
        | Inr reversed \<Rightarrow> if reversed then Some ValueError else None
      else None)"

text \<open>\<open>TransferFilterResult.accept_list_response\<close>.\<close>

definition accept_list_response :: "pyval \<Rightarrow> pyval" where
  "accept_list_response v = (case v of PList xs \<Rightarrow> PDict [(''transfers'', PList xs)] | _ \<Rightarrow> v)"

section \<open>Models\<close>

definition TransferMode :: "string list" where
  "TransferMode =
     [''ACH'', ''NORMAL'', ''RTGS'']"

definition SubmissionMode :: "string list" where
  "SubmissionMode =
     [''BATCH'', ''TRANSFER'']"

definition TransferCurrency :: "string list" where
  "TransferCurrency =
     [''IRR'', ''RIALS'', ''TOMAN'']"

definition TransferState :: "string list" where
  "TransferState =
     [''INITIALIZED'', ''FEE_COMPUTED'', ''CORE_SUBMITTED'', ''ON_HOLD'', ''DESTINATION_IDENTIFIED'', ''CANCELLING'', ''CANCELLED'', ''IN_PROGRESS'', ''TRANSFERRED'', ''FAILED'', ''RETRYING'', ''ON_HOLD_BALANCES_NOT_ENOUGH'', ''ON_HOLD_WAIT_FOR_MANUAL_SUBMISSION'', ''ON_HOLD_WAIT_FOR_VERIFY'', ''MANUALLY_FAILED'']"

definition TransferItemRequest :: mdecl where
  "TransferItemRequest = request_model ''TransferItemRequest''
     [aliased ''transferID'' (needed ''transfer_id'' TStr [MinLen 1, MaxLen 100]),
      with_default ''transfer_mode'' (TEnum TransferMode) (PStr ''ACH'') [],
      needed ''destination'' TStr [Pattern pat_iban],
      optional ''destination_first_name'' TStr [MaxLen 100],
      optional ''destination_last_name'' TStr [MaxLen 100],
      needed ''amount'' TInt [Gt 0],
      with_default ''currency'' (TEnum TransferCurrency) (PStr ''IRR'') [],
      needed ''description'' TStr [MinLen 1, MaxLen 250],
      optional ''metadata'' TStr [MaxLen 2000],
      aliased ''notifyURL'' (optional ''notify_url'' THttpUrl []),
      with_default ''cancellable'' TBool (PBool True) [],
      aliased ''paymentID'' (optional ''payment_id'' TStr [Pattern pat_digits])]"

definition SubmitBatchRequest :: mdecl where
  "SubmitBatchRequest = request_model ''SubmitBatchRequest''
     [aliased ''batchID'' (needed ''batch_id'' TStr [MinLen 1, MaxLen 100]),
      with_default ''submission_mode'' (TEnum SubmissionMode) (PStr ''BATCH'') [],
      needed ''transfers'' (TTuple TransferItemRequest) [MinLen 1]]"

definition TransferRecord :: mdecl where
  "TransferRecord = response_model ''TransferRecord''
     [aliased ''transferID'' (optional ''transfer_id'' TStr []),
      optional ''transfer_mode'' (TEnum TransferMode) [],
      optional ''destination'' TStr [],
      optional ''destination_first_name'' TStr [],
      optional ''destination_last_name'' TStr [],
      optional ''amount'' TInt [],
      optional ''currency'' TStr [],
      optional ''description'' TStr [],
      optional ''metadata'' TStr [],
      aliased ''notifyURL'' (optional ''notify_url'' TStr []),
      optional ''cancellable'' TBool [],
      aliased ''paymentID'' (optional ''payment_id'' TStr []),
      aliased ''bankTransferID'' (optional ''bank_transfer_id'' TStr []),
      optional ''state'' (TEnum TransferState) [],
      optional ''fail_reason'' TStr [],
      optional ''channel_manager_processing_type'' (TEnum TransferMode) [],
      optional ''bank_submitted_time'' TDatetime [],
      optional ''fee_currency'' TStr [],
      optional ''fee_amount'' TInt [],
      optional ''created_at'' TDatetime [],
      optional ''modified_at'' TDatetime []]"

definition SubmitBatchResult :: mdecl where
  "SubmitBatchResult = response_model ''SubmitBatchResult''
     [with_default ''submitted_count'' TInt (PInt 0) [],
      with_default ''total_amount_transferred'' TInt (PInt 0) [],
      with_default ''rejections'' (TList TransferRecord) (PList []) []]"

definition TransferInquiryResult :: mdecl where
  "TransferInquiryResult = response_model ''TransferInquiryResult''
     [aliased ''batchID'' (optional ''batch_id'' TStr []),
      with_default ''transfers'' (TList TransferRecord) (PList []) []]"

definition TransferFilterResult :: mdecl where
  "TransferFilterResult = response_model ''TransferFilterResult''
     [with_default ''transfers'' (TList TransferRecord) (PList []) [],
      optional ''page'' TInt [],
      optional ''size'' TInt [],
      optional ''total'' TInt []]"

definition ReceiptResult :: mdecl where
  "ReceiptResult = response_model ''ReceiptResult''
     [needed ''public_link'' TStr []]"

definition BalanceEntry :: mdecl where
  "BalanceEntry = response_model ''BalanceEntry''
     [needed ''balance_type'' TStr [],
      needed ''currency'' TStr [],
      needed ''amount'' TInt []]"

definition BalanceResult :: mdecl where
  "BalanceResult = response_model ''BalanceResult''
     [optional ''balance'' TInt [],
      optional ''settleable_balance'' TInt [],
      with_default ''balances'' (TList BalanceEntry) (PList []) []]"

definition UsageReportEntry :: mdecl where
  "UsageReportEntry = response_model ''UsageReportEntry''
     [needed ''state'' TStr [],
      needed ''currency'' TStr [],
      needed ''sum'' TInt [],
      needed ''count'' TInt []]"

definition UsageReportResult :: mdecl where
  "UsageReportResult = response_model ''UsageReportResult''
     [with_default ''report'' (TList UsageReportEntry) (PList []) []]"

definition BankList :: mdecl where
  "BankList = TList TStr"

definition BatchGeneratorRequest :: mdecl where
  "BatchGeneratorRequest = request_model ''BatchGeneratorRequest''
     [with_default ''submission_mode'' (TEnum SubmissionMode) (PStr ''BATCH'') [],
      needed ''transfer_mode'' (TEnum TransferMode) [],
      needed ''destination'' TStr [Pattern pat_iban],
      needed ''amount'' TInt [Gt 0],
      with_default ''currency'' (TEnum TransferCurrency) (PStr ''IRR'') [],
      optional ''description'' TStr [MaxLen 250],
      optional ''metadata'' TStr [MaxLen 2000],
      aliased ''notifyURL'' (optional ''notify_url'' THttpUrl []),
      with_default ''cancellable'' TBool (PBool True) [],
      aliased ''paymentID'' (optional ''payment_id'' TStr [Pattern pat_digits])]"

definition TransferSelector :: mdecl where
  "TransferSelector = request_model_with ''TransferSelector'' require_reference
     [aliased ''batchID'' (optional ''batch_id'' TStr [MinLen 1]),
      aliased ''transferID'' (optional ''transfer_id'' TStr [MinLen 1])]"

definition FilterValidation :: "lib \<Rightarrow> mdecl" where
  "FilterValidation L = request_model_with ''_FilterValidation'' (validate_time_range L)
     [optional ''state'' (TEnum TransferState) [],
      aliased ''from'' (optional ''from_time'' TAwareDatetime []),
      aliased ''to'' (optional ''to_time'' TAwareDatetime []),
      needed ''page'' TInt [Ge 1],
      needed ''size'' TInt [Ge 1, Le 250]]"

definition DailyUsageRequest :: mdecl where
  "DailyUsageRequest = request_model ''_DailyUsageRequest''
     [needed ''year_month_day'' TStr [Pattern (pat_digits_n 6)]]"

end
