(* ===== verification/Transfers.thy ===== *)
theory Transfers
  imports Transfer_Models
begin

text \<open>
  \<open>src/jibit/services/transfer/service.py\<close>: \<open>TransferService\<close>, one definition per method. Arguments
  a caller passes on to validation are values of any type.
\<close>

definition TRANSFERS_PATH :: string where
  "TRANSFERS_PATH = ''/trf/v2/transfers''"

definition transfer_validate ::
  "'st facade \<Rightarrow> mdecl \<Rightarrow> pydict \<Rightarrow> string \<Rightarrow> string \<Rightarrow> string \<Rightarrow> ('st, pydict) action" where
  "transfer_validate fc model values operation method path = liftM
     (validate_request (fa_lib fc) model values (service_value TRANSFERS) operation method path)"

definition transfer_typed ::
  "'st facade \<Rightarrow> string \<Rightarrow> string \<Rightarrow> string \<Rightarrow> operation_safety \<Rightarrow> (pyval \<Rightarrow> exn + pyval)
     \<Rightarrow> pydict option \<Rightarrow> pyval \<Rightarrow> ('st, parsed_response) action" where
  "transfer_typed fc operation method path safety model params json =
     typed_request fc (service_options TRANSFERS operation method path safety params json) model"

definition transfer_selector ::
  "'st facade \<Rightarrow> pyval \<Rightarrow> pyval \<Rightarrow> string \<Rightarrow> string \<Rightarrow> ('st, pydict) action" where
  "transfer_selector fc batch_id transfer_id operation method =
     transfer_validate fc TransferSelector [(''batch_id'', batch_id), (''transfer_id'', transfer_id)]
       operation method TRANSFERS_PATH"

definition submit_batch ::
  "'st facade \<Rightarrow> pyval \<Rightarrow> pyval \<Rightarrow> pyval \<Rightarrow> ('st, parsed_response) action" where
  "submit_batch fc batch_id transfers submission_mode =
     bindM (transfer_validate fc SubmitBatchRequest
       [(''batch_id'', batch_id), (''submission_mode'', submission_mode), (''transfers'', transfers)]
       ''submit_batch'' ''POST'' TRANSFERS_PATH) (\<lambda>request.
     transfer_typed fc ''submit_batch'' ''POST'' TRANSFERS_PATH UNSAFE
       (lb_validate (fa_lib fc) SubmitBatchResult) None
       (PDict (to_payload (fa_lib fc) SubmitBatchRequest request)))"

definition transfer_inquire :: "'st facade \<Rightarrow> pyval \<Rightarrow> pyval \<Rightarrow> ('st, parsed_response) action" where
  "transfer_inquire fc batch_id transfer_id =
     bindM (transfer_selector fc batch_id transfer_id ''inquire'' ''GET'') (\<lambda>selector.
     transfer_typed fc ''inquire'' ''GET'' TRANSFERS_PATH READ_ONLY
       (lb_validate (fa_lib fc) TransferInquiryResult)
       (Some (to_query (fa_lib fc) TransferSelector selector)) PNone)"

definition transfer_cancel ::
  "'st facade \<Rightarrow> pyval \<Rightarrow> pyval \<Rightarrow> ('st, status_result api_response) action" where
  "transfer_cancel fc batch_id transfer_id =
     bindM (transfer_selector fc batch_id transfer_id ''cancel'' ''DELETE'') (\<lambda>selector.
     status_request fc (service_options TRANSFERS ''cancel'' ''DELETE'' TRANSFERS_PATH UNSAFE
       (Some (to_query (fa_lib fc) TransferSelector selector)) PNone))"

definition retry_failed ::
  "'st facade \<Rightarrow> pyval \<Rightarrow> pyval \<Rightarrow> ('st, status_result api_response) action" where
  "retry_failed fc batch_id transfer_id =
     bindM (transfer_selector fc batch_id transfer_id ''retry_failed'' ''PATCH'') (\<lambda>selector.
     status_request fc (service_options TRANSFERS ''retry_failed'' ''PATCH'' TRANSFERS_PATH UNSAFE
       (Some (to_query (fa_lib fc) TransferSelector selector)) (PDict [(''state'', PStr ''RETRY'')])))"

definition filter_transfers ::
  "'st facade \<Rightarrow> pyval \<Rightarrow> pyval \<Rightarrow> pyval \<Rightarrow> pyval \<Rightarrow> pyval \<Rightarrow> ('st, parsed_response) action" where
  "filter_transfers fc state from_time to_time page size_v =
     bindM (transfer_validate fc (FilterValidation (fa_lib fc))
       [(''state'', state), (''from_time'', from_time), (''to_time'', to_time), (''page'', page),
        (''size'', size_v)] ''filter_transfers'' ''GET'' (TRANSFERS_PATH @ ''/filter'')) (\<lambda>pagination.
     transfer_typed fc ''filter_transfers'' ''GET'' (TRANSFERS_PATH @ ''/filter'') READ_ONLY
       (\<lambda>v. lb_validate (fa_lib fc) TransferFilterResult (accept_list_response v))
       (Some (to_query (fa_lib fc) (FilterValidation (fa_lib fc)) pagination)) PNone)"

definition set_receipt_enabled ::
  "'st facade \<Rightarrow> pyval \<Rightarrow> pyval \<Rightarrow> pyval \<Rightarrow> ('st, parsed_response) action" where
  "set_receipt_enabled fc enabled batch_id transfer_id =
     bindM (transfer_selector fc batch_id transfer_id ''set_receipt_enabled'' ''POST'') (\<lambda>selector.
     transfer_typed fc ''set_receipt_enabled'' ''POST'' ''/trf/v2/receipts'' UNSAFE
       (lb_validate (fa_lib fc) ReceiptResult) None
       (PDict (dict_set ''newEnablementStatus''
         (PStr (str_lower (py_str (e_repr (fa_env fc)) enabled)))
         (to_payload (fa_lib fc) TransferSelector selector))))"

definition transfer_get_balances :: "'st facade \<Rightarrow> ('st, parsed_response) action" where
  "transfer_get_balances fc = transfer_typed fc ''get_balances'' ''GET'' ''/trf/v2/balances'' READ_ONLY
     (lb_validate (fa_lib fc) BalanceResult) None PNone"

definition transfer_daily_usage_report :: "'st facade \<Rightarrow> pyval \<Rightarrow> ('st, parsed_response) action" where
  "transfer_daily_usage_report fc year_month_day =
     bindM (transfer_validate fc DailyUsageRequest [(''year_month_day'', year_month_day)]
       ''get_daily_usage_report'' ''GET'' ''/trf/v2/reports/daily'') (\<lambda>request.
     transfer_typed fc ''get_daily_usage_report'' ''GET'' ''/trf/v2/reports/daily'' READ_ONLY
       (lb_validate (fa_lib fc) UsageReportResult)
       (Some (to_query (fa_lib fc) DailyUsageRequest request)) PNone)"

definition get_supported_normal_banks :: "'st facade \<Rightarrow> ('st, parsed_response) action" where
  "get_supported_normal_banks fc = transfer_typed fc ''get_supported_normal_banks'' ''GET''
     ''/trf/v2/banks/normal'' READ_ONLY (lb_validate (fa_lib fc) BankList) None PNone"

definition get_active_normal_banks :: "'st facade \<Rightarrow> ('st, parsed_response) action" where
  "get_active_normal_banks fc = transfer_typed fc ''get_active_normal_banks'' ''GET''
     ''/trf/v2/banks/status'' READ_ONLY (lb_validate (fa_lib fc) BankList) None PNone"

text \<open>\<open>request\<close> is a validated instance, or \<open>None\<close>; an instance is always true.\<close>

definition generate_batch ::
  "'st facade \<Rightarrow> pydict option \<Rightarrow> pydict \<Rightarrow> ('st, parsed_response) action" where
  "generate_batch fc request values =
     (if request \<noteq> None \<and> values \<noteq> [] then
        raiseM (request_validation_error (service_value TRANSFERS) ''generate_batch'' ''POST''
          ''/trf/v2/batch/generate'' ''Provide request or keyword values, not both'')
      else bindM (case request of
          Some r \<Rightarrow> returnM r
        | None \<Rightarrow> transfer_validate fc BatchGeneratorRequest values ''generate_batch'' ''POST''
            ''/trf/v2/batch/generate'') (\<lambda>request.
        transfer_typed fc ''generate_batch'' ''POST'' ''/trf/v2/batch/generate'' IDEMPOTENT
          (lb_validate (fa_lib fc) SubmitBatchRequest) None
          (PDict (to_payload (fa_lib fc) BatchGeneratorRequest request))))"

end
