(* ===== verification/Cobank_Models.thy ===== *)
theory Cobank_Models
  imports Services_Base
begin

text \<open>
  The enumerations and data models of Cobank, declared field by field
  (\<open>src/jibit/services/cobank/models.py\<close>, \<open>src/jibit/services/cobank/service.py\<close>).
\<close>

definition CobankTransferType :: "string list" where
  "CobankTransferType =
     [''NORMAL'', ''ACH'', ''RTGS'']"

definition TransferReason :: "string list" where
  "TransferReason =
     [''VARIZ_HOGHOUGH'', ''TADIE_DOYOUN'', ''MOAMELAT_MANGHOUL'', ''MOAMELAT_GHEIR_MANGHOUL'', ''MODIRIAT_NAGHDINEGI'', ''MODIRIRAT_NAGHDINEGI'', ''KHARID_KALA'', ''KHARID_KHADAMAT'']"

definition CreateSettlementRequest :: mdecl where
  "CreateSettlementRequest = request_model ''CreateSettlementRequest''
     [needed ''record_track_id'' TUuid [],
      needed ''destination_iban'' TStr [Pattern pat_iban],
      needed ''amount'' TInt [Gt 0],
      optional ''transfer_type'' (TEnum CobankTransferType) [],
      optional ''transfer_reason'' (TEnum TransferReason) [],
      optional ''source_iban'' TStr [Pattern pat_iban],
      optional ''payment_id'' TStr [MaxLen 100, Pattern pat_digits],
      optional ''request_description'' TStr [MaxLen 250]]"

definition SettlementRecord :: mdecl where
  "SettlementRecord = response_model ''SettlementRecord''
     [optional ''reference_number'' TStr [],
      optional ''bank_reference_number'' TStr [],
      optional ''track_id'' TStr [],
      optional ''record_type'' TStr [],
      optional ''source_account_iban'' TStr [],
      optional ''destination_iban'' TStr [],
      optional ''destination_account_number'' TStr [],
      optional ''destination_first_name'' TStr [],
      optional ''destination_last_name'' TStr [],
      optional ''amount'' TInt [],
      optional ''pay_id'' TStr [],
      optional ''transfer_type'' (TEnum CobankTransferType) [],
      optional ''request_channel'' TStr [],
      optional ''process_mode'' TStr [],
      optional ''state'' TStr [],
      optional ''state_updated_at'' TDatetime [],
      optional ''fail_reason'' TStr [],
      optional ''fee_amount'' TInt [],
      optional ''fee_status'' TStr [],
      optional ''last_submit_success_at'' TDatetime [],
      optional ''archived_record_reference_number'' TStr [],
      optional ''estimated_settle_at'' TDatetime [],
      optional ''created_at'' TDatetime [],
      optional ''updated_at'' TDatetime []]"

definition SettlementResult :: mdecl where
  "SettlementResult = response_model ''SettlementResult''
     [optional ''reference_number'' TStr [],
      optional ''track_id'' TStr [],
      optional ''owner_code'' TStr [],
      optional ''request_channel'' TStr [],
      optional ''type'' TStr [],
      optional ''source_iban'' TStr [],
      optional ''destination_iban'' TStr [],
      optional ''total_amount'' TInt [],
      optional ''prime_count'' TInt [],
      optional ''created_at'' TDatetime [],
      optional ''updated_at'' TDatetime [],
      with_default ''records'' (TList SettlementRecord) (PList []) []]"

definition SettlementBatchResult :: mdecl where
  "SettlementBatchResult = TList SettlementResult"

definition SettlementSummary :: mdecl where
  "SettlementSummary = response_model ''SettlementSummary''
     [optional ''reference_number'' TStr [],
      optional ''track_id'' TStr [],
      optional ''owner_code'' TStr [],
      optional ''request_channel'' TStr [],
      optional ''type'' TStr [],
      optional ''source_iban'' TStr [],
      optional ''destination_iban'' TStr [],
      optional ''total_amount'' TInt [],
      optional ''prime_count'' TInt [],
      optional ''created_at'' TDatetime [],
      optional ''updated_at'' TDatetime []]"

definition SettlementPage :: mdecl where
  "SettlementPage = response_model ''SettlementPage''
     [with_default ''page_number'' TInt (PInt 0) [],
      with_default ''size'' TInt (PInt 0) [],
      with_default ''number_of_elements'' TInt (PInt 0) [],
      with_default ''has_next'' TBool (PBool False) [],
      with_default ''has_previous'' TBool (PBool False) [],
      with_default ''elements'' (TList SettlementSummary) (PList []) [],
      with_default ''metadata'' TDict (PDict []) []]"

definition MerchantAccountList :: mdecl where
  "MerchantAccountList = TList TDict"

definition ReceiptState :: "string list" where
  "ReceiptState =
     [''ACTIVE'', ''INACTIVE'']"

definition ReceiptLinkResult :: mdecl where
  "ReceiptLinkResult = response_model ''ReceiptLinkResult''
     [optional ''receipt_link'' TStr [],
      needed ''state'' (TEnum ReceiptState) []]"

definition BatchInquiryRequest :: mdecl where
  "BatchInquiryRequest = request_model ''_BatchInquiryRequest''
     [needed ''track_ids'' (TTuple TUuid) [MinLen 1, MaxLen 10000]]"

definition Pagination :: mdecl where
  "Pagination = request_model ''_Pagination''
     [with_default ''page_number'' TInt (PInt 0) [Ge 0],
      with_default ''page_size'' TInt (PInt 50) [Ge 1, Le 250]]"

definition Reference :: mdecl where
  "Reference = request_model ''_Reference''
     [needed ''value'' TStr [MinLen 1, MaxLen 200, Pattern pat_reference]]"

end
