(* ===== verification/Cobank.thy ===== *)
theory Cobank
  imports Cobank_Models
begin

text \<open>\<open>src/jibit/services/cobank/service.py\<close>: \<open>CobankService\<close>, one definition per method.\<close>

definition SETTLEMENT_PATH :: string where
  "SETTLEMENT_PATH = ''/cobank/v1/orders/settlement''"

definition cobank_validate ::
  "'st facade \<Rightarrow> mdecl \<Rightarrow> pydict \<Rightarrow> string \<Rightarrow> string \<Rightarrow> string \<Rightarrow> ('st, pydict) action" where
  "cobank_validate fc model values operation method path = liftM
     (validate_request (fa_lib fc) model values (service_value COBANK) operation method path)"

definition cobank_typed ::
  "'st facade \<Rightarrow> string \<Rightarrow> string \<Rightarrow> string \<Rightarrow> operation_safety \<Rightarrow> mdecl
     \<Rightarrow> pydict option \<Rightarrow> pyval \<Rightarrow> ('st, parsed_response) action" where
  "cobank_typed fc operation method path safety model params json =
     typed_request fc (service_options COBANK operation method path safety params json)
       (lb_validate (fa_lib fc) model)"

text \<open>\<open>request.track_ids[0]\<close>: the validated tuple is never empty; its text goes into the path.\<close>

definition cobank_track_id :: "'st facade \<Rightarrow> pyval \<Rightarrow> string \<Rightarrow> ('st, string) action" where
  "cobank_track_id fc value operation =
     bindM (cobank_validate fc BatchInquiryRequest [(''track_ids'', PList [value])] operation ''GET''
       SETTLEMENT_PATH) (\<lambda>request.
     case pyget request ''track_ids'' of
       PTuple (u # us) \<Rightarrow> returnM (py_str (e_repr (fa_env fc)) u)
     | _ \<Rightarrow> raiseM (OtherException ''IndexError''))"

definition cobank_reference :: "'st facade \<Rightarrow> pyval \<Rightarrow> string \<Rightarrow> ('st, string) action" where
  "cobank_reference fc value operation =
     bindM (cobank_validate fc Reference [(''value'', value)] operation ''PUT''
       ''/cobank/v2/orders/settlement/{reference}/receipt-link'') (\<lambda>request.
     returnM (py_str (e_repr (fa_env fc)) (pyget request ''value'')))"

definition create_settlement ::
  "'st facade \<Rightarrow> pyval \<Rightarrow> pyval \<Rightarrow> pyval \<Rightarrow> pyval \<Rightarrow> pyval \<Rightarrow> pyval \<Rightarrow> pyval \<Rightarrow> pyval
     \<Rightarrow> ('st, parsed_response) action" where
  "create_settlement fc record_track_id destination_iban amount transfer_type transfer_reason
       source_iban payment_id request_description =
     bindM (cobank_validate fc CreateSettlementRequest
       [(''record_track_id'', record_track_id), (''destination_iban'', destination_iban),
        (''amount'', amount), (''transfer_type'', transfer_type),
        (''transfer_reason'', transfer_reason), (''source_iban'', source_iban),
        (''payment_id'', payment_id), (''request_description'', request_description)]
       ''create_settlement'' ''POST'' SETTLEMENT_PATH) (\<lambda>request.
     cobank_typed fc ''create_settlement'' ''POST'' SETTLEMENT_PATH UNSAFE SettlementResult None
       (PDict (to_payload (fa_lib fc) CreateSettlementRequest request)))"

definition inquire_settlement :: "'st facade \<Rightarrow> pyval \<Rightarrow> pyval \<Rightarrow> ('st, parsed_response) action" where
  "inquire_settlement fc track_id show_archive =
     bindM (cobank_track_id fc track_id ''inquire_settlement'') (\<lambda>track.
     cobank_typed fc ''inquire_settlement'' ''GET'' (SETTLEMENT_PATH @ ''/'' @ track) READ_ONLY
       SettlementResult (Some [(''showArchive'', show_archive)]) PNone)"

definition batch_inquire_settlements ::
  "'st facade \<Rightarrow> pyval \<Rightarrow> pyval \<Rightarrow> ('st, parsed_response) action" where
  "batch_inquire_settlements fc track_ids show_archive =
     bindM (cobank_validate fc BatchInquiryRequest [(''track_ids'', track_ids)]
       ''batch_inquire_settlements'' ''POST'' (SETTLEMENT_PATH @ ''/batch-inquiry'')) (\<lambda>request.
     cobank_typed fc ''batch_inquire_settlements'' ''POST'' (SETTLEMENT_PATH @ ''/batch-inquiry'')
       IDEMPOTENT SettlementBatchResult (Some [(''showArchive'', show_archive)])
       (PDict (to_payload (fa_lib fc) BatchInquiryRequest request)))"

definition list_settlements :: "'st facade \<Rightarrow> pyval \<Rightarrow> pyval \<Rightarrow> ('st, parsed_response) action" where
  "list_settlements fc page_number page_size =
     bindM (cobank_validate fc Pagination [(''page_number'', page_number), (''page_size'', page_size)]
       ''list_settlements'' ''GET'' (SETTLEMENT_PATH @ ''/list'')) (\<lambda>pagination.
     cobank_typed fc ''list_settlements'' ''GET'' (SETTLEMENT_PATH @ ''/list'') READ_ONLY
       SettlementPage (Some (to_query (fa_lib fc) Pagination pagination)) PNone)"

definition get_merchant_accounts :: "'st facade \<Rightarrow> ('st, parsed_response) action" where
  "get_merchant_accounts fc = cobank_typed fc ''get_merchant_accounts'' ''GET'' ''/cobank/v1/accounts/''
     READ_ONLY MerchantAccountList None PNone"

definition receipt_state :: "bool \<Rightarrow> pyval" where
  "receipt_state active = PDict [(''state'', PStr (if active then ''ACTIVE'' else ''INACTIVE''))]"

definition set_settlement_receipt ::
  "'st facade \<Rightarrow> pyval \<Rightarrow> bool \<Rightarrow> ('st, parsed_response) action" where
  "set_settlement_receipt fc reference_number active =
     bindM (cobank_reference fc reference_number ''set_settlement_receipt'') (\<lambda>reference.
     cobank_typed fc ''set_settlement_receipt'' ''PUT''
       (''/cobank/v2/orders/settlement/'' @ reference @ ''/receipt-link'') IDEMPOTENT
       ReceiptLinkResult None (receipt_state active))"

definition set_record_receipt ::
  "'st facade \<Rightarrow> pyval \<Rightarrow> pyval \<Rightarrow> bool \<Rightarrow> ('st, parsed_response) action" where
  "set_record_receipt fc reference_number record_reference_number active =
     bindM (cobank_reference fc reference_number ''set_record_receipt'') (\<lambda>reference.
     bindM (cobank_reference fc record_reference_number ''set_record_receipt'') (\<lambda>record_reference.
     cobank_typed fc ''set_record_receipt'' ''PUT''
       (''/cobank/v2/orders/settlement/'' @ reference @ ''/records/'' @ record_reference
         @ ''/receipt-link'') IDEMPOTENT ReceiptLinkResult None (receipt_state active)))"

end
