(* ===== verification/Identicator_Models.thy ===== *)
theory Identicator_Models
  imports Services_Base
begin

text \<open>
  The enumerations and data models of Identicator, declared field by field
  (\<open>src/jibit/services/identicator/models.py\<close>).
\<close>

section \<open>Cross-field validators\<close>

definition matching_fields :: "string list" where
  "matching_fields = [''iban'', ''card_number'', ''bank'', ''deposit_number'', ''national_code'',
     ''legal_national_code'', ''birth_date'', ''name'', ''mobile_number'', ''fida'', ''passport_number'']"

definition allowed_combinations :: "string list list" where
  "allowed_combinations = [[''iban'', ''name''], [''iban'', ''national_code''],
     [''iban'', ''national_code'', ''birth_date''], [''iban'', ''legal_national_code''],
     [''card_number'', ''name''], [''card_number'', ''national_code''],
     [''card_number'', ''national_code'', ''birth_date''], [''deposit_number'', ''bank'', ''name''],
     [''deposit_number'', ''bank'', ''national_code''],
     [''deposit_number'', ''bank'', ''national_code'', ''birth_date''],
     [''national_code'', ''mobile_number''], [''fida'', ''passport_number'']]"

definition validate_documented_combination :: "pydict \<Rightarrow> exn option" where
  "validate_documented_combination d =
     (let present = filter (\<lambda>name. pyget d name \<noteq> PNone) matching_fields
      in if list_ex (\<lambda>allowed. set allowed = set present) allowed_combinations
         then None else Some ValueError)"

definition require_name :: "pydict \<Rightarrow> exn option" where
  "require_name d = (if list_ex (\<lambda>k. truthy (pyget d k))
       [''first_name'', ''last_name'', ''full_name'', ''father_name'']
     then None else Some ValueError)"

section \<open>Models\<close>

definition IbanOwner :: mdecl where
  "IbanOwner = response_model ''IbanOwner''
     [optional ''first_name'' TStr [],
      optional ''last_name'' TStr []]"

definition IbanInfo :: mdecl where
  "IbanInfo = response_model ''IbanInfo''
     [optional ''bank'' TStr [],
      optional ''deposit_number'' TStr [],
      optional ''iban'' TStr [],
      optional ''status'' TStr [],
      with_default ''owners'' (TList IbanOwner) (PList []) []]"

definition DepositToIbanInfo :: mdecl where
  "DepositToIbanInfo = response_model ''DepositToIbanInfo''
     [optional ''bank'' TStr [],
      optional ''iban'' TStr []]"

definition DepositInquiryResponse :: mdecl where
  "DepositInquiryResponse = response_model ''DepositInquiryResponse''
     [needed ''number'' TStr [],
      aliased ''depositToIBANInfo'' (optional ''deposit_to_iban_info'' DepositToIbanInfo []),
      aliased ''ibanInfo'' (optional ''iban_info'' IbanInfo [])]"

definition IbanInquiryResponse :: mdecl where
  "IbanInquiryResponse = response_model ''IbanInquiryResponse''
     [needed ''value'' TStr [],
      aliased ''ibanInfo'' (optional ''iban_info'' IbanInfo [])]"

definition CardInfo :: mdecl where
  "CardInfo = response_model ''CardInfo''
     [optional ''bank'' TStr [],
      optional ''type'' TStr [],
      optional ''owner_name'' TStr [],
      with_default ''owners'' (TList IbanOwner) (PList []) [],
      optional ''deposit_number'' TStr [],
      optional ''iban'' TStr [],
      optional ''status'' TStr []]"

definition DepositInfo :: mdecl where
  "DepositInfo = response_model ''DepositInfo''
     [optional ''bank'' TStr [],
      optional ''deposit_number'' TStr [],
      optional ''card_info'' CardInfo []]"

definition CardInquiryResponse :: mdecl where
  "CardInquiryResponse = response_model ''CardInquiryResponse''
     [needed ''number'' TStr [],
      optional ''type'' TStr [],
      optional ''card_info'' CardInfo [],
      optional ''deposit_info'' DepositInfo [],
      aliased ''ibanInfo'' (optional ''iban_info'' IbanInfo [])]"

definition MatchingRequest :: mdecl where
  "MatchingRequest = request_model_with ''MatchingRequest'' validate_documented_combination
     [optional ''iban'' TStr [],
      optional ''card_number'' TStr [],
      optional ''bank'' TStr [],
      optional ''deposit_number'' TStr [],
      optional ''national_code'' TStr [],
      optional ''legal_national_code'' TStr [],
      optional ''birth_date'' TStr [],
      optional ''name'' TStr [],
      optional ''mobile_number'' TStr [],
      optional ''fida'' TStr [],
      optional ''passport_number'' TStr []]"

definition MatchingResponse :: mdecl where
  "MatchingResponse = response_model ''MatchingResponse''
     [needed ''matched'' TBool []]"

definition AddressInfo :: mdecl where
  "AddressInfo = response_model ''AddressInfo''
     [optional ''postal_code'' TStr [],
      optional ''address'' TStr [],
      optional ''province'' TStr [],
      optional ''district'' TStr [],
      optional ''city'' TStr [],
      optional ''street'' TStr [],
      optional ''floor'' TStr [],
      optional ''number'' TStr []]"

definition PostalResponse :: mdecl where
  "PostalResponse = response_model ''PostalResponse''
     [needed ''code'' TStr [],
      optional ''address_info'' AddressInfo []]"

definition WgsInfo :: mdecl where
  "WgsInfo = response_model ''WgsInfo''
     [optional ''postal_code'' TStr [],
      optional ''latitude'' TFloat [],
      optional ''longitude'' TFloat []]"

definition WgsResponse :: mdecl where
  "WgsResponse = response_model ''WgsResponse''
     [needed ''code'' TStr [],
      optional ''wgs_info'' WgsInfo []]"

definition IdentityInfo :: mdecl where
  "IdentityInfo = response_model ''IdentityInfo''
     [optional ''national_code'' TStr [],
      optional ''birth_date'' TStr [],
      optional ''first_name'' TStr [],
      optional ''last_name'' TStr [],
      optional ''father_name'' TStr [],
      optional ''gender'' TStr [],
      optional ''identification_number'' TInt [],
      optional ''identification_serial_code'' TStr [],
      optional ''identification_serial_number'' TInt [],
      optional ''birth_place_code'' TInt [],
      optional ''birth_place'' TStr [],
      optional ''alive'' TBool [],
      optional ''death_date'' TStr [],
      optional ''provider_tracker_id'' TStr [],
      optional ''photo'' TStr []]"

definition IdentityResponse :: mdecl where
  "IdentityResponse = response_model ''IdentityResponse''
     [needed ''national_code'' TStr [],
      needed ''birth_date'' TStr [],
      optional ''identity_info'' IdentityInfo []]"

definition IdentitySimilarityRequest :: mdecl where
  "IdentitySimilarityRequest = request_model_with ''IdentitySimilarityRequest'' require_name
     [needed ''national_code'' TStr [MinLen 10, MaxLen 10],
      needed ''birth_date'' TStr [MinLen 8, MaxLen 10],
      optional ''first_name'' TStr [],
      optional ''last_name'' TStr [],
      optional ''full_name'' TStr [],
      optional ''father_name'' TStr []]"

definition IdentitySimilarityResponse :: mdecl where
  "IdentitySimilarityResponse = response_model ''IdentitySimilarityResponse''
     [optional ''first_name_similarity_percentage'' TInt [Ge 0, Le 100],
      optional ''last_name_similarity_percentage'' TInt [Ge 0, Le 100],
      optional ''full_name_similarity_percentage'' TInt [Ge 0, Le 100],
      optional ''father_name_similarity_percentage'' TInt [Ge 0, Le 100]]"

definition FlexibleInquiryResponse :: mdecl where
  "FlexibleInquiryResponse = response_model ''FlexibleInquiryResponse''
     [optional ''national_code'' TStr [],
      optional ''fida'' TStr [],
      optional ''code'' TStr [],
      optional ''registered'' TBool [],
      optional ''legal_identity_info'' TDict [],
      optional ''foreigner_identity_info'' TDict [],
      optional ''military_service_qualification_info'' TDict [],
      optional ''corporation_identity_info'' TDict [],
      optional ''cheque_info'' TDict []]"

definition IdenticatorBalance :: mdecl where
  "IdenticatorBalance = response_model ''IdenticatorBalance''
     [needed ''balance_type'' TStr [],
      needed ''amount'' TInt [],
      needed ''currency'' TStr []]"

definition BalancesResponse :: mdecl where
  "BalancesResponse = response_model ''BalancesResponse''
     [with_default ''balances'' (TList IdenticatorBalance) (PList []) []]"

definition DailyUsageReportResponse :: mdecl where
  "DailyUsageReportResponse = response_model ''DailyUsageReportResponse''
     [with_default ''report'' (TList TDict) (PList []) []]"

definition ServiceAvailabilityResponse :: mdecl where
  "ServiceAvailabilityResponse = response_model ''ServiceAvailabilityResponse''
     [with_default ''availability_report'' TDict (PDict []) []]"

definition IdenticatorHealthResponse :: mdecl where
  "IdenticatorHealthResponse = response_model ''IdenticatorHealthResponse''
     [needed ''outcome'' TStr [],
      with_default ''checks'' (TList TDict) (PList []) []]"

end
