(* ===== verification/Identicator.thy ===== *)
theory Identicator
  imports Identicator_Models
begin

text \<open>
  \<open>src/jibit/services/identicator/service.py\<close>: \<open>IdenticatorService\<close>, one definition per method.
\<close>

definition track_header :: "string option \<Rightarrow> string dict" where
  "track_header track_id = (case track_id of Some t \<Rightarrow> [(''X-TRACK-ID'', t)] | None \<Rightarrow> [])"

definition ide_get ::
  "'st facade \<Rightarrow> string \<Rightarrow> string \<Rightarrow> mdecl \<Rightarrow> pydict \<Rightarrow> string option \<Rightarrow> ('st, parsed_response) action" where
  "ide_get fc operation path model params track_id =
     typed_request fc ((service_options IDENTICATOR operation ''GET'' path READ_ONLY
       (Some (compact_values params)) PNone)\<lparr>ro_headers := track_header track_id\<rparr>)
       (lb_validate (fa_lib fc) model)"

definition inquire_deposit ::
  "'st facade \<Rightarrow> pyval \<Rightarrow> pyval \<Rightarrow> pyval \<Rightarrow> string option \<Rightarrow> ('st, parsed_response) action" where
  "inquire_deposit fc bank number include_iban track_id =
     ide_get fc ''inquire_deposit'' ''/ide/v1/deposits'' DepositInquiryResponse
       [(''bank'', bank), (''number'', number), (''iban'', include_iban)] track_id"

definition inquire_iban :: "'st facade \<Rightarrow> pyval \<Rightarrow> string option \<Rightarrow> ('st, parsed_response) action" where
  "inquire_iban fc value track_id =
     ide_get fc ''inquire_iban'' ''/ide/v1/ibans'' IbanInquiryResponse [(''value'', value)] track_id"

definition inquire_card ::
  "'st facade \<Rightarrow> pyval \<Rightarrow> bool \<Rightarrow> bool \<Rightarrow> bool \<Rightarrow> string option \<Rightarrow> ('st, parsed_response) action" where
  "inquire_card fc number include_deposit include_iban include_national_code track_id =
     (if of_bool include_deposit + of_bool include_iban + of_bool include_national_code > (1 :: int)
      then raiseM (request_validation_error (service_value IDENTICATOR) ''inquire_card'' ''GET''
        ''/ide/v1/cards'' ''At most one card conversion flag can be true'')
      else ide_get fc ''inquire_card'' ''/ide/v1/cards'' CardInquiryResponse
        [(''number'', number), (''deposit'', PBool include_deposit), (''iban'', PBool include_iban),
         (''nationalCode'', PBool include_national_code)] track_id)"

text \<open>The \<open>request or validate_request(...)\<close> of the two comparing operations.\<close>

definition ide_compare ::
  "'st facade \<Rightarrow> string \<Rightarrow> string \<Rightarrow> string \<Rightarrow> mdecl \<Rightarrow> mdecl \<Rightarrow> pydict option \<Rightarrow> string option \<Rightarrow> pydict
     \<Rightarrow> ('st, parsed_response) action" where
  "ide_compare fc operation path message request_decl response_decl request track_id values =
     (if request \<noteq> None \<and> values \<noteq> [] then
        raiseM (request_validation_error (service_value IDENTICATOR) operation ''POST'' path message)
      else bindM (case request of
          Some r \<Rightarrow> returnM r
        | None \<Rightarrow> liftM (validate_request (fa_lib fc) request_decl values (service_value IDENTICATOR)
            operation ''POST'' path)) (\<lambda>request.
        typed_request fc ((service_options IDENTICATOR operation ''POST'' path IDEMPOTENT None
          (PDict (to_payload (fa_lib fc) request_decl request)))\<lparr>ro_headers := track_header track_id\<rparr>)
          (lb_validate (fa_lib fc) response_decl)))"

definition match ::
  "'st facade \<Rightarrow> pydict option \<Rightarrow> string option \<Rightarrow> pydict \<Rightarrow> ('st, parsed_response) action" where
  "match fc request track_id identifiers =
     ide_compare fc ''match'' ''/ide/v1/services/matching''
       ''Provide request or identifier keywords, not both'' MatchingRequest MatchingResponse
       request track_id identifiers"

definition compare_identity_names ::
  "'st facade \<Rightarrow> pydict option \<Rightarrow> string option \<Rightarrow> pydict \<Rightarrow> ('st, parsed_response) action" where
  "compare_identity_names fc request track_id identity =
     ide_compare fc ''compare_identity_names'' ''/ide/v1/services/identity/similarity''
       ''Provide request or identity keywords, not both'' IdentitySimilarityRequest
       IdentitySimilarityResponse request track_id identity"

definition inquire_postal_address ::
  "'st facade \<Rightarrow> pyval \<Rightarrow> string option \<Rightarrow> ('st, parsed_response) action" where
  "inquire_postal_address fc code_v track_id = ide_get fc ''inquire_postal_address''
     ''/ide/v1/services/postal'' PostalResponse [(''code'', code_v)] track_id"

definition inquire_postal_coordinates ::
  "'st facade \<Rightarrow> pyval \<Rightarrow> string option \<Rightarrow> ('st, parsed_response) action" where
  "inquire_postal_coordinates fc code_v track_id = ide_get fc ''inquire_postal_coordinates''
     ''/ide/v1/services/postal/wgs'' WgsResponse [(''code'', code_v)] track_id"

definition inquire_identity ::
  "'st facade \<Rightarrow> pyval \<Rightarrow> pyval \<Rightarrow> pyval \<Rightarrow> pyval \<Rightarrow> string option \<Rightarrow> ('st, parsed_response) action" where
  "inquire_identity fc national_code birth_date complete_info without_photo track_id =
     ide_get fc ''inquire_identity'' ''/ide/v1/services/identity'' IdentityResponse
       [(''nationalCode'', national_code), (''birthDate'', birth_date),
        (''completeInfo'', complete_info), (''withoutPhoto'', without_photo)] track_id"

definition inquire_foreigner_identity ::
  "'st facade \<Rightarrow> pyval \<Rightarrow> string option \<Rightarrow> ('st, parsed_response) action" where
  "inquire_foreigner_identity fc fida track_id = ide_get fc ''inquire_foreigner_identity''
     ''/ide/v1/services/foreigners/identity'' FlexibleInquiryResponse [(''fida'', fida)] track_id"

definition inquire_legal_identity ::
  "'st facade \<Rightarrow> pyval \<Rightarrow> pyval \<Rightarrow> pyval \<Rightarrow> pyval \<Rightarrow> pyval \<Rightarrow> pyval \<Rightarrow> pyval \<Rightarrow> string option
     \<Rightarrow> ('st, parsed_response) action" where
  "inquire_legal_identity fc national_code sign_holders members news certificates company_children
       company_parents track_id =
     ide_get fc ''inquire_legal_identity'' ''/ide/v1/services/identity/legal'' FlexibleInquiryResponse
       [(''nationalCode'', national_code), (''signHolders'', sign_holders), (''members'', members),
        (''news'', news), (''certificates'', certificates), (''companyChildren'', company_children),
        (''companyParents'', company_parents)] track_id"

definition inquire_legal_sign_holders ::
  "'st facade \<Rightarrow> pyval \<Rightarrow> string option \<Rightarrow> ('st, parsed_response) action" where
  "inquire_legal_sign_holders fc national_code track_id = ide_get fc ''inquire_legal_sign_holders''
     ''/ide/v1/services/identity/legal/sign-holders'' FlexibleInquiryResponse
     [(''nationalCode'', national_code)] track_id"

definition inquire_military_qualification ::
  "'st facade \<Rightarrow> pyval \<Rightarrow> string option \<Rightarrow> ('st, parsed_response) action" where
  "inquire_military_qualification fc national_code track_id =
     ide_get fc ''inquire_military_qualification'' ''/ide/v1/services/social/msq''
       FlexibleInquiryResponse [(''nationalCode'', national_code)] track_id"

definition inquire_sana :: "'st facade \<Rightarrow> pyval \<Rightarrow> string option \<Rightarrow> ('st, parsed_response) action" where
  "inquire_sana fc national_code track_id = ide_get fc ''inquire_sana'' ''/ide/v1/services/social/sana''
     FlexibleInquiryResponse [(''nationalCode'', national_code)] track_id"

definition inquire_corporation ::
  "'st facade \<Rightarrow> pyval \<Rightarrow> string option \<Rightarrow> ('st, parsed_response) action" where
  "inquire_corporation fc code_v track_id = ide_get fc ''inquire_corporation''
     ''/ide/v1/services/corporation/identity'' FlexibleInquiryResponse [(''code'', code_v)] track_id"

definition inquire_cheque ::
  "'st facade \<Rightarrow> pyval \<Rightarrow> pyval \<Rightarrow> pyval \<Rightarrow> string option \<Rightarrow> ('st, parsed_response) action" where
  "inquire_cheque fc national_code sayad_id holder track_id =
     ide_get fc ''inquire_cheque'' ''/ide/v1/services/cheque/inquiry'' FlexibleInquiryResponse
       [(''nationalCode'', national_code), (''sayadId'', sayad_id), (''holder'', holder)] track_id"

definition ide_get_balances :: "'st facade \<Rightarrow> string option \<Rightarrow> ('st, parsed_response) action" where
  "ide_get_balances fc track_id =
     ide_get fc ''get_balances'' ''/ide/v1/balances'' BalancesResponse [] track_id"

definition ide_daily_usage_report :: "'st facade \<Rightarrow> pyval \<Rightarrow> ('st, parsed_response) action" where
  "ide_daily_usage_report fc year_month_day = ide_get fc ''get_daily_usage_report''
     ''/ide/v1/reports/daily'' DailyUsageReportResponse [(''yearMonthDay'', year_month_day)] None"

definition service_availability ::
  "'st facade \<Rightarrow> pyval \<Rightarrow> string option \<Rightarrow> ('st, parsed_response) action" where
  "service_availability fc card_to_iban track_id = ide_get fc ''service_availability''
     ''/ide/v1/services/availability'' ServiceAvailabilityResponse [(''cardToIBAN'', card_to_iban)]
     track_id"

definition ide_health :: "'st facade \<Rightarrow> ('st, parsed_response) action" where
  "ide_health fc = typed_request fc
     (service_options IDENTICATOR ''health'' ''GET'' ''/ide/health'' READ_ONLY None PNone)
     (lb_validate (fa_lib fc) IdenticatorHealthResponse)"

end
