(* ===== verification/Kyc_Models.thy ===== *)
theory Kyc_Models
  imports Services_Base
begin

text \<open>
  The enumerations and data models of KYC, declared field by field
  (\<open>src/jibit/services/kyc/models.py\<close>).
\<close>

section \<open>The string form of a response\<close>

text \<open>\<open>KycResponse.normalize_string_contract\<close>: a text is decoded once more.\<close>

definition normalize_string_contract :: "env \<Rightarrow> pyval \<Rightarrow> exn + pyval" where
  "normalize_string_contract e v = (case v of
       PStr s \<Rightarrow> (case e_json_loads e s of
           Inl x \<Rightarrow> if x = JSONDecodeError then Inr (PDict [(''data'', v)]) else Inl x
         | Inr (PDict d) \<Rightarrow> Inr (PDict d)
         | Inr decoded \<Rightarrow> Inr (PDict [(''data'', decoded)]))
     | _ \<Rightarrow> Inr v)"

section \<open>Models\<close>

definition KycResponse :: mdecl where
  "KycResponse = response_model ''KycResponse''
     [optional ''error_code'' (TUnion TStr TInt) [],
      optional ''error_message'' TStr [],
      optional ''data'' (TUnion (TUnion TDict (TList TAny)) TStr) []]"

definition OcrData :: mdecl where
  "OcrData = response_model ''OcrData''
     [optional ''message'' TStr [],
      optional ''best_accuracy'' TFloat [],
      optional ''id_num'' TStr [],
      optional ''name'' TStr [],
      optional ''family_name'' TStr [],
      optional ''birth_date'' TStr [],
      optional ''father_name'' TStr [],
      optional ''expiration_date'' TStr []]"

definition ChequeOcrData :: mdecl where
  "ChequeOcrData = response_model ''ChequeOcrData''
     [optional ''best_accuracy'' TFloat [],
      optional ''cheque_number'' TStr []]"

definition FaceVerificationData :: mdecl where
  "FaceVerificationData = response_model ''FaceVerificationData''
     [optional ''status'' TBool [],
      optional ''verification_result'' TDict [],
      optional ''liveness_result'' TDict []]"

definition VoiceVerificationData :: mdecl where
  "VoiceVerificationData = response_model ''VoiceVerificationData''
     [optional ''state'' TBool [],
      optional ''similarity'' TFloat [],
      optional ''distance'' TFloat [],
      optional ''duration'' (TUnion TStr TFloat) []]"

definition BiometricThresholds :: mdecl where
  "BiometricThresholds = response_model ''BiometricThresholds''
     [optional ''verification_threshold'' TFloat [Ge 0],
      optional ''liveness_threshold'' TFloat [Ge 0],
      optional ''asr_threshold'' TFloat [Ge 0]]"

end
