(* ===== verification/Kyc.thy ===== *)
theory Kyc
  imports Kyc_Models
begin

text \<open>
  \<open>src/jibit/services/kyc/service.py\<close> and the upload type of \<open>kyc/models.py\<close>: \<open>KycService\<close>, one
  definition per method.
\<close>

section \<open>Media files\<close>

record media_file =
  md_content :: string
  md_filename :: string
  md_content_type :: string

text \<open>\<open>MediaFile.__init__\<close>.\<close>

definition make_media_file :: "string \<Rightarrow> string \<Rightarrow> string \<Rightarrow> exn + media_file" where
  "make_media_file content filename content_type =
     (if content = [] then Inl (raise_jibit JibitValidationError ''Media content must not be empty'')
      else if filename = [] then Inl (raise_jibit JibitValidationError ''Media filename must not be empty'')
      else if content_type = []
      then Inl (raise_jibit JibitValidationError ''Media content_type must not be empty'')
      else Inr \<lparr>md_content = content, md_filename = filename, md_content_type = content_type\<rparr>)"

definition media_repr :: "(string \<Rightarrow> string) \<Rightarrow> media_file \<Rightarrow> string" where
  "media_repr quote m = ''MediaFile(content_type='' @ quote (md_content_type m) @ '', content_length=''
     @ show_nat (length (md_content m)) @ '')''"

definition MAX_IMAGE_BYTES :: nat where "MAX_IMAGE_BYTES = 10 * 1024 * 1024"
definition MAX_OCR_BYTES :: nat where "MAX_OCR_BYTES = 4 * 1024 * 1024"
definition MAX_VIDEO_BYTES :: nat where "MAX_VIDEO_BYTES = 40 * 1024 * 1024"

section \<open>Local checks\<close>

definition kyc_invalid :: "string \<Rightarrow> string \<Rightarrow> string \<Rightarrow> exn" where
  "kyc_invalid operation path message = Jibit (make_error JibitValidationError (Some message)
     (Some (local_context (service_value KYC) operation ''POST'' path)))"

definition validate_media ::
  "media_file \<Rightarrow> nat \<Rightarrow> string list \<Rightarrow> string \<Rightarrow> string \<Rightarrow> ('st, unit) action" where
  "validate_media media limit kinds operation path =
     (if limit < length (md_content media) then
        raiseM (kyc_invalid operation path
          (''media exceeds the documented '' @ show_nat limit @ '' byte limit''))
      else if \<not> list_ex (\<lambda>p. prefix p (md_content_type media)) kinds then
        raiseM (kyc_invalid operation path ''media content_type is not supported for this operation'')
      else returnM ())"

definition ten_digits :: "string \<Rightarrow> bool" where
  "ten_digits s \<longleftrightarrow> length s = 10 \<and> py_isdigit s"

section \<open>Multipart bodies\<close>

definition field_part :: "(pyval \<Rightarrow> string) \<Rightarrow> string \<Rightarrow> pyval \<Rightarrow> multipart_part" where
  "field_part rep name v = \<lparr>mp_name = name, mp_kind = FIELD,
     mp_value = (case v of PBool _ \<Rightarrow> str_lower (py_str rep v) | _ \<Rightarrow> py_str rep v),
     mp_filename = None, mp_content_type = None\<rparr>"

definition kyc_fields :: "(pyval \<Rightarrow> string) \<Rightarrow> pydict \<Rightarrow> multipart_part list" where
  "kyc_fields rep values =
     map (\<lambda>(name, v). field_part rep name v) (filter (\<lambda>(name, v). v \<noteq> PNone) values)"

definition kyc_file :: "string \<Rightarrow> media_file \<Rightarrow> multipart_part" where
  "kyc_file name media = \<lparr>mp_name = name, mp_kind = FILE, mp_value = md_content media,
     mp_filename = Some (md_filename media), mp_content_type = Some (md_content_type media)\<rparr>"

text \<open>The response model's \<open>before\<close> validator runs inside validation, where a \<open>ValueError\<close> is a
  \<open>ValidationError\<close>.\<close>

definition kyc_model_validate :: "'st facade \<Rightarrow> pyval \<Rightarrow> exn + pyval" where
  "kyc_model_validate fc v = (case normalize_string_contract (fa_env fc) v of
       Inl x \<Rightarrow> Inl (if is_value_error x then ValidationError else x)
     | Inr v \<Rightarrow> lb_validate (fa_lib fc) KycResponse v)"

definition kyc_execute ::
  "'st facade \<Rightarrow> string \<Rightarrow> string \<Rightarrow> multipart_part list \<Rightarrow> ('st, parsed_response) action" where
  "kyc_execute fc operation path parts = typed_request fc
     ((request_options KYC operation ''POST'' path UNSAFE)\<lparr>ro_multipart := Some parts\<rparr>)
     (kyc_model_validate fc)"

definition kyc_post ::
  "'st facade \<Rightarrow> string \<Rightarrow> string \<Rightarrow> pydict \<Rightarrow> string \<Rightarrow> media_file \<Rightarrow> ('st, parsed_response) action" where
  "kyc_post fc operation path values file_name media =
     kyc_execute fc operation path (kyc_fields (e_repr (fa_env fc)) values @ [kyc_file file_name media])"

section \<open>Operations\<close>

definition verify_video ::
  "'st facade \<Rightarrow> string \<Rightarrow> media_file \<Rightarrow> string \<Rightarrow> string option \<Rightarrow> string option \<Rightarrow> string option
     \<Rightarrow> int option \<Rightarrow> rat option \<Rightarrow> rat option \<Rightarrow> rat option \<Rightarrow> bool option
     \<Rightarrow> ('st, parsed_response) action" where
  "verify_video fc national_id video line birth_date national_card_serial spec_words
       max_accepted_dist asr_threshold liveness_threshold verification_threshold check_liveness =
     (if (case max_accepted_dist of None \<Rightarrow> False | Some n \<Rightarrow> \<not> (1 \<le> n \<and> n \<le> 10)) then
        raiseM (kyc_invalid ''verify_video'' ''/alpha/v2/kyc'' ''max_accepted_dist must be between 1 and 10'')
      else if \<not> ten_digits national_id then
        raiseM (kyc_invalid ''verify_video'' ''/alpha/v2/kyc'' ''national_id must contain 10 digits'')
      else if line = [] then
        raiseM (kyc_invalid ''verify_video'' ''/alpha/v2/kyc'' ''line must not be empty'')
      else thenM (validate_media video MAX_VIDEO_BYTES [''video/''] ''verify_video'' ''/alpha/v2/kyc'')
        (kyc_post fc ''verify_video'' ''/alpha/v2/kyc''
          [(''national_id'', PStr national_id), (''line'', PStr line),
           (''birth_date'', opt_str birth_date), (''national_card_serial'', opt_str national_card_serial),
           (''spec_words'', opt_str spec_words), (''max_accepted_dist'', opt_int max_accepted_dist),
           (''asr_threshold'', opt_float asr_threshold),
           (''liveness_threshold'', opt_float liveness_threshold),
           (''verification_threshold'', opt_float verification_threshold),
           (''check_liveness'', opt_bool check_liveness)] ''video_file'' video))"

definition verify_photo ::
  "'st facade \<Rightarrow> string \<Rightarrow> media_file \<Rightarrow> string option \<Rightarrow> string option \<Rightarrow> media_file option
     \<Rightarrow> rat option \<Rightarrow> rat option \<Rightarrow> ('st, parsed_response) action" where
  "verify_photo fc national_id live_face birth_date serial reference_face liveness_threshold
       verification_threshold =
     (if \<not> ten_digits national_id then
        raiseM (kyc_invalid ''verify_photo'' ''/alpha/v2/authorization'' ''national_id must contain 10 digits'')
      else thenM (validate_media live_face MAX_IMAGE_BYTES [''image/''] ''verify_photo''
          ''/alpha/v2/authorization'')
        (thenM (case reference_face of
            None \<Rightarrow> returnM ()
          | Some m \<Rightarrow> validate_media m MAX_IMAGE_BYTES [''image/''] ''verify_photo''
              ''/alpha/v2/authorization'')
        (kyc_execute fc ''verify_photo'' ''/alpha/v2/authorization''
          (kyc_fields (e_repr (fa_env fc))
             [(''ssn'', PStr national_id), (''birth_date'', opt_str birth_date),
              (''serial'', opt_str serial), (''liveness_threshold'', opt_float liveness_threshold),
              (''verification_threshold'', opt_float verification_threshold)]
           @ [kyc_file ''live_face'' live_face]
           @ (case reference_face of None \<Rightarrow> [] | Some m \<Rightarrow> [kyc_file ''api_face'' m])))))"

definition ocr_national_card ::
  "'st facade \<Rightarrow> media_file \<Rightarrow> bool option \<Rightarrow> bool option \<Rightarrow> ('st, parsed_response) action" where
  "ocr_national_card fc picture is_back try_rotate =
     thenM (validate_media picture MAX_OCR_BYTES [''image/''] ''ocr_national_card'' ''/alpha/ocr'')
       (kyc_post fc ''ocr_national_card'' ''/alpha/ocr''
         [(''is_back'', opt_bool is_back), (''try_rotate'', opt_bool try_rotate)] ''file'' picture)"

definition ocr_cheque :: "'st facade \<Rightarrow> media_file \<Rightarrow> ('st, parsed_response) action" where
  "ocr_cheque fc picture =
     thenM (validate_media picture MAX_OCR_BYTES [''image/''] ''ocr_cheque'' ''/alpha/cheque'')
       (kyc_post fc ''ocr_cheque'' ''/alpha/cheque'' [] ''file'' picture)"

definition ocr_bank_card :: "'st facade \<Rightarrow> media_file \<Rightarrow> ('st, parsed_response) action" where
  "ocr_bank_card fc picture =
     thenM (validate_media picture MAX_OCR_BYTES [''image/''] ''ocr_bank_card'' ''/alpha/bank/card'')
       (kyc_post fc ''ocr_bank_card'' ''/alpha/bank/card'' [] ''file'' picture)"

end
