(* ===== verification/Sms_Models.thy ===== *)
theory Sms_Models
  imports Services_Base
begin

text \<open>
  The enumerations and data models of Pulse SMS, declared field by field
  (\<open>src/jibit/services/sms/models.py\<close>, \<open>src/jibit/services/sms/service.py\<close>).
\<close>

section \<open>Cross-field validators\<close>

definition require_message_source :: "pydict \<Rightarrow> exn option" where
  "require_message_source d =
     (if (pyget d ''message'' = PNone) = (pyget d ''predefined_message_id'' = PNone)
      then Some ValueError else None)"

definition validate_range :: "lib \<Rightarrow> pydict \<Rightarrow> exn option" where
  "validate_range L d =
     (case datetime_less (lb_datetime L (pyget d ''to_date'')) (lb_datetime L (pyget d ''from_date'')) of
        Inl x \<Rightarrow> Some x
      | Inr reversed \<Rightarrow> if reversed then Some ValueError else None)"

definition redacted_params :: "string dict \<Rightarrow> pydict" where
  "redacted_params params = map (\<lambda>(k, v). (k, PStr ''[REDACTED]'')) params"

section \<open>Models\<close>

definition SimpleSmsRequest :: mdecl where
  "SimpleSmsRequest = request_model ''SimpleSmsRequest''
     [aliased ''receptor'' (needed ''receptor'' TStr [MinLen 10, MaxLen 20]),
      aliased ''message'' (needed ''message'' TStr [MinLen 1, MaxLen 2000]),
      aliased ''sender'' (optional ''sender'' TStr [MinLen 1, MaxLen 50]),
      aliased ''client_message_id'' (optional ''client_message_id'' TStr [MinLen 1, MaxLen 100])]"

definition PatternSmsRequest :: mdecl where
  "PatternSmsRequest = request_model ''PatternSmsRequest''
     [aliased ''receptor'' (needed ''receptor'' TStr [MinLen 10, MaxLen 20]),
      aliased ''template'' (needed ''template'' TStr [MinLen 1, MaxLen 100]),
      aliased ''params'' (with_default ''params'' (TMap TStr) (PDict []) []),
      aliased ''sender'' (optional ''sender'' TStr [MinLen 1, MaxLen 50]),
      aliased ''client_message_id'' (optional ''client_message_id'' TStr [MinLen 1, MaxLen 100])]"

definition SmsOrder :: mdecl where
  "SmsOrder = response_model ''SmsOrder''
     [optional ''message_id'' (TUnion TUuid TStr) [],
      optional ''message'' TStr [],
      optional ''status'' TStr [],
      optional ''status_text'' TStr [],
      optional ''segment_count'' TInt [],
      optional ''sender'' TStr [],
      optional ''receptor'' TStr []]"

definition SmsOrderResult :: mdecl where
  "SmsOrderResult = response_model ''SmsOrderResult''
     [with_default ''sms_orders'' (TList SmsOrder) (PList []) []]"

definition PatternSmsResult :: mdecl where
  "PatternSmsResult = response_model ''PatternSmsResult''
     [optional ''message_id'' (TUnion TUuid TStr) [],
      optional ''message'' TStr [],
      optional ''status'' TStr [],
      optional ''status_text'' TStr [],
      optional ''segment_count'' TInt [],
      optional ''sender'' TStr [],
      optional ''receptor'' TStr []]"

definition SmsStatusResult :: mdecl where
  "SmsStatusResult = response_model ''SmsStatusResult''
     [optional ''message_id'' TStr [],
      optional ''status'' TStr [],
      optional ''status_text'' TStr []]"

definition CreateBulkRequest :: mdecl where
  "CreateBulkRequest = request_model_with ''CreateBulkRequest'' require_message_source
     [aliased ''bulk_name'' (needed ''bulk_name'' TStr [MinLen 1, MaxLen 200]),
      aliased ''sender'' (needed ''sender'' TStr [MinLen 1, MaxLen 50]),
      aliased ''receptors'' (needed ''receptors'' (TTuple TStr) [MinLen 1, MaxLen 1000]),
      aliased ''message'' (optional ''message'' TStr [MaxLen 2000]),
      aliased ''predefined_message_id'' (optional ''predefined_message_id'' TUuid []),
      aliased ''client_bulk_reference'' (optional ''client_bulk_reference'' TStr [MaxLen 100])]"

definition BulkResult :: mdecl where
  "BulkResult = response_model ''BulkResult''
     [optional ''bulk_id'' (TUnion TUuid TStr) [],
      optional ''bulk_name'' TStr [],
      optional ''client_bulk_reference'' TStr [],
      optional ''message'' TStr [],
      optional ''sender'' TStr [],
      optional ''status'' TStr [],
      optional ''status_text'' TStr [],
      optional ''total_recipients'' TInt [],
      optional ''scheduled_time'' TDatetime [],
      optional ''created_on'' TDatetime [],
      with_default ''sms_list'' (TList SmsOrder) (PList []) [],
      optional ''page'' TInt [],
      optional ''page_size'' TInt [],
      optional ''total_elements'' TInt [],
      optional ''has_next'' TBool []]"

definition InboundMessage :: mdecl where
  "InboundMessage = response_model ''InboundMessage''
     [optional ''id'' (TUnion TUuid TStr) [],
      optional ''sender'' TStr [],
      optional ''receptor'' TStr [],
      optional ''message'' TStr [],
      optional ''received_date_time'' TDatetime []]"

definition InboundMessageResult :: mdecl where
  "InboundMessageResult = response_model ''InboundMessageResult''
     [with_default ''result'' (TList InboundMessage) (PList []) []]"

definition InboundQuery :: "lib \<Rightarrow> mdecl" where
  "InboundQuery L = request_model_with ''_InboundQuery'' (validate_range L)
     [aliased ''from_date'' (needed ''from_date'' TDatetime []),
      aliased ''to_date'' (needed ''to_date'' TDatetime []),
      aliased ''page'' (with_default ''page'' TInt (PInt 0) [Ge 0])]"

definition Page :: mdecl where
  "Page = request_model ''_Page''
     [aliased ''page'' (with_default ''page'' TInt (PInt 0) [Ge 0]),
      aliased ''page_size'' (with_default ''page_size'' TInt (PInt 20) [Ge 1, Le 1000])]"

definition UUIDValue :: mdecl where
  "UUIDValue = request_model ''_UUIDValue''
     [needed ''value'' TUuid []]"

definition Reference :: mdecl where
  "Reference = request_model ''_Reference''
     [needed ''value'' TStr [MinLen 1, MaxLen 200, Pattern pat_reference]]"

end
