(* ===== verification/Sms.thy ===== *)
theory Sms
  imports Sms_Models
begin

text \<open>
  \<open>src/jibit/services/sms/service.py\<close>: \<open>PulseSmsService\<close>, one definition per method. The dict
  \<open>locals()\<close> of a sending method holds its keyword arguments (and \<open>self\<close>, which is dropped).
\<close>

definition SMS_PREFIX :: string where
  "SMS_PREFIX = ''/pulse/api/v1/message/sms''"

definition sms_validate ::
  "'st facade \<Rightarrow> mdecl \<Rightarrow> pydict \<Rightarrow> string \<Rightarrow> string \<Rightarrow> string \<Rightarrow> ('st, pydict) action" where
  "sms_validate fc model values operation method path = liftM
     (validate_request (fa_lib fc) model (dict_del ''self'' values) (service_value SMS) operation
        method path)"

definition sms_typed ::
  "'st facade \<Rightarrow> string \<Rightarrow> string \<Rightarrow> string \<Rightarrow> operation_safety \<Rightarrow> mdecl
     \<Rightarrow> pydict option \<Rightarrow> pyval \<Rightarrow> ('st, parsed_response) action" where
  "sms_typed fc operation method path safety model params json =
     typed_request fc (service_options SMS operation method path safety params json)
       (lb_validate (fa_lib fc) model)"

definition sms_uuid :: "'st facade \<Rightarrow> pyval \<Rightarrow> string \<Rightarrow> ('st, string) action" where
  "sms_uuid fc value operation =
     bindM (sms_validate fc UUIDValue [(''value'', value)] operation ''GET'' SMS_PREFIX) (\<lambda>request.
     returnM (py_str (e_repr (fa_env fc)) (pyget request ''value'')))"

definition sms_reference :: "'st facade \<Rightarrow> pyval \<Rightarrow> string \<Rightarrow> ('st, string) action" where
  "sms_reference fc value operation =
     bindM (sms_validate fc Reference [(''value'', value)] operation ''GET'' SMS_PREFIX) (\<lambda>request.
     returnM (py_str (e_repr (fa_env fc)) (pyget request ''value'')))"

definition sms_send ::
  "'st facade \<Rightarrow> pyval \<Rightarrow> pyval \<Rightarrow> pyval \<Rightarrow> pyval \<Rightarrow> ('st, parsed_response) action" where
  "sms_send fc receptor message sender client_message_id =
     bindM (sms_validate fc SimpleSmsRequest
       [(''self'', PObj ''''), (''receptor'', receptor), (''message'', message), (''sender'', sender),
        (''client_message_id'', client_message_id)] ''send'' ''POST'' (SMS_PREFIX @ ''/send'')) (\<lambda>request.
     sms_typed fc ''send'' ''POST'' (SMS_PREFIX @ ''/send'') UNSAFE SmsOrderResult None
       (PDict (to_payload (fa_lib fc) SimpleSmsRequest request)))"

definition send_pattern ::
  "'st facade \<Rightarrow> pyval \<Rightarrow> pyval \<Rightarrow> pyval \<Rightarrow> pyval \<Rightarrow> pyval \<Rightarrow> ('st, parsed_response) action" where
  "send_pattern fc receptor template params sender client_message_id =
     bindM (sms_validate fc PatternSmsRequest
       [(''self'', PObj ''''), (''receptor'', receptor), (''template'', template), (''params'', params),
        (''sender'', sender), (''client_message_id'', client_message_id)]
       ''send_pattern'' ''POST'' (SMS_PREFIX @ ''/pattern/send'')) (\<lambda>request.
     sms_typed fc ''send_pattern'' ''POST'' (SMS_PREFIX @ ''/pattern/send'') UNSAFE PatternSmsResult None
       (PDict (to_payload (fa_lib fc) PatternSmsRequest request)))"

definition create_bulk ::
  "'st facade \<Rightarrow> pyval \<Rightarrow> pyval \<Rightarrow> pyval \<Rightarrow> pyval \<Rightarrow> pyval \<Rightarrow> pyval \<Rightarrow> ('st, parsed_response) action" where
  "create_bulk fc bulk_name sender receptors message predefined_message_id client_bulk_reference =
     bindM (sms_validate fc CreateBulkRequest
       [(''self'', PObj ''''), (''bulk_name'', bulk_name), (''sender'', sender),
        (''receptors'', receptors), (''message'', message),
        (''predefined_message_id'', predefined_message_id),
        (''client_bulk_reference'', client_bulk_reference)]
       ''create_bulk'' ''POST'' (SMS_PREFIX @ ''/bulk'')) (\<lambda>request.
     sms_typed fc ''create_bulk'' ''POST'' (SMS_PREFIX @ ''/bulk'') UNSAFE BulkResult None
       (PDict (to_payload (fa_lib fc) CreateBulkRequest request)))"

definition sms_get_status :: "'st facade \<Rightarrow> pyval \<Rightarrow> ('st, parsed_response) action" where
  "sms_get_status fc message_id =
     bindM (sms_uuid fc message_id ''get_status'') (\<lambda>message_uuid.
     sms_typed fc ''get_status'' ''GET'' (SMS_PREFIX @ ''/status/'' @ message_uuid) READ_ONLY
       SmsStatusResult None PNone)"

definition get_status_by_client_id :: "'st facade \<Rightarrow> pyval \<Rightarrow> ('st, parsed_response) action" where
  "get_status_by_client_id fc client_message_id =
     bindM (sms_reference fc client_message_id ''get_status_by_client_id'') (\<lambda>reference.
     sms_typed fc ''get_status_by_client_id'' ''GET''
       (SMS_PREFIX @ ''/status/client-message-id/'' @ reference) READ_ONLY SmsStatusResult None PNone)"

definition get_bulk :: "'st facade \<Rightarrow> pyval \<Rightarrow> pyval \<Rightarrow> pyval \<Rightarrow> ('st, parsed_response) action" where
  "get_bulk fc bulk_id page page_size =
     bindM (sms_uuid fc bulk_id ''get_bulk'') (\<lambda>bulk_uuid.
     bindM (sms_validate fc Page [(''page'', page), (''page_size'', page_size)] ''get_bulk'' ''GET''
       (SMS_PREFIX @ ''/bulk/'' @ bulk_uuid)) (\<lambda>pagination.
     sms_typed fc ''get_bulk'' ''GET'' (SMS_PREFIX @ ''/bulk/'' @ bulk_uuid) READ_ONLY BulkResult
       (Some (to_query (fa_lib fc) Page pagination)) PNone))"

definition fetch_inbound :: "'st facade \<Rightarrow> pyval \<Rightarrow> pyval \<Rightarrow> pyval \<Rightarrow> ('st, parsed_response) action" where
  "fetch_inbound fc from_date to_date page =
     bindM (sms_validate fc (InboundQuery (fa_lib fc))
       [(''from_date'', from_date), (''to_date'', to_date), (''page'', page)] ''fetch_inbound'' ''GET''
       (SMS_PREFIX @ ''/mo-messages'')) (\<lambda>query.
     sms_typed fc ''fetch_inbound'' ''GET'' (SMS_PREFIX @ ''/mo-messages'') READ_ONLY InboundMessageResult
       (Some (to_query (fa_lib fc) (InboundQuery (fa_lib fc)) query)) PNone)"

end
