(* ===== verification/Contracts_Models.thy ===== *)
theory Contracts_Models
  imports Services_Base
begin

text \<open>
  The enumerations and data models of contracts, declared field by field
  (\<open>src/jibit/services/contracts/models.py\<close>, \<open>src/jibit/services/contracts/service.py\<close>).
\<close>

section \<open>Cross-field validators\<close>

definition validate_legal_dependency :: "pydict \<Rightarrow> exn option" where
  "validate_legal_dependency d =
     (if (pyget d ''dependent_legal_national_code'' = PNone) \<noteq> (pyget d ''dependent_legal_name'' = PNone)
      then Some ValueError else None)"

text \<open>The field validator of \<open>base64_file\<close>.\<close>

definition require_valid_pdf :: "pyval \<Rightarrow> bool" where
  "require_valid_pdf v = (case v of
       PStr s \<Rightarrow> (case b64decode_strict s of None \<Rightarrow> False | Some bs \<Rightarrow> prefix ''%PDF-'' bs)
     | _ \<Rightarrow> False)"

section \<open>Models\<close>

definition ContractStatus :: "string list" where
  "ContractStatus =
     [''NOT_SIGNED'', ''SIGNED_BY_ALL_SIGNERS'', ''SUSPENDED_WAITING_FOR_BALANCE'', ''CANCELLED'', ''EXPIRED'', ''REJECTED'']"

definition Signer :: mdecl where
  "Signer = request_model_with ''Signer'' validate_legal_dependency
     [needed ''national_code'' TStr [Pattern (pat_digits_n 10)],
      needed ''birth_date'' TStr [MinLen 1],
      optional ''mobile_number'' TStr [],
      optional ''priority'' TInt [Ge 0],
      optional ''x1'' TInt [Ge 0],
      optional ''x2'' TInt [Ge 0],
      optional ''y1'' TInt [Ge 0],
      optional ''y2'' TInt [Ge 0],
      optional ''page_sign_selection'' TStr [],
      optional ''dependent_legal_national_code'' TStr [],
      optional ''dependent_legal_name'' TStr []]"

definition InitiateContractRequest :: mdecl where
  "InitiateContractRequest = request_model ''InitiateContractRequest''
     [needed ''track_id'' TStr [MinLen 1, MaxLen 200, Pattern pat_track_id],
      needed ''base64_file'' TStr [MinLen 1, MaxLen 14000000, Check require_valid_pdf],
      needed ''redirect_url'' THttpUrl [],
      needed ''signers'' (TTuple Signer) [MinLen 1, MaxLen 10],
      optional ''expire_at'' TDatetime [],
      optional ''description'' TStr [MaxLen 1000],
      optional ''signature_appearance'' TStr []]"

definition ContractSummary :: mdecl where
  "ContractSummary = response_model ''ContractSummary''
     [optional ''id'' TInt [],
      optional ''track_id'' TStr [],
      optional ''short_track_id'' TStr [],
      optional ''status'' (TEnum ContractStatus) [],
      optional ''receipt_code'' TStr [],
      optional ''initiator'' TStr [],
      optional ''expire_at'' TDatetime [],
      optional ''redirect_url'' TStr [],
      optional ''signature_appearance'' TStr [],
      optional ''description'' TStr [],
      optional ''created_at'' TDatetime [],
      optional ''updated_at'' TDatetime [],
      optional ''version'' TInt []]"

definition InitiateContractResult :: mdecl where
  "InitiateContractResult = response_model ''InitiateContractResult''
     [optional ''link'' TStr [],
      optional ''contract'' ContractSummary []]"

definition ContractResult :: mdecl where
  "ContractResult = response_model ''ContractResult''
     [optional ''id'' TInt [],
      optional ''track_id'' TStr [],
      optional ''short_track_id'' TStr [],
      optional ''status'' (TEnum ContractStatus) [],
      optional ''receipt_code'' TStr [],
      optional ''initiator'' TStr [],
      optional ''expire_at'' TDatetime [],
      optional ''redirect_url'' TStr [],
      optional ''signature_appearance'' TStr [],
      optional ''description'' TStr [],
      optional ''created_at'' TDatetime [],
      optional ''updated_at'' TDatetime [],
      optional ''version'' TInt [],
      with_default ''signs'' (TList TDict) (PList []) []]"

definition SignedDocument :: mdecl where
  "SignedDocument = response_model ''SignedDocument''
     [needed ''content'' TBytes [],
      optional ''content_type'' TStr [],
      optional ''filename'' TStr []]"

definition RealIp :: mdecl where
  "RealIp = request_model ''RealIp''
     [needed ''value'' TIp []]"

definition TrackId :: mdecl where
  "TrackId = request_model ''_TrackId''
     [needed ''value'' TStr [MinLen 1, MaxLen 200, Pattern pat_track_id]]"

end
