(* ===== verification/Contracts.thy ===== *)
theory Contracts
  imports Contracts_Models
begin

text \<open>
  \<open>src/jibit/services/contracts/service.py\<close> and the provider payloads of \<open>contracts/models.py\<close>:
  \<open>ContractService\<close>, one definition per method.
\<close>

definition CONTRACTS_PATH :: string where
  "CONTRACTS_PATH = ''/mzahub/v1/contracts''"

section \<open>Provider payloads\<close>

definition signer_provider_payload :: "lib \<Rightarrow> pydict \<Rightarrow> pyval" where
  "signer_provider_payload L signer =
     (let natural = to_payload L Signer signer;
          code_v = pyget natural ''dependentLegalNationalCode'';
          name_v = pyget natural ''dependentLegalName'';
          natural = dict_del ''dependentLegalName'' (dict_del ''dependentLegalNationalCode'' natural)
      in PDict ([(''naturalSigner'', PDict natural)]
           @ (if code_v \<noteq> PNone \<and> name_v \<noteq> PNone
              then [(''dependentTo'', PDict [(''nationalCode'', code_v), (''legalName'', name_v)])]
              else [])))"

definition contract_provider_payload :: "lib \<Rightarrow> pydict \<Rightarrow> pydict" where
  "contract_provider_payload L d =
     dict_set ''signers'' (PList (case pyget d ''signers'' of
         PTuple signers \<Rightarrow> map (\<lambda>s. signer_provider_payload L (fields_of s)) signers | _ \<Rightarrow> []))
       (to_payload L InitiateContractRequest d)"

section \<open>Operations\<close>

definition contracts_validate ::
  "'st facade \<Rightarrow> mdecl \<Rightarrow> pydict \<Rightarrow> string \<Rightarrow> string \<Rightarrow> string \<Rightarrow> ('st, pydict) action" where
  "contracts_validate fc model values operation method path = liftM
     (validate_request (fa_lib fc) model values (service_value CONTRACTS) operation method path)"

definition contracts_real_ip :: "'st facade \<Rightarrow> pyval \<Rightarrow> string \<Rightarrow> ('st, string) action" where
  "contracts_real_ip fc value operation =
     bindM (contracts_validate fc RealIp [(''value'', value)] operation ''POST'' CONTRACTS_PATH) (\<lambda>request.
     returnM (py_str (e_repr (fa_env fc)) (pyget request ''value'')))"

definition contracts_track_id :: "'st facade \<Rightarrow> pyval \<Rightarrow> string \<Rightarrow> ('st, pyval) action" where
  "contracts_track_id fc value operation =
     bindM (contracts_validate fc TrackId [(''value'', value)] operation ''GET'' CONTRACTS_PATH) (\<lambda>request.
     returnM (pyget request ''value''))"

definition contracts_options ::
  "string \<Rightarrow> string \<Rightarrow> string \<Rightarrow> operation_safety \<Rightarrow> string \<Rightarrow> pydict option \<Rightarrow> pyval \<Rightarrow> request_options" where
  "contracts_options operation method path safety ip params json =
     (service_options CONTRACTS operation method path safety params json)
       \<lparr>ro_headers := [(''X-REAL-IP'', ip)]\<rparr>"

definition contracts_typed ::
  "'st facade \<Rightarrow> string \<Rightarrow> string \<Rightarrow> string \<Rightarrow> operation_safety \<Rightarrow> mdecl \<Rightarrow> pyval
     \<Rightarrow> pydict option \<Rightarrow> pyval \<Rightarrow> ('st, parsed_response) action" where
  "contracts_typed fc operation method path safety model real_ip params json =
     bindM (contracts_real_ip fc real_ip operation) (\<lambda>ip.
     typed_request fc (contracts_options operation method path safety ip params json)
       (lb_validate (fa_lib fc) model))"

definition contracts_initiate ::
  "'st facade \<Rightarrow> pyval \<Rightarrow> string \<Rightarrow> pyval \<Rightarrow> pyval \<Rightarrow> pyval \<Rightarrow> pyval \<Rightarrow> pyval \<Rightarrow> pyval
     \<Rightarrow> ('st, parsed_response) action" where
  "contracts_initiate fc track_id pdf redirect_url signers real_ip expire_at description
       signature_appearance =
     bindM (contracts_validate fc InitiateContractRequest
       [(''track_id'', track_id), (''base64_file'', PStr (b64encode pdf)),
        (''redirect_url'', redirect_url), (''signers'', signers), (''expire_at'', expire_at),
        (''description'', description), (''signature_appearance'', signature_appearance)]
       ''initiate'' ''POST'' CONTRACTS_PATH) (\<lambda>request.
     contracts_typed fc ''initiate'' ''POST'' CONTRACTS_PATH UNSAFE InitiateContractResult real_ip None
       (PDict (contract_provider_payload (fa_lib fc) request)))"

definition contracts_inquire :: "'st facade \<Rightarrow> pyval \<Rightarrow> pyval \<Rightarrow> ('st, parsed_response) action" where
  "contracts_inquire fc track_id real_ip =
     bindM (contracts_track_id fc track_id ''inquire'') (\<lambda>track_id.
     contracts_typed fc ''inquire'' ''GET'' CONTRACTS_PATH READ_ONLY ContractResult real_ip
       (Some [(''trackId'', track_id)]) PNone)"

definition contracts_cancel :: "'st facade \<Rightarrow> pyval \<Rightarrow> pyval \<Rightarrow> ('st, parsed_response) action" where
  "contracts_cancel fc track_id real_ip =
     bindM (contracts_track_id fc track_id ''cancel'') (\<lambda>track_id.
     contracts_typed fc ''cancel'' ''POST'' (CONTRACTS_PATH @ ''/cancel'') UNSAFE ContractSummary real_ip
       (Some [(''trackId'', track_id)]) PNone)"

text \<open>The first header named \<open>content-type\<close> in any case.\<close>

definition content_type_header :: "string dict \<Rightarrow> string option" where
  "content_type_header hs = map_option snd (find (\<lambda>(k, v). str_lower k = ''content-type'') hs)"

definition signed_document :: "raw_response \<Rightarrow> parsed_response" where
  "signed_document raw = \<lparr>ar_data = PDict [(''content'', PBytes (rw_content raw)),
     (''content_type'', opt_str (content_type_header (rw_headers raw))), (''filename'', PNone)],
     ar_raw = raw\<rparr>"

definition download_signed :: "'st facade \<Rightarrow> pyval \<Rightarrow> pyval \<Rightarrow> ('st, parsed_response) action" where
  "download_signed fc track_id real_ip =
     bindM (contracts_track_id fc track_id ''download_signed'') (\<lambda>track_id.
     bindM (contracts_real_ip fc real_ip ''download_signed'') (\<lambda>ip.
     bindM (fa_run fc (contracts_options ''download_signed'' ''GET''
         (CONTRACTS_PATH @ ''/download-signed'') READ_ONLY ip (Some [(''trackId'', track_id)]) PNone)) (\<lambda>raw.
     returnM (signed_document raw))))"

end
