(* ===== verification/Debit_Models.thy ===== *)
theory Debit_Models
  imports Services_Base
begin

text \<open>
  The enumerations and data models of Direct Debit, declared field by field
  (\<open>src/jibit/services/direct_debit/models.py\<close>).
\<close>

section \<open>Cross-field validators\<close>

text \<open>Texts of dates are compared as texts.\<close>

definition validate_date_range :: "pydict \<Rightarrow> exn option" where
  "validate_date_range d = (case (pyget d ''expire_date'', pyget d ''start_date'') of
       (PStr expire, PStr start) \<Rightarrow> if expire < start then Some ValueError else None
     | _ \<Rightarrow> None)"

section \<open>Models\<close>

definition PeriodUnit :: "string list" where
  "PeriodUnit =
     [''DAY'', ''WEEK'', ''MONTH'', ''YEAR'']"

definition MandateType :: "string list" where
  "MandateType =
     [''time-frame'', ''subscription'', ''one-tap'']"

definition CreateMandateRequest :: mdecl where
  "CreateMandateRequest = request_model_with ''CreateMandateRequest'' validate_date_range
     [aliased ''creditor_mandate_reference'' (needed ''creditor_mandate_reference'' TStr [MinLen 10, MaxLen 50]),
      aliased ''debtor_bank'' (needed ''debtor_bank'' TStr [MinLen 1]),
      aliased ''maximum_amount'' (needed ''maximum_amount'' TInt [Gt 0]),
      aliased ''period'' (needed ''period'' TInt [Ge 1]),
      aliased ''period_unit'' (needed ''period_unit'' (TEnum PeriodUnit) []),
      aliased ''start_date'' (needed ''start_date'' TStr [Pattern pat_date]),
      aliased ''expire_date'' (needed ''expire_date'' TStr [Pattern pat_date]),
      aliased ''mandate_reason'' (optional ''mandate_reason'' TStr []),
      aliased ''debtor_firstname'' (optional ''debtor_firstname'' TStr []),
      aliased ''debtor_lastname'' (optional ''debtor_lastname'' TStr []),
      aliased ''debtor_national_code'' (optional ''debtor_national_code'' TStr [Pattern (pat_digits_n 10)]),
      aliased ''debtor_id_number'' (optional ''debtor_id_number'' TStr []),
      aliased ''debtor_mobile_number'' (optional ''debtor_mobile_number'' TStr []),
      aliased ''debtor_postal_code'' (optional ''debtor_postal_code'' TStr []),
      aliased ''debtor_birthdate'' (optional ''debtor_birthdate'' TStr []),
      aliased ''debtor_deposit_number'' (optional ''debtor_deposit_number'' TStr []),
      aliased ''debtor_iban'' (optional ''debtor_iban'' TStr [Pattern pat_iban]),
      aliased ''otp_requirement_status'' (optional ''otp_requirement_status'' TStr []),
      aliased ''otp_condition'' (optional ''otp_condition'' TStr []),
      aliased ''frequency'' (optional ''frequency'' TInt [Ge 1]),
      aliased ''retry'' (optional ''retry'' TBool [])]"

definition InitiateMandateResult :: mdecl where
  "InitiateMandateResult = response_model ''InitiateMandateResult''
     [optional ''mandate_reference'' TStr [],
      optional ''redirect_url'' TStr []]"

definition CollectRequest :: mdecl where
  "CollectRequest = request_model ''CollectRequest''
     [aliased ''creditor_transaction_no'' (needed ''creditor_transaction_no'' TStr [MinLen 1, MaxLen 100]),
      aliased ''mandate_reference'' (needed ''mandate_reference'' TStr [MinLen 10, MaxLen 50]),
      aliased ''amount'' (needed ''amount'' TInt [Gt 0]),
      aliased ''otp'' (optional ''otp'' TStr [MinLen 1])]"

definition TransactionResult :: mdecl where
  "TransactionResult = response_model ''TransactionResult''
     [optional ''transaction_no'' TStr [],
      optional ''creditor_transaction_no'' TStr [],
      optional ''mandate_reference'' TStr [],
      optional ''bank'' TStr [],
      optional ''amount'' TStr [],
      optional ''currency'' TStr [],
      optional ''status'' TStr [],
      optional ''collection_date_time'' TStr [],
      optional ''created_date_time'' TStr [],
      optional ''transaction_type'' TStr [],
      optional ''payment_type'' TStr [],
      optional ''debtor_deposit'' TStr [],
      optional ''destination_deposit'' TStr [],
      optional ''wage'' TStr [],
      optional ''vat'' TStr [],
      optional ''wage_pay_method'' TStr [],
      optional ''description'' TStr []]"

definition MandateResult :: mdecl where
  "MandateResult = response_model ''MandateResult''
     [optional ''mandate_reference'' TStr [],
      optional ''creditor_mandate_reference'' TStr [],
      optional ''status'' TStr [],
      optional ''maximum_amount'' TInt [],
      optional ''period'' TInt [],
      optional ''period_unit'' TStr [],
      optional ''frequency'' TInt [],
      optional ''start_date'' TStr [],
      optional ''expiration_date'' TStr [],
      optional ''debtor_bank'' TStr [],
      optional ''debtor_iban'' TStr []]"

definition TransactionList :: mdecl where
  "TransactionList = TList TransactionResult"

definition ActiveBank :: mdecl where
  "ActiveBank = response_model ''ActiveBank''
     [optional ''name'' TStr [],
      optional ''persian_name'' TStr []]"

definition ActiveBankList :: mdecl where
  "ActiveBankList = TList ActiveBank"

definition BlueBankCallback :: mdecl where
  "BlueBankCallback = request_model ''BlueBankCallback''
     [needed ''request_id'' TStr [],
      needed ''additional_information'' TStr [],
      needed ''event_type'' TStr [],
      needed ''mandate_number'' TStr [],
      needed ''mandate_status'' TStr [],
      needed ''event_category'' TStr [],
      optional ''transaction_status'' TStr [],
      optional ''amount'' TInt [],
      optional ''core_reference_no'' TStr [],
      optional ''core_transaction_time'' TStr []]"

end
