(* ===== verification/Debit.thy ===== *)
theory Debit
  imports Debit_Models
begin

text \<open>
  \<open>src/jibit/services/direct_debit/service.py\<close>: \<open>DirectDebitService\<close>, one definition per method.
\<close>

definition DEBIT_PREFIX :: string where
  "DEBIT_PREFIX = ''/directdebit/api/v1''"

definition debit_validate ::
  "'st facade \<Rightarrow> mdecl \<Rightarrow> pydict \<Rightarrow> string \<Rightarrow> string \<Rightarrow> string \<Rightarrow> ('st, pydict) action" where
  "debit_validate fc model values operation method path = liftM
     (validate_request (fa_lib fc) model values (service_value DIRECT_DEBIT) operation method path)"

definition debit_typed ::
  "'st facade \<Rightarrow> string \<Rightarrow> string \<Rightarrow> string \<Rightarrow> operation_safety \<Rightarrow> mdecl \<Rightarrow> pyval
     \<Rightarrow> ('st, parsed_response) action" where
  "debit_typed fc operation method path safety model json =
     typed_request fc (service_options DIRECT_DEBIT operation method path safety None json)
       (lb_validate (fa_lib fc) model)"

definition debit_status ::
  "'st facade \<Rightarrow> string \<Rightarrow> string \<Rightarrow> string \<Rightarrow> pydict option \<Rightarrow> ('st, status_result api_response) action" where
  "debit_status fc operation method path payload =
     status_request fc (service_options DIRECT_DEBIT operation method path UNSAFE None
       (case payload of Some d \<Rightarrow> PDict (compact_values d) | None \<Rightarrow> PNone))"

definition debit_invalid :: "string \<Rightarrow> string \<Rightarrow> exn" where
  "debit_invalid operation message =
     request_validation_error (service_value DIRECT_DEBIT) operation ''POST'' DEBIT_PREFIX message"

definition reference_char :: "char \<Rightarrow> bool" where
  "reference_char c \<longleftrightarrow> py_isalnum_char c \<or> c \<in> set ''-_.''"

definition debit_reference :: "string \<Rightarrow> string \<Rightarrow> ('st, string) action" where
  "debit_reference value operation =
     (if value = [] \<or> \<not> list_all reference_char value
      then raiseM (debit_invalid operation ''reference contains invalid characters'')
      else returnM value)"

section \<open>Mandates\<close>

datatype mandate_type = TIME_FRAME | SUBSCRIPTION | ONE_TAP

fun mandate_value :: "mandate_type \<Rightarrow> string" where
  "mandate_value TIME_FRAME = ''time-frame''"
| "mandate_value SUBSCRIPTION = ''subscription''"
| "mandate_value ONE_TAP = ''one-tap''"

text \<open>\<open>MandateType(value)\<close>.\<close>

definition mandate_of :: "pyval \<Rightarrow> mandate_type option" where
  "mandate_of v = find (\<lambda>m. v = PStr (mandate_value m)) [TIME_FRAME, SUBSCRIPTION, ONE_TAP]"

fun incompatible_fields :: "mandate_type \<Rightarrow> string list" where
  "incompatible_fields TIME_FRAME = [''frequency'', ''retry'']"
| "incompatible_fields SUBSCRIPTION = [''frequency'', ''otp_requirement_status'', ''otp_condition'']"
| "incompatible_fields ONE_TAP = [''retry'']"

text \<open>The first requirement of the mandate type that the request does not meet.\<close>

definition mandate_requirement :: "mandate_type \<Rightarrow> pydict \<Rightarrow> string option" where
  "mandate_requirement m request =
     (if m = ONE_TAP \<and> pyget request ''frequency'' = PNone
      then Some ''frequency is required for one-tap mandates''
      else if m = SUBSCRIPTION \<and> pyget request ''retry'' = PNone
      then Some ''retry is required for subscription mandates''
      else if m \<in> {ONE_TAP, TIME_FRAME} \<and> pyget request ''otp_requirement_status'' = PNone
      then Some ''otp_requirement_status is required for this mandate type''
      else None)"

definition mandate_payload :: "lib \<Rightarrow> mandate_type \<Rightarrow> pydict \<Rightarrow> pydict" where
  "mandate_payload L m request =
     fold dict_del (incompatible_fields m) (to_payload L CreateMandateRequest request)"

definition create_mandate ::
  "'st facade \<Rightarrow> pyval \<Rightarrow> pydict option \<Rightarrow> pydict \<Rightarrow> ('st, parsed_response) action" where
  "create_mandate fc mandate_type request values =
     (case mandate_of mandate_type of
        None \<Rightarrow> raiseM (debit_invalid ''create_mandate'' ''mandate_type is not supported'')
      | Some m \<Rightarrow>
          if request \<noteq> None \<and> values \<noteq> [] then
            raiseM (debit_invalid ''create_mandate'' ''Provide request or keyword values, not both'')
          else bindM (case request of
              Some r \<Rightarrow> returnM r
            | None \<Rightarrow> debit_validate fc CreateMandateRequest values ''create_mandate'' ''POST''
                (DEBIT_PREFIX @ ''/mandate/'' @ mandate_value m)) (\<lambda>request.
            case mandate_requirement m request of
              Some message \<Rightarrow> raiseM (debit_invalid ''create_mandate'' message)
            | None \<Rightarrow> debit_typed fc ''create_mandate'' ''POST''
                (DEBIT_PREFIX @ ''/mandate/'' @ mandate_value m) UNSAFE InitiateMandateResult
                (PDict (mandate_payload (fa_lib fc) m request))))"

definition revoke_mandate ::
  "'st facade \<Rightarrow> string \<Rightarrow> string \<Rightarrow> string option \<Rightarrow> ('st, status_result api_response) action" where
  "revoke_mandate fc mandate_reference revoke_by additional_info =
     bindM (debit_reference mandate_reference ''revoke_mandate'') (\<lambda>reference.
     if revoke_by = [] \<or> (case additional_info of None \<Rightarrow> False | Some t \<Rightarrow> 500 < length t) then
       raiseM (debit_invalid ''revoke_mandate'' ''revoke parameters are invalid'')
     else debit_status fc ''revoke_mandate'' ''PUT'' (DEBIT_PREFIX @ ''/mandate/revoke'')
       (Some [(''mandate_reference'', PStr reference), (''revoke_by'', PStr revoke_by),
              (''additional_info'', opt_str additional_info)]))"

definition enable_mandate ::
  "'st facade \<Rightarrow> string \<Rightarrow> string \<Rightarrow> ('st, status_result api_response) action" where
  "enable_mandate fc mandate_reference enable_by =
     bindM (debit_reference mandate_reference ''enable_mandate'') (\<lambda>reference.
     if enable_by = [] then raiseM (debit_invalid ''enable_mandate'' ''enable_by is required'')
     else debit_status fc ''enable_mandate'' ''PUT'' (DEBIT_PREFIX @ ''/mandate/enable'')
       (Some [(''mandate_reference'', PStr reference), (''enable_by'', PStr enable_by)]))"

definition disable_mandate ::
  "'st facade \<Rightarrow> string \<Rightarrow> string \<Rightarrow> ('st, status_result api_response) action" where
  "disable_mandate fc mandate_reference disable_by =
     bindM (debit_reference mandate_reference ''disable_mandate'') (\<lambda>reference.
     if disable_by = [] then raiseM (debit_invalid ''disable_mandate'' ''disable_by is required'')
     else debit_status fc ''disable_mandate'' ''PUT'' (DEBIT_PREFIX @ ''/mandate/disable'')
       (Some [(''mandate_reference'', PStr reference), (''disable_by'', PStr disable_by)]))"

section \<open>Collections, callbacks and inquiries\<close>

definition collect ::
  "'st facade \<Rightarrow> pyval \<Rightarrow> pyval \<Rightarrow> pyval \<Rightarrow> pyval \<Rightarrow> ('st, parsed_response) action" where
  "collect fc creditor_transaction_no mandate_reference amount otp =
     bindM (debit_validate fc CollectRequest
       [(''creditor_transaction_no'', creditor_transaction_no),
        (''mandate_reference'', mandate_reference), (''amount'', amount), (''otp'', otp)]
       ''collect'' ''POST'' (DEBIT_PREFIX @ ''/transaction/collect'')) (\<lambda>request.
     debit_typed fc ''collect'' ''POST'' (DEBIT_PREFIX @ ''/transaction/collect'') UNSAFE
       TransactionResult (PDict (to_payload (fa_lib fc) CollectRequest request)))"

definition send_otp :: "'st facade \<Rightarrow> string \<Rightarrow> ('st, status_result api_response) action" where
  "send_otp fc mandate_number =
     bindM (debit_reference mandate_number ''send_otp'') (\<lambda>reference.
     debit_status fc ''send_otp'' ''POST'' (DEBIT_PREFIX @ ''/transaction/otp/'' @ reference) None)"

text \<open>The payload is a validated callback (\<open>Inl\<close>) or a plain dict (\<open>Inr\<close>).\<close>

definition accept_blue_bank_callback ::
  "'st facade \<Rightarrow> pydict + pydict \<Rightarrow> ('st, status_result api_response) action" where
  "accept_blue_bank_callback fc payload =
     bindM (case payload of
         Inl callback \<Rightarrow> returnM callback
       | Inr values \<Rightarrow> debit_validate fc BlueBankCallback values ''accept_blue_bank_callback'' ''POST''
           (DEBIT_PREFIX @ ''/blue-bank-callback'')) (\<lambda>callback.
     debit_status fc ''accept_blue_bank_callback'' ''POST'' (DEBIT_PREFIX @ ''/blue-bank-callback'')
       (Some (to_payload (fa_lib fc) BlueBankCallback callback)))"

definition inquire_transaction :: "'st facade \<Rightarrow> string \<Rightarrow> ('st, parsed_response) action" where
  "inquire_transaction fc creditor_transaction_no =
     bindM (debit_reference creditor_transaction_no ''inquire_transaction'') (\<lambda>reference.
     debit_typed fc ''inquire_transaction'' ''GET'' (DEBIT_PREFIX @ ''/transaction/'' @ reference)
       READ_ONLY TransactionResult PNone)"

definition list_subscription_transactions :: "'st facade \<Rightarrow> string \<Rightarrow> ('st, parsed_response) action" where
  "list_subscription_transactions fc mandate_number =
     bindM (debit_reference mandate_number ''list_subscription_transactions'') (\<lambda>reference.
     debit_typed fc ''list_subscription_transactions'' ''GET''
       (DEBIT_PREFIX @ ''/subscription-mandate/'' @ reference @ ''/transactions'') READ_ONLY
       TransactionList PNone)"

definition inquire_mandate :: "'st facade \<Rightarrow> string \<Rightarrow> ('st, parsed_response) action" where
  "inquire_mandate fc mandate_reference =
     bindM (debit_reference mandate_reference ''inquire_mandate'') (\<lambda>reference.
     debit_typed fc ''inquire_mandate'' ''GET'' (DEBIT_PREFIX @ ''/mandates/mandate-reference/'' @ reference)
       READ_ONLY MandateResult PNone)"

definition inquire_creditor_mandate :: "'st facade \<Rightarrow> string \<Rightarrow> ('st, parsed_response) action" where
  "inquire_creditor_mandate fc creditor_reference =
     bindM (debit_reference creditor_reference ''inquire_creditor_mandate'') (\<lambda>reference.
     debit_typed fc ''inquire_creditor_mandate'' ''GET''
       (DEBIT_PREFIX @ ''/mandates/creditor-mandate-reference/'' @ reference) READ_ONLY
       MandateResult PNone)"

definition get_active_banks :: "'st facade \<Rightarrow> ('st, parsed_response) action" where
  "get_active_banks fc = debit_typed fc ''get_active_banks'' ''GET'' (DEBIT_PREFIX @ ''/creditor/active-banks'')
     READ_ONLY ActiveBankList PNone"

end
