(* ===== verification/Service_Facts.thy ===== *)
theory Service_Facts
  imports Samples Gateway Transfers Cobank Identicator Kyc Sms Contracts Debit
begin

text \<open>
  What the properties of the services share: the list of request models, a validation library for
  concrete inputs, the executor the client gives a service, and how an operation's requests follow
  from its executor's.
\<close>

section \<open>All request models\<close>

lemmas wire_defs = request_model_def request_model_with_def needed_def optional_def with_default_def
  to_camel_def capitalize_def lower_char_def upper_char_def is_upper_def is_lower_def code_def

definition wires_distinct :: "mdecl \<Rightarrow> bool" where
  "wires_distinct m \<longleftrightarrow> distinct (map wire_name (model_fields m))"

definition gateway_requests :: "lib \<Rightarrow> mdecl list" where
  "gateway_requests L =
     [TerminalSwitching,
      CreatePurchaseRequest,
      PurchaseIdentifierRequest,
      ReversePurchaseRequest,
      RefundPurchaseRequest,
      RefundActionRequest,
      PurchaseFilter L,
      PurchaseHistoryFilter L,
      SettlementFilter]"

lemma gateway_wires: "list_all wires_distinct (gateway_requests L)"
  by (simp add: gateway_requests_def wires_distinct_def wire_defs TerminalSwitching_def CreatePurchaseRequest_def PurchaseIdentifierRequest_def ReversePurchaseRequest_def RefundPurchaseRequest_def RefundActionRequest_def PurchaseFilter_def PurchaseHistoryFilter_def SettlementFilter_def)

definition transfer_requests :: "lib \<Rightarrow> mdecl list" where
  "transfer_requests L =
     [TransferItemRequest,
      SubmitBatchRequest,
      BatchGeneratorRequest,
      TransferSelector,
      FilterValidation L,
      DailyUsageRequest]"

lemma transfer_wires: "list_all wires_distinct (transfer_requests L)"
  by (simp add: transfer_requests_def wires_distinct_def wire_defs TransferItemRequest_def SubmitBatchRequest_def BatchGeneratorRequest_def TransferSelector_def FilterValidation_def DailyUsageRequest_def)

definition cobank_requests :: "lib \<Rightarrow> mdecl list" where
  "cobank_requests L =
     [CreateSettlementRequest,
      BatchInquiryRequest,
      Pagination,
      Cobank_Models.Reference]"

lemma cobank_wires: "list_all wires_distinct (cobank_requests L)"
  by (simp add: cobank_requests_def wires_distinct_def wire_defs CreateSettlementRequest_def BatchInquiryRequest_def Pagination_def Cobank_Models.Reference_def)

definition debit_requests :: "lib \<Rightarrow> mdecl list" where
  "debit_requests L =
     [CreateMandateRequest,
      CollectRequest,
      BlueBankCallback]"

lemma debit_wires: "list_all wires_distinct (debit_requests L)"
  by (simp add: debit_requests_def wires_distinct_def wire_defs CreateMandateRequest_def CollectRequest_def BlueBankCallback_def)

definition sms_requests :: "lib \<Rightarrow> mdecl list" where
  "sms_requests L =
     [SimpleSmsRequest,
      PatternSmsRequest,
      CreateBulkRequest,
      InboundQuery L,
      Page,
      UUIDValue,
      Sms_Models.Reference]"

lemma sms_wires: "list_all wires_distinct (sms_requests L)"
  by (simp add: sms_requests_def wires_distinct_def wire_defs SimpleSmsRequest_def PatternSmsRequest_def CreateBulkRequest_def InboundQuery_def Page_def UUIDValue_def Sms_Models.Reference_def)

definition other_requests :: "lib \<Rightarrow> mdecl list" where
  "other_requests L =
     [Signer,
      InitiateContractRequest,
      RealIp,
      TrackId,
      MatchingRequest,
      IdentitySimilarityRequest]"

lemma other_wires: "list_all wires_distinct (other_requests L)"
  by (simp add: other_requests_def wires_distinct_def wire_defs Signer_def InitiateContractRequest_def RealIp_def TrackId_def MatchingRequest_def IdentitySimilarityRequest_def)

definition request_models :: "lib \<Rightarrow> mdecl list" where
  "request_models L = gateway_requests L @ transfer_requests L @ cobank_requests L @ debit_requests L
     @ sms_requests L @ other_requests L"

lemma request_models_wires: "list_all wires_distinct (request_models L)"
  by (simp add: request_models_def gateway_wires transfer_wires cobank_wires debit_wires sms_wires other_wires)

section \<open>A strict validation library\<close>

text \<open>Accepts exactly the values that conform already; times are seconds written in unary.\<close>

definition strict_lib :: lib where
  "strict_lib = \<lparr>lb_validate = (\<lambda>m v. if conforms m v then Inr v else Inl ValidationError),
     lb_json = (\<lambda>v. v), lb_datetime = (\<lambda>v. Aware (of_nat (value_length v)))\<rparr>"

lemma strict_lib_lawful: "lawful_lib strict_lib"
  by (simp add: lawful_lib_def strict_lib_def)

section \<open>The executor of a service\<close>

lemma lstrip_slashes: "c \<noteq> CHR ''/'' \<Longrightarrow> lstrip_char CHR ''/'' (CHR ''/'' # c # s) = c # s"
  by (simp add: lstrip_char_def)

lemma build_url_inject:
  "build_url cfg s p = build_url cfg s q \<longleftrightarrow> lstrip_char CHR ''/'' p = lstrip_char CHR ''/'' q"
  by (simp add: build_url_def)

text \<open>A path of the service that is not a token endpoint.\<close>

definition own_path :: "service_name \<Rightarrow> string \<Rightarrow> bool" where
  "own_path s path = (case AUTH_SPECS s of None \<Rightarrow> True
     | Some spec \<Rightarrow> lstrip_char CHR ''/'' path \<noteq> lstrip_char CHR ''/'' (sp_generate_path spec)
         \<and> lstrip_char CHR ''/'' path \<noteq> lstrip_char CHR ''/'' (sp_refresh_path spec))"

lemma service_authenticator_parts:
  "service_authenticator e s cfg g store b = Inr a \<Longrightarrow>
     AUTH_SPECS s = Some (sa_spec a) \<and> sa_service a = s \<and> sa_engine a = g \<and> sa_store a = store"
  by (auto simp: service_authenticator_def split: option.splits sum.splits)

lemma own_path_url:
  assumes "service_authenticator e s cfg g store b = Inr a" and "own_path s path"
  shows "build_url (en_config g) s path \<notin> token_urls a"
  using assms service_authenticator_parts [OF assms(1)]
  by (simp add: token_urls_def own_path_def build_url_inject)

lemma unsafe_once:
  assumes "service_authenticator e s cfg g store b = Inr a" and "own_path s (ro_path opt)"
    and "ro_service opt = s" and "ro_safety opt = UNSAFE"
  shows "at_most 1 (build_url (en_config g) s (ro_path opt)) (authenticated_execute e g a opt)"
    and "at_most 1 (build_url (en_config g) s (ro_path opt)) (audited_execute e b' n (authenticated_execute e g a) opt)"
  using authenticated_executor.unsafe_at_most [of opt g a e] audited_authenticated.unsafe_at_most [of opt g a e b' n]
    own_path_url [OF assms(1,2)] assms(3,4)
  by (simp_all add: operation_url_def)

end
