(* ===== verification/Service_Properties.thy ===== *)
theory Service_Properties
  imports Service_Facts
begin

text \<open>
  The properties of the service facades: payloads, single submission, local validation, auditing.
\<close>

section \<open>Payloads\<close>

text \<open>C25: No request model loses or overwrites a field on the wire: the payload of a validated instance
  has no key twice, and under the wire name of each declared field it has that field's value, or
  nothing when the value is \<open>None\<close>; it has no other keys.\<close>

theorem payload_lossless:
  assumes "m \<in> set (request_models L)" and "Fdecl name a t dv cs \<in> set (model_fields m)"
  shows "distinct (keys (to_payload L m d))
     \<and> set (keys (to_payload L m d)) \<subseteq> set (map wire_name (model_fields m))
     \<and> dict_get (to_payload L m d) (wire_name (Fdecl name a t dv cs)) =
        (if pyget d name = PNone then None else Some (dump (lb_json L) t (pyget d name)))"
proof -
  have "distinct (map wire_name (model_fields m))"
    using request_models_wires assms(1) by (auto simp: list_all_iff wires_distinct_def)
  then show ?thesis
    using wire_keys_distinct payload_field assms(2) unfolding to_payload_def by blast
qed

theorem payload_lossless_witness:
  "dict_get (to_payload strict_lib TransferSelector [(''batch_id'', PStr ''b''), (''transfer_id'', PNone)])
     ''batchID'' = Some (PStr ''b'')"
proof -
  have "TransferSelector \<in> set (request_models strict_lib)"
    by (simp add: request_models_def transfer_requests_def)
  moreover have "Fdecl ''batch_id'' (Some ''batchID'') (TOpt TStr) (Some PNone) [MinLen 1]
      \<in> set (model_fields TransferSelector)"
    by (simp add: TransferSelector_def request_model_with_def optional_def)
  ultimately show ?thesis
    using payload_lossless [of TransferSelector strict_lib "''batch_id''" "Some ''batchID''" "TOpt TStr"
        "Some PNone" "[MinLen 1]" "[(''batch_id'', PStr ''b''), (''transfer_id'', PNone)]"]
    by (simp add: strict_lib_def pyget_def)
qed

section \<open>Operations that must not be repeated\<close>

definition unsafe_single :: "jibit_config \<Rightarrow> service_name \<Rightarrow> 'st executor \<Rightarrow> bool" where
  "unsafe_single cfg s run \<longleftrightarrow> (\<forall>opt. ro_service opt = s \<and> ro_safety opt = UNSAFE \<and> own_path s (ro_path opt) \<longrightarrow>
     at_most 1 (build_url cfg s (ro_path opt)) (run opt))"

lemma unsafe_single_authenticated:
  "service_authenticator e s cfg g store b = Inr a \<Longrightarrow>
     unsafe_single (en_config g) s (authenticated_execute e g a)
     \<and> unsafe_single (en_config g) s (audited_execute e b' n (authenticated_execute e g a))"
  unfolding unsafe_single_def using unsafe_once by blast

lemma at_most_options:
  "unsafe_single cfg s run \<Longrightarrow> own_path s path \<Longrightarrow>
     at_most 1 (build_url cfg s path) (run (service_options s oper m path UNSAFE ps js))"
  unfolding unsafe_single_def
  by (drule spec [of _ "service_options s oper m path UNSAFE ps js"]) simp

lemmas op_defs = transfer_validate_def transfer_selector_def transfer_typed_def cobank_validate_def
  cobank_typed_def debit_validate_def debit_typed_def debit_status_def sms_validate_def sms_typed_def
  gateway_request_def gateway_typed_def financial_typed_def financial_operation_def

lemma own_paths [simp]:
  "own_path TRANSFERS TRANSFERS_PATH" "own_path COBANK SETTLEMENT_PATH"
  "own_path DIRECT_DEBIT (DEBIT_PREFIX @ ''/mandate/'' @ p)" "own_path DIRECT_DEBIT (DEBIT_PREFIX @ ''/transaction/collect'')"
  "own_path PAYMENT_GATEWAY ''/ppg/v3/purchases''" "own_path PAYMENT_GATEWAY (''/ppg/v3/purchases/refunds/'' @ p)"
  "own_path PAYMENT_GATEWAY ''/ppg/v3/purchases/refund''"
  "own_path SMS (SMS_PREFIX @ ''/send'')" "own_path SMS (SMS_PREFIX @ ''/pattern/send'')" "own_path SMS (SMS_PREFIX @ ''/bulk'')"
  by (simp_all add: own_path_def TRANSFERS_PATH_def SETTLEMENT_PATH_def DEBIT_PREFIX_def SMS_PREFIX_def
      camel_spec_def snake_spec_def lstrip_char_def)

lemma at_most_liftM: "(\<And>x. r = Inr x \<Longrightarrow> at_most n url (f x)) \<Longrightarrow> at_most n url (bindM (liftM r) f)"
  by (cases r) (simp_all add: at_most_def bindM_def liftM_def)

lemma transfers_once:
  assumes "unsafe_single cfg TRANSFERS (fa_run fc)"
  shows "at_most 1 (build_url cfg TRANSFERS TRANSFERS_PATH) (submit_batch fc batch transfers mode)"
    and "at_most 1 (build_url cfg TRANSFERS TRANSFERS_PATH) (transfer_cancel fc batch tid)"
    and "at_most 1 (build_url cfg TRANSFERS TRANSFERS_PATH) (retry_failed fc batch tid)"
  unfolding submit_batch_def transfer_cancel_def retry_failed_def op_defs
  by (intro at_most_liftM at_most_typed at_most_status at_most_options assms own_paths)+

lemma cobank_once:
  "unsafe_single cfg COBANK (fa_run fc) \<Longrightarrow> at_most 1 (build_url cfg COBANK SETTLEMENT_PATH)
     (create_settlement fc track iban amount ty reason src pid descr)"
  unfolding create_settlement_def op_defs
  by (intro at_most_liftM at_most_typed at_most_options own_paths)

lemma debit_once:
  "unsafe_single cfg DIRECT_DEBIT (fa_run fc) \<Longrightarrow>
     at_most 1 (build_url cfg DIRECT_DEBIT (DEBIT_PREFIX @ ''/transaction/collect'')) (collect fc no mandate amount otp)"
  unfolding collect_def op_defs
  by (intro at_most_liftM at_most_typed at_most_options own_paths)

lemma sms_once:
  "unsafe_single cfg SMS (fa_run fc) \<Longrightarrow>
     at_most 1 (build_url cfg SMS (SMS_PREFIX @ ''/send'')) (sms_send fc receptor message sender cid)"
  unfolding sms_send_def op_defs
  by (intro at_most_liftM at_most_typed at_most_options own_paths)

lemma at_most_bind_quiet:
  assumes "at_most n url m" and "\<And>x w. w_sent (snd (f x w)) = w_sent w"
  shows "at_most n url (bindM m f)"
  unfolding at_most_def
proof
  fix w
  obtain r w1 where m: "m w = (r, w1)" by (cases "m w")
  have "sent_to url w w1 \<le> n" using assms(1) m by (metis at_most_def snd_conv)
  then show "sent_to url w (snd (bindM m f w)) \<le> n"
    using m assms(2) by (cases r) (simp_all add: bindM_def sent_to_def)
qed

lemma at_most_catch_quiet:
  assumes "at_most n url m" and "\<And>x w. w_sent (snd (h x w)) = w_sent w"
  shows "at_most n url (catchM m h)"
  unfolding at_most_def
proof
  fix w
  obtain r w1 where m: "m w = (r, w1)" by (cases "m w")
  have "sent_to url w w1 \<le> n" using assms(1) m by (metis at_most_def snd_conv)
  then show "sent_to url w (snd (catchM m h w)) \<le> n"
    using m assms(2) by (cases r) (simp_all add: catchM_def sent_to_def)
qed

lemma gateway_emit_frame:
  "fst (gateway_emit_audit gw name cid operation outcome metadata w) = Inr ()"
  "w_sent (snd (gateway_emit_audit gw name cid operation outcome metadata w)) = w_sent w"
  "w_store (snd (gateway_emit_audit gw name cid operation outcome metadata w)) = w_store w"
  "w_audits (snd (gateway_emit_audit gw name cid operation outcome metadata w)) = w_audits w
     @ [make_audit_event name cid (service_value PAYMENT_GATEWAY) operation outcome metadata]"
  by (auto simp: gateway_emit_audit_def catchM_def sink_emit_def emit_def modifyM_def split: option.splits)

lemma gateway_audit_then:
  "thenM (gateway_emit_audit gw name cid operation outcome metadata) k w
     = k (snd (gateway_emit_audit gw name cid operation outcome metadata w))"
proof -
  obtain r v where "gateway_emit_audit gw name cid operation outcome metadata w = (r, v)"
    by (cases "gateway_emit_audit gw name cid operation outcome metadata w")
  then show ?thesis
    using gateway_emit_frame(1) [of gw name cid operation outcome metadata w] by (simp add: thenM_def bindM_def)
qed

lemma audited_failure_once: "at_most n url m \<Longrightarrow> at_most n url (audited_failure gw name operation m)"
  unfolding audited_failure_def
  by (rule at_most_catch_quiet)
    (auto simp: gateway_audit_error_def gateway_audit_then raiseM_def gateway_emit_frame split: exn.split)

lemma at_most_bind_lift: "at_most n url m \<Longrightarrow> at_most n url (bindM m (\<lambda>x. liftM (g x)))"
  by (rule at_most_bind_quiet) (simp_all add: liftM_def)

lemma financial_once:
  "unsafe_single cfg PAYMENT_GATEWAY (fa_run (gw_facade gw)) \<Longrightarrow> own_path PAYMENT_GATEWAY path \<Longrightarrow>
     at_most 1 (build_url cfg PAYMENT_GATEWAY path)
       (financial_operation gw name operation me path UNSAFE model body metadata)"
  unfolding financial_operation_def financial_typed_def gateway_typed_def
  by (intro at_most_bind_quiet audited_failure_once at_most_bind_lift at_most_options)
    (simp_all add: gateway_audit_def gateway_audit_then gateway_emit_frame returnM_def)

lemma gateway_once:
  assumes "unsafe_single cfg PAYMENT_GATEWAY (fa_run (gw_facade gw))"
  shows "at_most 1 (build_url cfg PAYMENT_GATEWAY ''/ppg/v3/purchases'')
       (create_purchase gw amount callback ref wage currency mobile check card_no card_nos code_v descr switching extra user)"
    and "at_most 1 (build_url cfg PAYMENT_GATEWAY ''/ppg/v3/purchases/refund'')
       (refund_purchase gw pid ref amount cancellable)"
  unfolding create_purchase_def refund_purchase_def gateway_request_def
  by (intro at_most_liftM financial_once assms own_paths)+

lemma at_most_if:
  "(c \<Longrightarrow> at_most n url m) \<Longrightarrow> (\<not> c \<Longrightarrow> at_most n url m') \<Longrightarrow> at_most n url (if c then m else m')"
  by simp

lemma refund_action_once:
  "unsafe_single cfg PAYMENT_GATEWAY (fa_run (gw_facade gw)) \<Longrightarrow>
     at_most 1 (build_url cfg PAYMENT_GATEWAY (''/ppg/v3/purchases/refunds/'' @ show_int rid @ ''/'' @ act))
       (refund_action gw operation rid act tid)"
  unfolding refund_action_def Let_def gateway_request_def
  by (intro at_most_if at_most_raise at_most_liftM at_most_bind_quiet audited_failure_once at_most_options
      own_paths) (simp_all only: gateway_audit_def gateway_audit_then gateway_emit_frame returnM_def snd_conv)

text \<open>The facade of a service, as the client puts it together.\<close>

definition service_facade ::
  "env \<Rightarrow> lib \<Rightarrow> bool \<Rightarrow> engine \<Rightarrow> (service_name \<Rightarrow> 'st authenticator) \<Rightarrow> service_name \<Rightarrow> 'st facade" where
  "service_facade e L b g a s = \<lparr>fa_env = e, fa_lib = L,
     fa_run = (if s = PAYMENT_GATEWAY then authenticated_execute e g (a s)
       else audited_execute e b ''jibit.operation'' (authenticated_execute e g (a s)))\<rparr>"

lemma service_facade_single:
  "service_authenticator e s cfg g store b' = Inr (a s) \<Longrightarrow>
     unsafe_single (en_config g) s (fa_run (service_facade e L b g a s))"
  by (auto simp: service_facade_def dest: unsafe_single_authenticated)


definition full_config :: jibit_config where
  "full_config = default_config (\<lambda>s. cf_services sample_config TRANSFERS)"

definition full_engine :: engine where
  "full_engine = \<lparr>en_config = full_config, en_policy = retry_default, en_logging = True\<rparr>"

definition full_auth :: "service_name \<Rightarrow> token_state dict authenticator" where
  "full_auth s = projr (service_authenticator (sample_env flaky) s full_config full_engine memory_store True)"

lemma full_auth_ok:
  "list_all (\<lambda>s. service_authenticator (sample_env flaky) s full_config full_engine memory_store True
      = Inr (full_auth s)) [PAYMENT_GATEWAY, TRANSFERS, COBANK, DIRECT_DEBIT, SMS]"
  by (simp add: full_auth_def service_authenticator_def config_service_def full_config_def default_config_def
      sample_config_def build_cache_key_def secret_or_def Let_def)


end
