(* ===== verification/Request_Properties.thy ===== *)
theory Request_Properties
  imports Service_Facts
begin

text \<open>
  The properties of what the facades check and write before a request leaves: cross-field rules,
  payload shapes, limits and paths.
\<close>

section \<open>Purchases\<close>

lemma validated_cases:
  assumes "lawful_lib L" and "m = TModel n forbid fs after"
    and "(case lb_validate L m v of Inr u \<Rightarrow> Inr (fields_of u) | Inl x \<Rightarrow> f x) = Inr d" and "\<And>x y. f x \<noteq> Inr y"
  shows "(\<forall>fd \<in> set fs. field_ok fd d) \<and> after d = None"
proof -
  obtain u where u: "lb_validate L m v = Inr u" "d = fields_of u"
    using assms(3,4) by (auto split: sum.splits)
  then have "conforms (TModel n forbid fs after) u"
    using assms(1) unfolding assms(2) lawful_lib_def by blast
  from conforms_model [OF this] show ?thesis by (simp add: u(2))
qed

definition purchase_rules :: "pydict \<Rightarrow> bool" where
  "purchase_rules d \<longleftrightarrow> (\<exists>amount wage ref. pyget d ''amount'' = PInt amount \<and> pyget d ''wage'' = PInt wage
     \<and> pyget d ''client_reference_number'' = PStr ref \<and> 5000 \<le> amount \<and> 0 \<le> wage \<and> wage * 100 \<le> amount * 15
     \<and> 1 \<le> length ref \<and> length ref \<le> 50)
     \<and> (truthy (pyget d ''check_payer_mobile_number'') \<longrightarrow> truthy (pyget d ''payer_mobile_number''))
     \<and> \<not> (truthy (pyget d ''payer_card_number'') \<and> truthy (pyget d ''payer_card_numbers''))
     \<and> (\<forall>xs. pyget d ''payer_card_numbers'' = PTuple xs \<longrightarrow> distinct xs)"

lemma purchase_rules_valid:
  assumes "\<forall>fd \<in> set (model_fields CreatePurchaseRequest). field_ok fd d" and "validate_purchase_constraints d = None"
  shows "purchase_rules d"
proof -
  have fields: "field_ok (needed ''amount'' TInt [Ge 5000]) d"
    "field_ok (needed ''client_reference_number'' TStr [MinLen 1, MaxLen 50]) d"
    "field_ok (with_default ''wage'' TInt (PInt 0) [Ge 0]) d"
    using assms(1) by (simp_all add: CreatePurchaseRequest_def request_model_with_def)
  obtain amount where amount: "pyget d ''amount'' = PInt amount" "5000 \<le> amount"
    using fields(1) by (auto simp: needed_def)
  obtain ref where ref: "pyget d ''client_reference_number'' = PStr ref" "1 \<le> length ref" "length ref \<le> 50"
    using fields(2) by (auto simp: needed_def)
  obtain wage where wage: "pyget d ''wage'' = PInt wage" "0 \<le> wage"
    using fields(3) by (auto simp: with_default_def)
  note after = assms(2) [unfolded validate_purchase_constraints_def]
  have "wage * 100 \<le> amount * 15" using after amount wage by (simp split: if_splits)
  moreover have "truthy (pyget d ''check_payer_mobile_number'') \<longrightarrow> truthy (pyget d ''payer_mobile_number'')"
    using after by (simp split: if_splits)
  moreover have "\<not> (truthy (pyget d ''payer_card_number'') \<and> truthy (pyget d ''payer_card_numbers''))"
    using after by (simp split: if_splits)
  moreover have "distinct xs" if "pyget d ''payer_card_numbers'' = PTuple xs" for xs
    using after that by (cases xs) (simp_all split: if_splits)
  ultimately show ?thesis
    using amount ref wage by (auto simp: purchase_rules_def)
qed

text \<open>Either the call raises and the world is untouched, or it submits the payload of a request that meets
  the rules.\<close>

lemma create_purchase_run:
  assumes "lawful_lib (fa_lib (gw_facade gw))"
  shows "(\<exists>x. create_purchase gw amount callback ref wage currency mobile check card_no card_nos code_v
       descr switching extra user w = (Inl x, w))
   \<or> (\<exists>d. purchase_rules d \<and> create_purchase gw amount callback ref wage currency mobile check card_no
       card_nos code_v descr switching extra user w
       = financial_operation gw ''jibit.payment.purchase_created'' ''create_purchase'' ''POST''
           ''/ppg/v3/purchases'' UNSAFE CreatePurchaseResult
           (PDict (to_payload (fa_lib (gw_facade gw)) CreatePurchaseRequest d))
           (\<lambda>data. [(''purchase_id'', pyget data ''purchase_id''),
              (''client_reference_number'', pyget data ''client_reference_number'')]) w)"
proof -
  let ?given = "[(''amount'', amount), (''callback_url'', callback),
        (''client_reference_number'', ref), (''wage'', wage),
        (''currency'', currency), (''payer_mobile_number'', mobile),
        (''check_payer_mobile_number'', check), (''payer_card_number'', card_no),
        (''payer_card_numbers'', card_nos), (''payer_national_code'', code_v), (''description'', descr),
        (''switching'', switching), (''additional_data'', extra), (''user_identifier'', user)]"
  let ?f = "\<lambda>x. if x = ValidationError then Inl (gateway_error ''create_purchase'' ''POST'' ''/ppg/v3/purchases''
      ''The request parameters are invalid'') else Inl x :: exn + pydict"
  let ?r = "case lb_validate (fa_lib (gw_facade gw)) CreatePurchaseRequest (PDict ?given) of
      Inr v \<Rightarrow> Inr (fields_of v) | Inl x \<Rightarrow> ?f x"
  have run: "create_purchase gw amount callback ref wage currency mobile check card_no
       card_nos code_v descr switching extra user = bindM (liftM ?r) (\<lambda>request.
     financial_operation gw ''jibit.payment.purchase_created'' ''create_purchase'' ''POST''
       ''/ppg/v3/purchases'' UNSAFE CreatePurchaseResult
       (PDict (to_payload (fa_lib (gw_facade gw)) CreatePurchaseRequest request))
       (\<lambda>data. [(''purchase_id'', pyget data ''purchase_id''),
          (''client_reference_number'', pyget data ''client_reference_number'')]))"
    unfolding create_purchase_def gateway_request_def ..
  show ?thesis
  proof (cases ?r)
    case (Inl x)
    then show ?thesis unfolding run by (simp add: bindM_def liftM_def)
  next
    case (Inr d)
    have "(\<forall>fd \<in> set (model_fields CreatePurchaseRequest). field_ok fd d) \<and> validate_purchase_constraints d = None"
      by (rule validated_cases [OF assms _ Inr, where n = "''CreatePurchaseRequest''" and forbid = True])
        (simp_all add: CreatePurchaseRequest_def request_model_with_def)
    then have "purchase_rules d" using purchase_rules_valid by blast
    then show ?thesis unfolding run using Inr by (auto simp: bindM_def liftM_def)
  qed
qed

section \<open>Purchase histories\<close>

text \<open>Times that can be compared: both naive or both aware.\<close>

fun comparable :: "pydatetime \<Rightarrow> pydatetime \<Rightarrow> bool" where
  "comparable (Naive a) (Naive b) \<longleftrightarrow> True"
| "comparable (Aware a) (Aware b) \<longleftrightarrow> True"
| "comparable _ _ \<longleftrightarrow> False"

lemma datetime_less_comparable:
  "datetime_less a b = (if comparable a b then Inr (datetime_instant a < datetime_instant b) else Inl TypeError)"
  by (cases "(a, b)" rule: comparable.cases) simp_all

text \<open>A history filter passes exactly when its time range is complete, in order, shorter than three hours and
  given in comparable times, or absent while a purchase or a status is named, and the statuses, when given,
  are not empty. Of all refusals only that of a range that mixes a naive with an aware time is not a
  \<open>ValueError\<close>: it escapes validation as the \<open>TypeError\<close> of the comparison.\<close>

lemma history_filter_rule:
  "validate_history_criteria L d =
    (let a = lb_datetime L (pyget d ''from_''); b = lb_datetime L (pyget d ''to'');
         range = pyget d ''from_'' \<noteq> PNone \<and> pyget d ''to'' \<noteq> PNone;
         statuses_ok = (pyget d ''statuses'' = PNone \<or> truthy (pyget d ''statuses''))
     in if range \<and> \<not> comparable a b then Some TypeError
        else if statuses_ok \<and> (range \<and> datetime_instant a < datetime_instant b
              \<and> datetime_instant b < datetime_instant a + three_hours
            \<or> pyget d ''from_'' = PNone \<and> pyget d ''to'' = PNone
              \<and> \<not> (pyget d ''purchase_id'' = PNone \<and> pyget d ''statuses'' = PNone))
        then None else Some ValueError)"
  by (simp add: validate_history_criteria_def datetime_less_comparable Let_def algebra_simps not_le)

section \<open>Mandates\<close>

fun required_fields :: "mandate_type \<Rightarrow> string list" where
  "required_fields TIME_FRAME = [''otp_requirement_status'']"
| "required_fields SUBSCRIPTION = [''retry'']"
| "required_fields ONE_TAP = [''frequency'', ''otp_requirement_status'']"

fun excluded_fields :: "mandate_type \<Rightarrow> string set" where
  "excluded_fields TIME_FRAME = {''frequency'', ''retry''}"
| "excluded_fields SUBSCRIPTION = {''frequency'', ''otp_requirement_status'', ''otp_condition''}"
| "excluded_fields ONE_TAP = {''retry''}"

lemma excluded_fields_code: "set (incompatible_fields m) = excluded_fields m"
  by (cases m) simp_all

lemma mandate_requirement_met:
  "mandate_requirement m d = None \<longleftrightarrow> (\<forall>f \<in> set (required_fields m). pyget d f \<noteq> PNone)"
  by (cases m) (auto simp: mandate_requirement_def)

lemma fold_dict_del_get: "dict_get (fold dict_del ks d) k = (if k \<in> set ks then None else dict_get d k)"
  by (induction ks arbitrary: d) auto

lemma mandate_payload_get:
  "dict_get (mandate_payload L m d) k =
     (if k \<in> set (incompatible_fields m) then None else dict_get (to_payload L CreateMandateRequest d) k)"
  by (simp add: mandate_payload_def fold_dict_del_get)

lemma mandate_declares:
  "Fdecl ''frequency'' (Some ''frequency'') (TOpt TInt) (Some PNone) [Ge 1] \<in> set (model_fields CreateMandateRequest)"
  "Fdecl ''retry'' (Some ''retry'') (TOpt TBool) (Some PNone) [] \<in> set (model_fields CreateMandateRequest)"
  "Fdecl ''otp_requirement_status'' (Some ''otp_requirement_status'') (TOpt TStr) (Some PNone) []
     \<in> set (model_fields CreateMandateRequest)"
  by (simp_all add: CreateMandateRequest_def request_model_with_def optional_def)

lemma mandate_field:
  assumes "f \<in> {''frequency'', ''retry'', ''otp_requirement_status''}" and "pyget d f \<noteq> PNone"
  shows "dict_get (to_payload L CreateMandateRequest d) f \<noteq> None"
proof -
  have wires: "distinct (map wire_name (model_fields CreateMandateRequest))"
    using debit_wires [of L] by (simp only: debit_requests_def wires_distinct_def list.pred_inject)
  obtain t cs where "Fdecl f (Some f) t (Some PNone) cs \<in> set (model_fields CreateMandateRequest)"
    using assms(1) mandate_declares by blast
  from payload_field [OF wires this refl, of "lb_json L" d] show ?thesis
    using assms(2) by (simp add: to_payload_def)
qed

lemma required_kept: "f \<in> set (required_fields m) \<Longrightarrow> f \<notin> set (incompatible_fields m)"
  by (cases m) auto

lemma mandate_payload_shape:
  assumes "mandate_requirement m d = None"
  shows "set (required_fields m) \<subseteq> set (keys (mandate_payload L m d))
     \<and> set (keys (mandate_payload L m d)) \<inter> excluded_fields m = {}
     \<and> dict_get (mandate_payload L m d)
        = (dict_get (to_payload L CreateMandateRequest d)) |` (- excluded_fields m)"
proof (intro conjI)
  show "set (required_fields m) \<subseteq> set (keys (mandate_payload L m d))"
  proof
    fix f assume f: "f \<in> set (required_fields m)"
    then have "pyget d f \<noteq> PNone" using assms by (auto simp: mandate_requirement_met)
    moreover have "f \<in> {''frequency'', ''retry'', ''otp_requirement_status''}"
      using f by (cases m) auto
    ultimately have "dict_get (mandate_payload L m d) f \<noteq> None"
      using mandate_field required_kept [OF f] by (simp add: mandate_payload_get)
    then show "f \<in> set (keys (mandate_payload L m d))" by (simp add: dict_get_None_iff)
  qed
  have "f \<notin> set (keys (mandate_payload L m d))" if "f \<in> excluded_fields m" for f
    using that by (intro dict_get_None_iff [THEN iffD1]) (simp add: mandate_payload_get excluded_fields_code)
  then show "set (keys (mandate_payload L m d)) \<inter> excluded_fields m = {}" by blast
qed (rule ext, simp add: mandate_payload_get restrict_map_def excluded_fields_code)

lemma create_mandate_run:
  assumes "mandate_of type_v = Some m"
  shows "(\<exists>x. create_mandate fc type_v request values w = (Inl x, w))
   \<or> (\<exists>d. mandate_requirement m d = None
       \<and> create_mandate fc type_v request values w = debit_typed fc ''create_mandate'' ''POST''
           (DEBIT_PREFIX @ ''/mandate/'' @ mandate_value m) UNSAFE InitiateMandateResult
           (PDict (mandate_payload (fa_lib fc) m d)) w)"
proof (cases "request \<noteq> None \<and> values \<noteq> []")
  case True
  then show ?thesis using assms by (auto simp: create_mandate_def raiseM_def)
next
  case False
  let ?path = "DEBIT_PREFIX @ ''/mandate/'' @ mandate_value m"
  let ?r = "case request of Some r \<Rightarrow> Inr r | None \<Rightarrow> validate_request (fa_lib fc) CreateMandateRequest values
      (service_value DIRECT_DEBIT) ''create_mandate'' ''POST'' ?path"
  have run: "create_mandate fc type_v request values = bindM (liftM ?r) (\<lambda>request.
      case mandate_requirement m request of
        Some message \<Rightarrow> raiseM (debit_invalid ''create_mandate'' message)
      | None \<Rightarrow> debit_typed fc ''create_mandate'' ''POST'' ?path UNSAFE InitiateMandateResult
          (PDict (mandate_payload (fa_lib fc) m request)))"
    using assms False by (auto simp: create_mandate_def debit_validate_def comp_defs split: option.split)
  show ?thesis
  proof (cases ?r)
    case (Inl x)
    then show ?thesis unfolding run by (simp add: bindM_def liftM_def)
  next
    case (Inr d)
    show ?thesis
      unfolding run Inr
      by (cases "mandate_requirement m d") (auto simp: bindM_def liftM_def raiseM_def)
  qed
qed


end
