(* ===== verification/Guard_Properties.thy ===== *)
theory Guard_Properties
  imports Service_Facts
begin

text \<open>
  The properties of the local guards of direct debit and KYC: references that become path segments,
  media files and identity numbers.
\<close>

section \<open>References in paths\<close>

definition reference_ok :: "string \<Rightarrow> bool" where
  "reference_ok r \<longleftrightarrow> r \<noteq> [] \<and> list_all reference_char r"

lemma debit_reference_cases:
  "debit_reference r oper = (if reference_ok r then returnM r
     else raiseM (debit_invalid oper ''reference contains invalid characters''))"
  by (simp add: debit_reference_def reference_ok_def)

lemma reference_char_separators:
  "\<not> reference_char CHR ''/''" "\<not> reference_char CHR ''?''" "\<not> reference_char CHR ''#''"
  "\<not> reference_char CHR ''%''" "\<not> reference_char (CHR 92)" "\<not> reference_char (CHR 10)" "\<not> reference_char (CHR 13)"
  by (simp_all add: reference_char_def py_isalnum_char_def is_digit_def is_upper_def is_lower_def code_def)

lemma reference_ok_free: "reference_ok r \<Longrightarrow> \<not> reference_char c \<Longrightarrow> c \<notin> set r"
  by (auto simp: reference_ok_def list_all_iff)

lemma split_on_append: "split_on c (p @ s) = butlast (split_on c p) @ (case split_on c s of
    y # ys \<Rightarrow> (last (split_on c p) @ y) # ys | [] \<Rightarrow> [])"
proof (induction p)
  case (Cons x p)
  then show ?case
    using split_on_nonempty [of c p] split_on_nonempty [of c s]
    by (auto split: list.splits)
qed (auto split: list.splits)

lemma split_reference:
  "reference_ok r \<Longrightarrow> split_on CHR ''/'' (p @ CHR ''/'' # r) = split_on CHR ''/'' p @ [r]"
  using split_on_append [of "CHR ''/''" p "CHR ''/'' # r"] split_on_nonempty [of "CHR ''/''" p]
  by (simp add: split_on_absent reference_ok_free reference_char_separators)


text \<open>The dot segments are references too.\<close>

lemma dot_segments_accepted: "reference_ok ''.''" "reference_ok ''..''"
  by (simp_all add: reference_ok_def reference_char_def)

section \<open>Media files and identity numbers\<close>

text \<open>What the documentation allows for a file: a size limit and a content type.\<close>

definition acceptable :: "nat \<Rightarrow> string \<Rightarrow> media_file \<Rightarrow> bool" where
  "acceptable limit kind m \<longleftrightarrow> length (md_content m) \<le> limit \<and> prefix kind (md_content_type m)"

lemma validate_media_cases:
  "validate_media m limit [kind] oper path w = (if acceptable limit kind m then (Inr (), w)
     else (Inl (if limit < length (md_content m)
        then kyc_invalid oper path (''media exceeds the documented '' @ show_nat limit @ '' byte limit'')
        else kyc_invalid oper path ''media content_type is not supported for this operation''), w))"
  by (simp add: validate_media_def acceptable_def raiseM_def returnM_def)

text \<open>One multipart body: form fields, then the files.\<close>

definition body_of :: "media_file list \<Rightarrow> multipart_part list \<Rightarrow> bool" where
  "body_of files parts \<longleftrightarrow> (\<exists>flds names. parts = flds @ map2 kyc_file names files
     \<and> length names = length files \<and> list_all (\<lambda>p. mp_kind p = FIELD) flds)"

lemma kyc_fields_kind: "list_all (\<lambda>p. mp_kind p = FIELD) (kyc_fields rep values)"
  by (auto simp: kyc_fields_def field_part_def list_all_iff)

lemma body_of_fields: "length names = length files \<Longrightarrow> body_of files (kyc_fields rep values @ map2 kyc_file names files)"
  unfolding body_of_def using kyc_fields_kind by blast

lemma kyc_post_body: "\<exists>parts. kyc_post fc oper path values name m = kyc_execute fc oper path parts \<and> body_of [m] parts"
  using body_of_fields [of "[name]" "[m]"] by (auto simp: kyc_post_def)

text \<open>C27: No KYC operation uploads a file beyond the documented limits: a video of at most 40 MiB, an image of
  at most 10 MiB, a document of at most 4 MiB, each of its content type, for an identity number of ten
  digits; what is uploaded are the form fields and exactly the files given. Otherwise the operation raises
  and the world is untouched.\<close>

theorem kyc_uploads_checked:
  "(if ten_digits nid \<and> line \<noteq> [] \<and> (case dst of None \<Rightarrow> True | Some n \<Rightarrow> 1 \<le> n \<and> n \<le> 10)
       \<and> acceptable (40 * 1024 * 1024) ''video/'' video
    then \<exists>parts. body_of [video] parts \<and> verify_video fc nid video line birth serial spec_words dst asr live
        verif check w = kyc_execute fc ''verify_video'' ''/alpha/v2/kyc'' parts w
    else \<exists>x. verify_video fc nid video line birth serial spec_words dst asr live verif check w = (Inl x, w))
   \<and> (if ten_digits nid \<and> list_all (acceptable (10 * 1024 * 1024) ''image/'') (face # (case ref of None \<Rightarrow> [] | Some m \<Rightarrow> [m]))
    then \<exists>parts. body_of (face # (case ref of None \<Rightarrow> [] | Some m \<Rightarrow> [m])) parts
        \<and> verify_photo fc nid face birth serial ref live verif w
          = kyc_execute fc ''verify_photo'' ''/alpha/v2/authorization'' parts w
    else \<exists>x. verify_photo fc nid face birth serial ref live verif w = (Inl x, w))
   \<and> (if acceptable (4 * 1024 * 1024) ''image/'' doc
    then (\<exists>parts. body_of [doc] parts \<and> ocr_national_card fc doc back turn w
            = kyc_execute fc ''ocr_national_card'' ''/alpha/ocr'' parts w)
      \<and> (\<exists>parts. body_of [doc] parts \<and> ocr_cheque fc doc w = kyc_execute fc ''ocr_cheque'' ''/alpha/cheque'' parts w)
      \<and> (\<exists>parts. body_of [doc] parts \<and> ocr_bank_card fc doc w
            = kyc_execute fc ''ocr_bank_card'' ''/alpha/bank/card'' parts w)
    else (\<exists>x. ocr_national_card fc doc back turn w = (Inl x, w)) \<and> (\<exists>x. ocr_cheque fc doc w = (Inl x, w))
      \<and> (\<exists>x. ocr_bank_card fc doc w = (Inl x, w)))"
  (is "?video \<and> ?photo \<and> ?documents")
proof (intro conjI)
  show ?video
    using kyc_post_body [of fc "''verify_video''" "''/alpha/v2/kyc''" _ "''video_file''" video]
    by (auto simp: verify_video_def thenM_def bindM_def validate_media_cases raiseM_def MAX_VIDEO_BYTES_def
        split: option.splits) metis+
  show ?documents
    using kyc_post_body [of fc "''ocr_national_card''" "''/alpha/ocr''" _ "''file''" doc]
      kyc_post_body [of fc "''ocr_cheque''" "''/alpha/cheque''" _ "''file''" doc]
      kyc_post_body [of fc "''ocr_bank_card''" "''/alpha/bank/card''" _ "''file''" doc]
    by (simp add: ocr_national_card_def ocr_cheque_def ocr_bank_card_def thenM_def bindM_def
        validate_media_cases MAX_OCR_BYTES_def) metis
  show ?photo
  proof (cases ref)
    case None
    then show ?thesis
      using body_of_fields [of "[''live_face'']" "[face]"]
      by (auto simp: verify_photo_def thenM_def bindM_def validate_media_cases raiseM_def returnM_def
          MAX_IMAGE_BYTES_def)
  next
    case (Some m)
    then show ?thesis
      using body_of_fields [of "[''live_face'', ''api_face'']" "[face, m]"]
      by (auto simp: verify_photo_def thenM_def bindM_def validate_media_cases raiseM_def returnM_def
          MAX_IMAGE_BYTES_def)
  qed
qed

text \<open>Ten superscript digits count as an identity number.\<close>

lemma superscript_digits_accepted: "ten_digits (replicate 10 (CHR 178))"
  by (simp add: ten_digits_def py_isdigit_def list_all_iff py_isdigit_char_def is_digit_def code_def)

end
