(* ===== verification/Audit_Properties.thy ===== *)
theory Audit_Properties
  imports Service_Properties
begin

text \<open>
  What the Payment Gateway, which audits itself, tells the audit sink, beside the other services, which
  are audited by their executor.
\<close>

section \<open>Financial operations\<close>

text \<open>The outcome an audit event names for a failure: none for an exception that is not the SDK's.\<close>

definition failure_events :: "exn \<Rightarrow> string list" where
  "failure_events x = (case x of Jibit err \<Rightarrow> [audit_outcome err] | _ \<Rightarrow> [])"

lemma audited_failure_run:
  assumes "m w = (r, w1)"
  shows "\<exists>w2. audited_failure gw name oper m w = (r, w2) \<and> w_sent w2 = w_sent w1 \<and> w_store w2 = w_store w1
     \<and> map (\<lambda>ev. (ae_name ev, ae_operation ev, ae_outcome ev)) (w_audits w2)
       = map (\<lambda>ev. (ae_name ev, ae_operation ev, ae_outcome ev)) (w_audits w1)
         @ (case r of Inr _ \<Rightarrow> [] | Inl x \<Rightarrow> map (\<lambda>oc. (name, oper, oc)) (failure_events x))"
proof (cases r)
  case (Inr y)
  then show ?thesis using assms by (simp add: audited_failure_def catchM_def)
next
  case (Inl x)
  then show ?thesis
    using assms
    by (cases x) (simp_all add: audited_failure_def catchM_def gateway_audit_error_def gateway_audit_then
        gateway_emit_frame raiseM_def failure_events_def make_audit_event_def)
qed

lemma financial_run:
  "(let opt = service_options PAYMENT_GATEWAY oper me path safety None body;
        (sent, w1) = fa_run (gw_facade gw) opt w;
        result = (case sent of Inl x \<Rightarrow> Inl x | Inr raw \<Rightarrow> parse_model_response (fa_env (gw_facade gw)) raw
          (lb_validate (fa_lib (gw_facade gw)) model) (service_value PAYMENT_GATEWAY) oper me path);
        (r, w') = financial_operation gw name oper me path safety model body metadata w
    in r = result \<and> w_sent w' = w_sent w1 \<and> w_store w' = w_store w1
       \<and> map (\<lambda>ev. (ae_name ev, ae_operation ev, ae_outcome ev)) (w_audits w')
         = map (\<lambda>ev. (ae_name ev, ae_operation ev, ae_outcome ev)) (w_audits w1)
           @ (case result of Inr _ \<Rightarrow> [(name, oper, ''succeeded'')]
              | Inl x \<Rightarrow> map (\<lambda>oc. (name, oper, oc)) (failure_events x)))"
proof -
  define opt where "opt = service_options PAYMENT_GATEWAY oper me path safety None body"
  obtain sent w1 where run: "fa_run (gw_facade gw) opt w = (sent, w1)"
    by (cases "fa_run (gw_facade gw) opt w")
  define result where "result = (case sent of Inl x \<Rightarrow> Inl x
    | Inr raw \<Rightarrow> parse_model_response (fa_env (gw_facade gw)) raw
          (lb_validate (fa_lib (gw_facade gw)) model) (service_value PAYMENT_GATEWAY) oper me path)"
  have typed: "gateway_typed gw oper me path safety model body None w = (result, w1)"
    using run by (cases sent) (simp_all add: gateway_typed_def bindM_def liftM_def opt_def result_def)
  obtain w2 where call: "financial_typed gw name oper me path safety model body w = (result, w2)"
      "w_sent w2 = w_sent w1" "w_store w2 = w_store w1"
      "map (\<lambda>ev. (ae_name ev, ae_operation ev, ae_outcome ev)) (w_audits w2)
       = map (\<lambda>ev. (ae_name ev, ae_operation ev, ae_outcome ev)) (w_audits w1)
         @ (case result of Inr _ \<Rightarrow> [] | Inl x \<Rightarrow> map (\<lambda>oc. (name, oper, oc)) (failure_events x))"
    using audited_failure_run [where m = "gateway_typed gw oper me path safety model body None" and name = name, OF typed] unfolding financial_typed_def by blast
  obtain r w' where op: "financial_operation gw name oper me path safety model body metadata w = (r, w')"
    by (cases "financial_operation gw name oper me path safety model body metadata w")
  have "r = result \<and> w_sent w' = w_sent w2 \<and> w_store w' = w_store w2
     \<and> w_audits w' = w_audits w2 @ (case result of Inl _ \<Rightarrow> [] | Inr out \<Rightarrow>
         [make_audit_event name (rw_correlation_id (ar_raw out)) (service_value PAYMENT_GATEWAY) oper
            ''succeeded'' (metadata (fields_of (ar_data out)))])"
    using op call(1)
    by (cases result) (auto simp: financial_operation_def bindM_def gateway_audit_def gateway_audit_then
        gateway_emit_frame returnM_def)
  then show ?thesis
    unfolding opt_def [symmetric] run prod.case Let_def result_def [symmetric] op
    using call by (cases result) (simp_all add: make_audit_event_def)
qed

text \<open>C15: A financial operation of the Payment Gateway is audited exactly once, whatever the sink does: it
  sends what its one executor call sends, leaves the store as that call does, returns or raises what the
  call and the contract of the response give, and hands the sink one event of its name: \<open>succeeded\<close>
  only when the response was understood, \<open>unknown\<close> when the outcome is open, which includes a response that
  breaks the contract, \<open>failed\<close> for any other SDK error and none for an exception that is not the SDK's.\<close>

theorem financial_audited_once:
  "(let opt = service_options PAYMENT_GATEWAY oper me path safety None body;
        (sent, w1) = fa_run (gw_facade gw) opt w;
        result = (case sent of Inl x \<Rightarrow> Inl x | Inr raw \<Rightarrow> parse_model_response (fa_env (gw_facade gw)) raw
          (lb_validate (fa_lib (gw_facade gw)) model) (service_value PAYMENT_GATEWAY) oper me path);
        (r, w') = financial_operation gw name oper me path safety model body metadata w
    in r = result \<and> w_sent w' = w_sent w1 \<and> w_store w' = w_store w1
       \<and> map (\<lambda>ev. (ae_name ev, ae_operation ev, ae_outcome ev)) (w_audits w')
         = map (\<lambda>ev. (ae_name ev, ae_operation ev, ae_outcome ev)) (w_audits w1)
           @ (case result of Inr _ \<Rightarrow> [(name, oper, ''succeeded'')]
              | Inl x \<Rightarrow> map (\<lambda>oc. (name, oper, oc)) (failure_events x)))"
  by (rule financial_run)

section \<open>A response that breaks its contract\<close>

text \<open>The other services audit the executor, which knows nothing of the contract: a response that cannot
  be understood raises and is audited as a success.\<close>

lemma mismatch_audited_as_success:
  assumes "run opt w = (Inr raw, w1)"
    and "parse_model_response (fa_env fc) raw p (service_value (ro_service opt)) (ro_operation opt)
      (ro_method opt) (ro_path opt) = Inl x"
    and "fa_run fc = audited_execute e b name run"
  shows "\<exists>w'. typed_request fc opt p w = (Inl x, w')
     \<and> map ae_outcome (w_audits w') = map ae_outcome (w_audits w1) @ [''succeeded'']"
proof -
  let ?w' = "snd (audit_emit e b name opt (rw_correlation_id raw) ''succeeded''
      [(''status_code'', PInt (rw_status_code raw))] w1)"
  have quiet: "thenM (audit_emit e b name opt c oc m) k v = k (snd (audit_emit e b name opt c oc m v))"
    for c oc m v and k :: "('a, raw_response) action"
    using audit_emit_frame(1) [of e b name opt c oc m v]
    by (cases "audit_emit e b name opt c oc m v") (simp add: thenM_def bindM_def)
  have "fa_run fc opt w = (Inr raw, ?w')"
    using assms(1) by (simp add: assms(3) audited_execute_def bindM_def catchM_def quiet returnM_def)
  moreover have "w_audits ?w' = w_audits w1 @ [make_audit_event name (rw_correlation_id raw)
      (service_value (ro_service opt)) (ro_operation opt) ''succeeded''
      [(''status_code'', PInt (rw_status_code raw))]]"
    by (auto simp: audit_emit_def catchM_def sink_emit_def emit_def modifyM_def split: option.splits)
  ultimately show ?thesis
    using assms(2) by (simp add: typed_request_def bindM_def liftM_def make_audit_event_def)
qed

end
