(* ===== verification/Client.thy ===== *)
theory Client
  imports Gateway Transfers Cobank Identicator Kyc Sms Contracts Debit
begin

text \<open>
  \<open>src/jibit/client.py\<close>: \<open>JibitClient\<close>. The lazily made authenticators and facades are the entries
  of two maps; closing counts how often the transport's \<open>close\<close> ran. An injected dependency is
  absent or given; a given object has a truth value, which \<open>x or Default()\<close> reads.
\<close>

datatype 'a injected = Absent | Given bool 'a

definition or_default :: "'a injected \<Rightarrow> 'a \<Rightarrow> 'a" where
  "or_default x dflt = (case x of Given True v \<Rightarrow> v | _ \<Rightarrow> dflt)"

text \<open>The logger argument: a structured logger with its own switch, a standard logger, or none.\<close>

datatype logger_arg = StructuredLoggerArg bool | StandardLogger | NoLogger

text \<open>The transport: the injected one, or an \<open>HttpxTransport\<close> with the arguments of its \<open>httpx.Client\<close>
  (\<open>verify\<close> and the headers).\<close>

datatype transport_kind = InjectedTransport | HttpxTransport bool "string dict"

definition httpx_transport :: "bool \<Rightarrow> string \<Rightarrow> transport_kind" where
  "httpx_transport verify_ssl user_agent = HttpxTransport verify_ssl [(''User-Agent'', user_agent)]"

text \<open>The audit sink of a client that was given none: \<open>NullAuditSink\<close> discards every event.\<close>

type_synonym sink = "nat \<Rightarrow> audit_event \<Rightarrow> exn option"

definition null_sink :: sink where
  "null_sink n event = None"

definition client_sink :: "sink injected \<Rightarrow> sink" where
  "client_sink audit_sink = or_default audit_sink null_sink"

record 'st client =
  cl_config :: jibit_config
  cl_engine :: engine
  cl_logging :: bool
  cl_transport :: transport_kind
  cl_owns_transport :: bool
  cl_store :: "'st token_store"
  cl_authenticators :: "service_name \<Rightarrow> 'st authenticator option"
  cl_executors :: "service_name \<Rightarrow> 'st executor option"
  cl_closed :: bool
  cl_transport_closes :: nat

definition client_init ::
  "jibit_config \<Rightarrow> unit injected \<Rightarrow> logger_arg \<Rightarrow> 'st token_store injected \<Rightarrow> 'st token_store
     \<Rightarrow> retry_config injected \<Rightarrow> 'st client" where
  "client_init cfg transport logger token_store default_store retry_policy =
     (let logging_on = (case logger of StructuredLoggerArg b \<Rightarrow> b | _ \<Rightarrow> lg_enabled (cf_logging cfg))
      in \<lparr>cl_config = cfg,
          cl_engine = \<lparr>en_config = cfg, en_policy = or_default retry_policy (cf_retry cfg),
            en_logging = logging_on\<rparr>,
          cl_logging = logging_on,
          cl_transport = (case transport of Given True _ \<Rightarrow> InjectedTransport
            | _ \<Rightarrow> httpx_transport (cf_verify_ssl cfg) (cf_user_agent cfg)),
          cl_owns_transport = (case transport of Absent \<Rightarrow> True | _ \<Rightarrow> False),
          cl_store = or_default token_store default_store,
          cl_authenticators = (\<lambda>_. None), cl_executors = (\<lambda>_. None),
          cl_closed = False, cl_transport_closes = 0\<rparr>)"

section \<open>Lazily made parts\<close>

definition authenticated_engine ::
  "env \<Rightarrow> service_name \<Rightarrow> 'st client \<Rightarrow> (exn + 'st authenticator) \<times> 'st client" where
  "authenticated_engine e service c = (case cl_authenticators c service of
       Some a \<Rightarrow> (Inr a, c)
     | None \<Rightarrow> (case service_authenticator e service (cl_config c) (cl_engine c) (cl_store c) (cl_logging c) of
         Inl x \<Rightarrow> (Inl x, c)
       | Inr a \<Rightarrow> (Inr a, c\<lparr>cl_authenticators := (cl_authenticators c)(service \<mapsto> a)\<rparr>)))"

fun audit_event_name :: "service_name \<Rightarrow> string" where
  "audit_event_name TRANSFERS = ''jibit.transfer.operation''"
| "audit_event_name COBANK = ''jibit.cobank.operation''"
| "audit_event_name DIRECT_DEBIT = ''jibit.direct_debit.operation''"
| "audit_event_name SMS = ''jibit.sms.operation''"
| "audit_event_name CONTRACTS = ''jibit.contract.operation''"
| "audit_event_name IDENTICATOR = ''jibit.identicator.operation''"
| "audit_event_name KYC = ''jibit.kyc.operation''"
| "audit_event_name PAYMENT_GATEWAY = ''jibit.payment''"

text \<open>The executor behind a service property: bare for the Payment Gateway, which audits itself; a
  static bearer for KYC; the audited authenticated engine for the others.\<close>

definition make_executor ::
  "env \<Rightarrow> service_name \<Rightarrow> 'st client \<Rightarrow> (exn + 'st executor) \<times> 'st client" where
  "make_executor e service c =
     (if service = KYC then
        (case static_bearer (cl_config c) KYC of
           Inl x \<Rightarrow> (Inl x, c)
         | Inr token \<Rightarrow> (Inr (audited_execute e (cl_logging c) (audit_event_name KYC)
             (static_execute e (cl_engine c) token)), c))
      else case authenticated_engine e service c of
        (Inl x, c') \<Rightarrow> (Inl x, c')
      | (Inr a, c') \<Rightarrow>
          (Inr (if service = PAYMENT_GATEWAY then authenticated_execute e (cl_engine c) a
             else audited_execute e (cl_logging c) (audit_event_name service)
               (authenticated_execute e (cl_engine c) a)), c'))"

text \<open>\<open>client.payment_gateway\<close>, \<open>client.transfers\<close> and so on.\<close>

definition service_property ::
  "env \<Rightarrow> service_name \<Rightarrow> 'st client \<Rightarrow> (exn + 'st executor) \<times> 'st client" where
  "service_property e service c = (case cl_executors c service of
       Some run \<Rightarrow> (Inr run, c)
     | None \<Rightarrow> (case make_executor e service c of
         (Inl x, c') \<Rightarrow> (Inl x, c')
       | (Inr run, c') \<Rightarrow> (Inr run, c'\<lparr>cl_executors := (cl_executors c')(service \<mapsto> run)\<rparr>)))"

text \<open>\<open>JibitClient.from_config\<close>: a validated configuration, or a mapping that is validated first.\<close>

definition from_config ::
  "(pydict \<Rightarrow> exn + jibit_config) \<Rightarrow> jibit_config + pydict \<Rightarrow> (jibit_config \<Rightarrow> 'st client) \<Rightarrow> exn + 'st client" where
  "from_config model_validate config init = (case config of
       Inl cfg \<Rightarrow> Inr (init cfg)
     | Inr value \<Rightarrow> map_sum id init (from_mapping model_validate value))"

section \<open>Closing\<close>

text \<open>\<open>raised\<close> is what the transport's own \<open>close\<close> raises, if it does; the client is then not closed.\<close>

definition close :: "exn option \<Rightarrow> 'st client \<Rightarrow> (exn + unit) \<times> 'st client" where
  "close raised c =
     (if cl_closed c then (Inr (), c)
      else if cl_owns_transport c then (case raised of
          Some x \<Rightarrow> (Inl x, c)
        | None \<Rightarrow> (Inr (), c\<lparr>cl_transport_closes := Suc (cl_transport_closes c), cl_closed := True\<rparr>))
      else (Inr (), c\<lparr>cl_closed := True\<rparr>))"

text \<open>\<open>with client: body\<close>: the client is closed on every way out, and an exception of the body goes on.\<close>

definition with_client ::
  "exn option \<Rightarrow> ('st client \<Rightarrow> (exn + 'a) \<times> 'st client) \<Rightarrow> 'st client \<Rightarrow> (exn + 'a) \<times> 'st client" where
  "with_client raised body c =
     (let (r, c1) = body c; (r2, c2) = close raised c1
      in (case r2 of Inl x \<Rightarrow> Inl x | Inr _ \<Rightarrow> r, c2))"

section \<open>Facts\<close>

text \<open>Reaching a service twice gives the same executor and changes nothing the second time.\<close>

lemma service_property_cached:
  "service_property e service c = (Inr run, c') \<Longrightarrow> service_property e service c' = (Inr run, c')"
  by (auto simp: service_property_def split: option.splits prod.splits sum.splits)

lemma close_again: "close None c = (r, c') \<Longrightarrow> close raised c' = (Inr (), c')"
  by (auto simp: close_def split: if_splits)

lemma with_client_result:
  "fst (with_client None body c) = fst (body c) \<and> cl_closed (snd (with_client None body c))"
  by (auto simp: with_client_def close_def split: prod.split)

end
