(* ===== verification/Webhooks.thy ===== *)
theory Webhooks
  imports Services_Base
begin

text \<open>
  \<open>src/jibit/webhooks/base.py\<close> and \<open>webhooks/models.py\<close>: \<open>parse_callback\<close>. The verifier, the
  deduplication store and the key function are the application's: arguments here. The store's state
  is the world's store component; a logger is absent, or present and enabled or not.
\<close>

definition PaymentCallback :: mdecl where
  "PaymentCallback = response_model ''PaymentCallback''
     [needed ''purchase_id'' TInt [Gt 0], optional ''client_reference_number'' TStr []]"

record parsed_callback =
  pc_payload :: pydict
  pc_verified :: bool
  pc_duplicate :: bool

type_synonym verifier = "string \<Rightarrow> string dict \<Rightarrow> exn + bool"
type_synonym 'st claim = "string \<Rightarrow> 'st \<Rightarrow> (exn + bool) \<times> 'st"

definition callback_repr :: "parsed_callback \<Rightarrow> string" where
  "callback_repr c = ''ParsedCallback(payload=[REDACTED], verified=''
     @ (if pc_verified c then ''True'' else ''False'') @ '', duplicate=''
     @ (if pc_duplicate c then ''True'' else ''False'') @ '')''"

definition callback_log ::
  "bool option \<Rightarrow> level \<Rightarrow> string \<Rightarrow> pydict \<Rightarrow> ('st, unit) action" where
  "callback_log logger lvl event flds = (case logger of
       None \<Rightarrow> returnM () | Some enabled \<Rightarrow> emit enabled lvl event flds)"

definition log_rejection ::
  "bool option \<Rightarrow> string \<Rightarrow> string \<Rightarrow> string \<Rightarrow> ('st, unit) action" where
  "log_rejection logger service correlation_id reason = callback_log logger WARNING WEBHOOK_REJECTED
     [(''service'', PStr service), (''correlation_id'', PStr correlation_id), (''reason'', PStr reason)]"

definition callback_error :: "string \<Rightarrow> string \<Rightarrow> string \<Rightarrow> string \<Rightarrow> exn" where
  "callback_error message service operation correlation_id =
     Jibit (make_error JibitWebhookVerificationError (Some message)
       (Some (context_post_init (empty_context\<lparr>ec_service := Some service,
          ec_operation := Some operation, ec_correlation_id := Some correlation_id\<rparr>))))"

definition reject ::
  "bool option \<Rightarrow> string \<Rightarrow> string \<Rightarrow> string \<Rightarrow> string \<Rightarrow> string \<Rightarrow> ('st, 'a) action" where
  "reject logger service correlation_id reason message operation =
     thenM (log_rejection logger service correlation_id reason)
       (raiseM (callback_error message service operation correlation_id))"

text \<open>\<open>verifier is not None and verifier(raw_body, headers)\<close>; any exception counts as \<open>False\<close>.\<close>

definition verified_by :: "verifier option \<Rightarrow> string \<Rightarrow> string dict \<Rightarrow> bool" where
  "verified_by verifier raw_body headers = (case verifier of
       None \<Rightarrow> False
     | Some f \<Rightarrow> (case f raw_body headers of Inl _ \<Rightarrow> False | Inr b \<Rightarrow> b))"

definition claim_key :: "'st claim \<Rightarrow> string \<Rightarrow> ('st, bool) action" where
  "claim_key claim key = (\<lambda>w. let (r, s) = claim key (w_store w) in (r, w\<lparr>w_store := s\<rparr>))"

definition deduplicate ::
  "bool option \<Rightarrow> string \<Rightarrow> string \<Rightarrow> 'st claim option \<Rightarrow> (pydict \<Rightarrow> exn + string) option \<Rightarrow> pydict
     \<Rightarrow> ('st, bool) action" where
  "deduplicate logger service correlation_id store key_of parsed = (case store of
       None \<Rightarrow> returnM False
     | Some claim \<Rightarrow> (case key_of of
         None \<Rightarrow> reject logger service correlation_id ''deduplication_misconfigured''
           ''A deduplication key function is required'' ''deduplicate_callback''
       | Some f \<Rightarrow> catchM (bindM (liftM (f parsed)) (\<lambda>key. bindM (claim_key claim key) (\<lambda>first.
             returnM (\<not> first))))
           (\<lambda>_. reject logger service correlation_id ''deduplication_failed''
              ''The callback deduplication check failed'' ''deduplicate_callback'')))"

definition parse_callback ::
  "env \<Rightarrow> lib \<Rightarrow> pyval \<Rightarrow> mdecl \<Rightarrow> string \<Rightarrow> string \<Rightarrow> string dict \<Rightarrow> verifier option
     \<Rightarrow> 'st claim option \<Rightarrow> (pydict \<Rightarrow> exn + string) option \<Rightarrow> bool option \<Rightarrow> string option
     \<Rightarrow> ('st, parsed_callback) action" where
  "parse_callback e L payload model service raw_body headers verifier store key_of logger
       correlation_id =
     bindM (case correlation_id of
         Some c \<Rightarrow> if c = [] then new_id e else returnM c | None \<Rightarrow> new_id e) (\<lambda>cid.
     thenM (callback_log logger INFO WEBHOOK_RECEIVED
       [(''service'', PStr service), (''correlation_id'', PStr cid)])
     (case lb_validate L model payload of
        Inl x \<Rightarrow> if x = ValidationError
          then reject logger service cid ''invalid_payload'' ''The callback payload is invalid''
            ''parse_callback''
          else raiseM x
      | Inr v \<Rightarrow>
          if \<not> verified_by verifier raw_body headers
          then reject logger service cid ''authenticity_rejected''
            ''The callback authenticity could not be verified'' ''verify_callback''
          else bindM (deduplicate logger service cid store key_of (fields_of v)) (\<lambda>duplicate.
            returnM \<lparr>pc_payload = fields_of v, pc_verified = True, pc_duplicate = duplicate\<rparr>)))"

section \<open>Facts\<close>

text \<open>A result is only returned for a verified callback; nothing is claimed for another one.\<close>

lemma parse_callback_verified:
  assumes "parse_callback e L payload model service raw_body headers verifier store key_of logger cid w
      = (r, w')"
  shows "(\<forall>c. r = Inr c \<longrightarrow> verified_by verifier raw_body headers \<and> pc_verified c)
     \<and> (\<not> verified_by verifier raw_body headers \<longrightarrow> w_store w' = w_store w)"
proof (cases "lb_validate L model payload")
  case (Inl x)
  then show ?thesis
    using assms by (auto simp: parse_callback_def reject_def callback_log_def log_rejection_def comp_defs
        new_id_def emit_def split: option.splits if_splits prod.splits sum.splits)
next
  case (Inr v)
  show ?thesis
  proof (cases "verified_by verifier raw_body headers")
    case False
    then show ?thesis
      using assms Inr by (auto simp: parse_callback_def reject_def callback_log_def log_rejection_def
          comp_defs new_id_def emit_def split: option.splits if_splits prod.splits sum.splits)
  next
    case True
    have "pc_verified c" if "r = Inr c" for c
      using assms Inr True that
      by (auto simp: parse_callback_def thenM_def bindM_Inr_iff returnM_def)
    then show ?thesis using True by simp
  qed
qed

end
