(* ===== verification/Django.thy ===== *)
theory Django
  imports Config
begin

text \<open>
  \<open>src/jibit/django/client.py\<close>: reading \<open>settings.JIBIT\<close> and the process-local client. Django itself
  is not under \<open>src/\<close>: what reading the setting gives is the argument \<open>settings\<close>, and making a client
  from a configuration mapping and an optional cache store is the argument \<open>build\<close>.
\<close>

datatype settings_access = DjangoMissing | ImproperlyConfigured | Setting pyval

record cache_store_options =
  cs_alias :: string
  cs_key_prefix :: string

definition configuration_error :: "string \<Rightarrow> exn" where
  "configuration_error message = raise_jibit JibitConfigurationError message"

text \<open>\<open>_load_settings\<close>; a missing setting reads as \<open>None\<close>.\<close>

definition load_settings :: "settings_access \<Rightarrow> exn + pydict \<times> pydict" where
  "load_settings settings = (case settings of
       DjangoMissing \<Rightarrow> Inl (configuration_error
         (''Django integration requires the '' @ [CHR 39] @ ''django'' @ [CHR 39] @ '' optional dependency''))
     | ImproperlyConfigured \<Rightarrow> Inl (configuration_error ''Django settings are not configured'')
     | Setting (PDict value) \<Rightarrow>
         (case (case dict_get value ''integration'' of None \<Rightarrow> PDict [] | Some v \<Rightarrow> v) of
            PDict integration \<Rightarrow> Inr (dict_del ''integration'' value, integration)
          | _ \<Rightarrow> Inl (configuration_error
              (''JIBIT['' @ [CHR 39] @ ''integration'' @ [CHR 39] @ ''] must be a mapping'')))
     | Setting _ \<Rightarrow> Inl (configuration_error ''Django setting JIBIT must be a mapping''))"

text \<open>A value that is \<open>None\<close> or a non-empty text.\<close>

definition text_or_None :: "pyval \<Rightarrow> bool" where
  "text_or_None v = (case v of PNone \<Rightarrow> True | PStr s \<Rightarrow> s \<noteq> [] | _ \<Rightarrow> False)"

definition text_of :: "pyval \<Rightarrow> string \<Rightarrow> string" where
  "text_of v dflt = (case v of PStr s \<Rightarrow> if s = [] then dflt else s | _ \<Rightarrow> dflt)"

text \<open>The integration options: which cache store to use, if any. \<open>srt\<close> puts the names of unknown
  options in order.\<close>

definition integration_options ::
  "(string list \<Rightarrow> string list) \<Rightarrow> pydict \<Rightarrow> exn + cache_store_options option" where
  "integration_options srt options =
     (let use = (case dict_get options ''use_django_cache'' of None \<Rightarrow> PBool False | Some v \<Rightarrow> v);
          options = dict_del ''use_django_cache'' options
      in case use of
        PBool use_django_cache \<Rightarrow>
          (let cache_alias = pyget options ''cache_alias''; options = dict_del ''cache_alias'' options;
               cache_key_prefix = pyget options ''cache_key_prefix'';
               options = dict_del ''cache_key_prefix'' options
           in if \<not> text_or_None cache_alias
              then Inl (configuration_error ''cache_alias must be a non-empty string'')
              else if \<not> text_or_None cache_key_prefix
              then Inl (configuration_error ''cache_key_prefix must be a non-empty string'')
              else if options \<noteq> []
              then Inl (configuration_error (''Unknown Django integration options: ''
                @ join_with '', '' (srt (keys options))))
              else if use_django_cache
              then Inr (Some \<lparr>cs_alias = text_of cache_alias ''default'',
                cs_key_prefix = text_of cache_key_prefix ''jibit-token''\<rparr>)
              else if cache_alias \<noteq> PNone \<or> cache_key_prefix \<noteq> PNone
              then Inl (configuration_error ''cache_alias and cache_key_prefix require use_django_cache=true'')
              else Inr None)
      | _ \<Rightarrow> Inl (configuration_error ''use_django_cache must be a boolean''))"

section \<open>The process-local client\<close>

definition get_jibit_client ::
  "(string list \<Rightarrow> string list) \<Rightarrow> (pydict \<Rightarrow> cache_store_options option \<Rightarrow> exn + 'c) \<Rightarrow> settings_access
     \<Rightarrow> 'c option \<Rightarrow> (exn + 'c) \<times> 'c option" where
  "get_jibit_client srt build settings current = (case current of
       Some c \<Rightarrow> (Inr c, Some c)
     | None \<Rightarrow> (case load_settings settings of
         Inl x \<Rightarrow> (Inl x, None)
       | Inr (config, options) \<Rightarrow> (case integration_options srt options of
           Inl x \<Rightarrow> (Inl x, None)
         | Inr store \<Rightarrow> (case build config store of
             Inl x \<Rightarrow> (Inl x, None)
           | Inr c \<Rightarrow> (Inr c, Some c)))))"

text \<open>The second component lists the clients that were closed.\<close>

definition close_jibit_client :: "'c option \<Rightarrow> 'c option \<times> 'c list" where
  "close_jibit_client current = (case current of Some c \<Rightarrow> (None, [c]) | None \<Rightarrow> (None, []))"

section \<open>Facts\<close>

lemma get_jibit_client_again:
  "get_jibit_client srt build settings current = (Inr c, st) \<Longrightarrow>
     st = Some c \<and> get_jibit_client srt build' settings' st = (Inr c, Some c)"
  by (auto simp: get_jibit_client_def split: option.splits sum.splits prod.splits)

lemma integration_unknown:
  "dict_get options k \<noteq> None \<Longrightarrow> k \<notin> {''use_django_cache'', ''cache_alias'', ''cache_key_prefix''} \<Longrightarrow>
     \<exists>x. integration_options srt options = Inl x"
proof -
  assume "dict_get options k \<noteq> None"
    and "k \<notin> {''use_django_cache'', ''cache_alias'', ''cache_key_prefix''}"
  then have "dict_get (dict_del ''cache_key_prefix'' (dict_del ''cache_alias''
      (dict_del ''use_django_cache'' options))) k \<noteq> None"
    by simp
  then have "dict_del ''cache_key_prefix'' (dict_del ''cache_alias''
      (dict_del ''use_django_cache'' options)) \<noteq> []"
    by (metis dict_get_def map_of.simps(1))
  then show ?thesis
    by (auto simp: integration_options_def Let_def split: pyval.splits option.splits)
qed

end
