(* ===== verification/Lifecycle_Properties.thy ===== *)
theory Lifecycle_Properties
  imports Service_Properties Client Webhooks Django
begin

text \<open>
  The properties of the long-lived parts: the client with its cached executors and its transport, the
  process-local client of the Django integration, and the callbacks that arrive more than once.
\<close>

section \<open>The client over any sequence of uses\<close>

text \<open>A use of the client: reaching a service, or closing, with what the transport's own \<open>close\<close> raises.\<close>

datatype client_call = Reach service_name | CloseClient "exn option"

fun client_step :: "env \<Rightarrow> client_call \<Rightarrow> 'st client \<Rightarrow> 'st client" where
  "client_step e (Reach s) c = snd (service_property e s c)"
| "client_step e (CloseClient raised) c = snd (close raised c)"

definition client_run :: "env \<Rightarrow> client_call list \<Rightarrow> 'st client \<Rightarrow> 'st client" where
  "client_run e calls c = fold (client_step e) calls c"

lemma client_run_append: "client_run e (xs @ ys) c = client_run e ys (client_run e xs c)"
  by (simp add: client_run_def)

text \<open>What every client keeps: the parts it was made with, and that what it caches was made for it.\<close>

definition client_sound :: "env \<Rightarrow> 'st client \<Rightarrow> bool" where
  "client_sound e c \<longleftrightarrow> en_config (cl_engine c) = cl_config c
     \<and> (\<forall>s a. cl_authenticators c s = Some a \<longrightarrow>
          service_authenticator e s (cl_config c) (cl_engine c) (cl_store c) (cl_logging c) = Inr a)
     \<and> (\<forall>s run. cl_executors c s = Some run \<longrightarrow> unsafe_single (cl_config c) s run)"

definition same_parts :: "'st client \<Rightarrow> 'st client \<Rightarrow> bool" where
  "same_parts c c' \<longleftrightarrow> cl_config c' = cl_config c \<and> cl_engine c' = cl_engine c \<and> cl_store c' = cl_store c
     \<and> cl_logging c' = cl_logging c \<and> cl_owns_transport c' = cl_owns_transport c
     \<and> cl_executors c \<subseteq>\<^sub>m cl_executors c' \<and> cl_authenticators c \<subseteq>\<^sub>m cl_authenticators c'"

lemma same_parts_refl [simp]: "same_parts c c"
  by (simp add: same_parts_def)

lemma same_parts_trans: "same_parts a b \<Longrightarrow> same_parts b c \<Longrightarrow> same_parts a c"
  unfolding same_parts_def by (metis map_le_trans)

lemma unsafe_single_static: "unsafe_single (en_config g) s (static_execute e g token)"
  using static_executor.unsafe_at_most by (fastforce simp: unsafe_single_def operation_url_def)

lemma unsafe_single_audited_static:
  "unsafe_single (en_config g) s (audited_execute e b n (static_execute e g token))"
  using unsafe_single_static
  by (simp add: unsafe_single_def at_most_def sent_to_def audited_execute_frame)

lemma authenticated_engine_facts:
  assumes "client_sound e c" and "authenticated_engine e s c = (r, c')"
  shows "same_parts c c' \<and> client_sound e c' \<and> cl_closed c' = cl_closed c
     \<and> cl_transport_closes c' = cl_transport_closes c \<and> cl_executors c' = cl_executors c
     \<and> (case r of Inl _ \<Rightarrow> True
        | Inr a \<Rightarrow> service_authenticator e s (cl_config c) (cl_engine c) (cl_store c) (cl_logging c) = Inr a)"
  using assms
  by (auto simp: authenticated_engine_def same_parts_def client_sound_def map_le_def
      split: option.splits sum.splits if_splits)

lemma make_executor_facts:
  assumes "client_sound e c" and "make_executor e s c = (r, c')"
  shows "same_parts c c' \<and> client_sound e c' \<and> cl_closed c' = cl_closed c
     \<and> cl_transport_closes c' = cl_transport_closes c \<and> cl_executors c' = cl_executors c
     \<and> (case r of Inl _ \<Rightarrow> True | Inr run \<Rightarrow> unsafe_single (cl_config c) s run)"
proof (cases "s = KYC")
  case True
  have "en_config (cl_engine c) = cl_config c" using assms(1) by (simp add: client_sound_def)
  then show ?thesis
    using assms True unsafe_single_audited_static [of "cl_engine c" KYC e]
    by (auto simp: make_executor_def split: sum.splits)
next
  case False
  obtain r1 c1 where engine: "authenticated_engine e s c = (r1, c1)"
    by (cases "authenticated_engine e s c")
  have facts: "same_parts c c1" "cl_engine c1 = cl_engine c" "en_config (cl_engine c) = cl_config c"
    using authenticated_engine_facts [OF assms(1) engine] assms(1)
    by (simp_all add: same_parts_def client_sound_def)
  show ?thesis
    using assms(2) False engine facts authenticated_engine_facts [OF assms(1) engine]
      unsafe_single_authenticated [of e s "cl_config c" "cl_engine c" "cl_store c" "cl_logging c"]
    by (cases r1) (auto simp: make_executor_def)
qed

lemma cache_executor:
  "cl_executors c s = None \<Longrightarrow> same_parts c (c\<lparr>cl_executors := (cl_executors c)(s \<mapsto> run)\<rparr>)"
  "client_sound e c \<Longrightarrow> unsafe_single (cl_config c) s run \<Longrightarrow>
     client_sound e (c\<lparr>cl_executors := (cl_executors c)(s \<mapsto> run)\<rparr>)"
  by (auto simp: same_parts_def client_sound_def map_le_def)

lemma service_property_facts:
  assumes "client_sound e c"
  shows "same_parts c (client_step e (Reach s) c) \<and> client_sound e (client_step e (Reach s) c)
     \<and> cl_closed (client_step e (Reach s) c) = cl_closed c
     \<and> cl_transport_closes (client_step e (Reach s) c) = cl_transport_closes c"
proof (cases "cl_executors c s")
  case None
  obtain r c1 where made: "make_executor e s c = (r, c1)" by (cases "make_executor e s c")
  note facts = make_executor_facts [OF assms made]
  show ?thesis
  proof (cases r)
    case (Inl x)
    then show ?thesis using None made facts by (simp add: service_property_def)
  next
    case (Inr run)
    then have step: "client_step e (Reach s) c = c1\<lparr>cl_executors := (cl_executors c1)(s \<mapsto> run)\<rparr>"
      using None made by (simp add: service_property_def)
    have "unsafe_single (cl_config c1) s run" "cl_executors c1 s = None"
      using facts Inr None by (simp_all add: same_parts_def)
    then have "same_parts c1 (client_step e (Reach s) c)" "client_sound e (client_step e (Reach s) c)"
      unfolding step using facts by (blast intro: cache_executor)+
    then show ?thesis
      using facts same_parts_trans [of c c1] by (simp add: step del: client_step.simps)
  qed
qed (simp add: service_property_def assms)

lemma close_facts:
  "same_parts c (snd (close raised c)) \<and> (client_sound e c \<longrightarrow> client_sound e (snd (close raised c)))
     \<and> (cl_closed (snd (close raised c)) \<longleftrightarrow> cl_closed c \<or> \<not> cl_owns_transport c \<or> raised = None)
     \<and> cl_transport_closes (snd (close raised c)) = (if \<not> cl_closed c \<and> cl_owns_transport c \<and> raised = None
         then Suc (cl_transport_closes c) else cl_transport_closes c)"
  by (auto simp: close_def same_parts_def client_sound_def split: option.split)

text \<open>A call that closes the client.\<close>

definition closing :: "bool \<Rightarrow> client_call \<Rightarrow> bool" where
  "closing owned call \<longleftrightarrow> (case call of Reach s \<Rightarrow> False | CloseClient raised \<Rightarrow> \<not> owned \<or> raised = None)"

lemma closing_owned: "list_ex (closing True) calls \<longleftrightarrow> CloseClient None \<in> set calls"
proof -
  have "closing True call \<longleftrightarrow> call = CloseClient None" for call
    by (cases call) (simp_all add: closing_def)
  then show ?thesis by (simp add: list_ex_iff)
qed

text \<open>The transport was closed once if it is the client's own and the client was closed.\<close>

definition closes_match :: "'st client \<Rightarrow> bool" where
  "closes_match c \<longleftrightarrow> cl_transport_closes c = (if cl_owns_transport c \<and> cl_closed c then 1 else 0)"

lemma client_run_facts:
  assumes "client_sound e c" and "closes_match c"
  shows "client_sound e (client_run e calls c) \<and> same_parts c (client_run e calls c)
     \<and> closes_match (client_run e calls c)
     \<and> (cl_closed (client_run e calls c) \<longleftrightarrow> cl_closed c \<or> list_ex (closing (cl_owns_transport c)) calls)"
  using assms
proof (induction calls arbitrary: c)
  case (Cons call calls)
  let ?c = "client_step e call c"
  have step: "client_sound e ?c" "same_parts c ?c" "closes_match ?c"
    "cl_closed ?c \<longleftrightarrow> cl_closed c \<or> closing (cl_owns_transport c) call"
    using Cons.prems service_property_facts [OF Cons.prems(1)] close_facts [of c _ e]
    by (cases call; auto simp: closes_match_def same_parts_def closing_def)+
  have "cl_owns_transport ?c = cl_owns_transport c" using step(2) by (simp add: same_parts_def)
  moreover have "client_run e (call # calls) c = client_run e calls ?c" by (simp add: client_run_def)
  ultimately show ?case
    using Cons.IH [OF step(1,3)] step(4) same_parts_trans [OF step(2)]
    by (simp del: client_step.simps)
qed (simp add: client_run_def)

lemma client_init_facts:
  "client_sound e (client_init cfg tr lg st dst rp) \<and> closes_match (client_init cfg tr lg st dst rp)
     \<and> \<not> cl_closed (client_init cfg tr lg st dst rp)
     \<and> cl_owns_transport (client_init cfg tr lg st dst rp) = (tr = Absent)
     \<and> cl_config (client_init cfg tr lg st dst rp) = cfg"
  by (simp add: client_init_def client_sound_def closes_match_def Let_def split: injected.split)

text \<open>C30: Whatever sequence of service accesses and closings a client goes through, it keeps the engine,
  store and configuration it was made with, and every authenticator and executor it has handed out stays
  the one of its service; each executor sends an operation that must not be repeated at most once; the
  transport is closed successfully exactly once if the client made it itself and one of the closings went through, and
  never otherwise.\<close>

theorem client_lifecycle:
  "(let c0 = client_init cfg tr lg st dst rp; c = client_run e calls c0; c' = client_run e (calls @ later) c0
    in cl_config c = cfg \<and> cl_engine c = cl_engine c0 \<and> cl_store c = cl_store c0
     \<and> cl_executors c \<subseteq>\<^sub>m cl_executors c' \<and> cl_authenticators c \<subseteq>\<^sub>m cl_authenticators c'
     \<and> (\<forall>s. case cl_executors c s of None \<Rightarrow> True | Some run \<Rightarrow> unsafe_single cfg s run)
     \<and> cl_transport_closes c = (if tr = Absent \<and> CloseClient None \<in> set calls then 1 else 0))"
proof -
  let ?start = "client_init cfg tr lg st dst rp"
  let ?c = "client_run e calls ?start"
  have first: "client_sound e ?c" "same_parts ?start ?c" "closes_match ?c"
    "cl_closed ?c \<longleftrightarrow> list_ex (closing (tr = Absent)) calls"
    using client_run_facts [of e ?start calls] client_init_facts [of e cfg tr lg st dst rp] by simp_all
  have closes: "cl_transport_closes ?c = (if tr = Absent \<and> CloseClient None \<in> set calls then 1 else 0)"
    using first(2,3,4) client_init_facts [of e cfg tr lg st dst rp] closing_owned [of calls]
    by (auto simp: closes_match_def same_parts_def)
  have "same_parts ?c (client_run e later ?c)"
    using client_run_facts [OF first(1,3)] by simp
  with closes show ?thesis
    using first client_init_facts [of e cfg tr lg st dst rp]
    by (simp add: Let_def client_run_append same_parts_def client_sound_def split: option.split)
qed

section \<open>Callbacks\<close>

text \<open>What the application's deduplication store promises: a key is claimed once.\<close>

definition lawful_claim :: "'st claim \<Rightarrow> ('st \<Rightarrow> string set) \<Rightarrow> bool" where
  "lawful_claim claim claimed \<longleftrightarrow>
     (\<forall>k s. \<exists>s'. claim k s = (Inr (k \<notin> claimed s), s') \<and> claimed s' = insert k (claimed s))"

lemma reject_world:
  "\<exists>x w'. reject logger service cid reason message oper w = (Inl x, w') \<and> w_store w' = w_store w"
  by (auto simp: reject_def log_rejection_def callback_log_def thenM_def bindM_def raiseM_def emit_def
      modifyM_def returnM_def split: option.split)

lemma callback_prefix:
  fixes w :: "'st world"
  shows "\<exists>cid' w1. parse_callback e L payload model service raw headers verifier store key_of logger cid w
     = (case lb_validate L model payload of
        Inl x \<Rightarrow> if x = ValidationError
          then reject logger service cid' ''invalid_payload'' ''The callback payload is invalid''
            ''parse_callback''
          else raiseM x
      | Inr v \<Rightarrow>
          if \<not> verified_by verifier raw headers
          then reject logger service cid' ''authenticity_rejected''
            ''The callback authenticity could not be verified'' ''verify_callback''
          else bindM (deduplicate logger service cid' store key_of (fields_of v)) (\<lambda>duplicate.
            returnM \<lparr>pc_payload = fields_of v, pc_verified = True, pc_duplicate = duplicate\<rparr>)) w1
     \<and> w_store w1 = w_store w"
proof -
  define idm :: "('st, string) action"
    where "idm = (case cid of Some c \<Rightarrow> if c = [] then new_id e else returnM c | None \<Rightarrow> new_id e)"
  obtain cid' w0 where id: "idm w = (Inr cid', w0)" "w_store w0 = w_store w"
    by (cases cid; cases "cid = Some []") (auto simp: idm_def new_id_def returnM_def)
  let ?log = "callback_log logger INFO WEBHOOK_RECEIVED
      [(''service'', PStr service), (''correlation_id'', PStr cid')]"
  obtain w1 where log: "?log w0 = (Inr (), w1)" "w_store w1 = w_store w0"
    by (cases logger) (auto simp: callback_log_def returnM_def emit_def modifyM_def)
  show ?thesis
    unfolding parse_callback_def idm_def [symmetric] thenM_def bindM_result [where m = idm, OF id(1)]
      bindM_result [where m = ?log, OF log(1)]
    using id(2) log(2) by auto
qed

text \<open>C29: A callback is only accepted when the application's verifier accepts it, and counted once: when its
  deduplication store claims each key once, a verified callback is marked a duplicate exactly when its key was
  claimed before, and its key is claimed afterwards; a callback that is not verified raises and claims nothing.\<close>

theorem callback_counted_once:
  assumes "lawful_claim claim claimed" and "lb_validate L model payload = Inr v"
    and "f (fields_of v) = Inr key"
  shows "if verified_by verifier raw headers
     then \<exists>w'. parse_callback e L payload model service raw headers verifier (Some claim) (Some f) logger cid w
         = (Inr \<lparr>pc_payload = fields_of v, pc_verified = True, pc_duplicate = (key \<in> claimed (w_store w))\<rparr>, w')
       \<and> claimed (w_store w') = insert key (claimed (w_store w))
     else \<exists>x w'. parse_callback e L payload model service raw headers verifier (Some claim) (Some f) logger cid w
         = (Inl x, w') \<and> w_store w' = w_store w"
proof -
  let ?run = "parse_callback e L payload model service raw headers verifier (Some claim) (Some f) logger cid w"
  obtain cid' w1 where run: "?run = (if \<not> verified_by verifier raw headers
          then reject logger service cid' ''authenticity_rejected''
            ''The callback authenticity could not be verified'' ''verify_callback''
          else bindM (deduplicate logger service cid' (Some claim) (Some f) (fields_of v)) (\<lambda>duplicate.
            returnM \<lparr>pc_payload = fields_of v, pc_verified = True, pc_duplicate = duplicate\<rparr>)) w1"
    and store: "w_store w1 = w_store w"
    using callback_prefix [of e L payload model service raw headers verifier "Some claim" "Some f" logger cid w]
      assms(2) by auto
  show ?thesis
  proof (cases "verified_by verifier raw headers")
    case True
    obtain s' where claim: "claim key (w_store w) = (Inr (key \<notin> claimed (w_store w)), s')"
        "claimed s' = insert key (claimed (w_store w))"
      using assms(1) unfolding lawful_claim_def by blast
    then show ?thesis
      using True run store assms(3)
      by (simp add: deduplicate_def claim_key_def comp_defs)
  next
    case False
    then show ?thesis
      using run store reject_world [of logger service cid' "''authenticity_rejected''"
          "''The callback authenticity could not be verified''" "''verify_callback''" w1] by auto
  qed
qed

definition set_claim :: "string set claim" where
  "set_claim k s = (Inr (k \<notin> s), insert k s)"

theorem callback_counted_once_witness:
  "\<exists>w'. parse_callback (sample_env flaky) strict_lib (PDict [(''purchase_id'', PInt 7)]) TAny ''ppg'' ''raw'' []
       (Some (\<lambda>_ _. Inr True)) (Some set_claim) (Some (\<lambda>_. Inr ''7'')) (Some True) None (initial_world {''7''})
     = (Inr \<lparr>pc_payload = [(''purchase_id'', PInt 7)], pc_verified = True, pc_duplicate = True\<rparr>, w')"
proof -
  have "lawful_claim set_claim (\<lambda>s. s)" by (simp add: lawful_claim_def set_claim_def)
  moreover have "lb_validate strict_lib TAny (PDict [(''purchase_id'', PInt 7)]) = Inr (PDict [(''purchase_id'', PInt 7)])"
    by (simp add: strict_lib_def)
  ultimately show ?thesis
    using callback_counted_once [of set_claim "\<lambda>s. s" strict_lib TAny "PDict [(''purchase_id'', PInt 7)]"
        "PDict [(''purchase_id'', PInt 7)]" "\<lambda>_. Inr ''7''" "''7''" "Some (\<lambda>_ _. Inr True)" "''raw''" "[]"
        "sample_env flaky" "''ppg''" "Some True" None "initial_world {''7''}"]
    by (auto simp: verified_by_def fields_of_def initial_world_def)
qed

end
