(* ===== verification/Wire_Properties.thy ===== *)
theory Wire_Properties
  imports Auth_Properties
begin

text \<open>
  What an authenticated operation puts on the wire: which requests, in which order, under which tokens.
\<close>

definition bearer_of :: "token_state \<Rightarrow> string" where
  "bearer_of t = tk_token_type t @ '' '' @ access_value t"

text \<open>The operation's own request, under the token \<open>t\<close> and some correlation identifier.\<close>

definition carries :: "engine \<Rightarrow> request_options \<Rightarrow> token_state \<Rightarrow> transport_request \<Rightarrow> bool" where
  "carries g opt t r \<longleftrightarrow> (\<exists>cid. r = transport_request_of g (with_token opt t) cid (ro_path opt))"

lemma carries_facts:
  "carries g opt t r \<Longrightarrow> dict_get (tr_headers r) ''Authorization'' = Some (bearer_of t)
     \<and> tr_url r = operation_url g opt \<and> tr_method r = str_upper (ro_method opt)
     \<and> tr_json r = ro_json opt \<and> tr_params r = ro_params opt \<and> tr_multipart r = ro_multipart opt"
  by (auto simp: carries_def transport_request_of_def request_headers_def with_token_def authorize_def
      bearer_of_def operation_url_def Let_def split: option.splits)

lemma execute_carries:
  "\<exists>rs. w_sent (snd (execute e g (with_token opt t) w)) = w_sent w @ rs \<and> list_all (carries g opt t) rs"
proof -
  obtain n where "w_sent (snd (execute e g (with_token opt t) w)) = w_sent w
      @ replicate n (transport_request_of g (with_token opt t) (effective_id e (with_token opt t) w) (ro_path opt))"
    using execute_sent [of e g "with_token opt t" w] by auto
  then show ?thesis by (auto simp: carries_def list_all_iff)
qed

lemma replay_carries:
  "\<exists>rs. w_sent (snd (replay e g a opt t w)) = w_sent w @ rs \<and> list_all (carries g opt t) rs"
proof -
  obtain r w1 where first: "execute e g (with_token opt t) w = (r, w1)"
    by (cases "execute e g (with_token opt t) w")
  have "w_sent (snd (replay e g a opt t w)) = w_sent w1"
    using first invalidate_frame [of a _ w1]
    by (cases r; cases "unauthorized (projl r)") (simp_all add: replay_def catchM_def raiseM_def)
  then show ?thesis using execute_carries [of e g opt t w] first by simp
qed

lemma recovered_carries:
  "\<exists>toks again. w_sent (snd (bindM (recover_from_unauthorized e a u) (replay e g a opt) w)) = w_sent w @ toks @ again
     \<and> list_all (token_request a) toks
     \<and> (again = [] \<or> (\<exists>t w1. recover_from_unauthorized e a u w = (Inr t, w1) \<and> list_all (carries g opt t) again))"
proof -
  obtain r w1 where recover: "recover_from_unauthorized e a u w = (r, w1)"
    by (cases "recover_from_unauthorized e a u w")
  then obtain toks where toks: "w_sent w1 = w_sent w @ toks" "list_all (token_request a) toks"
    using keepsD [OF sends_get_token(2)] by (fastforce simp: sends_def)
  show ?thesis
  proof (cases r)
    case (Inl x)
    then show ?thesis using recover toks by (intro exI [of _ toks] exI [of _ "[]"]) (simp add: bindM_def)
  next
    case (Inr t)
    obtain rs where "w_sent (snd (replay e g a opt t w1)) = w_sent w1 @ rs" "list_all (carries g opt t) rs"
      using replay_carries by blast
    then show ?thesis
      using recover toks Inr by (intro exI [of _ toks] exI [of _ rs]) (simp add: bindM_def)
  qed
qed

text \<open>C4: Every request of an authenticated operation is accounted for: without a token nothing but the token
  endpoints is reached and the failure is passed on; with one, what follows is the operation's own request,
  repeated or not, under exactly that token, then requests to the token endpoints, then the operation's own
  request again under the token of the recovery, if there is one.\<close>

theorem requests_accounted_for:
  "(case get_token e a w of
      (Inl x, w1) \<Rightarrow> authenticated_execute e g a opt w = (Inl x, w1) \<and> sends (token_request a) w w1
    | (Inr t, w1) \<Rightarrow> sends (token_request a) w w1
       \<and> (\<exists>first toks again. w_sent (snd (authenticated_execute e g a opt w)) = w_sent w1 @ first @ toks @ again
           \<and> list_all (carries g opt t) first \<and> list_all (token_request a) toks
           \<and> (again = [] \<or> (\<exists>t2 v v'. recover_from_unauthorized e a (access_value t) v = (Inr t2, v')
                \<and> list_all (carries g opt t2) again))))"
proof -
  obtain r0 w1 where get: "get_token e a w = (r0, w1)" by (cases "get_token e a w")
  have tokens: "sends (token_request a) w w1" by (rule keepsD [OF sends_get_token(1) get])
  show ?thesis
  proof (cases r0)
    case (Inl x)
    then show ?thesis using get tokens by (simp add: authenticated_execute_def bindM_def)
  next
    case (Inr t)
    obtain r w2 where exec: "execute e g (with_token opt t) w1 = (r, w2)"
      by (cases "execute e g (with_token opt t) w1")
    obtain first where first: "w_sent w2 = w_sent w1 @ first" "list_all (carries g opt t) first"
      using execute_carries [of e g opt t w1] exec by auto
    let ?run = "authenticated_execute e g a opt w"
    have run: "?run = (case r of Inr raw \<Rightarrow> (Inr raw, w2) | Inl x \<Rightarrow>
        (if unauthorized x then
           if can_replay opt then bindM (recover_from_unauthorized e a (access_value t)) (replay e g a opt)
           else thenM (invalidate a) (raiseM x)
         else raiseM x) w2)"
      using get Inr exec by (simp add: authenticated_execute_def bindM_def catchM_def split: sum.split)
    have "\<exists>toks again. w_sent (snd ?run) = w_sent w2 @ toks @ again \<and> list_all (token_request a) toks
        \<and> (again = [] \<or> (\<exists>t2 v'. recover_from_unauthorized e a (access_value t) w2 = (Inr t2, v')
             \<and> list_all (carries g opt t2) again))"
    proof (cases "\<exists>x. r = Inl x \<and> unauthorized x \<and> can_replay opt")
      case True
      then have "?run = bindM (recover_from_unauthorized e a (access_value t)) (replay e g a opt) w2"
        using run by auto
      then show ?thesis
        using recovered_carries [of e a "access_value t" g opt w2] by (simp only:)
    next
      case False
      then have "w_sent (snd ?run) = w_sent w2"
        using run invalidate_frame [of a _ w2]
        by (cases r; cases "unauthorized (projl r)") (simp_all add: raiseM_def)
      then show ?thesis by (intro exI [of _ "[]"]) simp
    qed
    then obtain toks again where "w_sent (snd ?run) = w_sent w1 @ first @ toks @ again"
      "list_all (token_request a) toks" "again = [] \<or> (\<exists>t2 v v'.
          recover_from_unauthorized e a (access_value t) v = (Inr t2, v') \<and> list_all (carries g opt t2) again)"
      unfolding first(1) append_assoc by blast
    then have "\<exists>first toks again. w_sent (snd ?run) = w_sent w1 @ first @ toks @ again
        \<and> list_all (carries g opt t) first \<and> list_all (token_request a) toks
        \<and> (again = [] \<or> (\<exists>t2 v v'. recover_from_unauthorized e a (access_value t) v = (Inr t2, v')
             \<and> list_all (carries g opt t2) again))"
      using first(2) by blast
    then show ?thesis using tokens by (simp add: get Inr)
  qed
qed

end
