(* ===== verification/Engine_Loop.thy ===== *)
theory Engine_Loop
  imports Engine_Facts "HOL-Library.While_Combinator"
begin

text \<open>
  The loop of \<open>RequestEngine.execute\<close> as the source writes it: \<open>while True\<close> with one body, which returns,
  raises, or counts the attempt up and continues. \<open>while_option\<close> gives \<open>None\<close> for a loop that never ends;
  this one ends, with the result of the recursive definition.
\<close>

type_synonym 'st loop_state = "(exn + raw_response) option \<times> int \<times> 'st world"

definition loop_goes_on :: "'st loop_state \<Rightarrow> bool" where
  "loop_goes_on st \<longleftrightarrow> fst st = None"

definition leave :: "int \<Rightarrow> (exn + raw_response) \<times> 'st world \<Rightarrow> 'st loop_state" where
  "leave attempt out = (Some (fst out), attempt, snd out)"

definition loop_body ::
  "env \<Rightarrow> engine \<Rightarrow> request_options \<Rightarrow> transport_request \<Rightarrow> string \<Rightarrow> string \<Rightarrow> rat
     \<Rightarrow> 'st loop_state \<Rightarrow> 'st loop_state" where
  "loop_body e g opt req correlation_id endpoint started st =
     (let attempt = fst (snd st); (outcome, w1) = transmit e req (snd (snd st));
          on_transport_failure = (\<lambda>is_timeout.
            let dec = ask_policy e g opt attempt None True w1; w2 = draw (snd dec) w1
            in if rd_should_retry (fst dec)
               then (None, attempt + 1, snd (before_retry g opt correlation_id attempt dec w2))
               else leave attempt
                 (fail_with e g started (Inr (transport_error opt correlation_id endpoint is_timeout)) w2))
      in case outcome of
        SendRaised x \<Rightarrow> leave attempt (Inl x, w1)
      | TransportTimeoutError \<Rightarrow> on_transport_failure True
      | TransportNetworkError \<Rightarrow> on_transport_failure False
      | Received r \<Rightarrow>
          if is_success (rs_status_code r)
          then leave attempt (complete e g opt correlation_id endpoint started attempt r w1)
          else let dec = ask_policy e g opt attempt (Some (rs_status_code r)) False w1;
                   w2 = draw (snd dec) w1
               in if rd_should_retry (fst dec)
                  then (None, attempt + 1, snd (before_retry g opt correlation_id attempt dec w2))
                  else leave attempt
                    (fail_with e g started (map_error e opt correlation_id endpoint r) w2))"

lemma loop_body_step:
  "loop_body e g opt req cid ep started (x, attempt, w) =
     (if outcome_retried g opt attempt (e_send e (length (w_sent w)) req)
      then (None, attempt + 1, retry_world e g opt req cid attempt w)
      else leave attempt (final_step e g opt req cid ep started attempt w))"
proof (cases "e_send e (length (w_sent w)) req")
  case (Received r)
  then show ?thesis
    by (auto simp: loop_body_def transmit_def Let_def ask_policy_retry outcome_retried_def transient_def
        retry_world_def final_step_def sent_one_def decision_def ask_policy_no_draw
        dest: transient_not_success)
qed (auto simp: loop_body_def transmit_def Let_def ask_policy_retry outcome_retried_def
    transient_def retry_world_def final_step_def sent_one_def decision_def ask_policy_no_draw)

text \<open>C6: The loop of \<open>execute\<close> always ends, whatever the transport answers and whatever the policy allows,
  after at most \<open>max_attempts\<close> rounds and at least one; it leaves with the result and the effects of the
  recursive definition that the other properties are about.\<close>

theorem loop_ends:
  "\<exists>last. while_option loop_goes_on (loop_body e g opt req cid ep started) (None, attempt, w)
       = Some (leave last (attempt_loop e g opt req cid ep started attempt w))
     \<and> attempt \<le> last \<and> last \<le> max attempt (rc_max_attempts (en_policy g))"
proof (induction "nat (rc_max_attempts (en_policy g) - attempt)" arbitrary: attempt w rule: less_induct)
  case less
  let ?body = "loop_body e g opt req cid ep started"
  have unfold: "while_option loop_goes_on ?body (None, attempt, w)
      = while_option loop_goes_on ?body (?body (None, attempt, w))"
    by (subst while_option_unfold) (simp add: loop_goes_on_def)
  show ?case
  proof (cases "outcome_retried g opt attempt (e_send e (length (w_sent w)) req)")
    case True
    then have "attempt < rc_max_attempts (en_policy g)" by (auto simp: outcome_retried_def)
    moreover from this obtain last where
      "while_option loop_goes_on ?body (None, attempt + 1, retry_world e g opt req cid attempt w)
        = Some (leave last (attempt_loop e g opt req cid ep started (attempt + 1)
            (retry_world e g opt req cid attempt w)))"
      "attempt + 1 \<le> last" "last \<le> max (attempt + 1) (rc_max_attempts (en_policy g))"
      using less [of "attempt + 1" "retry_world e g opt req cid attempt w"] by auto
    ultimately show ?thesis
      using True by (intro exI [of _ last])
        (simp add: unfold loop_body_step attempt_loop_step [of _ _ _ _ _ _ _ _ w])
  next
    case False
    have "while_option loop_goes_on ?body (leave attempt out) = Some (leave attempt out)" for out
      by (subst while_option_unfold) (simp add: loop_goes_on_def leave_def)
    then show ?thesis
      using False by (intro exI [of _ attempt])
        (simp add: unfold loop_body_step attempt_loop_step [of _ _ _ _ _ _ _ _ w])
  qed
qed

end
