(* ===== verification/Locks.thy ===== *)
theory Locks
  imports Store
begin

text \<open>
  \<open>src/jibit/auth/locks.py\<close> and the lock provider of \<open>auth/redis.py\<close>. \<open>ThreadLockProvider.lock\<close> takes the
  guard, looks up or makes the lock of the key, gives the guard back and then waits for that lock; here
  it is a step relation over any number of threads, with one step for each point at which another thread
  may run. Threads are numbers, and so are lock objects, in the order in which they are made.
\<close>

section \<open>\<open>ThreadLockProvider\<close>\<close>

record lock_table =
  lt_locks :: "nat dict"
  lt_fresh :: nat

text \<open>\<open>self._locks.setdefault(key, Lock())\<close>: a lock is made either way, and dropped when the key has one.\<close>

definition lock_of :: "string \<Rightarrow> lock_table \<Rightarrow> nat \<times> lock_table" where
  "lock_of key t = (let locks = setdefault key (lt_fresh t) (lt_locks t)
     in (the (dict_get locks key), \<lparr>lt_locks = locks, lt_fresh = Suc (lt_fresh t)\<rparr>))"

datatype lock_phase = Outside | AtGuard string | InGuard string | AtLock string nat | Inside string nat

record lock_state =
  ls_table :: lock_table
  ls_guard :: "nat option"
  ls_owner :: "nat \<Rightarrow> nat option"
  ls_phase :: "nat \<Rightarrow> lock_phase"

definition init_locks :: lock_state where
  "init_locks = \<lparr>ls_table = \<lparr>lt_locks = [], lt_fresh = 0\<rparr>, ls_guard = None, ls_owner = (\<lambda>_. None),
     ls_phase = (\<lambda>_. Outside)\<rparr>"

definition move :: "nat \<Rightarrow> lock_phase \<Rightarrow> lock_state \<Rightarrow> lock_state" where
  "move i ph s = s\<lparr>ls_phase := (ls_phase s)(i := ph)\<rparr>"

inductive lock_step :: "lock_state \<Rightarrow> lock_state \<Rightarrow> bool" where
  call: "ls_phase s i = Outside \<Longrightarrow> lock_step s (move i (AtGuard k) s)"
| guard: "ls_phase s i = AtGuard k \<Longrightarrow> ls_guard s = None \<Longrightarrow>
     lock_step s (move i (InGuard k) (s\<lparr>ls_guard := Some i\<rparr>))"
| look: "ls_phase s i = InGuard k \<Longrightarrow> lock_of k (ls_table s) = (l, t) \<Longrightarrow>
     lock_step s (move i (AtLock k l) (s\<lparr>ls_table := t, ls_guard := None\<rparr>))"
| acquire: "ls_phase s i = AtLock k l \<Longrightarrow> ls_owner s l = None \<Longrightarrow>
     lock_step s (move i (Inside k l) (s\<lparr>ls_owner := (ls_owner s)(l := Some i)\<rparr>))"
| release: "ls_phase s i = Inside k l \<Longrightarrow>
     lock_step s (move i Outside (s\<lparr>ls_owner := (ls_owner s)(l := None)\<rparr>))"

inductive reachable_locks :: "lock_state \<Rightarrow> bool" where
  start: "reachable_locks init_locks"
| further: "reachable_locks s \<Longrightarrow> lock_step s s' \<Longrightarrow> reachable_locks s'"

lemma move_simps [simp]:
  "ls_table (move i ph s) = ls_table s" "ls_guard (move i ph s) = ls_guard s"
  "ls_owner (move i ph s) = ls_owner s" "ls_phase (move i ph s) = (ls_phase s)(i := ph)"
  by (simp_all add: move_def)

section \<open>The lock table\<close>

text \<open>Every lock in the table was made before, and no two keys share one.\<close>

definition table_ok :: "lock_table \<Rightarrow> bool" where
  "table_ok t \<longleftrightarrow> (\<forall>k l. dict_get (lt_locks t) k = Some l \<longrightarrow> l < lt_fresh t)
     \<and> (\<forall>k k' l. dict_get (lt_locks t) k = Some l \<longrightarrow> dict_get (lt_locks t) k' = Some l \<longrightarrow> k = k')"

lemma lock_of_facts:
  assumes "lock_of k t = (l, t')" and "table_ok t"
  shows "table_ok t'" and "dict_get (lt_locks t') k = Some l"
    and "dict_get (lt_locks t) \<subseteq>\<^sub>m dict_get (lt_locks t')"
    and "dict_get (lt_locks t) k = None \<Longrightarrow> l = lt_fresh t"
    and "k' \<noteq> k \<Longrightarrow> dict_get (lt_locks t') k' = dict_get (lt_locks t) k'"
  using assms
  by (fastforce simp: lock_of_def Let_def dict_get_setdefault table_ok_def map_le_def less_Suc_eq
      split: if_splits option.splits)+

section \<open>The invariant\<close>

fun looks_at :: "lock_phase \<Rightarrow> (string \<times> nat) option" where
  "looks_at (AtLock k l) = Some (k, l)"
| "looks_at (Inside k l) = Some (k, l)"
| "looks_at _ = None"

definition locks_ok :: "lock_state \<Rightarrow> bool" where
  "locks_ok s \<longleftrightarrow> table_ok (ls_table s)
     \<and> (\<forall>i. ls_guard s = Some i \<longleftrightarrow> (\<exists>k. ls_phase s i = InGuard k))
     \<and> (\<forall>i k l. looks_at (ls_phase s i) = Some (k, l) \<longrightarrow> dict_get (lt_locks (ls_table s)) k = Some l)
     \<and> (\<forall>i l. ls_owner s l = Some i \<longleftrightarrow> (\<exists>k. ls_phase s i = Inside k l))"

lemma locks_ok_facts:
  assumes "locks_ok s"
  shows "table_ok (ls_table s)" and "ls_guard s = Some i \<longleftrightarrow> (\<exists>k. ls_phase s i = InGuard k)"
    and "looks_at (ls_phase s i) = Some (k, l) \<Longrightarrow> dict_get (lt_locks (ls_table s)) k = Some l"
    and "ls_phase s i = AtLock k l \<Longrightarrow> dict_get (lt_locks (ls_table s)) k = Some l"
    and "ls_phase s i = Inside k l \<Longrightarrow> dict_get (lt_locks (ls_table s)) k = Some l"
    and "ls_owner s l = Some i \<longleftrightarrow> (\<exists>k. ls_phase s i = Inside k l)"
proof -
  have known: "dict_get (lt_locks (ls_table s)) k = Some l" if "looks_at (ls_phase s i) = Some (k, l)" for i k l
    using assms that unfolding locks_ok_def by blast
  show "looks_at (ls_phase s i) = Some (k, l) \<Longrightarrow> dict_get (lt_locks (ls_table s)) k = Some l"
    and "ls_phase s i = AtLock k l \<Longrightarrow> dict_get (lt_locks (ls_table s)) k = Some l"
    and "ls_phase s i = Inside k l \<Longrightarrow> dict_get (lt_locks (ls_table s)) k = Some l"
    using known [of i k l] by simp_all
qed (use assms in \<open>simp_all add: locks_ok_def\<close>)

lemma locks_ok_look:
  assumes "locks_ok s" and "ls_phase s i = InGuard k" and "lock_of k (ls_table s) = (l, t)"
  shows "locks_ok (move i (AtLock k l) (s\<lparr>ls_table := t, ls_guard := None\<rparr>))"
proof -
  note facts = lock_of_facts [OF assms(3) locks_ok_facts(1) [OF assms(1)]]
  have grown: "dict_get (lt_locks t) k' = Some l'" if "dict_get (lt_locks (ls_table s)) k' = Some l'" for k' l'
    using facts(3) that by (metis domI map_le_def)
  have alone: "ls_phase s j \<noteq> InGuard k'" if "j \<noteq> i" for j k'
    using locks_ok_facts(2) [OF assms(1)] assms(2) that by (metis option.inject)
  show ?thesis
    unfolding locks_ok_def
    using facts(1,2) grown alone assms(2) locks_ok_facts(3,6) [OF assms(1)] by auto
qed

text \<open>Steps that change the owner of one lock, by the thread that is at it or inside it.\<close>

lemma locks_ok_owner:
  assumes "locks_ok s" and "looks_at (ls_phase s i) = Some (k, l)"
    and "looks_at ph \<in> {None, Some (k, l)}" and "\<And>k'. ph \<noteq> InGuard k'"
    and "\<And>j. j \<noteq> i \<Longrightarrow> ls_owner s l \<noteq> Some j" and "q = (if ph = Inside k l then Some i else None)"
  shows "locks_ok (move i ph (s\<lparr>ls_owner := (ls_owner s)(l := q)\<rparr>))"
proof -
  note facts = locks_ok_facts [OF assms(1)]
  have unguarded: "ls_phase s i \<noteq> InGuard k'" for k' using assms(2) by auto
  have owner: "((ls_owner s)(l := q)) m = Some j \<longleftrightarrow> (\<exists>k'. ((ls_phase s)(i := ph)) j = Inside k' m)" for j m
  proof (cases "j = i")
    case True
    have here: "m = l" if "ls_phase s i = Inside k' m" for k' using assms(2) that by simp
    have there: "k' = k \<and> m = l" if "ph = Inside k' m" for k' using assms(3) that by simp
    show ?thesis
    proof (cases "m = l")
      case True
      have "q = Some i \<longleftrightarrow> (\<exists>k'. ph = Inside k' m)"
        unfolding assms(6) using there True by (cases "ph = Inside k l") auto
      then show ?thesis using \<open>j = i\<close> True by simp
    next
      case False
      then have "ls_owner s m \<noteq> Some i" using facts(6) [of m i] here by blast
      then show ?thesis using \<open>j = i\<close> False there by auto
    qed
  next
    case False
    then show ?thesis using facts(6) [of m j] assms(5) [OF False] assms(6) by auto
  qed
  have known: "dict_get (lt_locks (ls_table s)) k' = Some l'"
    if "looks_at (((ls_phase s)(i := ph)) j) = Some (k', l')" for j k' l'
  proof (cases "j = i")
    case True
    then show ?thesis using that assms(3) facts(3) [OF assms(2)] by auto
  next
    case False
    then show ?thesis using that facts(3) [of j] by simp
  qed
  have guard: "ls_guard s = Some j \<longleftrightarrow> (\<exists>k'. ((ls_phase s)(i := ph)) j = InGuard k')" for j
    using facts(2) [of j] unguarded assms(4) by auto
  show ?thesis
    unfolding locks_ok_def using facts(1) known guard owner by simp
qed

lemma locks_ok_step: "lock_step s s' \<Longrightarrow> locks_ok s \<Longrightarrow> locks_ok s'"
proof (induction rule: lock_step.induct)
  case (look s i k l t)
  then show ?case by (simp add: locks_ok_look)
next
  case (acquire s i k l)
  show ?case by (rule locks_ok_owner [OF acquire.prems]) (use acquire.hyps in auto)
next
  case (release s i k l)
  have "ls_owner s l = Some i" using locks_ok_facts(6) [OF release.prems] release.hyps by blast
  then show ?case
    by (intro locks_ok_owner [OF release.prems]) (use release.hyps in auto)
qed (auto simp: locks_ok_def)

lemma reachable_locks_ok: "reachable_locks s \<Longrightarrow> locks_ok s"
proof (induction rule: reachable_locks.induct)
  case start
  then show ?case by (simp add: init_locks_def locks_ok_def table_ok_def)
next
  case (further s s')
  then show ?case using locks_ok_step by blast
qed

section \<open>One mutex per key\<close>

text \<open>What a caller sees: who is inside the lock of a key.\<close>

definition holder :: "lock_state \<Rightarrow> string \<Rightarrow> nat option" where
  "holder s k = (case dict_get (lt_locks (ls_table s)) k of None \<Rightarrow> None | Some l \<Rightarrow> ls_owner s l)"

inductive mutex_step :: "(string \<Rightarrow> nat option) \<Rightarrow> (string \<Rightarrow> nat option) \<Rightarrow> bool" where
  take: "h k = None \<Longrightarrow> mutex_step h (h(k := Some i))"
| give: "h k = Some i \<Longrightarrow> mutex_step h (h(k := None))"

lemma holder_iff:
  assumes "locks_ok s"
  shows "(\<exists>l. ls_phase s i = Inside k l) \<longleftrightarrow> holder s k = Some i"
proof
  assume "\<exists>l. ls_phase s i = Inside k l"
  then obtain l where l: "ls_phase s i = Inside k l" by blast
  then have "ls_owner s l = Some i" using locks_ok_facts(6) [OF assms] by blast
  then show "holder s k = Some i" using locks_ok_facts(5) [OF assms l] by (simp add: holder_def)
next
  assume "holder s k = Some i"
  then obtain l where l: "dict_get (lt_locks (ls_table s)) k = Some l" "ls_owner s l = Some i"
    by (auto simp: holder_def split: option.splits)
  then obtain k' where k': "ls_phase s i = Inside k' l" using locks_ok_facts(6) [OF assms] by blast
  then have "k' = k"
    using locks_ok_facts(5) [OF assms k'] l(1) locks_ok_facts(1) [OF assms] unfolding table_ok_def by blast
  with k' show "\<exists>l. ls_phase s i = Inside k l" by blast
qed

lemma holder_same: "ls_table u = ls_table s \<Longrightarrow> ls_owner u = ls_owner s \<Longrightarrow> holder u = holder s"
  by (rule ext) (simp add: holder_def split: option.split)

lemma holder_owner:
  assumes "locks_ok s" and "dict_get (lt_locks (ls_table s)) k = Some l"
  shows "holder (move i ph (s\<lparr>ls_owner := (ls_owner s)(l := q)\<rparr>)) = (holder s)(k := q)"
proof
  fix k'
  show "holder (move i ph (s\<lparr>ls_owner := (ls_owner s)(l := q)\<rparr>)) k' = ((holder s)(k := q)) k'"
    using assms by (auto simp: holder_def locks_ok_def table_ok_def split: option.split)
qed

lemma holder_look:
  assumes "locks_ok s" and "lock_of k (ls_table s) = (l, t)"
  shows "holder (move i ph (s\<lparr>ls_table := t, ls_guard := None\<rparr>)) = holder s"
proof
  fix k'
  have ok: "table_ok (ls_table s)" using assms(1) by (simp add: locks_ok_def)
  note facts = lock_of_facts [OF assms(2) ok]
  have "ls_owner s (lt_fresh (ls_table s)) = None"
  proof (rule ccontr)
    assume "ls_owner s (lt_fresh (ls_table s)) \<noteq> None"
    then obtain j k where "ls_phase s j = Inside k (lt_fresh (ls_table s))"
      using locks_ok_facts(6) [OF assms(1)] by blast
    then have "dict_get (lt_locks (ls_table s)) k = Some (lt_fresh (ls_table s))"
      by (rule locks_ok_facts(5) [OF assms(1)])
    then show False using ok by (auto simp: table_ok_def)
  qed
  then show "holder (move i ph (s\<lparr>ls_table := t, ls_guard := None\<rparr>)) k' = holder s k'"
    using facts by (cases "k' = k"; cases "dict_get (lt_locks (ls_table s)) k'")
      (auto simp: holder_def map_le_def dom_def)
qed

lemma holder_step:
  assumes "lock_step s s'" and "locks_ok s"
  shows "holder s' = holder s \<or> mutex_step (holder s) (holder s')"
  using assms
proof (induction rule: lock_step.induct)
  case (look s i k l t)
  then show ?case by (simp add: holder_look)
next
  case (acquire s i k l)
  then have l: "dict_get (lt_locks (ls_table s)) k = Some l" by (simp add: locks_ok_facts)
  then have "holder s k = None" using acquire by (simp add: holder_def)
  then show ?case
    unfolding holder_owner [OF acquire.prems l] using mutex_step.take [of "holder s" k i] by blast
next
  case (release s i k l)
  then have l: "dict_get (lt_locks (ls_table s)) k = Some l" by (simp add: locks_ok_facts)
  have "holder s k = Some i" using release holder_iff by blast
  then show ?case
    unfolding holder_owner [OF release.prems l] using mutex_step.give [of "holder s" k i] by blast
qed (auto intro!: disjI1 holder_same)

section \<open>Getting in\<close>

lemma enter_from_lock:
  assumes "locks_ok s" and "ls_phase s i = AtLock k l"
  shows "\<exists>s'. lock_step\<^sup>*\<^sup>* s s' \<and> ls_phase s' i = Inside k l"
proof (cases "ls_owner s l")
  case None
  then have "lock_step s (move i (Inside k l) (s\<lparr>ls_owner := (ls_owner s)(l := Some i)\<rparr>))"
    using acquire [OF assms(2)] by blast
  then show ?thesis by (intro exI [of _ "move i (Inside k l) (s\<lparr>ls_owner := (ls_owner s)(l := Some i)\<rparr>)"]) auto
next
  case (Some j)
  then obtain k' where j: "ls_phase s j = Inside k' l" using locks_ok_facts(6) [OF assms(1)] by blast
  let ?s = "move j Outside (s\<lparr>ls_owner := (ls_owner s)(l := None)\<rparr>)"
  have "lock_step s ?s" using j by (rule release)
  moreover have "lock_step ?s (move i (Inside k l) (?s\<lparr>ls_owner := (ls_owner ?s)(l := Some i)\<rparr>))"
    by (rule acquire) (use assms(2) j in \<open>auto simp: move_def\<close>)
  ultimately have "lock_step\<^sup>*\<^sup>* s (move i (Inside k l) (?s\<lparr>ls_owner := (ls_owner ?s)(l := Some i)\<rparr>))" by simp
  then show ?thesis
    by (intro exI [of _ "move i (Inside k l) (?s\<lparr>ls_owner := (ls_owner ?s)(l := Some i)\<rparr>)"]) auto
qed

lemma enter_from_guard:
  assumes "locks_ok s" and "ls_phase s i = InGuard k"
  shows "\<exists>s' l. lock_step\<^sup>*\<^sup>* s s' \<and> ls_phase s' i = Inside k l"
proof -
  obtain l t where lt: "lock_of k (ls_table s) = (l, t)" by (cases "lock_of k (ls_table s)")
  let ?s = "move i (AtLock k l) (s\<lparr>ls_table := t, ls_guard := None\<rparr>)"
  have step: "lock_step s ?s" using assms(2) lt by (rule look)
  have "locks_ok ?s" using locks_ok_step [OF step assms(1)] .
  then obtain s' where "lock_step\<^sup>*\<^sup>* ?s s'" "ls_phase s' i = Inside k l"
    using enter_from_lock [of ?s i k l] by auto
  then show ?thesis using step converse_rtranclp_into_rtranclp by metis
qed

lemma enter_from_outside_guard:
  assumes "locks_ok s" and "ls_phase s i = AtGuard k"
  shows "\<exists>s' l. lock_step\<^sup>*\<^sup>* s s' \<and> ls_phase s' i = Inside k l"
proof -
  have free: "\<exists>s' l. lock_step\<^sup>*\<^sup>* u s' \<and> ls_phase s' i = Inside k l"
    if u: "locks_ok u" "ls_phase u i = AtGuard k" "ls_guard u = None" for u
  proof -
    let ?u = "move i (InGuard k) (u\<lparr>ls_guard := Some i\<rparr>)"
    have step: "lock_step u ?u" using u(2,3) by (rule guard)
    obtain s' l where "lock_step\<^sup>*\<^sup>* ?u s'" "ls_phase s' i = Inside k l"
      using enter_from_guard [OF locks_ok_step [OF step u(1)], of i k] by auto
    then show ?thesis using step converse_rtranclp_into_rtranclp by metis
  qed
  show ?thesis
  proof (cases "ls_guard s")
    case (Some j)
    then obtain k' where j: "ls_phase s j = InGuard k'" using locks_ok_facts(2) [OF assms(1)] by blast
    obtain l t where lt: "lock_of k' (ls_table s) = (l, t)" by (cases "lock_of k' (ls_table s)")
    let ?s = "move j (AtLock k' l) (s\<lparr>ls_table := t, ls_guard := None\<rparr>)"
    have step: "lock_step s ?s" using j lt by (rule look)
    have "ls_phase ?s i = AtGuard k" using assms(2) j by auto
    then obtain s' l where "lock_step\<^sup>*\<^sup>* ?s s'" "ls_phase s' i = Inside k l"
      using free [OF locks_ok_step [OF step assms(1)]] by auto
    then show ?thesis using step converse_rtranclp_into_rtranclp by metis
  qed (use free assms in blast)
qed

section \<open>\<open>RedisLockProvider\<close>\<close>

record redis_lock_provider =
  rl_key_prefix :: string
  rl_timeout :: rat
  rl_blocking_timeout :: rat

definition redis_locks_default :: redis_lock_provider where
  "redis_locks_default = \<lparr>rl_key_prefix = ''jibit-lock'', rl_timeout = 30, rl_blocking_timeout = 35\<rparr>"

text \<open>The call \<open>client.lock(name, timeout=..., blocking_timeout=...)\<close>; the lock it returns is the client's.\<close>

record redis_lock_call =
  rk_name :: string
  rk_timeout :: rat
  rk_blocking_timeout :: rat

definition redis_lock :: "redis_lock_provider \<Rightarrow> string \<Rightarrow> redis_lock_call" where
  "redis_lock p key = \<lparr>rk_name = rl_key_prefix p @ '':'' @ key, rk_timeout = rl_timeout p,
     rk_blocking_timeout = rl_blocking_timeout p\<rparr>"

lemma redis_lock_inject: "redis_lock p k = redis_lock p k' \<longleftrightarrow> k = k'"
  by (simp add: redis_lock_def)

text \<open>A worker waits for a lock longer than the lock lasts.\<close>

lemma redis_waits_longer: "rk_timeout (redis_lock redis_locks_default k)
    < rk_blocking_timeout (redis_lock redis_locks_default k)"
  by (simp add: redis_lock_def redis_locks_default_def)

section \<open>Properties\<close>

text \<open>C12: The thread locks are one mutex for each key: under every interleaving of any number of threads, what
  happens is a sequence of takings of a free key and givings back of a held one, a thread is inside the
  lock of a key exactly when it is the holder of that key, and so no two threads are ever inside the same
  key's lock, although each call looks the lock up, or makes it, anew.\<close>

theorem thread_locks_refine_mutexes:
  assumes "reachable_locks s"
  shows "mutex_step\<^sup>*\<^sup>* (\<lambda>_. None) (holder s)
     \<and> (\<forall>i k. (\<exists>l. ls_phase s i = Inside k l) \<longleftrightarrow> holder s k = Some i)"
proof
  show "mutex_step\<^sup>*\<^sup>* (\<lambda>_. None) (holder s)"
    using assms
  proof (induction rule: reachable_locks.induct)
    case start
    have "holder init_locks = (\<lambda>_. None)" by (rule ext) (simp add: holder_def init_locks_def)
    then show ?case by simp
  next
    case (further s s')
    then show ?case
      using holder_step [OF further.hyps(2) reachable_locks_ok [OF further.hyps(1)]]
      by (auto intro: rtranclp.rtrancl_into_rtrancl)
  qed
  show "\<forall>i k. (\<exists>l. ls_phase s i = Inside k l) \<longleftrightarrow> holder s k = Some i"
    using holder_iff [OF reachable_locks_ok [OF assms]] by blast
qed

lemma crowd:
  "\<exists>s. reachable_locks s \<and> ls_phase s 0 = Inside ''a'' 0 \<and> ls_phase s 1 = AtLock ''a'' 0"
proof -
  define s1 where "s1 = move 0 (AtGuard ''a'') init_locks"
  define s2 where "s2 = move 0 (InGuard ''a'') (s1\<lparr>ls_guard := Some 0\<rparr>)"
  define t where "t = \<lparr>lt_locks = [(''a'', 0)], lt_fresh = 1 :: nat\<rparr>"
  define s3 where "s3 = move 0 (AtLock ''a'' 0) (s2\<lparr>ls_table := t, ls_guard := None\<rparr>)"
  define s4 where "s4 = move 0 (Inside ''a'' 0) (s3\<lparr>ls_owner := (ls_owner s3)(0 := Some 0)\<rparr>)"
  define s5 where "s5 = move 1 (AtGuard ''a'') s4"
  define s6 where "s6 = move 1 (InGuard ''a'') (s5\<lparr>ls_guard := Some 1\<rparr>)"
  define s7 where "s7 = move 1 (AtLock ''a'' 0) (s6\<lparr>ls_table := t\<lparr>lt_fresh := 2\<rparr>, ls_guard := None\<rparr>)"
  note defs = s1_def s2_def s3_def s4_def s5_def s6_def s7_def t_def init_locks_def
  have "lock_step init_locks s1" unfolding s1_def by (rule call) (simp add: defs)
  moreover have "lock_step s1 s2" unfolding s2_def by (rule guard) (simp_all add: defs)
  moreover have "lock_step s2 s3"
    unfolding s3_def by (rule look) (simp_all add: defs lock_of_def setdefault_def dict_get_def)
  moreover have "lock_step s3 s4" unfolding s4_def by (rule acquire) (simp_all add: defs)
  moreover have "lock_step s4 s5" unfolding s5_def by (rule call) (simp add: defs)
  moreover have "lock_step s5 s6" unfolding s6_def by (rule guard) (simp_all add: defs)
  moreover have "lock_step s6 s7"
    unfolding s7_def by (rule look) (simp_all add: defs lock_of_def setdefault_def dict_get_def)
  ultimately have "reachable_locks s7" by (meson reachable_locks.intros)
  moreover have "ls_phase s7 0 = Inside ''a'' 0" "ls_phase s7 1 = AtLock ''a'' 0" by (simp_all add: defs)
  ultimately show ?thesis by blast
qed

theorem thread_locks_refine_mutexes_witness:
  "\<exists>s. ls_phase s 0 = Inside ''a'' 0 \<and> holder s ''a'' = Some 0 \<and> mutex_step\<^sup>*\<^sup>* (\<lambda>_. None) (holder s)"
  using crowd thread_locks_refine_mutexes by blast

text \<open>No thread waits for a lock in vain: from every reachable state, a thread that asked for a lock can
  come to be inside it, once the threads before it leave.\<close>

lemma threads_can_enter:
  assumes "reachable_locks s" and "ls_phase s i \<noteq> Outside"
  shows "\<exists>s' k l. lock_step\<^sup>*\<^sup>* s s' \<and> ls_phase s' i = Inside k l"
proof (cases "ls_phase s i")
  case (Inside k l)
  then show ?thesis by blast
qed (use assms enter_from_lock enter_from_guard enter_from_outside_guard reachable_locks_ok in blast)+

lemma threads_can_enter_witness:
  "\<exists>s s' k l. ls_phase s 0 = Inside ''a'' 0 \<and> ls_phase s 1 = AtLock ''a'' 0 \<and> lock_step\<^sup>*\<^sup>* s s'
     \<and> ls_phase s' 1 = Inside k l"
proof -
  obtain s where s: "reachable_locks s" "ls_phase s 0 = Inside ''a'' 0" "ls_phase s 1 = AtLock ''a'' 0"
    using crowd by blast
  then show ?thesis using threads_can_enter [OF s(1), of 1] by (metis lock_phase.distinct(5))
qed

end
