(* ===== verification/Redaction_Runs.thy ===== *)
theory Redaction_Runs
  imports Redaction
begin

text \<open>
  The last pass of \<open>redact_text\<close> without regular expressions: a text is cut into its longest runs of
  digits and the characters between them, and a run of exactly ten digits is masked.
\<close>

function mask_runs :: "string \<Rightarrow> string" where
  "mask_runs [] = []"
| "mask_runs (c # cs) = (if is_digit c
     then (let run = takeWhile is_digit (c # cs)
           in (if length run = 10 then mask 6 run else run) @ mask_runs (dropWhile is_digit cs))
     else c # mask_runs cs)"
  by pat_completeness auto
termination
  by (relation "measure length") (auto simp: less_Suc_eq_le length_dropWhile_le)

text \<open>What was before a text that does not begin with a digit makes no difference to it.\<close>

lemma national_sub_fresh:
  "\<not> hd_sat is_digit s \<Longrightarrow> rx_sub NATIONAL_ID_RE f p s = rx_sub NATIONAL_ID_RE f None s"
  by (cases s) (auto simp: national_id_match hd_sat_def)

lemma dropWhile_no_hd: "\<not> hd_sat P (dropWhile P s)"
  by (induction s) (auto simp: hd_sat_def)

text \<open>Behind a digit nothing matches before the run ends.\<close>

lemma national_sub_skip:
  "opt_sat is_digit p \<Longrightarrow> rx_sub NATIONAL_ID_RE f p s
     = takeWhile is_digit s @ rx_sub NATIONAL_ID_RE f None (dropWhile is_digit s)"
proof (induction s arbitrary: p)
  case (Cons c cs)
  show ?case
  proof (cases "is_digit c")
    case True
    have "rx_sub NATIONAL_ID_RE f p (c # cs) = c # rx_sub NATIONAL_ID_RE f (Some c) cs"
      using Cons.prems by (simp add: national_id_match)
    then show ?thesis using Cons.IH [of "Some c"] True by (simp add: opt_sat_def)
  next
    case False
    then show ?thesis using national_sub_fresh [of "c # cs" f p] by (simp add: hd_sat_def)
  qed
qed simp

lemma run_of_ten:
  assumes "is_digit c"
  shows "rx_match NATIONAL_ID_RE None (c # cs) = (if length (takeWhile is_digit (c # cs)) = 10 then Some 10 else None)"
proof (cases "length (takeWhile is_digit (c # cs)) = 10")
  case True
  then show ?thesis
    using takeWhile_length [OF True] by (simp add: national_id_match opt_sat_def del: takeWhile.simps)
next
  case False
  have "length (takeWhile is_digit (c # cs)) = 10"
    if ten: "10 \<le> length (c # cs)" "list_all is_digit (take 10 (c # cs))" "\<not> hd_sat is_digit (drop 10 (c # cs))"
  proof -
    have "takeWhile is_digit (take 10 (c # cs) @ drop 10 (c # cs))
        = take 10 (c # cs) @ takeWhile is_digit (drop 10 (c # cs))"
      using ten(2) by (intro takeWhile_append2) (auto simp: list_all_iff)
    moreover have "takeWhile is_digit (drop 10 (c # cs)) = []"
      using ten(3) by (cases "drop 10 (c # cs)") (auto simp: hd_sat_def)
    ultimately show ?thesis using ten(1) by (simp del: takeWhile.simps take_Cons_numeral drop_Cons_numeral)
  qed
  then show ?thesis
    using False by (auto simp: national_id_match opt_sat_def simp del: takeWhile.simps)
qed

lemma national_sub_runs: "rx_sub NATIONAL_ID_RE (mask 6) None s = mask_runs s"
proof (induction s rule: mask_runs.induct)
  case (2 c cs)
  show ?case
  proof (cases "is_digit c")
    case False
    have "rx_match NATIONAL_ID_RE None (c # cs) = None"
      using False by (simp add: national_id_match)
    moreover have "rx_sub NATIONAL_ID_RE (mask 6) (Some c) cs = rx_sub NATIONAL_ID_RE (mask 6) None cs"
      using False by (cases cs) (auto simp: national_id_match opt_sat_def)
    ultimately show ?thesis using False 2(2) by simp
  next
    case True
    have rest: "rx_sub NATIONAL_ID_RE (mask 6) q (dropWhile is_digit cs) = mask_runs (dropWhile is_digit cs)" for q
      using national_sub_fresh [OF dropWhile_no_hd] 2(1) [OF True refl] by metis
    show ?thesis
    proof (cases "length (takeWhile is_digit (c # cs)) = 10")
      case ten: True
      then have "take 10 (c # cs) = takeWhile is_digit (c # cs)"
        by (metis takeWhile_eq_take)
      moreover have "drop 9 cs = dropWhile is_digit cs"
        using ten True by (simp add: dropWhile_eq_drop)
      ultimately show ?thesis
        using run_of_ten [OF True, of cs] ten rest True
        by (simp add: numeral_eq_Suc del: takeWhile.simps)
    next
      case other: False
      have "rx_sub NATIONAL_ID_RE (mask 6) None (c # cs) = c # rx_sub NATIONAL_ID_RE (mask 6) (Some c) cs"
        using run_of_ten [OF True, of cs] other by (simp del: takeWhile.simps)
      also have "\<dots> = c # takeWhile is_digit cs @ mask_runs (dropWhile is_digit cs)"
        using national_sub_skip [of "Some c"] rest True by (simp add: opt_sat_def)
      finally show ?thesis using other True by simp
    qed
  qed
qed simp

text \<open>C19: The last pass of the masking is what its pattern is meant to say: on every text it masks exactly the
  longest runs of digits that have ten, and copies everything else.\<close>

theorem national_ids_masked:
  "redact_text s = mask_runs (rx_sub MOBILE_RE (mask 7) None
     (rx_sub CARD_RE (\<lambda>m. mask 12 (digits_of m)) None (rx_sub IBAN_RE (\<lambda>m. ''IR'' @ mask 20 m) None s)))"
  by (simp add: redact_text_def Let_def national_sub_runs)

end
