(* ===== verification/Purchase_Properties.thy ===== *)
theory Purchase_Properties
  imports Request_Properties Wire_Properties Audit_Properties
begin

text \<open>
  A purchase from the arguments of \<open>create_purchase\<close> to the wire: the facade, its validation, the executor
  that puts the token on, the engine and the audit sink together.
\<close>

section \<open>The executor, for an operation that is not repeated\<close>

definition same_audits :: "'st world \<Rightarrow> 'st world \<Rightarrow> bool" where
  "same_audits w w' \<longleftrightarrow> w_audits w' = w_audits w"

lemma preorder_same_audits: "reflp same_audits" "transp same_audits"
  by (auto simp: same_audits_def reflp_def transp_def)

lemma same_audits_sources:
  "keeps same_audits (read_clock e)" "keeps same_audits (emit b l ev fs)" "keeps same_audits (store_get a)"
  "keeps same_audits (store_update f)" "keeps same_audits (execute e g opt)"
  using execute_extends_clean
  by (auto simp: keeps_def same_audits_def read_clock_def store_get_def store_update_def emit_def modifyM_def
      split: sum.splits)

lemma same_audits_lock: "keeps same_audits m \<Longrightarrow> keeps same_audits (with_lock e key m)"
proof (rule keepsI)
  fix w r w'
  assume m: "keeps same_audits m" and run: "with_lock e key m w = (r, w')"
  obtain r1 w1 where body: "m (w\<lparr>w_locks := Suc (w_locks w), w_held := key # w_held w\<rparr>) = (r1, w1)"
    by (cases "m (w\<lparr>w_locks := Suc (w_locks w), w_held := key # w_held w\<rparr>)")
  then have "same_audits (w\<lparr>w_locks := Suc (w_locks w), w_held := key # w_held w\<rparr>) w1"
    using keepsD [OF m body] by simp
  then show "same_audits w w'"
    using run body by (auto simp: with_lock_def same_audits_def split: if_splits option.splits)
qed

lemma same_audits_authenticated: "keeps same_audits (authenticated_execute e g a opt)"
  by (intro keeps_authenticated keeps_get_token keeps_request_token same_audits_lock same_audits_sources
      preorder_same_audits)

lemma execute_Inr_sends:
  assumes "execute e g opt w = (Inr raw, w')"
  shows "w_sent w' \<noteq> w_sent w"
proof (cases "validated_endpoint (ro_path opt)")
  case (Inl x)
  then show ?thesis using assms by (simp add: execute_unfold)
next
  case (Inr ep)
  show ?thesis
  proof (rule execute_outcome [OF Inr, of e w g])
    fix cid req n recs m v oc
    assume "execute e g opt w = (final_result e opt cid ep oc, closed_world w v n req m recs)"
    then show ?thesis using assms by auto
  qed
qed

lemma carries_once:
  assumes "ro_safety opt = UNSAFE" and "execute e g (with_token opt t) w = (r, w')"
  shows "\<exists>own. w_sent w' = w_sent w @ own \<and> (own = [] \<or> (\<exists>q. own = [q] \<and> carries g opt t q))
    \<and> (\<forall>raw. r = Inr raw \<longrightarrow> own \<noteq> [])"
proof -
  let ?q = "transport_request_of g (with_token opt t) (effective_id e (with_token opt t) w) (ro_path opt)"
  obtain n where "w_sent w' = w_sent w @ replicate n ?q" "n \<le> 1"
    using execute_sent [of e g "with_token opt t" w] assms by (auto simp: repeatable_def with_token_def authorize_def)
  moreover have "carries g opt t ?q"
    by (auto simp: carries_def)
  moreover have "\<forall>raw. r = Inr raw \<longrightarrow> w_sent w' \<noteq> w_sent w"
    using execute_Inr_sends assms(2) by blast
  ultimately show ?thesis
    by (cases n) auto
qed

lemma authenticated_unsafe:
  assumes "ro_safety opt = UNSAFE" and "authenticated_execute e g a opt w = (r, w')"
  shows "\<exists>toks own. w_sent w' = w_sent w @ toks @ own \<and> list_all (token_request a) toks
    \<and> (own = [] \<or> (\<exists>q t w1. own = [q] \<and> get_token e a w = (Inr t, w1) \<and> w_sent w1 = w_sent w @ toks
        \<and> carries g opt t q))
    \<and> (\<forall>raw. r = Inr raw \<longrightarrow> own \<noteq> [])"
proof -
  obtain r0 w1 where get: "get_token e a w = (r0, w1)" by (cases "get_token e a w")
  obtain toks where toks: "w_sent w1 = w_sent w @ toks" "list_all (token_request a) toks"
    using keepsD [OF sends_get_token(1) get] by (auto simp: sends_def)
  show ?thesis
  proof (cases r0)
    case (Inl x)
    then have "r = Inl x" "w' = w1"
      using assms(2) get by (simp_all add: authenticated_execute_def bindM_def)
    then show ?thesis using toks by (intro exI [of _ toks] exI [of _ "[]"]) simp
  next
    case (Inr t)
    obtain r1 w2 where run: "execute e g (with_token opt t) w1 = (r1, w2)"
      by (cases "execute e g (with_token opt t) w1")
    obtain own where own: "w_sent w2 = w_sent w1 @ own" "own = [] \<or> (\<exists>q. own = [q] \<and> carries g opt t q)"
        "\<forall>raw. r1 = Inr raw \<longrightarrow> own \<noteq> []"
      using carries_once [OF assms(1) run] by blast
    have no: "\<not> can_replay opt" by (simp add: can_replay_def assms(1))
    have "w_sent w' = w_sent w2" "\<forall>raw. r = Inr raw \<longrightarrow> r1 = Inr raw"
      using assms(2) invalidate_frame [of a _ w2]
      unfolding authenticated_no_replay [OF no get [unfolded Inr] run]
      by (auto split: sum.splits if_splits dest: fst_eqD snd_eqD) (auto simp: comp_defs invalidate_def split: sum.splits prod.splits)
    then show ?thesis
      using own toks get Inr by (intro exI [of _ toks] exI [of _ own]) auto
  qed
qed

section \<open>A purchase\<close>

definition audit_entries :: "'st world \<Rightarrow> (string \<times> string \<times> string) list" where
  "audit_entries w = map (\<lambda>ev. (ae_name ev, ae_operation ev, ae_outcome ev)) (w_audits w)"

definition purchase_event :: "string \<Rightarrow> string \<times> string \<times> string" where
  "purchase_event outcome = (''jibit.payment.purchase_created'', ''create_purchase'', outcome)"

text \<open>The request of a purchase: the body, the target and the credential.\<close>

definition purchase_request :: "'st gateway \<Rightarrow> engine \<Rightarrow> token_state \<Rightarrow> transport_request \<Rightarrow> bool" where
  "purchase_request gw g t q \<longleftrightarrow> tr_method q = ''POST''
     \<and> tr_url q = build_url (en_config g) PAYMENT_GATEWAY ''/ppg/v3/purchases''
     \<and> dict_get (tr_headers q) ''Authorization'' = Some (bearer_of t)
     \<and> (\<exists>d. purchase_rules d
          \<and> tr_json q = PDict (to_payload (fa_lib (gw_facade gw)) CreatePurchaseRequest d))"

lemma purchase_submitted:
  assumes "fa_run (gw_facade gw) = authenticated_execute e g a" and "purchase_rules d"
    and "financial_operation gw ''jibit.payment.purchase_created'' ''create_purchase'' ''POST''
      ''/ppg/v3/purchases'' UNSAFE CreatePurchaseResult
      (PDict (to_payload (fa_lib (gw_facade gw)) CreatePurchaseRequest d)) meta w = (r, w')"
  shows "\<exists>toks own evs. w_sent w' = w_sent w @ toks @ own \<and> list_all (token_request a) toks
    \<and> (own = [] \<or> (\<exists>q t w1. own = [q] \<and> get_token e a w = (Inr t, w1) \<and> w_sent w1 = w_sent w @ toks
        \<and> purchase_request gw g t q))
    \<and> audit_entries w' = audit_entries w @ map purchase_event evs
    \<and> (case r of Inr _ \<Rightarrow> own \<noteq> [] \<and> evs = [''succeeded''] | Inl x \<Rightarrow> evs = failure_events x)"
proof -
  let ?body = "PDict (to_payload (fa_lib (gw_facade gw)) CreatePurchaseRequest d)"
  let ?opt = "service_options PAYMENT_GATEWAY ''create_purchase'' ''POST'' ''/ppg/v3/purchases'' UNSAFE None ?body"
  obtain sent w1 where run: "authenticated_execute e g a ?opt w = (sent, w1)"
    by (cases "authenticated_execute e g a ?opt w")
  let ?result = "case sent of Inl x \<Rightarrow> Inl x | Inr raw \<Rightarrow> parse_model_response (fa_env (gw_facade gw)) raw
      (lb_validate (fa_lib (gw_facade gw)) CreatePurchaseResult) (service_value PAYMENT_GATEWAY) ''create_purchase''
      ''POST'' ''/ppg/v3/purchases''"
  have op: "r = ?result" "w_sent w' = w_sent w1" "audit_entries w' = audit_entries w1
      @ (case ?result of Inr _ \<Rightarrow> [purchase_event ''succeeded''] | Inl x \<Rightarrow> map purchase_event (failure_events x))"
    using financial_run [where gw = gw and oper = "''create_purchase''" and me = "''POST''"
        and path = "''/ppg/v3/purchases''" and safety = UNSAFE and body = ?body and w = w
        and model = CreatePurchaseResult and name = "''jibit.payment.purchase_created''" and metadata = meta]
    unfolding assms(1,3) run Let_def prod.case audit_entries_def purchase_event_def by blast+
  have quiet: "audit_entries w1 = audit_entries w"
    using keepsD [OF same_audits_authenticated run] by (simp add: same_audits_def audit_entries_def)
  have safety: "ro_safety ?opt = UNSAFE"
    by (simp add: service_options_def request_options_def)
  have wire: "purchase_request gw g t q" if "carries g ?opt t q" for t q
    using carries_facts [OF that] assms(2)
    by (auto simp: purchase_request_def service_options_def request_options_def operation_url_def)
  obtain toks own where w: "w_sent w1 = w_sent w @ toks @ own" "list_all (token_request a) toks"
      and own: "own = [] \<or> (\<exists>q t w1. own = [q] \<and> get_token e a w = (Inr t, w1) \<and> w_sent w1 = w_sent w @ toks
        \<and> carries g ?opt t q)" "\<forall>raw. sent = Inr raw \<longrightarrow> own \<noteq> []"
    using authenticated_unsafe [OF safety run] by blast
  let ?evs = "case r of Inr _ \<Rightarrow> [''succeeded''] | Inl x \<Rightarrow> failure_events x"
  have "audit_entries w' = audit_entries w @ map purchase_event ?evs"
    unfolding op(3) quiet op(1) [symmetric] by (cases r) simp_all
  moreover have "case r of Inr _ \<Rightarrow> own \<noteq> [] \<and> ?evs = [''succeeded''] | Inl x \<Rightarrow> ?evs = failure_events x"
  proof (cases r)
    case (Inr y)
    then obtain raw where "sent = Inr raw"
      using op(1) by (cases sent) simp_all
    then show ?thesis using own(2) Inr by simp
  qed simp
  moreover have "own = [] \<or> (\<exists>q t w1. own = [q] \<and> get_token e a w = (Inr t, w1) \<and> w_sent w1 = w_sent w @ toks
      \<and> purchase_request gw g t q)"
    using own(1) wire by blast
  ultimately show ?thesis
    using w op(2) by (intro exI [of _ toks] exI [of _ own] exI [of _ ?evs]) simp
qed

text \<open>C3: A purchase from its arguments to the wire: either \<open>create_purchase\<close> raises and has done nothing, or,
  after requests to the token endpoints alone, at most one request is sent. It is a POST to the purchases of
  the gateway under the token that was just obtained, and its JSON body is the payload of a request that meets
  the documented rules: an amount of at least 5000, a wage of at most 15 percent of it, a reference of 1 to 50
  characters, the payer's mobile number when it is to be checked, not both one card and several, no card
  twice. A result means the request was sent, and the audit sink hears of a success; a failure is told to
  it with its outcome.\<close>

theorem purchase_on_the_wire:
  assumes "lawful_lib (fa_lib (gw_facade gw))" and "fa_run (gw_facade gw) = authenticated_execute e g a"
    and "create_purchase gw amount callback ref wage currency mobile check card_no card_nos code_v descr
      switching extra user w = (r, w')"
  shows "(w' = w \<and> (\<exists>x. r = Inl x)) \<or>
    (\<exists>toks own evs. w_sent w' = w_sent w @ toks @ own \<and> list_all (token_request a) toks
      \<and> (own = [] \<or> (\<exists>q t w1. own = [q] \<and> get_token e a w = (Inr t, w1) \<and> w_sent w1 = w_sent w @ toks
          \<and> purchase_request gw g t q))
      \<and> audit_entries w' = audit_entries w @ map purchase_event evs
      \<and> (case r of Inr _ \<Rightarrow> own \<noteq> [] \<and> evs = [''succeeded''] | Inl x \<Rightarrow> evs = failure_events x))"
  using create_purchase_run [OF assms(1), of amount callback ref wage currency mobile check card_no card_nos code_v
      descr switching extra user w] purchase_submitted [OF assms(2)]
  unfolding assms(3) by (elim disjE exE conjE) (simp, blast dest: sym)

definition purchase_auth :: "token_state dict authenticator" where
  "purchase_auth = sample_auth\<lparr>sa_service := PAYMENT_GATEWAY\<rparr>"

definition sample_gateway :: "token_state dict gateway" where
  "sample_gateway = \<lparr>gw_facade = \<lparr>fa_env = auth_env flaky, fa_lib = strict_lib,
     fa_run = authenticated_execute (auth_env flaky) sample_engine purchase_auth\<rparr>, gw_logging = True\<rparr>"

definition sample_purchase :: "(exn + parsed_response) \<times> token_state dict world" where
  "sample_purchase = create_purchase sample_gateway (PInt 5000) (PObj ''u'') (PStr ''r'') (PInt 0) (PStr ''IRR'') PNone
     (PBool False) PNone PNone PNone PNone PNone PNone PNone (initial_world [(''k'', kept_token)])"

theorem purchase_on_the_wire_witness:
  "\<exists>toks own. w_sent (snd sample_purchase) = toks @ own \<and> length own \<le> 1 \<and> list_all (token_request purchase_auth) toks"
proof -
  have "lawful_lib (fa_lib (gw_facade sample_gateway))"
    and "fa_run (gw_facade sample_gateway) = authenticated_execute (auth_env flaky) sample_engine purchase_auth"
    by (simp_all add: sample_gateway_def strict_lib_lawful)
  moreover have "create_purchase sample_gateway (PInt 5000) (PObj ''u'') (PStr ''r'') (PInt 0) (PStr ''IRR'') PNone
     (PBool False) PNone PNone PNone PNone PNone PNone PNone (initial_world [(''k'', kept_token)])
     = (fst sample_purchase, snd sample_purchase)"
    by (simp add: sample_purchase_def)
  ultimately consider "snd sample_purchase = initial_world [(''k'', kept_token)]"
    | toks own where "w_sent (snd sample_purchase) = w_sent (initial_world [(''k'', kept_token)]) @ toks @ own"
      "list_all (token_request purchase_auth) toks" "own = [] \<or> (\<exists>q. own = [q])"
    by (rule purchase_on_the_wire [THEN disjE]) blast+
  then show ?thesis
  proof cases
    case 1
    then show ?thesis by (intro exI [of _ "[]"]) (simp add: initial_world_def)
  next
    case 2
    then show ?thesis by (intro exI [of _ toks] exI [of _ own]) (auto simp: initial_world_def)
  qed
qed

end
