(* ===== verification/Spec2Isabelle.thy ===== *)
theory Spec2Isabelle
  imports Engine_Properties Foundation_Properties Store_Properties Auth_Properties Token_Workers
    Service_Properties Request_Properties Guard_Properties Audit_Properties Lifecycle_Properties
    Wire_Properties Engine_Loop Locks Redaction_Runs Purchase_Properties
begin

text \<open>
  \<^bold>\<open>A verified model of the Jibit SDK\<close>

  The program (\<open>src/src/jibit\<close>) is a Python client for the Jibit payment services. A call of the
  application goes down through these layers and its result comes back up:

  \<^item> a service facade (\<open>services/*/service.py\<close>) checks the arguments, builds a request model
    (\<open>services/*/models.py\<close>, \<open>models.py\<close>), writes its payload and asks its executor to run one request;
  \<^item> an executor audits the request (\<open>services/base.py\<close>), puts a token on it and repeats it once
    after a rejected token (\<open>auth/authenticated.py\<close>), or puts a fixed bearer on it (\<open>auth/static.py\<close>);
  \<^item> the authenticator (\<open>auth/provider.py\<close>) gets tokens from a store under a lock, refreshes or
    acquires them (\<open>auth/tokens.py\<close>, \<open>auth/specs.py\<close>, \<open>auth/store.py\<close>, \<open>auth/django.py\<close>,
    \<open>auth/redis.py\<close>, \<open>auth/locks.py\<close>);
  \<^item> the request engine (\<open>engine.py\<close>) sends a request, repeats it as the retry policy (\<open>retry.py\<close>)
    says, maps failures to the error hierarchy (\<open>exceptions.py\<close>), logs redacted records
    (\<open>logging.py\<close>, \<open>redaction.py\<close>) and returns a raw response (\<open>response.py\<close>);
  \<^item> the transport (\<open>transport.py\<close>) hands the request to httpx.

  The client (\<open>client.py\<close>, \<open>django/client.py\<close>) makes these parts lazily from a configuration
  (\<open>config.py\<close>); callbacks (\<open>webhooks\<close>) are parsed apart from it.

  \<^bold>\<open>State and effects.\<close> An operation is an \<open>('st, 'a) action\<close> (theory \<open>World\<close>, combinators in
  \<open>Prelude\<close>): a function from a world to a result and a world. The result is a sum: \<open>Inl\<close> the exception,
  \<open>Inr\<close> the value, so every \<open>raise\<close> and every early return is a branch. The record \<open>world\<close> holds what the
  program changes: the requests handed to the transport, log records, sleeps, audit events, the locks
  held, how often each clock and source was read, and the state of the token store. The record \<open>env\<close>
  holds what the program is given and cannot see into, as functions of the number of earlier calls, so
  that each answer may differ: the transport, the clocks, the random source, the identifiers, the audit
  sink, entering and leaving a lock, the digest SHA-256, the JSON decoder, \<open>repr\<close>.

  \<^bold>\<open>Theories of the model\<close>, in the order of the layers from below:

  \<^item> \<open>Prelude\<close>, \<open>Py_Values\<close>, \<open>Py_Regex\<close>: Python characters, dicts as association lists, values, the action
    combinators, invariants of actions (\<open>keeps\<close>), regular expressions with word boundaries.
  \<^item> \<open>Redaction\<close>, \<open>Types\<close>, \<open>Exceptions\<close>, \<open>Config\<close>, \<open>Retry\<close>, \<open>Transport\<close>, \<open>World\<close> (the logger and the
    audit events), \<open>Response\<close>: one theory per file of that name.
  \<^item> \<open>Engine\<close>: \<open>RequestEngine\<close>; \<open>execute\<close> and its loop \<open>attempt_loop\<close> cut at the points where they
    act (\<open>transmit\<close>, \<open>ask_policy\<close>, \<open>before_retry\<close>, \<open>complete\<close>, \<open>fail_with\<close>). \<open>Engine_Facts\<close>, \<open>Engine_Run\<close> and
    \<open>Engine_Privacy\<close> hold its lemmas.
  \<^item> \<open>Base64\<close>, \<open>Tokens\<close>, \<open>Store\<close>, \<open>Auth\<close>: token states, the three stores behind the
    locale \<open>lawful_store\<close>, the authenticator with one definition per method. \<open>Auth_Facts\<close> holds its
    lemmas. \<open>Token_Workers\<close> has the same methods as a step relation of several workers that share a store
    and a lock, and the theorem that ties the two.
  \<^item> \<open>Executors\<close>: the locale \<open>request_executor\<close> states what a facade relies on (traces only grow, an
    operation that must not be repeated reaches its URL once, requests go only where they should); the
    engine, the static bearer, the authenticated and the audited executor are interpretations of it.
  \<^item> \<open>Models\<close>, \<open>Services_Base\<close>, eight \<open>*_Models\<close> theories and eight service theories (\<open>Gateway\<close>,
    \<open>Transfers\<close>, \<open>Cobank\<close>, \<open>Debit\<close>, \<open>Sms\<close>, \<open>Contracts\<close>, \<open>Identicator\<close>, \<open>Kyc\<close>): every model class field by
    field with its constraints and cross-field validators, every public and private method.
  \<^item> \<open>Webhooks\<close>, \<open>Client\<close>, \<open>Django\<close>.

  \<^bold>\<open>Theories of the properties.\<close> \<open>Engine_Properties\<close>: how often, where, with what pauses, records and
  errors a request is sent, and that its private parts show nowhere. \<open>Foundation_Properties\<close>: redaction,
  errors, configuration, retry decisions, round trips of tokens. \<open>Store_Properties\<close>: each store refines a
  map. \<open>Auth_Properties\<close>: which token is used, what happens to a rejected one, send limits of the whole
  executor stack, auditing. \<open>Token_Workers\<close>: single flight, no blocking, refinement of the sequential
  model. \<open>Service_Properties\<close>, \<open>Request_Properties\<close>, \<open>Guard_Properties\<close>, \<open>Audit_Properties\<close>: payloads,
  single submission of what moves money, local rules, paths, uploads, audit events.
  \<open>Lifecycle_Properties\<close>: the client over any sequence of uses, callbacks that arrive twice.
  \<open>Samples\<close> and \<open>Service_Facts\<close> hold the concrete inputs of the witnesses and shared lemmas.

  \<^bold>\<open>Bounds.\<close> No definition needs fuel: the attempt loop is a \<open>function\<close> whose termination follows from the
  policy (it repeats only below \<open>max_attempts\<close>), all other recursion is structural. Python's integers are
  \<open>int\<close>; times, delays and JSON floats are exact rationals (finite floats; rounding, infinities and NaN are not
  modelled, except that a conversion of an integer beyond the range of a float is an error). Characters
  have codes below 256, and \<open>isalnum\<close>, \<open>isdigit\<close>, \<open>lower\<close> and \<open>upper\<close> are Python's on that range.

  \<^bold>\<open>Parameters and their hypotheses.\<close> pydantic's parsing is the function \<open>lb_validate\<close>; the hypothesis
  \<open>lawful_lib\<close> says that what it accepts conforms to the declaration of the model, field constraints and
  validators included. The cache of Django and the Redis server are functions with the hypothesis that
  they return what was set. The application's verifier, deduplication store, audit sink, transport and
  store are arguments. \<open>strict_lib\<close> and the samples show that each hypothesis can hold.

  \<^bold>\<open>Not modelled.\<close> How pydantic coerces raw values, httpx itself and the construction of its client, the
  wire protocol of Redis and the expiry of its locks (\<open>auth/redis.py\<close> lock provider: it is one of the locks
  the environment may behave as), \<open>weakref\<close> and thread details of \<open>auth/locks.py\<close> beyond entering and
  leaving a keyed lock, package exports, and the docstrings.
\<close>

end
